(* ===== verification/Lilu_Base.thy ===== *)
theory Lilu_Base
  imports Main "HOL-Library.Word" "HOL-Library.Monad_Syntax"
begin

text \<open>
  Prelude of the development. It fixes how the C++ of the Lilu headers is read in HOL:
  the fixed-width integer types are words (arithmetic wraps as C's unsigned arithmetic does),
  the value \<open>None\<close> of an operation's result stands for undefined behaviour (a null or
  out-of-range access, a division by zero, an unlock of a lock that is not held), and a
  defined run is \<open>Some\<close>. It also holds the lemmas on lists, cells, ring indices and words
  that several components share, and the collections their proofs draw on.
\<close>

unbundle bit_operations_syntax

section \<open>Machine types\<close>

type_synonym u8 = "8 word"
type_synonym u16 = "16 word"
type_synonym u32 = "32 word"
type_synonym u64 = "64 word"

text \<open>\<open>size_t\<close> and \<open>mach_vm_address_t\<close> are 64 bits wide on x86-64.\<close>

type_synonym size_t = u64
type_synonym mach_addr = u64

named_theorems op_defs \<open>unfolding rules for the operations of a component\<close>
named_theorems ring_simps \<open>arithmetic of indices modulo a capacity\<close>

text \<open>Code that may end in a kernel panic, which does not return.\<close>

datatype 'a outcome = Returns 'a | Panics

section \<open>Array cells\<close>

text \<open>Reading and writing \<open>a[i]\<close>: undefined outside of the array.\<close>

definition cell_get :: "'a list \<Rightarrow> nat \<Rightarrow> 'a option" where
  "cell_get xs i = (if i < length xs then Some (xs ! i) else None)"

definition cell_set :: "'a list \<Rightarrow> nat \<Rightarrow> 'a \<Rightarrow> 'a list option" where
  "cell_set xs i x = (if i < length xs then Some (xs[i := x]) else None)"

lemma cell_get_Some [simp]: "i < length xs \<Longrightarrow> cell_get xs i = Some (xs ! i)"
  by (simp add: cell_get_def)

lemma cell_get_None [simp]: "length xs \<le> i \<Longrightarrow> cell_get xs i = None"
  by (simp add: cell_get_def)

lemma cell_set_Some [simp]: "i < length xs \<Longrightarrow> cell_set xs i x = Some (xs[i := x])"
  by (simp add: cell_set_def)

lemma cell_set_None [simp]: "length xs \<le> i \<Longrightarrow> cell_set xs i x = None"
  by (simp add: cell_set_def)

text \<open>Unsigned remainder \<open>a % b\<close>: undefined for a zero divisor.\<close>

definition umod :: "'w::len word \<Rightarrow> 'w word \<Rightarrow> 'w word option" where
  "umod a b = (if b = 0 then None else Some (a mod b))"

lemma umod_Some [simp]: "b \<noteq> 0 \<Longrightarrow> umod a b = Some (a mod b)"
  by (simp add: umod_def)

section \<open>Words and natural numbers\<close>

lemma word_less_unat: "(a::'w::len word) < b \<longleftrightarrow> unat a < unat b"
  by (simp add: word_less_nat_alt)

lemma word_eq_unat: "(a::'w::len word) = b \<longleftrightarrow> unat a = unat b"
  by (simp add: word_unat_eq_iff)

lemma word_neq_0_unat: "(a::'w::len word) \<noteq> 0 \<longleftrightarrow> 0 < unat a"
  by (simp add: word_eq_unat)

lemma unat_Suc_bound:
  assumes "unat (a::'w::len word) < unat (b::'w word)"
  shows "unat (a + 1) = Suc (unat a)"
proof -
  have "unat b < 2 ^ LENGTH('w)" by (rule unsigned_less)
  with assms have "unat a + 1 < 2 ^ LENGTH('w)" by linarith
  then show ?thesis by (simp add: unat_word_ariths)
qed

lemma unat_Suc_mod_bound:
  assumes "unat (a::'w::len word) < unat (b::'w word)"
  shows "unat ((a + 1) mod b) = Suc (unat a) mod unat b"
  using assms by (simp add: unat_mod_distrib unat_Suc_bound)

lemma unat_minus_1: "0 < unat (a::'w::len word) \<Longrightarrow> unat (a - 1) = unat a - 1"
  by (simp add: unat_minus_one word_neq_0_unat [symmetric])

lemma unat_mult_exact:
  "unat (a::'w::len word) * unat (b::'w word) < 2 ^ LENGTH('w) \<Longrightarrow> unat (a * b) = unat a * unat b"
  by (simp add: unat_word_ariths)

lemma unat_add_exact:
  "unat (a::'w::len word) + unat (b::'w word) < 2 ^ LENGTH('w) \<Longrightarrow> unat (a + b) = unat a + unat b"
  by (simp add: unat_word_ariths)

lemma mod_wrap_once: "n \<le> a \<Longrightarrow> a < 2 * n \<Longrightarrow> a mod n = a - (n::nat)"
  by (simp add: le_mod_geq)

section \<open>Ring indices\<close>

text \<open>
  The window of \<open>n\<close> cells of a ring that starts at cell \<open>r\<close>: what a circular buffer holds.
\<close>

definition ring_window :: "'a list \<Rightarrow> nat \<Rightarrow> nat \<Rightarrow> 'a list" where
  "ring_window st r n = map (\<lambda>i. st ! ((r + i) mod length st)) [0..<n]"

lemma ring_window_0 [simp]: "ring_window st r 0 = []"
  by (simp add: ring_window_def)

lemma length_ring_window [simp]: "length (ring_window st r n) = n"
  by (simp add: ring_window_def)

lemma ring_offset_inj:
  assumes "(r + i) mod n = (r + j) mod n" "i < n" "j < (n::nat)"
  shows "i = j"
proof -
  have "n dvd (if i \<le> j then j - i else i - j)"
    using assms(1) mod_eq_dvd_iff_nat [of "r + i" "r + j" n] mod_eq_dvd_iff_nat [of "r + j" "r + i" n]
    by (auto split: if_splits)
  with assms(2,3) show ?thesis
    by (auto dest!: dvd_imp_le split: if_splits)
qed

lemma ring_window_write [ring_simps]:
  assumes "n < length st" "w = (r + n) mod length st"
  shows "ring_window (st[w := x]) r (Suc n) = ring_window st r n @ [x]"
proof -
  have "w < length st" using assms by (simp add: mod_less_divisor [OF le_less_trans [OF le0]])
  moreover have "st[w := x] ! ((r + i) mod length st) = st ! ((r + i) mod length st)" if "i < n" for i
    using ring_offset_inj [of r i "length st" n] that assms by (metis less_trans nat_neq_iff nth_list_update_neq)
  ultimately show ?thesis
    using assms by (simp add: ring_window_def)
qed

lemma ring_window_Cons [ring_simps]:
  "0 < n \<Longrightarrow> ring_window st r n = st ! (r mod length st) # ring_window st (Suc r mod length st) (n - 1)"
proof (cases n)
  case (Suc m)
  have "map (\<lambda>i. st ! ((r + i) mod length st)) [0..<Suc m]
      = st ! (r mod length st) # map (\<lambda>i. st ! ((r + Suc i) mod length st)) [0..<m]"
    by (simp add: upt_conv_Cons map_Suc_upt [symmetric] del: upt_Suc map_map) simp
  also have "map (\<lambda>i. st ! ((r + Suc i) mod length st)) [0..<m]
      = ring_window st (Suc r mod length st) m"
    by (simp add: ring_window_def mod_add_left_eq)
  finally show ?thesis by (simp add: Suc ring_window_def)
qed simp


section \<open>Kernel resources\<close>

text \<open>
  What a piece of code has obtained from the kernel and must give back: a set of resources,
  each a kind and an address. Releasing a resource that is not held is undefined behaviour.
\<close>

datatype res_kind = KMemory | KObject | KLock | KPage | KMatching | KService

type_synonym ledger = "(res_kind \<times> nat) set"

definition obtain_res :: "res_kind \<Rightarrow> nat option \<Rightarrow> ledger \<Rightarrow> ledger" where
  "obtain_res k r L = (case r of None \<Rightarrow> L | Some a \<Rightarrow> insert (k, a) L)"

definition release_res :: "res_kind \<Rightarrow> nat \<Rightarrow> ledger \<Rightarrow> ledger option" where
  "release_res k a L = (if (k, a) \<in> L then Some (L - {(k, a)}) else None)"

lemma obtain_res_simps [simp]:
  "obtain_res k None L = L"
  "obtain_res k (Some a) L = insert (k, a) L"
  by (simp_all add: obtain_res_def)

lemma release_res_held [simp]: "(k, a) \<in> L \<Longrightarrow> release_res k a L = Some (L - {(k, a)})"
  by (simp add: release_res_def)

lemma release_obtained: "(k, a) \<notin> L \<Longrightarrow> release_res k a (insert (k, a) L) = Some L"
  by (simp add: release_res_def)

end
