(* ===== verification/Typed_Buffer.thy ===== *)
theory Typed_Buffer
  imports Lilu_Base
begin

text \<open>
  The namespace \<open>Buffer\<close> of \<open>kern_util.hpp\<close>: typed allocation on top of \<open>kern_os_malloc\<close>
  and \<open>kern_os_realloc\<close>, which are not part of the repository and are parameters here: each
  answers a request of some number of bytes with a pointer or null.
\<close>

definition BufferMax :: size_t where
  "BufferMax = 1024 * 1024 * 1024"

text \<open>\<open>sizeofT\<close> is \<open>sizeof(T)\<close>; the product is computed in \<open>size_t\<close>.\<close>

definition buffer_create :: "size_t \<Rightarrow> (size_t \<Rightarrow> 'p option) \<Rightarrow> size_t \<Rightarrow> 'p option" where
  "buffer_create sizeofT kern_os_malloc n =
     (let s = sizeofT * n in if s > BufferMax then None else kern_os_malloc s)"

definition buffer_resize ::
    "size_t \<Rightarrow> ('p option \<Rightarrow> size_t \<Rightarrow> 'p option) \<Rightarrow> 'p option \<Rightarrow> size_t \<Rightarrow> bool \<times> 'p option" where
  "buffer_resize sizeofT kern_os_realloc buf n =
     (let s = sizeofT * n in
      if s > BufferMax then (False, buf)
      else case kern_os_realloc buf s of
          Some nbuf \<Rightarrow> (True, Some nbuf)
        | None \<Rightarrow> (False, buf))"

text \<open>\<open>Buffer::deleter\<close> hands a non-null pointer to \<open>lilu_os_free\<close>.\<close>

definition buffer_deleter :: "nat \<Rightarrow> ledger \<Rightarrow> ledger option" where
  "buffer_deleter a L = release_res KMemory a L"

text \<open>
  The documented behaviour of the allocators: a granted block has at least the requested
  number of usable bytes (\<open>bytes\<close> gives the size of a block).
\<close>

definition malloc_contract :: "('p \<Rightarrow> nat) \<Rightarrow> (size_t \<Rightarrow> 'p option) \<Rightarrow> bool" where
  "malloc_contract bytes malloc \<longleftrightarrow> (\<forall>n p. malloc n = Some p \<longrightarrow> unat n \<le> bytes p)"

lemma BufferMax_unat: "unat BufferMax = 1073741824"
  by (simp add: BufferMax_def)

lemma buffer_create_request:
  "buffer_create sz malloc n = Some p \<Longrightarrow> malloc (sz * n) = Some p \<and> unat (sz * n) \<le> 2 ^ 30"
  by (auto simp: buffer_create_def Let_def word_less_unat BufferMax_unat not_less split: if_splits)

text \<open>\<open>Buffer::create\<close> hands out a block that really holds \<open>n\<close> elements of \<open>T\<close> whenever
  the byte count fits in \<open>size_t\<close>, and never asks the allocator for more than 1 GB.\<close>

theorem buffer_create_holds:
  assumes "malloc_contract bytes malloc"
    and "unat sz * unat n < 2 ^ 64"
    and "buffer_create sz malloc n = Some p"
  shows "unat sz * unat n \<le> bytes p \<and> unat sz * unat n \<le> 2 ^ 30"
proof -
  have "unat (sz * n) = unat sz * unat n"
    using assms(2) by (intro unat_mult_exact) simp
  with buffer_create_request [OF assms(3)] assms(1) show ?thesis
    unfolding malloc_contract_def by metis
qed

theorem buffer_create_holds_witness:
  "unat (8 :: size_t) * unat (100 :: size_t) \<le> 800 \<and> unat (8 :: size_t) * unat (100 :: size_t) \<le> 2 ^ 30"
proof -
  have "malloc_contract (\<lambda>p. p) (\<lambda>n. Some (unat n))" by (simp add: malloc_contract_def)
  moreover have "buffer_create 8 (\<lambda>n. Some (unat n)) 100 = Some 800"
    by (simp add: buffer_create_def BufferMax_def Let_def)
  ultimately show ?thesis
    using buffer_create_holds [of "\<lambda>p. p" "\<lambda>n. Some (unat n)" 8 100 800] by simp
qed

text \<open>Without that bound the size check is blind: the product wraps before it is compared
  with \<open>BufferMax\<close>, so \<open>create\<close> for 2^61 eight-byte elements and \<open>resize\<close> to as many succeed
  with a block for which zero bytes were requested.\<close>

theorem buffer_size_check_wraps:
  "buffer_create 8 malloc (2 ^ 61) = malloc 0 \<and>
   buffer_resize 8 realloc buf (2 ^ 61) =
     (case realloc buf 0 of Some p \<Rightarrow> (True, Some p) | None \<Rightarrow> (False, buf))"
proof -
  have wrap: "(8 :: size_t) * 2 ^ 61 = 0" by simp
  show ?thesis
    unfolding buffer_create_def buffer_resize_def Let_def wrap by (simp add: BufferMax_def)
qed

end
