(* ===== verification/Circular_Buffer.thy ===== *)
theory Circular_Buffer
  imports Typed_Buffer
begin

text \<open>
  The class template \<open>CircularBuffer\<close> of \<open>kern_util.hpp\<close>: a ring of \<open>size\<close> elements with a read
  index, a write index and an element count, all of type \<open>IOItemCount\<close> (32 bits), guarded by a
  recursive mutex. The interface of a bounded first-in first-out queue is the locale
  \<open>bounded_fifo\<close>; the class is an interpretation of it.
\<close>

section \<open>State and operations\<close>

text \<open>
  \<open>lock\<close> is the recursive lock: \<open>None\<close> for a null pointer, otherwise the number of times
  the calling thread holds it.
\<close>

record 'a cbuf =
  storage :: "'a list"
  cb_size :: u32
  indexr :: u32
  indexw :: u32
  cb_count :: u32
  lock :: "nat option"

text \<open>\<open>IORecursiveLockLock\<close> and \<open>IORecursiveLockUnlock\<close> as the calling thread sees them.\<close>

definition rec_lock :: "'a cbuf \<Rightarrow> 'a cbuf option" where
  "rec_lock b = (case lock b of None \<Rightarrow> None | Some d \<Rightarrow> Some (b\<lparr>lock := Some (Suc d)\<rparr>))"

definition rec_unlock :: "'a cbuf \<Rightarrow> 'a cbuf option" where
  "rec_unlock b = (case lock b of None \<Rightarrow> None | Some 0 \<Rightarrow> None | Some (Suc d) \<Rightarrow> Some (b\<lparr>lock := Some d\<rparr>))"

definition cb_fresh :: "'a cbuf" where
  "cb_fresh = \<lparr>storage = [], cb_size = 0, indexr = 0, indexw = 0, cb_count = 0, lock = None\<rparr>"

text \<open>
  \<open>init\<close>: \<open>lock_alloc\<close> says whether \<open>IORecursiveLockAlloc\<close> returns a lock.
\<close>

definition cb_init :: "bool \<Rightarrow> 'a list \<Rightarrow> u32 \<Rightarrow> 'a cbuf \<Rightarrow> bool \<times> 'a cbuf" where
  "cb_init lock_alloc buffer capacity b =
     (let b1 = b\<lparr>storage := buffer\<rparr>;
          b2 = b1\<lparr>cb_size := capacity\<rparr>;
          b3 = b2\<lparr>lock := (if lock_alloc then Some 0 else None)\<rparr>
      in (lock b3 \<noteq> None, b3))"

text \<open>The template for an array passes its length, which is converted to \<open>IOItemCount\<close>.\<close>

definition cb_init_array :: "bool \<Rightarrow> 'a list \<Rightarrow> 'a cbuf \<Rightarrow> bool \<times> 'a cbuf" where
  "cb_init_array lock_alloc st b = cb_init lock_alloc st (of_nat (length st)) b"

definition cb_isEmpty :: "'a cbuf \<Rightarrow> (bool \<times> 'a cbuf) option" where
  "cb_isEmpty b = do {
     b1 \<leftarrow> rec_lock b;
     let retVal = (cb_count b1 = 0 \<and> indexr b1 = indexw b1);
     b2 \<leftarrow> rec_unlock b1;
     Some (retVal, b2) }"

definition cb_isFull :: "'a cbuf \<Rightarrow> (bool \<times> 'a cbuf) option" where
  "cb_isFull b = do {
     b1 \<leftarrow> rec_lock b;
     let retVal = (cb_count b1 = cb_size b1 \<and> indexr b1 = indexw b1);
     b2 \<leftarrow> rec_unlock b1;
     Some (retVal, b2) }"

definition cb_getCount :: "'a cbuf \<Rightarrow> (u32 \<times> 'a cbuf) option" where
  "cb_getCount b = do {
     b1 \<leftarrow> rec_lock b;
     let retVal = cb_count b1;
     b2 \<leftarrow> rec_unlock b1;
     Some (retVal, b2) }"

definition cb_push :: "'a \<Rightarrow> 'a cbuf \<Rightarrow> (bool \<times> 'a cbuf) option" where
  "cb_push element b = do {
     b1 \<leftarrow> rec_lock b;
     (full, b2) \<leftarrow> cb_isFull b1;
     if full then do { b3 \<leftarrow> rec_unlock b2; Some (False, b3) }
     else do {
       st \<leftarrow> cell_set (storage b2) (unat (indexw b2)) element;
       let b3 = b2\<lparr>storage := st\<rparr>;
       let b4 = b3\<lparr>indexw := indexw b3 + 1\<rparr>;
       w \<leftarrow> umod (indexw b4) (cb_size b4);
       let b5 = b4\<lparr>indexw := w\<rparr>;
       let b6 = b5\<lparr>cb_count := cb_count b5 + 1\<rparr>;
       b7 \<leftarrow> rec_unlock b6;
       Some (True, b7) } }"

text \<open>\<open>pop\<close> writes through its reference argument; the model takes and returns the referenced value.\<close>

definition cb_pop :: "'a \<Rightarrow> 'a cbuf \<Rightarrow> (bool \<times> 'a \<times> 'a cbuf) option" where
  "cb_pop element b = do {
     b1 \<leftarrow> rec_lock b;
     (empty, b2) \<leftarrow> cb_isEmpty b1;
     if empty then do { b3 \<leftarrow> rec_unlock b2; Some (False, element, b3) }
     else do {
       x \<leftarrow> cell_get (storage b2) (unat (indexr b2));
       let b3 = b2\<lparr>indexr := indexr b2 + 1\<rparr>;
       r \<leftarrow> umod (indexr b3) (cb_size b3);
       let b4 = b3\<lparr>indexr := r\<rparr>;
       let b5 = b4\<lparr>cb_count := cb_count b4 - 1\<rparr>;
       b6 \<leftarrow> rec_unlock b5;
       Some (True, x, b6) } }"

section \<open>Invariant and contents\<close>

definition cb_inv :: "'a cbuf \<Rightarrow> bool" where
  "cb_inv b \<longleftrightarrow> length (storage b) = unat (cb_size b) \<and> lock b \<noteq> None \<and>
     unat (cb_count b) \<le> unat (cb_size b) \<and>
     (if cb_size b = 0 then indexr b = 0 \<and> indexw b = 0
      else unat (indexr b) < unat (cb_size b) \<and>
           unat (indexw b) = (unat (indexr b) + unat (cb_count b)) mod unat (cb_size b))"

definition cb_list :: "'a cbuf \<Rightarrow> 'a list" where
  "cb_list b = ring_window (storage b) (unat (indexr b)) (unat (cb_count b))"

definition cb_cap :: "'a cbuf \<Rightarrow> nat" where
  "cb_cap b = unat (cb_size b)"

lemma cb_length: "length (cb_list b) = unat (cb_count b)"
  by (simp add: cb_list_def)

lemma ring_indices_meet:
  assumes "r < n" "c \<le> n" "r = (r + c) mod (n::nat)"
  shows "c = 0 \<or> c = n"
proof (rule ccontr)
  assume "\<not> ?thesis"
  with assms(2) have "0 < c" "c < n" by auto
  with ring_offset_inj [of r c n 0] assms show False by simp
qed

lemma cb_full_iff:
  assumes "cb_inv b"
  shows "(cb_count b = cb_size b \<and> indexr b = indexw b) \<longleftrightarrow> unat (cb_count b) = cb_cap b"
proof (cases "cb_size b = 0")
  case False
  with assms show ?thesis
    by (auto simp: cb_inv_def cb_cap_def word_eq_unat)
qed (use assms in \<open>auto simp: cb_inv_def cb_cap_def word_eq_unat\<close>)

lemma cb_empty_iff:
  assumes "cb_inv b"
  shows "(cb_count b = 0 \<and> indexr b = indexw b) \<longleftrightarrow> unat (cb_count b) = 0"
  using assms by (cases "cb_size b = 0") (auto simp: cb_inv_def word_eq_unat)

lemma rec_lock_depth: "lock b = Some d \<Longrightarrow> rec_lock b = Some (b\<lparr>lock := Some (Suc d)\<rparr>)"
  by (simp add: rec_lock_def)

lemma rec_unlock_depth: "lock b = Some (Suc d) \<Longrightarrow> rec_unlock b = Some (b\<lparr>lock := Some d\<rparr>)"
  by (simp add: rec_unlock_def)

lemmas lock_simps = rec_lock_depth rec_unlock_depth

lemma cb_isFull_run:
  assumes "cb_inv b"
  shows "cb_isFull b = Some (unat (cb_count b) = cb_cap b, b)"
proof -
  obtain d where d: "lock b = Some d" using assms by (auto simp: cb_inv_def)
  show ?thesis
    using cb_full_iff [OF assms] d by (simp add: cb_isFull_def lock_simps Let_def)
qed

lemma cb_isEmpty_run:
  assumes "cb_inv b"
  shows "cb_isEmpty b = Some (unat (cb_count b) = 0, b)"
proof -
  obtain d where d: "lock b = Some d" using assms by (auto simp: cb_inv_def)
  show ?thesis
    using cb_empty_iff [OF assms] d by (simp add: cb_isEmpty_def lock_simps Let_def)
qed

lemma cb_inv_lock: "cb_inv b \<Longrightarrow> cb_inv (b\<lparr>lock := Some d\<rparr>)"
  by (simp add: cb_inv_def)


section \<open>What push and pop do on a well-formed buffer\<close>

lemma cb_push_full:
  assumes inv: "cb_inv b" and full: "unat (cb_count b) = cb_cap b"
  shows "cb_push x b = Some (False, b)"
proof -
  obtain d where d: "lock b = Some d" using inv by (auto simp: cb_inv_def)
  from inv have "cb_isFull (b\<lparr>lock := Some (Suc d)\<rparr>) = Some (True, b\<lparr>lock := Some (Suc d)\<rparr>)"
    using cb_isFull_run [OF cb_inv_lock [OF inv, of "Suc d"]] full by (simp add: cb_cap_def)
  with d show ?thesis by (simp add: cb_push_def lock_simps)
qed

lemma cb_push_room:
  assumes inv: "cb_inv b" and room: "unat (cb_count b) < cb_cap b"
  shows "cb_push x b = Some (True, b\<lparr>storage := (storage b)[unat (indexw b) := x],
           indexw := (indexw b + 1) mod cb_size b, cb_count := cb_count b + 1\<rparr>)"
proof -
  obtain d where d: "lock b = Some d" using inv by (auto simp: cb_inv_def)
  have "cb_isFull (b\<lparr>lock := Some (Suc d)\<rparr>) = Some (False, b\<lparr>lock := Some (Suc d)\<rparr>)"
    using cb_isFull_run [OF cb_inv_lock [OF inv, of "Suc d"]] room by (simp add: cb_cap_def)
  moreover have "unat (indexw b) < length (storage b)" "cb_size b \<noteq> 0"
    using inv room by (auto simp: cb_inv_def cb_cap_def split: if_splits)
  ultimately show ?thesis using d by (simp add: cb_push_def lock_simps Let_def)
qed

lemma cb_pop_empty:
  assumes inv: "cb_inv b" and empty: "unat (cb_count b) = 0"
  shows "cb_pop x b = Some (False, x, b)"
proof -
  obtain d where d: "lock b = Some d" using inv by (auto simp: cb_inv_def)
  have "cb_isEmpty (b\<lparr>lock := Some (Suc d)\<rparr>) = Some (True, b\<lparr>lock := Some (Suc d)\<rparr>)"
    using cb_isEmpty_run [OF cb_inv_lock [OF inv, of "Suc d"]] empty by simp
  with d show ?thesis by (simp add: cb_pop_def lock_simps)
qed

lemma cb_pop_some:
  assumes inv: "cb_inv b" and some: "0 < unat (cb_count b)"
  shows "cb_pop x b = Some (True, storage b ! unat (indexr b),
           b\<lparr>indexr := (indexr b + 1) mod cb_size b, cb_count := cb_count b - 1\<rparr>)"
proof -
  obtain d where d: "lock b = Some d" using inv by (auto simp: cb_inv_def)
  have "cb_isEmpty (b\<lparr>lock := Some (Suc d)\<rparr>) = Some (False, b\<lparr>lock := Some (Suc d)\<rparr>)"
    using cb_isEmpty_run [OF cb_inv_lock [OF inv, of "Suc d"]] some by simp
  moreover have "unat (indexr b) < length (storage b)" "cb_size b \<noteq> 0"
    using inv some by (auto simp: cb_inv_def split: if_splits)
  ultimately show ?thesis using d by (simp add: cb_pop_def lock_simps Let_def)
qed

lemmas cb_runs = cb_push_full cb_push_room cb_pop_empty cb_pop_some

section \<open>The interface of a bounded queue\<close>

text \<open>
  A client pushes and pops. \<open>qrun\<close> is a client that performs a list of calls and keeps
  their results; \<open>qspec\<close> is the same client on a list of at most \<open>cap\<close> elements.
\<close>

datatype 'a qop = Push 'a | Pop
datatype 'a qres = Pushed bool | Popped "'a option"

fun qrun :: "('a \<Rightarrow> 'q \<Rightarrow> (bool \<times> 'q) option) \<Rightarrow> ('a \<Rightarrow> 'q \<Rightarrow> (bool \<times> 'a \<times> 'q) option)
    \<Rightarrow> 'a \<Rightarrow> 'q \<Rightarrow> 'a qop list \<Rightarrow> ('a qres list \<times> 'q) option" where
  "qrun push pop dummy q [] = Some ([], q)"
| "qrun push pop dummy q (Push x # ops) = do {
     (ok, q') \<leftarrow> push x q;
     (rs, q'') \<leftarrow> qrun push pop dummy q' ops;
     Some (Pushed ok # rs, q'') }"
| "qrun push pop dummy q (Pop # ops) = do {
     (ok, x, q') \<leftarrow> pop dummy q;
     (rs, q'') \<leftarrow> qrun push pop dummy q' ops;
     Some (Popped (if ok then Some x else None) # rs, q'') }"

fun qspec :: "nat \<Rightarrow> 'a list \<Rightarrow> 'a qop list \<Rightarrow> 'a qres list \<times> 'a list" where
  "qspec cap xs [] = ([], xs)"
| "qspec cap xs (Push x # ops) =
     (if length xs < cap then map_prod ((#) (Pushed True)) id (qspec cap (xs @ [x]) ops)
      else map_prod ((#) (Pushed False)) id (qspec cap xs ops))"
| "qspec cap xs (Pop # ops) =
     (case xs of [] \<Rightarrow> map_prod ((#) (Popped None)) id (qspec cap [] ops)
      | x # ys \<Rightarrow> map_prod ((#) (Popped (Some x))) id (qspec cap ys ops))"

text \<open>The elements that were accepted, and the elements that came out, in order.\<close>

fun accepted :: "'a qop list \<Rightarrow> 'a qres list \<Rightarrow> 'a list" where
  "accepted (Push x # ops) (Pushed True # rs) = x # accepted ops rs"
| "accepted (_ # ops) (_ # rs) = accepted ops rs"
| "accepted _ _ = []"

definition delivered :: "'a qres list \<Rightarrow> 'a list" where
  "delivered rs = concat (map (\<lambda>r. case r of Popped (Some x) \<Rightarrow> [x] | _ \<Rightarrow> []) rs)"

lemma delivered_simps [simp]:
  "delivered [] = []"
  "delivered (Pushed ok # rs) = delivered rs"
  "delivered (Popped None # rs) = delivered rs"
  "delivered (Popped (Some x) # rs) = x # delivered rs"
  by (simp_all add: delivered_def)

lemma qspec_fifo:
  "qspec cap xs ops = (rs, ys) \<Longrightarrow> xs @ accepted ops rs = delivered rs @ ys"
  by (induction cap xs ops arbitrary: rs ys rule: qspec.induct)
    (auto split: if_splits list.splits prod.splits simp: map_prod_def)

lemma qspec_bound:
  "qspec cap xs ops = (rs, ys) \<Longrightarrow> length xs \<le> cap \<Longrightarrow> length ys \<le> cap"
  by (induction cap xs ops arbitrary: rs ys rule: qspec.induct)
    (auto split: if_splits list.splits prod.splits simp: map_prod_def)

locale bounded_fifo =
  fixes push :: "'a \<Rightarrow> 'q \<Rightarrow> (bool \<times> 'q) option"
    and pop :: "'a \<Rightarrow> 'q \<Rightarrow> (bool \<times> 'a \<times> 'q) option"
    and inv :: "'q \<Rightarrow> bool" and cont :: "'q \<Rightarrow> 'a list" and cap :: "'q \<Rightarrow> nat"
  assumes bound: "inv q \<Longrightarrow> length (cont q) \<le> cap q"
    and push_room: "inv q \<Longrightarrow> length (cont q) < cap q \<Longrightarrow>
      \<exists>q'. push x q = Some (True, q') \<and> inv q' \<and> cap q' = cap q \<and> cont q' = cont q @ [x]"
    and push_full: "inv q \<Longrightarrow> length (cont q) = cap q \<Longrightarrow> push x q = Some (False, q)"
    and pop_some: "inv q \<Longrightarrow> cont q = y # ys \<Longrightarrow>
      \<exists>q'. pop x q = Some (True, y, q') \<and> inv q' \<and> cap q' = cap q \<and> cont q' = ys"
    and pop_empty: "inv q \<Longrightarrow> cont q = [] \<Longrightarrow> pop x q = Some (False, x, q)"
begin

lemma run_refines:
  "inv q \<Longrightarrow> \<exists>q'. qrun push pop dummy q ops = Some (fst (qspec (cap q) (cont q) ops), q')
     \<and> inv q' \<and> cap q' = cap q \<and> cont q' = snd (qspec (cap q) (cont q) ops)"
proof (induction ops arbitrary: q)
  case (Cons op ops)
  show ?case
  proof (cases op)
    case (Push x)
    show ?thesis
    proof (cases "length (cont q) < cap q")
      case True
      from push_room [OF Cons.prems True, of x] obtain q1 where
        q1: "push x q = Some (True, q1)" "inv q1" "cap q1 = cap q" "cont q1 = cont q @ [x]" by blast
      from Cons.IH [OF q1(2)] q1 Push True show ?thesis by auto
    next
      case False
      with bound [OF Cons.prems] have "length (cont q) = cap q" by simp
      from push_full [OF Cons.prems this, of x] Cons.IH [OF Cons.prems] Push False
      show ?thesis by auto
    qed
  next
    case Pop
    show ?thesis
    proof (cases "cont q")
      case Nil
      from pop_empty [OF Cons.prems this, of dummy] Cons.IH [OF Cons.prems] Pop Nil
      show ?thesis by auto
    next
      case (Cons y ys)
      from pop_some [OF \<open>inv q\<close> this, of dummy] obtain q1 where
        q1: "pop dummy q = Some (True, y, q1)" "inv q1" "cap q1 = cap q" "cont q1 = ys" by blast
      from Cons.IH [OF q1(2)] q1 Pop Cons show ?thesis by auto
    qed
  qed
qed simp

lemma run_fifo:
  assumes "inv q" and "qrun push pop dummy q ops = Some (rs, q')"
  shows "cont q @ accepted ops rs = delivered rs @ cont q'"
proof -
  from run_refines [OF assms(1), of dummy ops] assms(2)
  have "qspec (cap q) (cont q) ops = (rs, cont q')" by auto
  then show ?thesis by (rule qspec_fifo)
qed

end

section \<open>The circular buffer provides it\<close>

lemma cb_push_appends:
  assumes inv: "cb_inv b" and room: "length (cb_list b) < cb_cap b"
  shows "\<exists>b'. cb_push x b = Some (True, b') \<and> cb_inv b' \<and> cb_cap b' = cb_cap b
      \<and> cb_list b' = cb_list b @ [x]"
proof -
  let ?n = "unat (cb_size b)" and ?r = "unat (indexr b)" and ?c = "unat (cb_count b)"
  from room have less: "?c < ?n" by (simp add: cb_length cb_cap_def)
  with inv have w: "unat (indexw b) = (?r + ?c) mod ?n" and len: "length (storage b) = ?n"
    and r: "?r < ?n" and wlt: "unat (indexw b) < ?n" by (auto simp: cb_inv_def split: if_splits)
  have c': "unat (cb_count b + 1) = Suc ?c" using less by (rule unat_Suc_bound)
  have w': "unat ((indexw b + 1) mod cb_size b) = (?r + Suc ?c) mod ?n"
    using unat_Suc_mod_bound [OF wlt] w by (simp add: mod_Suc_eq)
  let ?b = "b\<lparr>storage := (storage b)[unat (indexw b) := x],
           indexw := (indexw b + 1) mod cb_size b, cb_count := cb_count b + 1\<rparr>"
  have "cb_inv ?b" using inv less r w' c' by (auto simp: cb_inv_def)
  moreover have "cb_list ?b = cb_list b @ [x]"
    using ring_window_write [of ?c "storage b" "unat (indexw b)" ?r x] less len w c'
    by (simp add: cb_list_def)
  ultimately show ?thesis
    using cb_push_room [OF inv] less by (simp add: cb_cap_def)
qed

lemma cb_pop_head:
  assumes inv: "cb_inv b" and cons: "cb_list b = y # ys"
  shows "\<exists>b'. cb_pop x b = Some (True, y, b') \<and> cb_inv b' \<and> cb_cap b' = cb_cap b \<and> cb_list b' = ys"
proof -
  let ?n = "unat (cb_size b)" and ?r = "unat (indexr b)" and ?c = "unat (cb_count b)"
  from cons cb_length [of b] have c: "0 < ?c" by simp
  with inv have len: "length (storage b) = ?n" and r: "?r < ?n" and cn: "?c \<le> ?n" and nz: "cb_size b \<noteq> 0"
    and w: "unat (indexw b) = (?r + ?c) mod ?n"
    by (auto simp: cb_inv_def split: if_splits)
  have r': "unat ((indexr b + 1) mod cb_size b) = Suc ?r mod ?n" using r by (rule unat_Suc_mod_bound)
  have c': "unat (cb_count b - 1) = ?c - 1" using c by (rule unat_minus_1)
  let ?b = "b\<lparr>indexr := (indexr b + 1) mod cb_size b, cb_count := cb_count b - 1\<rparr>"
  have "(Suc ?r mod ?n + (?c - 1)) mod ?n = (Suc ?r + (?c - 1)) mod ?n"
    by (rule mod_add_left_eq)
  also have "Suc ?r + (?c - 1) = ?r + ?c" using c by simp
  finally have "(Suc ?r mod ?n + (?c - 1)) mod ?n = (?r + ?c) mod ?n" .
  then have "cb_inv ?b" using inv r' c' w cn r nz by (auto simp: cb_inv_def)
  moreover have "storage b ! ?r = y" "cb_list ?b = ys"
    using cons ring_window_Cons [of ?c "storage b" ?r] c r len r' c' by (simp_all add: cb_list_def)
  ultimately show ?thesis
    using cb_pop_some [OF inv c, of x] by (simp add: cb_cap_def)
qed

interpretation cb: bounded_fifo cb_push cb_pop cb_inv cb_list cb_cap
proof unfold_locales
  fix b :: "'a cbuf"
  assume inv: "cb_inv b"
  show "length (cb_list b) \<le> cb_cap b"
    using inv by (simp add: cb_length cb_cap_def cb_inv_def)
  show "cb_pop x b = Some (False, x, b)" if "cb_list b = []" for x
    using cb_pop_empty [OF inv] that cb_length [of b] by simp
  show "cb_push x b = Some (False, b)" if "length (cb_list b) = cb_cap b" for x
    using cb_push_full [OF inv] that by (simp add: cb_length)
  show "\<exists>b'. cb_push x b = Some (True, b') \<and> cb_inv b' \<and> cb_cap b' = cb_cap b
      \<and> cb_list b' = cb_list b @ [x]" if "length (cb_list b) < cb_cap b" for x
    using inv that by (rule cb_push_appends)
  show "\<exists>b'. cb_pop x b = Some (True, y, b') \<and> cb_inv b' \<and> cb_cap b' = cb_cap b \<and> cb_list b' = ys"
    if "cb_list b = y # ys" for x y ys
    using inv that by (rule cb_pop_head)
qed


section \<open>Creation and destruction\<close>

text \<open>
  An instance made by \<open>withCapacity\<close>: the addresses of its storage block, of the object and
  of its lock, and the buffer itself. The parameters \<open>kern_os_malloc\<close>, \<open>new_obj\<close> and
  \<open>lock_alloc\<close> are the answers of the allocators (null is \<open>None\<close>), \<open>junk\<close> is what the fresh
  storage happens to hold. The capacity has 32 bits, so the byte count does not wrap for elements of up to 2^32 bytes, and
  the storage has all the cells.
\<close>

record 'a cb_instance =
  storage_at :: nat
  object_at :: nat
  lock_at :: nat
  buf :: "'a cbuf"

definition cb_withCapacity ::
    "size_t \<Rightarrow> (size_t \<Rightarrow> nat option) \<Rightarrow> nat option \<Rightarrow> nat option \<Rightarrow> (nat \<Rightarrow> 'a) \<Rightarrow> u32 \<Rightarrow> ledger
     \<Rightarrow> ('a cb_instance option \<times> ledger) option" where
  "cb_withCapacity sizeofT kern_os_malloc new_obj lock_alloc junk n L0 =
     (case buffer_create sizeofT kern_os_malloc (ucast n) of
        None \<Rightarrow> Some (None, L0)
      | Some st \<Rightarrow>
          let L1 = obtain_res KMemory (Some st) L0 in
          (case new_obj of
             None \<Rightarrow> do { L2 \<leftarrow> buffer_deleter st L1; Some (None, L2) }
           | Some ob \<Rightarrow>
               let L2 = obtain_res KObject (Some ob) L1;
                   L3 = obtain_res KLock lock_alloc L2;
                   (ok, b) = cb_init (lock_alloc \<noteq> None) (map junk [0..<unat n]) n cb_fresh
               in if \<not> ok then do {
                    L4 \<leftarrow> release_res KObject ob L3;
                    L5 \<leftarrow> buffer_deleter st L4;
                    Some (None, L5) }
                  else Some (Some \<lparr>storage_at = st, object_at = ob, lock_at = the lock_alloc, buf = b\<rparr>, L3)))"

definition cb_deleter :: "'a cb_instance \<Rightarrow> ledger \<Rightarrow> ledger option" where
  "cb_deleter c L = do {
     L1 \<leftarrow> buffer_deleter (storage_at c) L;
     L2 \<leftarrow> release_res KLock (lock_at c) L1;
     release_res KObject (object_at c) L2 }"

definition cb_safeDeleter :: "'a cb_instance option \<Rightarrow> ledger \<Rightarrow> ('a cb_instance option \<times> ledger) option" where
  "cb_safeDeleter c L = (case c of None \<Rightarrow> Some (None, L)
     | Some i \<Rightarrow> do { L' \<leftarrow> cb_deleter i L; Some (None, L') })"

text \<open>The addresses handed out are not already held.\<close>

definition fresh_answers :: "(size_t \<Rightarrow> nat option) \<Rightarrow> nat option \<Rightarrow> nat option \<Rightarrow> ledger \<Rightarrow> bool" where
  "fresh_answers malloc new_obj lock_alloc L \<longleftrightarrow>
     (\<forall>n a. malloc n = Some a \<longrightarrow> (KMemory, a) \<notin> L) \<and>
     (\<forall>a. new_obj = Some a \<longrightarrow> (KObject, a) \<notin> L) \<and> (\<forall>a. lock_alloc = Some a \<longrightarrow> (KLock, a) \<notin> L)"

lemma cb_initialised:
  "length st = unat n \<Longrightarrow> cb_inv (cb_fresh\<lparr>storage := st, cb_size := n, lock := Some d\<rparr>)"
  "cb_list (cb_fresh\<lparr>storage := st, cb_size := n, lock := Some d\<rparr>) = []"
  by (auto simp: cb_inv_def cb_list_def cb_fresh_def word_eq_unat)

lemma cb_init_array_ok:
  assumes "length st < 2 ^ 32"
  shows "fst (cb_init_array True st cb_fresh) \<and> cb_inv (snd (cb_init_array True st cb_fresh)) \<and>
    cb_list (snd (cb_init_array True st cb_fresh)) = [] \<and> cb_cap (snd (cb_init_array True st cb_fresh)) = length st"
proof -
  have "unat (of_nat (length st) :: u32) = length st" using assms by (simp add: unat_of_nat)
  moreover have "snd (cb_init_array True st cb_fresh)
      = cb_fresh\<lparr>storage := st, cb_size := of_nat (length st), lock := Some 0\<rparr>"
    by (simp add: cb_init_array_def cb_init_def Let_def)
  ultimately show ?thesis
    using cb_initialised [where st = st and n = "of_nat (length st)" and d = 0] by (simp add: cb_cap_def) (simp add: cb_init_array_def cb_init_def Let_def)
qed

lemma cb_withCapacity_answer:
  assumes "fresh_answers malloc new_obj lock_alloc L"
    and "cb_withCapacity sz malloc new_obj lock_alloc junk n L = Some (r, L')"
  shows "case r of None \<Rightarrow> L' = L
    | Some c \<Rightarrow> cb_inv (buf c) \<and> cb_list (buf c) = [] \<and> cb_cap (buf c) = unat n \<and>
        cb_deleter c L' = Some L \<and> lock (buf c) = Some 0"
proof (cases "buffer_create sz malloc (ucast n)")
  case (Some st)
  with assms(1) buffer_create_request have st: "(KMemory, st) \<notin> L"
    by (fastforce simp: fresh_answers_def)
  show ?thesis
  proof (cases new_obj)
    case None
    with assms(2) Some st show ?thesis
      by (auto simp: cb_withCapacity_def buffer_deleter_def Let_def)
  next
    case obj: (Some ob)
    then have "(KObject, ob) \<notin> L" using assms(1) by (simp add: fresh_answers_def)
    with assms Some st obj show ?thesis
      by (cases lock_alloc)
        (auto simp: cb_withCapacity_def cb_deleter_def buffer_deleter_def Let_def cb_initialised
           cb_cap_def fresh_answers_def cb_init_def insert_Diff_if release_res_def)
  qed
qed (use assms(2) in \<open>auto simp: cb_withCapacity_def\<close>)

section \<open>Properties\<close>

lemma cb_push_lock: "cb_inv b \<Longrightarrow> cb_push x b = Some (r, b') \<Longrightarrow> lock b' = lock b"
  by (cases "unat (cb_count b) = cb_cap b")
    (auto simp: cb_push_full cb_push_room cb_inv_def cb_cap_def dest!: le_neq_implies_less)

lemma cb_pop_lock: "cb_inv b \<Longrightarrow> cb_pop x b = Some (r, y, b') \<Longrightarrow> lock b' = lock b"
  by (cases "unat (cb_count b) = 0") (auto simp: cb_pop_empty cb_pop_some)

lemma cb_push_inv: "cb_inv b \<Longrightarrow> cb_push x b = Some (r, b') \<Longrightarrow> cb_inv b'"
  using cb.bound [of b] cb.push_room [of b x] cb.push_full [of b x] by (fastforce simp: le_less)

lemma cb_pop_inv: "cb_inv b \<Longrightarrow> cb_pop x b = Some (r, y, b') \<Longrightarrow> cb_inv b'"
  using cb.pop_some [of b _ _ x] cb.pop_empty [of b x] by (cases "cb_list b") fastforce+

lemma qrun_lock:
  "cb_inv b \<Longrightarrow> qrun cb_push cb_pop d b ops = Some (rs, b') \<Longrightarrow> lock b' = lock b"
proof (induction ops arbitrary: b rs)
  case (Cons op ops)
  show ?case
  proof (cases op)
    case (Push x)
    with Cons.prems(2) obtain ok b1 rs1
      where "cb_push x b = Some (ok, b1)" and "qrun cb_push cb_pop d b1 ops = Some (rs1, b')"
      by (auto simp: bind_eq_Some_conv)
    with Cons.IH [of b1 rs1] Cons.prems(1) show ?thesis
      by (simp add: cb_push_lock cb_push_inv)
  next
    case Pop
    with Cons.prems(2) obtain ok x b1 rs1
      where "cb_pop d b = Some (ok, x, b1)" and "qrun cb_push cb_pop d b1 ops = Some (rs1, b')"
      by (auto simp: bind_eq_Some_conv)
    with Cons.IH [of b1 rs1] Cons.prems(1) show ?thesis
      by (simp add: cb_pop_lock cb_pop_inv)
  qed
qed simp

text \<open>C1: Any sequence of \<open>push\<close> and \<open>pop\<close> calls on a well-formed circular buffer returns exactly
  what a queue holding at most \<open>size\<close> elements returns, never runs into undefined behaviour, ends in
  a well-formed buffer with that queue's contents, and leaves the recursive lock as often held as
  before.\<close>

theorem circular_buffer_refines_queue:
  assumes "cb_inv b"
  shows "\<exists>b'. qrun cb_push cb_pop d b ops = Some (fst (qspec (cb_cap b) (cb_list b) ops), b')
     \<and> cb_inv b' \<and> cb_cap b' = cb_cap b \<and> cb_list b' = snd (qspec (cb_cap b) (cb_list b) ops) \<and> lock b' = lock b"
  using cb.run_refines [OF assms] qrun_lock [OF assms] by blast

definition cb_two :: "nat cbuf" where
  "cb_two = \<lparr>storage = [7, 7], cb_size = 2, indexr = 0, indexw = 0, cb_count = 0, lock = Some 0\<rparr>"

lemma cb_two_inv: "cb_inv cb_two"
  by (simp add: cb_two_def cb_inv_def)

theorem circular_buffer_refines_queue_witness:
  "\<exists>b'. qrun cb_push cb_pop 0 cb_two [Push 1, Push 2, Push 3, Pop, Push 4, Pop, Pop, Pop]
    = Some ([Pushed True, Pushed True, Pushed False, Popped (Some 1), Pushed True, Popped (Some 2),
             Popped (Some 4), Popped None], b') \<and> cb_inv b'"
  using circular_buffer_refines_queue [OF cb_two_inv, of 0 "[Push 1, Push 2, Push 3, Pop, Push 4, Pop, Pop, Pop]"]
  by (auto simp: cb_two_def cb_list_def cb_cap_def)

text \<open>C15: First in, first out: what was in the buffer followed by the accepted elements, in call
  order, is what was delivered followed by what is still in the buffer.\<close>

theorem circular_buffer_fifo:
  assumes "cb_inv b" and "qrun cb_push cb_pop d b ops = Some (rs, b')"
  shows "cb_list b @ accepted ops rs = delivered rs @ cb_list b'"
  using assms by (rule cb.run_fifo)

theorem circular_buffer_fifo_witness:
  "cb_list cb_two @ [1, 2] = [1, 2] @ []"
proof -
  obtain b' where r: "qrun cb_push cb_pop 0 cb_two [Push 1, Pop, Push 2, Pop]
      = Some ([Pushed True, Popped (Some 1), Pushed True, Popped (Some 2)], b')"
    by (simp add: cb_two_def cb_push_def cb_pop_def cb_isFull_def cb_isEmpty_def rec_lock_def rec_unlock_def Let_def)
  from circular_buffer_fifo [OF cb_two_inv r]
  have "cb_list cb_two @ [1, 2] = [1, 2] @ cb_list b'" by simp
  then show ?thesis by (simp add: cb_two_def cb_list_def)
qed

text \<open>C16: \<open>withCapacity\<close> on every combination of allocator answers: when it returns null it has given
  back everything it obtained; when it returns an instance, that is a well-formed empty buffer of
  the requested capacity, and the deleter gives back exactly what was obtained.\<close>

theorem circular_buffer_create_delete:
  assumes "fresh_answers malloc new_obj lock_alloc L"
  shows "\<exists>r L'. cb_withCapacity sz malloc new_obj lock_alloc junk n L = Some (r, L') \<and>
    (case r of None \<Rightarrow> L' = L
     | Some c \<Rightarrow> cb_inv (buf c) \<and> cb_list (buf c) = [] \<and> cb_cap (buf c) = unat n \<and>
         cb_safeDeleter r L' = Some (None, L))"
proof -
  have "\<exists>r L'. cb_withCapacity sz malloc new_obj lock_alloc junk n L = Some (r, L')"
    by (cases lock_alloc)
      (auto simp: cb_withCapacity_def buffer_deleter_def Let_def release_res_def cb_init_def split: option.split)
  then obtain r L' where "cb_withCapacity sz malloc new_obj lock_alloc junk n L = Some (r, L')" by blast
  with cb_withCapacity_answer [OF assms this] show ?thesis
    by (auto simp: cb_safeDeleter_def split: option.splits)
qed

theorem circular_buffer_create_delete_witness:
  "\<exists>r L'. cb_withCapacity 4 (\<lambda>_. Some 1) (Some 2) (Some 3) (\<lambda>_. 0 :: nat) 5 {} = Some (r, L') \<and>
    (case r of None \<Rightarrow> L' = {}
     | Some c \<Rightarrow> cb_inv (buf c) \<and> cb_list (buf c) = [] \<and> cb_cap (buf c) = unat (5 :: u32) \<and>
         cb_safeDeleter r L' = Some (None, {}))"
  by (rule circular_buffer_create_delete) (simp add: fresh_answers_def)

end
