(* ===== verification/Ring_Threads.thy ===== *)
theory Ring_Threads
  imports Circular_Buffer
begin

text \<open>
  One \<open>CircularBuffer\<close> shared by any number of threads. Each method is cut into its statements;
  a thread executes one statement at a time, and the threads interleave in any order. The
  recursive lock has an owner and a depth: a thread that finds it taken by another one waits.
  The methods are those of \<open>Circular_Buffer\<close>, statement by statement; what a thread still has to
  do ties the two readings together.
\<close>

section \<open>The methods, statement by statement\<close>

type_synonym tid = nat

datatype 'a call = CPush 'a | CPop | CIsEmpty | CIsFull | CGetCount

datatype 'a answer = ABool bool | AElem "'a option" | ACount u32

text \<open>\<open>isFull\<close> returns to the caller or into \<open>push\<close>, \<open>isEmpty\<close> to the caller or into \<open>pop\<close>.\<close>

datatype 'a full_ret = FullAsked | FullInPush 'a
datatype empty_ret = EmptyAsked | EmptyInPop

text \<open>The statement a thread executes next, with the values of its local variables.\<close>

datatype 'a pc = Ready | Returned "'a answer"
  | FullLock "'a full_ret" | FullTest "'a full_ret" | FullUnlock "'a full_ret" bool
  | EmptyLock empty_ret | EmptyTest empty_ret | EmptyUnlock empty_ret bool
  | CountLock | CountRead | CountUnlock u32
  | PushLock 'a | PushRefuse | PushStore 'a | PushNext | PushWrap | PushCount | PushUnlock
  | PopLock | PopRefuse | PopFetch | PopNext 'a | PopWrap 'a | PopCount 'a | PopUnlock 'a

fun entry :: "'a call \<Rightarrow> 'a pc" where
  "entry (CPush x) = PushLock x"
| "entry CPop = PopLock"
| "entry CIsEmpty = EmptyLock EmptyAsked"
| "entry CIsFull = FullLock FullAsked"
| "entry CGetCount = CountLock"

definition unlocked :: "'a pc \<Rightarrow> 'a cbuf \<Rightarrow> ('a pc \<times> 'a cbuf) option" where
  "unlocked p b = do { b \<leftarrow> rec_unlock b; Some (p, b) }"

definition locked :: "'a pc \<Rightarrow> 'a cbuf \<Rightarrow> ('a pc \<times> 'a cbuf) option" where
  "locked p b = do { b \<leftarrow> rec_lock b; Some (p, b) }"

fun instr :: "'a pc \<Rightarrow> 'a cbuf \<Rightarrow> ('a pc \<times> 'a cbuf) option" where
  "instr Ready b = None"
| "instr (Returned a) b = None"
| "instr (FullLock r) b = locked (FullTest r) b"
| "instr (FullTest r) b = Some (FullUnlock r (cb_count b = cb_size b \<and> indexr b = indexw b), b)"
| "instr (FullUnlock FullAsked v) b = unlocked (Returned (ABool v)) b"
| "instr (FullUnlock (FullInPush x) v) b = unlocked (if v then PushRefuse else PushStore x) b"
| "instr (EmptyLock r) b = locked (EmptyTest r) b"
| "instr (EmptyTest r) b = Some (EmptyUnlock r (cb_count b = 0 \<and> indexr b = indexw b), b)"
| "instr (EmptyUnlock EmptyAsked v) b = unlocked (Returned (ABool v)) b"
| "instr (EmptyUnlock EmptyInPop v) b = unlocked (if v then PopRefuse else PopFetch) b"
| "instr CountLock b = locked CountRead b"
| "instr CountRead b = Some (CountUnlock (cb_count b), b)"
| "instr (CountUnlock n) b = unlocked (Returned (ACount n)) b"
| "instr (PushLock x) b = locked (FullLock (FullInPush x)) b"
| "instr PushRefuse b = unlocked (Returned (ABool False)) b"
| "instr (PushStore x) b = do { st \<leftarrow> cell_set (storage b) (unat (indexw b)) x; Some (PushNext, b\<lparr>storage := st\<rparr>) }"
| "instr PushNext b = Some (PushWrap, b\<lparr>indexw := indexw b + 1\<rparr>)"
| "instr PushWrap b = do { w \<leftarrow> umod (indexw b) (cb_size b); Some (PushCount, b\<lparr>indexw := w\<rparr>) }"
| "instr PushCount b = Some (PushUnlock, b\<lparr>cb_count := cb_count b + 1\<rparr>)"
| "instr PushUnlock b = unlocked (Returned (ABool True)) b"
| "instr PopLock b = locked (EmptyLock EmptyInPop) b"
| "instr PopRefuse b = unlocked (Returned (AElem None)) b"
| "instr PopFetch b = do { x \<leftarrow> cell_get (storage b) (unat (indexr b)); Some (PopNext x, b) }"
| "instr (PopNext x) b = Some (PopWrap x, b\<lparr>indexr := indexr b + 1\<rparr>)"
| "instr (PopWrap x) b = do { r \<leftarrow> umod (indexr b) (cb_size b); Some (PopCount x, b\<lparr>indexr := r\<rparr>) }"
| "instr (PopCount x) b = Some (PopUnlock x, b\<lparr>cb_count := cb_count b - 1\<rparr>)"
| "instr (PopUnlock x) b = unlocked (Returned (AElem (Some x))) b"

fun takes_lock :: "'a pc \<Rightarrow> bool" where
  "takes_lock (FullLock r) = True" | "takes_lock (EmptyLock r) = True" | "takes_lock CountLock = True"
| "takes_lock (PushLock x) = True" | "takes_lock PopLock = True" | "takes_lock _ = False"

fun gives_lock :: "'a pc \<Rightarrow> bool" where
  "gives_lock (FullUnlock r v) = True" | "gives_lock (EmptyUnlock r v) = True" | "gives_lock (CountUnlock n) = True"
| "gives_lock PushRefuse = True" | "gives_lock PushUnlock = True"
| "gives_lock PopRefuse = True" | "gives_lock (PopUnlock x) = True" | "gives_lock _ = False"

section \<open>Threads\<close>

text \<open>
  \<open>hist\<close> lists the calls in the order in which they gave the lock back, with their answers, and
  \<open>current\<close> the call a thread is in or made last; neither is read by a step. \<open>fault\<close> is set by
  undefined behaviour.
\<close>

record 'a shared =
  ring :: "'a cbuf"
  owner :: "tid option"
  pcs :: "tid \<Rightarrow> 'a pc"
  fault :: bool
  current :: "tid \<Rightarrow> 'a call"
  hist :: "(tid \<times> 'a call \<times> 'a answer) list"

fun in_call :: "'a pc \<Rightarrow> bool" where
  "in_call Ready = False" | "in_call (Returned a) = False" | "in_call _ = True"

definition cr_init :: "'a cbuf \<Rightarrow> 'a shared" where
  "cr_init b = \<lparr>ring = b, owner = None, pcs = (\<lambda>_. Ready), fault = False, current = (\<lambda>_. CPop), hist = []\<rparr>"

definition cr_call :: "tid \<Rightarrow> 'a call \<Rightarrow> 'a shared \<Rightarrow> 'a shared" where
  "cr_call t c s = (if in_call (pcs s t) then s
     else s\<lparr>pcs := (pcs s)(t := entry c), current := (current s)(t := c)\<rparr>)"

definition waits :: "tid \<Rightarrow> 'a shared \<Rightarrow> bool" where
  "waits t s \<longleftrightarrow> takes_lock (pcs s t) \<and> owner s \<noteq> None \<and> owner s \<noteq> Some t"

definition cr_step :: "tid \<Rightarrow> 'a shared \<Rightarrow> 'a shared" where
  "cr_step t s = (let p = pcs s t in
     if \<not> in_call p \<or> waits t s then s
     else if gives_lock p \<and> owner s \<noteq> Some t then s\<lparr>fault := True\<rparr>
     else case instr p (ring s) of None \<Rightarrow> s\<lparr>fault := True\<rparr>
       | Some (p', b') \<Rightarrow> s\<lparr>ring := b', pcs := (pcs s)(t := p'),
           owner := (if takes_lock p then Some t else if gives_lock p \<and> lock b' = Some 0 then None else owner s),
           hist := (case p' of Returned a \<Rightarrow> hist s @ [(t, current s t, a)] | _ \<Rightarrow> hist s)\<rparr>)"

inductive cr_reachable :: "'a cbuf \<Rightarrow> 'a shared \<Rightarrow> bool" for b :: "'a cbuf" where
  init: "cr_reachable b (cr_init b)"
| call: "cr_reachable b s \<Longrightarrow> cr_reachable b (cr_call t c s)"
| step: "cr_reachable b s \<Longrightarrow> cr_reachable b (cr_step t s)"

section \<open>What a thread still has to do\<close>

fun rank :: "'a pc \<Rightarrow> nat" where
  "rank (FullLock FullAsked) = 3" | "rank (FullTest FullAsked) = 2" | "rank (FullUnlock FullAsked v) = 1"
| "rank (FullLock (FullInPush x)) = 8" | "rank (FullTest (FullInPush x)) = 7" | "rank (FullUnlock (FullInPush x) v) = 6"
| "rank (EmptyLock EmptyAsked) = 3" | "rank (EmptyTest EmptyAsked) = 2" | "rank (EmptyUnlock EmptyAsked v) = 1"
| "rank (EmptyLock EmptyInPop) = 8" | "rank (EmptyTest EmptyInPop) = 7" | "rank (EmptyUnlock EmptyInPop v) = 6"
| "rank CountLock = 3" | "rank CountRead = 2" | "rank (CountUnlock n) = 1"
| "rank (PushLock x) = 9" | "rank PushRefuse = 1" | "rank (PushStore x) = 5" | "rank PushNext = 4"
| "rank PushWrap = 3" | "rank PushCount = 2" | "rank PushUnlock = 1"
| "rank PopLock = 9" | "rank PopRefuse = 1" | "rank PopFetch = 5" | "rank (PopNext x) = 4"
| "rank (PopWrap x) = 3" | "rank (PopCount x) = 2" | "rank (PopUnlock x) = 1"
| "rank Ready = 0" | "rank (Returned a) = 0"

text \<open>How often a thread holds the lock at a statement.\<close>

fun depth :: "'a pc \<Rightarrow> nat" where
  "depth (FullLock FullAsked) = 0" | "depth (FullLock (FullInPush x)) = 1"
| "depth (FullTest FullAsked) = 1" | "depth (FullTest (FullInPush x)) = 2"
| "depth (FullUnlock FullAsked v) = 1" | "depth (FullUnlock (FullInPush x) v) = 2"
| "depth (EmptyLock EmptyAsked) = 0" | "depth (EmptyLock EmptyInPop) = 1"
| "depth (EmptyTest EmptyAsked) = 1" | "depth (EmptyTest EmptyInPop) = 2"
| "depth (EmptyUnlock EmptyAsked v) = 1" | "depth (EmptyUnlock EmptyInPop v) = 2"
| "depth CountLock = 0" | "depth (PushLock x) = 0" | "depth PopLock = 0"
| "depth Ready = 0" | "depth (Returned a) = 0" | "depth _ = 1"

lemma locked_Some [simp]: "locked p b = Some (p', b') \<longleftrightarrow> rec_lock b = Some b' \<and> p' = p"
  by (auto simp: locked_def bind_eq_Some_conv)

lemma unlocked_Some [simp]: "unlocked p b = Some (p', b') \<longleftrightarrow> rec_unlock b = Some b' \<and> p' = p"
  by (auto simp: unlocked_def bind_eq_Some_conv)

lemma instr_rank: "instr p b = Some (p', b') \<Longrightarrow> rank p' < rank p"
  by (cases p rule: rank.cases) (auto simp: bind_eq_Some_conv split: if_splits)

text \<open>The rest of the call of a thread that runs alone: its answer and the buffer it leaves.\<close>

function rest :: "'a pc \<Rightarrow> 'a cbuf \<Rightarrow> ('a answer \<times> 'a cbuf) option" where
  "rest p b = (case instr p b of Some (p', b') \<Rightarrow> rest p' b'
     | None \<Rightarrow> (case p of Returned a \<Rightarrow> Some (a, b) | _ \<Rightarrow> None))"
  by auto
termination by (relation "measure (rank \<circ> fst)") (auto dest: instr_rank)

declare rest.simps [simp del]

lemma rest_Returned [simp]: "rest (Returned a) b = Some (a, b)"
  by (subst rest.simps) simp

lemma rest_instr: "instr p b = Some (p', b') \<Longrightarrow> rest p b = rest p' b'"
  by (subst rest.simps) simp

lemma rest_stuck: "instr p b = None \<Longrightarrow> \<forall>a. p \<noteq> Returned a \<Longrightarrow> rest p b = None"
  by (subst rest.simps) (simp split: pc.split)

lemma rest_bind: "in_call p \<Longrightarrow> rest p b = do { (p', b') \<leftarrow> instr p b; rest p' b' }"
proof (cases "instr p b")
  case None
  assume "in_call p"
  then have "\<forall>a. p \<noteq> Returned a" by auto
  with None rest_stuck show ?thesis by simp
qed (auto simp: rest_instr)

text \<open>What is left at each statement of a call is the rest of the method in \<open>Circular_Buffer\<close>.\<close>

fun invoke :: "'a call \<Rightarrow> 'a cbuf \<Rightarrow> ('a answer \<times> 'a cbuf) option" where
  "invoke (CPush x) b = map_option (\<lambda>(v, b). (ABool v, b)) (cb_push x b)"
| "invoke CPop b = map_option (\<lambda>(v, y, b). (AElem (if v then Some y else None), b)) (cb_pop undefined b)"
| "invoke CIsEmpty b = map_option (\<lambda>(v, b). (ABool v, b)) (cb_isEmpty b)"
| "invoke CIsFull b = map_option (\<lambda>(v, b). (ABool v, b)) (cb_isFull b)"
| "invoke CGetCount b = map_option (\<lambda>(n, b). (ACount n, b)) (cb_getCount b)"

lemma bind_map_option: "map_option f (Option.bind m g) = Option.bind m (\<lambda>x. map_option f (g x))"
  by (cases m) auto

lemma instr_if: "instr (if v then p else q) b = (if v then instr p b else instr q b)"
  by simp

lemma bind_if: "Option.bind (if v then m else n) f = (if v then Option.bind m f else Option.bind n f)"
  by simp

lemmas run_simps = rest_bind locked_def unlocked_def bind_map_option instr_if bind_if Let_def
  if_distrib [of "map_option _"]

lemma rest_entry: "rest (entry c) b = invoke c b"
  by (cases c) (simp_all add: run_simps cb_push_def cb_pop_def cb_isEmpty_def cb_isFull_def cb_getCount_def cong: if_cong)

section \<open>The queue the threads see\<close>

text \<open>The calls on a list of at most \<open>cap\<close> elements.\<close>

fun queue_call :: "nat \<Rightarrow> 'a call \<Rightarrow> 'a list \<Rightarrow> 'a answer \<times> 'a list" where
  "queue_call cap (CPush x) xs = (if length xs < cap then (ABool True, xs @ [x]) else (ABool False, xs))"
| "queue_call cap CPop xs = (case xs of [] \<Rightarrow> (AElem None, []) | y # ys \<Rightarrow> (AElem (Some y), ys))"
| "queue_call cap CIsEmpty xs = (ABool (xs = []), xs)"
| "queue_call cap CIsFull xs = (ABool (length xs = cap), xs)"
| "queue_call cap CGetCount xs = (ACount (of_nat (length xs)), xs)"

fun queue_calls :: "nat \<Rightarrow> 'a list \<Rightarrow> 'a call list \<Rightarrow> 'a answer list \<times> 'a list" where
  "queue_calls cap xs [] = ([], xs)"
| "queue_calls cap xs (c # cs) = (let (a, xs) = queue_call cap c xs; (as, xs) = queue_calls cap xs cs in (a # as, xs))"

lemma queue_calls_snoc:
  "queue_calls cap xs cs = (as, ys) \<Longrightarrow> queue_call cap c ys = (a, zs) \<Longrightarrow>
   queue_calls cap xs (cs @ [c]) = (as @ [a], zs)"
  by (induction cs arbitrary: xs as) (auto simp: Let_def split: prod.splits)

lemma cb_getCount_run:
  assumes "cb_inv b"
  shows "cb_getCount b = Some (cb_count b, b)"
proof -
  obtain d where "lock b = Some d" using assms by (auto simp: cb_inv_def)
  then show ?thesis by (simp add: cb_getCount_def lock_simps)
qed

lemma invoke_queue:
  assumes inv: "cb_inv b"
  obtains a b' where "invoke c b = Some (a, b')" "queue_call (cb_cap b) c (cb_list b) = (a, cb_list b')"
    "cb_inv b'" "cb_cap b' = cb_cap b" "lock b' = lock b"
proof (cases c)
  case (CPush x)
  show ?thesis
  proof (cases "length (cb_list b) < cb_cap b")
    case True
    then obtain b' where "cb_push x b = Some (True, b')" "cb_inv b'" "cb_cap b' = cb_cap b" "cb_list b' = cb_list b @ [x]"
      using cb.push_room [OF inv] by blast
    with CPush True show ?thesis
      by (intro that [of "ABool True" b']) (simp_all add: cb_push_lock [OF inv])
  next
    case False
    with cb.bound [OF inv] have "length (cb_list b) = cb_cap b" by simp
    from cb.push_full [OF inv this] have "cb_push x b = Some (False, b)" .
    with CPush False inv show ?thesis by (intro that [of "ABool False" b]) simp_all
  qed
next
  case CPop
  show ?thesis
  proof (cases "cb_list b")
    case Nil
    with cb.pop_empty [OF inv Nil] CPop inv show ?thesis by (intro that [of "AElem None" b]) simp_all
  next
    case (Cons y ys)
    then obtain b' where "cb_pop undefined b = Some (True, y, b')" "cb_inv b'" "cb_cap b' = cb_cap b" "cb_list b' = ys"
      using cb.pop_some [OF inv] by blast
    with CPop Cons show ?thesis
      by (intro that [of "AElem (Some y)" b']) (simp_all add: cb_pop_lock [OF inv])
  qed
next
  case CIsEmpty
  have "unat (cb_count b) = 0 \<longleftrightarrow> cb_list b = []" using cb_length [of b] by auto
  with CIsEmpty show ?thesis
    using cb_isEmpty_run [OF inv] inv by (intro that [of "ABool (cb_list b = [])" b]) simp_all
next
  case CIsFull
  then show ?thesis
    using cb_isFull_run [OF inv] inv by (intro that [of "ABool (length (cb_list b) = cb_cap b)" b]) (simp_all add: cb_length)
next
  case CGetCount
  then show ?thesis
    using cb_getCount_run [OF inv] inv by (intro that [of "ACount (cb_count b)" b]) (simp_all add: cb_length)
qed

section \<open>Mutual exclusion and the history\<close>

text \<open>A thread that is not inside: it makes no call, or stands before its first statement.\<close>

definition outside :: "'a pc \<Rightarrow> 'a call \<Rightarrow> bool" where
  "outside p c \<longleftrightarrow> \<not> in_call p \<or> p = entry c"

text \<open>\<open>b\<close> is the buffer the completed calls have left.\<close>

definition holder_ok :: "'a shared \<Rightarrow> 'a cbuf \<Rightarrow> bool" where
  "holder_ok s b \<longleftrightarrow> (case owner s of None \<Rightarrow> ring s = b
     | Some t \<Rightarrow> 0 < depth (pcs s t) \<and> lock (ring s) = Some (depth (pcs s t)) \<and>
         rest (pcs s t) (ring s) = invoke (current s t) b)"

definition answers_ok :: "'a shared \<Rightarrow> bool" where
  "answers_ok s \<longleftrightarrow> (\<forall>t a. pcs s t = Returned a \<longrightarrow>
     (\<exists>h1 h2. hist s = h1 @ (t, current s t, a) # h2 \<and> t \<notin> fst ` set h2))"

definition hist_ok :: "'a cbuf \<Rightarrow> 'a cbuf \<Rightarrow> 'a shared \<Rightarrow> bool" where
  "hist_ok b0 b s \<longleftrightarrow>
     queue_calls (cb_cap b0) (cb_list b0) (map (fst \<circ> snd) (hist s)) = (map (snd \<circ> snd) (hist s), cb_list b) \<and>
     cb_inv b \<and> cb_cap b = cb_cap b0 \<and> lock b = Some 0"

definition cr_inv :: "'a cbuf \<Rightarrow> 'a cbuf \<Rightarrow> 'a shared \<Rightarrow> bool" where
  "cr_inv b0 b s \<longleftrightarrow> \<not> fault s \<and> (\<forall>t. owner s \<noteq> Some t \<longrightarrow> outside (pcs s t) (current s t)) \<and>
     answers_ok s \<and> hist_ok b0 b s \<and> holder_ok s b"

lemma answers_okE:
  assumes "answers_ok s" and "pcs s t = Returned a"
  obtains h1 h2 where "hist s = h1 @ (t, current s t, a) # h2" "t \<notin> fst ` set h2"
  using assms unfolding answers_ok_def by blast

lemma entry_simps [simp]: "in_call (entry c)" "takes_lock (entry c)" "depth (entry c) = 0" "\<not> gives_lock (entry c)"
  by (cases c; simp)+

lemma in_call_depth: "0 < depth p \<Longrightarrow> in_call p"
  by (cases p) auto

lemma depth_0: "depth p = 0 \<Longrightarrow> in_call p \<Longrightarrow> takes_lock p"
  by (cases p rule: depth.cases) auto

text \<open>A statement keeps the depth of the lock what it should be, and only giving back the lock ends a call.\<close>

lemma instr_depth:
  assumes "instr p b = Some (p', b')" and "lock b = Some (depth p)"
  shows "lock b' = Some (depth p')"
  using assms
  by (cases p rule: depth.cases) (auto simp: bind_eq_Some_conv rec_lock_def rec_unlock_def split: if_splits)

lemma instr_ends:
  assumes "instr p b = Some (p', b')"
  shows "if depth p' = 0 then gives_lock p \<and> (\<exists>a. p' = Returned a) else \<forall>a. p' \<noteq> Returned a"
  using assms by (cases p rule: depth.cases) (auto simp: bind_eq_Some_conv split: if_splits)

lemma takes_gives: "\<not> (takes_lock p \<and> gives_lock p)"
  by (cases p) auto

text \<open>A thread that does not wait either is the holder or takes a lock that is free.\<close>

lemma active_state:
  assumes inv: "cr_inv b0 b s" and "in_call (pcs s t)" and "\<not> waits t s"
  shows "lock (ring s) = Some (depth (pcs s t)) \<and> rest (pcs s t) (ring s) = invoke (current s t) b \<and>
    (owner s = Some t \<or> owner s = None \<and> takes_lock (pcs s t))"
proof (cases "owner s = Some t")
  case True
  then show ?thesis using inv by (simp add: cr_inv_def holder_ok_def)
next
  case False
  with inv assms(2) have p: "pcs s t = entry (current s t)" by (auto simp: cr_inv_def outside_def)
  with False assms(3) have "owner s = None" by (auto simp: waits_def)
  moreover from this have "ring s = b" "lock b = Some 0" using inv by (simp_all add: cr_inv_def holder_ok_def hist_ok_def)
  ultimately show ?thesis using p by (simp add: rest_entry)
qed

lemma cr_step_active:
  assumes inv: "cr_inv b0 b s" and act: "in_call (pcs s t)" "\<not> waits t s"
  obtains (ends) a b' where "cr_step t s = s\<lparr>ring := b', pcs := (pcs s)(t := Returned a), owner := None,
      hist := hist s @ [(t, current s t, a)]\<rparr>" "invoke (current s t) b = Some (a, b')"
  | (goes) p' b' where "cr_step t s = s\<lparr>ring := b', pcs := (pcs s)(t := p'), owner := Some t\<rparr>"
      "0 < depth p'" "lock b' = Some (depth p')" "rest p' b' = invoke (current s t) b" "rank p' < rank (pcs s t)"
proof -
  let ?p = "pcs s t"
  note st = active_state [OF inv act]
  have "cb_inv b" using inv by (simp add: cr_inv_def hist_ok_def)
  from invoke_queue [OF this, of "current s t"] obtain a b1 where i: "invoke (current s t) b = Some (a, b1)" by blast
  with st act(1) obtain p' b' where step: "instr ?p (ring s) = Some (p', b')" and r: "rest p' b' = Some (a, b1)"
    by (auto simp: rest_bind bind_eq_Some_conv)
  have l: "lock b' = Some (depth p')" using instr_depth [OF step] st by blast
  have run: "cr_step t s = s\<lparr>ring := b', pcs := (pcs s)(t := p'),
      owner := (if takes_lock ?p then Some t else if gives_lock ?p \<and> lock b' = Some 0 then None else owner s),
      hist := (case p' of Returned a \<Rightarrow> hist s @ [(t, current s t, a)] | _ \<Rightarrow> hist s)\<rparr>"
    using act st step takes_gives [of ?p] by (auto simp: cr_step_def Let_def)
  show ?thesis
  proof (cases "depth p' = 0")
    case True
    with instr_ends [OF step] obtain a' where e: "gives_lock ?p" "p' = Returned a'" by auto
    with r have "a' = a" "b' = b1" by simp_all
    moreover have "\<not> takes_lock ?p" using takes_gives [of ?p] e(1) by blast
    ultimately show ?thesis using run e i l by (intro ends [of a b']) simp_all
  next
    case False
    with instr_ends [OF step] have "\<forall>a. p' \<noteq> Returned a" by auto
    then have "(case p' of Returned a \<Rightarrow> hist s @ [(t, current s t, a)] | _ \<Rightarrow> hist s) = hist s" by (cases p') simp_all
    then show ?thesis using run False l st r i instr_rank [OF step] by (intro goes [of p' b']) auto
  qed
qed

lemma cr_step_idle: "\<not> in_call (pcs s t) \<or> waits t s \<Longrightarrow> cr_step t s = s"
  by (auto simp: cr_step_def Let_def)

lemma cr_step_inv:
  assumes inv: "cr_inv b0 b s"
  obtains b' where "cr_inv b0 b' (cr_step t s)"
proof (cases "in_call (pcs s t) \<and> \<not> waits t s")
  case False
  then show ?thesis using that inv cr_step_idle [of s t] by auto
next
  case True
  then have act: "in_call (pcs s t)" "\<not> waits t s" by simp_all
  have out: "outside (pcs s u) (current s u)" if "u \<noteq> t" for u
    using inv active_state [OF inv act] that by (auto simp: cr_inv_def)
  from inv have ans: "answers_ok s" and h: "hist_ok b0 b s" and nf: "\<not> fault s" by (simp_all add: cr_inv_def)
  show ?thesis
  proof (cases rule: cr_step_active [OF inv act, case_names ends goes])
    case (ends a b')
    have "cb_inv b" using h by (simp add: hist_ok_def)
    from invoke_queue [OF this, of "current s t"] ends(2)
    have q: "queue_call (cb_cap b) (current s t) (cb_list b) = (a, cb_list b')" "cb_inv b'" "cb_cap b' = cb_cap b" "lock b' = lock b"
      by auto
    have "hist_ok b0 b' (cr_step t s)"
      using h q queue_calls_snoc by (auto simp: hist_ok_def ends(1))
    moreover have "answers_ok (cr_step t s)"
    proof -
      have "\<exists>h1 h2. hist s @ [(t, current s t, a)] = h1 @ (u, current s u, c) # h2 \<and> u \<notin> fst ` set h2"
        if "((pcs s)(t := Returned a)) u = Returned c" for u c
      proof (cases "u = t")
        case True
        then show ?thesis using that by (intro exI [of _ "hist s"] exI [of _ "[]"]) simp
      next
        case False
        with that have "pcs s u = Returned c" by simp
        with ans obtain h1 h2 where "hist s = h1 @ (u, current s u, c) # h2" "u \<notin> fst ` set h2"
          by (rule answers_okE)
        then show ?thesis using False
          by (intro exI [of _ h1] exI [of _ "h2 @ [(t, current s t, a)]"]) auto
      qed
      then show ?thesis by (simp add: answers_ok_def ends(1))
    qed
    ultimately have "cr_inv b0 b' (cr_step t s)"
      using out nf by (auto simp: cr_inv_def ends(1) holder_ok_def outside_def)
    then show ?thesis by (rule that)
  next
    case (goes p' b')
    have "answers_ok (cr_step t s)"
      using ans goes(2) by (auto simp: answers_ok_def goes(1))
    then have "cr_inv b0 b (cr_step t s)"
      using out nf h goes(2-4) by (auto simp: cr_inv_def goes(1) holder_ok_def hist_ok_def)
    then show ?thesis by (rule that)
  qed
qed

lemma cr_call_inv:
  assumes inv: "cr_inv b0 b s"
  shows "cr_inv b0 b (cr_call t c s)"
proof (cases "in_call (pcs s t)")
  case False
  have "owner s \<noteq> Some t"
    using inv False in_call_depth [of "pcs s t"] by (auto simp: cr_inv_def holder_ok_def)
  with False inv show ?thesis
    by (auto simp: cr_inv_def cr_call_def outside_def answers_ok_def hist_ok_def holder_ok_def split: option.splits)
      (metis entry_simps(1) in_call.simps(2))+
qed (use inv in \<open>simp add: cr_call_def\<close>)

lemma cr_init_inv: "cb_inv b \<Longrightarrow> lock b = Some 0 \<Longrightarrow> cr_inv b b (cr_init b)"
  by (simp add: cr_inv_def cr_init_def outside_def answers_ok_def hist_ok_def holder_ok_def)

lemma cr_reachable_inv:
  assumes "cr_reachable b0 s" and "cb_inv b0" and "lock b0 = Some 0"
  shows "\<exists>b. cr_inv b0 b s"
  using assms
proof (induction rule: cr_reachable.induct)
  case init
  then show ?case using cr_init_inv by blast
next
  case (call s t c)
  then show ?case using cr_call_inv by blast
next
  case (step s t)
  then show ?case using cr_step_inv by blast
qed

section \<open>Properties\<close>

text \<open>Threads that take turns as a schedule says.\<close>

definition turns :: "tid list \<Rightarrow> 'a shared \<Rightarrow> 'a shared" where
  "turns ts s = fold cr_step ts s"

lemma turns_simps [simp]:
  "turns [] s = s" "turns (t # ts) s = turns ts (cr_step t s)" "turns (ts @ us) s = turns us (turns ts s)"
  by (simp_all add: turns_def)

lemma turns_reachable: "cr_reachable b s \<Longrightarrow> cr_reachable b (turns ts s)"
  by (induction ts arbitrary: s) (auto intro: cr_reachable.step)

text \<open>Thread 1 pushes and thread 2 pops; thread 2 asks for the lock twice before it gets it.\<close>

definition contended :: "nat shared" where
  "contended = turns ([1, 2, 1, 1, 2, 1, 1, 1, 1, 1, 1] @ replicate 9 2)
     (cr_call 2 CPop (cr_call 1 (CPush 5) (cr_init cb_two)))"

lemma contended_reachable: "cr_reachable cb_two contended"
  unfolding contended_def by (intro turns_reachable cr_reachable.intros)

lemmas cr_eval = cr_step_def cr_call_def cr_init_def waits_def Let_def rec_lock_def rec_unlock_def cell_set_def
  cell_get_def umod_def locked_def unlocked_def cb_two_def

lemma contended_hist: "hist contended = [(1, CPush 5, ABool True), (2, CPop, AElem (Some 5))]"
  by (simp add: contended_def cr_eval numeral_eq_Suc)

text \<open>C2: However threads interleave the statements of \<open>push\<close>, \<open>pop\<close>, \<open>isEmpty\<close>, \<open>isFull\<close> and \<open>getCount\<close>, no
  statement is undefined, at most one thread is between its outermost lock and unlock, and the calls that have
  returned gave the answers of a queue of at most \<open>size\<close> elements on which they were made one after another, in
  the order in which they gave the lock back; when the lock is free the buffer holds that queue.\<close>

theorem circular_buffer_linearizable:
  assumes "cr_reachable b0 s" and "cb_inv b0" and "lock b0 = Some 0"
  shows "\<not> fault s \<and>
    (\<forall>t u. 0 < depth (pcs s t) \<and> 0 < depth (pcs s u) \<longrightarrow> t = u) \<and>
    (\<forall>t a. pcs s t = Returned a \<longrightarrow> (\<exists>h1 h2. hist s = h1 @ (t, current s t, a) # h2 \<and> t \<notin> fst ` set h2)) \<and>
    (\<exists>xs. queue_calls (cb_cap b0) (cb_list b0) (map (fst \<circ> snd) (hist s)) = (map (snd \<circ> snd) (hist s), xs) \<and>
       (owner s = None \<longrightarrow> cb_inv (ring s) \<and> cb_list (ring s) = xs))"
proof -
  from cr_reachable_inv [OF assms] obtain b where inv: "cr_inv b0 b s" by blast
  have out: "depth (pcs s t) = 0" if "owner s \<noteq> Some t" for t
  proof -
    have "outside (pcs s t) (current s t)" using inv that by (simp add: cr_inv_def)
    then show ?thesis using in_call_depth [of "pcs s t"] by (auto simp: outside_def)
  qed
  have "\<forall>t u. 0 < depth (pcs s t) \<and> 0 < depth (pcs s u) \<longrightarrow> t = u"
    using out by (metis less_numeral_extra(3) option.inject)
  moreover have "owner s = None \<longrightarrow> cb_inv (ring s) \<and> cb_list (ring s) = cb_list b"
    using inv by (auto simp: cr_inv_def hist_ok_def holder_ok_def)
  moreover have "\<not> fault s" "answers_ok s" "hist_ok b0 b s" using inv by (simp_all add: cr_inv_def)
  ultimately show ?thesis unfolding answers_ok_def hist_ok_def by (intro conjI exI [of _ "cb_list b"]) blast+
qed

theorem circular_buffer_linearizable_witness:
  "hist contended = [(1, CPush 5, ABool True), (2, CPop, AElem (Some 5))] \<and> \<not> fault contended \<and>
   (\<exists>xs. queue_calls 2 [] [CPush 5, CPop] = ([ABool True, AElem (Some 5)], xs))"
  using circular_buffer_linearizable [OF contended_reachable cb_two_inv] contended_hist
  by (simp add: cb_two_def cb_cap_def cb_list_def)

text \<open>The holder of the lock alone, or any thread when the lock is free, finishes its call.\<close>

lemma finishes_alone:
  assumes "cr_inv b0 b s" and "in_call (pcs s t)" and "owner s = None \<or> owner s = Some t"
  shows "\<exists>n \<le> rank (pcs s t). \<exists>b'. cr_inv b0 b' (turns (replicate n t) s) \<and> owner (turns (replicate n t) s) = None \<and>
    (\<exists>a. pcs (turns (replicate n t) s) t = Returned a) \<and>
    (\<forall>u. u \<noteq> t \<longrightarrow> pcs (turns (replicate n t) s) u = pcs s u)"
  using assms
proof (induction "rank (pcs s t)" arbitrary: s b rule: less_induct)
  case less
  then have act: "in_call (pcs s t)" "\<not> waits t s" by (auto simp: waits_def)
  from cr_step_inv [OF less.prems(1)] obtain b1 where inv: "cr_inv b0 b1 (cr_step t s)" .
  show ?case
  proof (cases rule: cr_step_active [OF less.prems(1) act, case_names ends goes])
    case (ends a b')
    have "1 \<le> rank (pcs s t)" using act(1) by (cases "pcs s t" rule: rank.cases) simp_all
    then show ?thesis using inv by (intro exI [of _ 1]) (auto simp: ends(1))
  next
    case (goes p' b')
    let ?s = "cr_step t s"
    have "rank (pcs ?s t) < rank (pcs s t)" "in_call (pcs ?s t)" "owner ?s = None \<or> owner ?s = Some t"
      using goes in_call_depth [of p'] by simp_all
    from less.hyps [OF this(1) inv this(2,3)] obtain n b2 where n: "n \<le> rank (pcs ?s t)"
      "cr_inv b0 b2 (turns (replicate n t) ?s)" "owner (turns (replicate n t) ?s) = None"
      "\<exists>a. pcs (turns (replicate n t) ?s) t = Returned a"
      "\<forall>u. u \<noteq> t \<longrightarrow> pcs (turns (replicate n t) ?s) u = pcs ?s u" by blast
    have "Suc n \<le> rank (pcs s t)" using n(1) goes(1,5) by simp
    moreover have "pcs ?s u = pcs s u" if "u \<noteq> t" for u using that by (simp add: goes(1))
    ultimately show ?thesis using n(2-5) by (intro exI [of _ "Suc n"]) auto
  qed
qed

lemma rank_bound: "rank p \<le> 9" "0 < depth p \<Longrightarrow> rank p \<le> 8"
  by (cases p rule: rank.cases; simp)+

text \<open>C6: No call is ever stuck: in every reachable state a call can be completed within 17 statements, by
  letting the holder of the lock finish first, and without any other thread's help.\<close>

theorem circular_buffer_never_deadlocks:
  assumes "cr_reachable b0 s" and "cb_inv b0" and "lock b0 = Some 0" and "in_call (pcs s t)"
  shows "\<exists>ts a. length ts \<le> 17 \<and> set ts \<subseteq> {t} \<union> set_option (owner s) \<and> pcs (turns ts s) t = Returned a"
proof -
  from cr_reachable_inv [OF assms(1-3)] obtain b where inv: "cr_inv b0 b s" by blast
  show ?thesis
  proof (cases "owner s = None \<or> owner s = Some t")
    case True
    from finishes_alone [OF inv assms(4) this] obtain n a where "n \<le> rank (pcs s t)"
      "pcs (turns (replicate n t) s) t = Returned a" by blast
    then show ?thesis using rank_bound(1) [of "pcs s t"]
      by (intro exI [of _ "replicate n t"] exI [of _ a]) (auto simp: set_replicate_conv_if)
  next
    case False
    then obtain u where u: "owner s = Some u" "u \<noteq> t" by auto
    then have d: "0 < depth (pcs s u)" using inv by (simp add: cr_inv_def holder_ok_def)
    from finishes_alone [OF inv in_call_depth [OF d]] u(1) obtain n b1 where n: "n \<le> rank (pcs s u)"
      "cr_inv b0 b1 (turns (replicate n u) s)" "owner (turns (replicate n u) s) = None"
      "\<forall>v. v \<noteq> u \<longrightarrow> pcs (turns (replicate n u) s) v = pcs s v" by blast
    let ?s = "turns (replicate n u) s"
    have t: "pcs ?s t = pcs s t" using n(4) u(2) by metis
    with finishes_alone [OF n(2), of t] n(3) assms(4) obtain m a where "m \<le> rank (pcs s t)"
      "pcs (turns (replicate m t) ?s) t = Returned a" by auto
    then show ?thesis using n(1) rank_bound(1) [of "pcs s t"] rank_bound(2) [OF d] u(1)
      by (intro exI [of _ "replicate n u @ replicate m t"] exI [of _ a]) (auto simp: set_replicate_conv_if)
  qed
qed

text \<open>Thread 2 waits while thread 1 is in the middle of \<open>push\<close>.\<close>

theorem circular_buffer_never_deadlocks_witness:
  "let s = turns [1, 2, 1, 1, 2] (cr_call 2 CPop (cr_call 1 (CPush 5) (cr_init cb_two))) in
   waits 2 s \<and> (\<exists>ts a. length ts \<le> 17 \<and> set ts \<subseteq> {1, 2} \<and> pcs (turns ts s) 2 = Returned a)"
proof -
  let ?s = "turns [1, 2, 1, 1, 2] (cr_call 2 CPop (cr_call 1 (CPush 5) (cr_init cb_two)))"
  have r: "cr_reachable cb_two ?s" by (intro turns_reachable cr_reachable.intros)
  have e: "pcs ?s 2 = PopLock" "owner ?s = Some 1" by (simp_all add: cr_eval)
  then have w: "waits 2 ?s" by (simp add: waits_def del: turns_simps)
  have "lock cb_two = Some 0" by (simp add: cb_two_def)
  from circular_buffer_never_deadlocks [OF r cb_two_inv this, of 2] e
  have "\<exists>ts a. length ts \<le> 17 \<and> set ts \<subseteq> {1, 2} \<and> pcs (turns ts ?s) 2 = Returned a"
    by (auto simp del: turns_simps)
  with w show ?thesis unfolding Let_def by blast
qed

end
