(* ===== verification/Ring_Liveness.thy ===== *)
theory Ring_Liveness
  imports Ring_Threads
begin

text \<open>
  Progress of the threads that share a \<open>CircularBuffer\<close>, under any schedule that keeps giving turns
  to the threads that are in a call. The statements that are left to all threads together are the measure:
  a thread that waits leaves it as it is, any other turn lowers it.
\<close>

section \<open>Turns that change nothing and turns that do\<close>

definition active :: "'a shared \<Rightarrow> tid \<Rightarrow> bool" where
  "active s t \<longleftrightarrow> in_call (pcs s t) \<and> \<not> waits t s"

lemma inactive_turn: "\<not> active s t \<Longrightarrow> cr_step t s = s"
  by (intro cr_step_idle) (auto simp: active_def)

lemma inactive_turns: "\<forall>t \<in> set ts. \<not> active s t \<Longrightarrow> turns ts s = s"
  by (induction ts) (simp_all add: inactive_turn)

text \<open>Whenever a thread is in a call, some thread is not held up: the holder of the lock, or anyone when it is free.\<close>

lemma some_active:
  assumes inv: "cr_inv b0 b s" and t: "in_call (pcs s t)"
  obtains u where "active s u"
proof (cases "owner s")
  case None
  then have "active s t" using t by (simp add: active_def waits_def)
  then show ?thesis by (rule that)
next
  case (Some u)
  then have "in_call (pcs s u)" using inv in_call_depth [of "pcs s u"] by (simp add: cr_inv_def holder_ok_def)
  then have "active s u" using Some by (simp add: active_def waits_def)
  then show ?thesis by (rule that)
qed

definition work :: "tid set \<Rightarrow> 'a shared \<Rightarrow> nat" where
  "work T s = (\<Sum>t \<in> T. rank (pcs s t))"

text \<open>An active turn is a statement of one thread, and touches the place of no other.\<close>

lemma active_turn:
  assumes "cr_inv b0 b s" and "active s t"
  shows "rank (pcs (cr_step t s) t) < rank (pcs s t) \<and> (\<forall>u. u \<noteq> t \<longrightarrow> pcs (cr_step t s) u = pcs s u)"
proof -
  have act: "in_call (pcs s t)" "\<not> waits t s" using assms(2) by (simp_all add: active_def)
  show ?thesis
  proof (cases rule: cr_step_active [OF assms(1) act, case_names ends goes])
    case (ends a b')
    have "0 < rank (pcs s t)" using act(1) by (cases "pcs s t" rule: rank.cases) simp_all
    then show ?thesis by (simp add: ends(1))
  next
    case (goes p' b')
    then show ?thesis by simp
  qed
qed

lemma active_turn_work:
  assumes "cr_inv b0 b s" and "active s t" and "finite T" and "t \<in> T"
  shows "work T (cr_step t s) < work T s"
proof -
  have "(\<Sum>u \<in> T - {t}. rank (pcs (cr_step t s) u)) = (\<Sum>u \<in> T - {t}. rank (pcs s u))"
    using active_turn [OF assms(1,2)] by (intro sum.cong) auto
  then show ?thesis
    using active_turn [OF assms(1,2)] assms(3,4) by (simp add: work_def sum.remove [OF assms(3,4)])
qed

lemma turn_in_call:
  assumes "cr_inv b0 b s" and "in_call (pcs (cr_step t s) u)"
  shows "in_call (pcs s u)"
proof (cases "active s t")
  case True
  show ?thesis
  proof (cases "u = t")
    case False
    then show ?thesis using active_turn [OF assms(1) True] assms(2) by auto
  qed (use True in \<open>simp add: active_def\<close>)
next
  case False
  then show ?thesis using assms(2) by (simp add: inactive_turn)
qed

lemma finite_in_call:
  assumes "cr_reachable b0 s" and "cb_inv b0" and "lock b0 = Some 0"
  shows "finite {t. in_call (pcs s t)}"
  using assms
proof (induction rule: cr_reachable.induct)
  case init
  then show ?case by (simp add: cr_init_def)
next
  case (call s t c)
  have "{u. in_call (pcs (cr_call t c s) u)} \<subseteq> insert t {u. in_call (pcs s u)}"
    by (auto simp: cr_call_def split: if_splits)
  with call show ?case by (meson finite.insertI finite_subset)
next
  case (step s t)
  from cr_reachable_inv [OF step.hyps step.prems] obtain b where "cr_inv b0 b s" by blast
  then have "{u. in_call (pcs (cr_step t s) u)} \<subseteq> {u. in_call (pcs s u)}" using turn_in_call by blast
  with step show ?case by (meson finite_subset)
qed

section \<open>Fair schedules\<close>

text \<open>\<open>sched\<close> gives every turn to a thread; the first \<open>n\<close> turns are a list.\<close>

definition keeps_scheduling :: "(nat \<Rightarrow> tid) \<Rightarrow> tid \<Rightarrow> bool" where
  "keeps_scheduling sched t \<longleftrightarrow> (\<forall>n. \<exists>m \<ge> n. sched m = t)"

lemma keeps_scheduling_shift: "keeps_scheduling sched t \<Longrightarrow> keeps_scheduling (\<lambda>k. sched (n + k)) t"
  unfolding keeps_scheduling_def by (metis add_le_cancel_left le_Suc_ex le_add1 le_trans)

definition first_turns :: "nat \<Rightarrow> (nat \<Rightarrow> tid) \<Rightarrow> tid list" where
  "first_turns n sched = map sched [0..<n]"

lemma first_turns_add: "first_turns (m + n) sched = first_turns m sched @ first_turns n (\<lambda>k. sched (m + k))"
  by (rule nth_equalityI) (auto simp: first_turns_def nth_append)

lemma first_turns_Suc: "first_turns (Suc n) sched = first_turns n sched @ [sched n]"
  by (simp add: first_turns_def)

text \<open>The first turn that goes to an active thread.\<close>

lemma first_active:
  assumes "active s u" and "keeps_scheduling sched u"
  obtains m where "active s (sched m)" "turns (first_turns m sched) s = s"
proof -
  from assms(2) obtain k where "sched k = u" unfolding keeps_scheduling_def by blast
  with assms(1) have k: "active s (sched k)" by simp
  define m where "m = (LEAST k. active s (sched k))"
  have "active s (sched m)" unfolding m_def by (rule LeastI [of "\<lambda>k. active s (sched k)", OF k])
  moreover have "\<not> active s (sched j)" if "j < m" for j using that unfolding m_def by (rule not_less_Least)
  then have "\<forall>t \<in> set (first_turns m sched). \<not> active s t" by (simp add: first_turns_def)
  then have "turns (first_turns m sched) s = s" by (rule inactive_turns)
  ultimately show ?thesis by (rule that)
qed

lemma calls_complete:
  assumes "cr_inv b0 b s" and "finite T" and "{t. in_call (pcs s t)} \<subseteq> T" and "\<forall>t \<in> T. keeps_scheduling sched t"
  shows "\<exists>n. \<forall>t. \<not> in_call (pcs (turns (first_turns n sched) s) t)"
  using assms
proof (induction "work T s" arbitrary: s b sched rule: less_induct)
  case less
  show ?case
  proof (cases "\<exists>t. in_call (pcs s t)")
    case False
    then show ?thesis by (intro exI [of _ 0]) (simp add: first_turns_def)
  next
    case True
    then obtain u where u: "active s u" using some_active [OF less.prems(1)] by blast
    then have "keeps_scheduling sched u" using less.prems(3,4) by (auto simp: active_def)
    then obtain m where m: "active s (sched m)" "turns (first_turns m sched) s = s" using u first_active by blast
    let ?s = "cr_step (sched m) s" and ?sched = "\<lambda>k. sched (Suc m + k)"
    obtain b' where inv: "cr_inv b0 b' ?s" using cr_step_inv [OF less.prems(1)] by blast
    have "sched m \<in> T" using m(1) less.prems(3) by (auto simp: active_def)
    then have "work T ?s < work T s" by (rule active_turn_work [OF less.prems(1) m(1) less.prems(2)])
    moreover have "{t. in_call (pcs ?s t)} \<subseteq> T" using turn_in_call [OF less.prems(1)] less.prems(3) by blast
    moreover have "\<forall>t \<in> T. keeps_scheduling ?sched t" using less.prems(4) keeps_scheduling_shift by blast
    ultimately obtain n where "\<forall>t. \<not> in_call (pcs (turns (first_turns n ?sched) ?s) t)"
      using less.hyps [OF _ inv less.prems(2)] by blast
    moreover have "turns (first_turns (Suc m + n) sched) s = turns (first_turns n ?sched) ?s"
      unfolding first_turns_add first_turns_Suc by (simp add: m(2))
    ultimately show ?thesis by metis
  qed
qed

text \<open>C7: When no new calls are made, every schedule that keeps giving turns to the threads in a call completes all
  the calls that are under way, however the threads are interleaved and whoever holds the lock.\<close>

theorem circular_buffer_calls_complete:
  assumes "cr_reachable b0 s" and "cb_inv b0" and "lock b0 = Some 0"
    and "\<forall>t. in_call (pcs s t) \<longrightarrow> keeps_scheduling sched t"
  shows "\<exists>n. \<forall>t. \<not> in_call (pcs (turns (first_turns n sched) s) t)"
proof -
  from cr_reachable_inv [OF assms(1-3)] obtain b where "cr_inv b0 b s" by blast
  then show ?thesis
    using calls_complete [OF _ finite_in_call [OF assms(1-3)] subset_refl] assms(4) by blast
qed

text \<open>Two threads that take turns.\<close>

theorem circular_buffer_calls_complete_witness:
  "\<exists>n. \<forall>t. \<not> in_call (pcs (turns (first_turns n (\<lambda>k. k mod 2)) (cr_call 1 CPop (cr_call 0 (CPush 5) (cr_init cb_two)))) t)"
proof -
  let ?s = "cr_call 1 CPop (cr_call 0 (CPush 5) (cr_init cb_two))"
  have r: "cr_reachable cb_two ?s" by (intro cr_reachable.intros)
  have "keeps_scheduling (\<lambda>k. k mod 2) t" if "t < 2" for t :: nat
    unfolding keeps_scheduling_def
  proof
    fix n
    have "n \<le> 2 * n + t \<and> (2 * n + t) mod 2 = t" using that by simp
    then show "\<exists>m \<ge> n. m mod 2 = t" by blast
  qed
  moreover have "t < 2" if "in_call (pcs ?s t)" for t
    using that by (auto simp: cr_call_def cr_init_def split: if_splits)
  ultimately have "\<forall>t. in_call (pcs ?s t) \<longrightarrow> keeps_scheduling (\<lambda>k. k mod 2) t" by blast
  moreover have "lock cb_two = Some 0" by (simp add: cb_two_def)
  ultimately show ?thesis using circular_buffer_calls_complete [OF r cb_two_inv] by blast
qed

end
