(* ===== verification/Thread_Local.thy ===== *)
theory Thread_Local
  imports Lilu_Base
begin

text \<open>
  The class template \<open>ThreadLocal\<close> of \<open>kern_util.hpp\<close>: \<open>N\<close> slots, each with an atomic thread
  identifier and a value. \<open>set\<close>, \<open>get\<close> and \<open>erase\<close> take no lock, so threads interleave between
  any two accesses of the arrays. The model is a step function for one thread, one atomic
  access at a time, and the reachable states of any number of threads that call the operations
  in any order. The atomic operations are sequentially consistent here; \<open>Thread_Memory_Order\<close> has the acquire and
  release orders of the source and shows what they change.
\<close>

section \<open>State\<close>

type_synonym tid = nat

text \<open>
  Where a thread is in its current call. The number is the loop index or the slot the local
  pointer \<open>ptr\<close> refers to.
  \<^item> \<open>SetFind v i\<close>, \<open>SetClaim v i\<close>: before iteration \<open>i\<close> of the first and of the second loop of \<open>set(v)\<close>;
    \<open>SetStore v i\<close>: before \<open>*ptr = value\<close> with \<open>ptr = &values[i]\<close>.
  \<^item> \<open>GetFind i\<close>: before iteration \<open>i\<close> of \<open>get\<close>.
  \<^item> \<open>EraseFind i\<close>: before iteration \<open>i\<close> of \<open>erase\<close>; \<open>EraseClear i\<close>: before \<open>values[i] = {}\<close>;
    \<open>EraseRelease i\<close>: before the compare-exchange.
\<close>

datatype 'a pc = Idle | SetFind 'a nat | SetClaim 'a nat | SetStore 'a nat
  | GetFind nat | EraseFind nat | EraseClear nat | EraseRelease nat

datatype tl_result = NoResult | SetDone bool | GetDone "nat option" | EraseDone bool

datatype 'a tl_op = CallSet 'a | CallGet | CallErase

text \<open>
  \<open>latest\<close> is not in the code: it records, for each thread, the value of its latest completed \<open>set\<close>
  that no \<open>erase\<close> of the same thread has removed since.
\<close>

record 'a tls =
  threads :: "tid option list"
  vals :: "'a list"
  pcs :: "tid \<Rightarrow> 'a pc"
  results :: "tid \<Rightarrow> tl_result"
  latest :: "tid \<Rightarrow> 'a option"

text \<open>\<open>dflt\<close> is the value \<open>T {}\<close>; a null thread is \<open>None\<close>.\<close>

definition tl_init :: "'a \<Rightarrow> nat \<Rightarrow> 'a tls" where
  "tl_init dflt N = \<lparr>threads = replicate N None, vals = replicate N dflt,
     pcs = (\<lambda>_. Idle), results = (\<lambda>_. NoResult), latest = (\<lambda>_. None)\<rparr>"

section \<open>The operations, one atomic access at a time\<close>

definition goto :: "tid \<Rightarrow> 'a pc \<Rightarrow> 'a tls \<Rightarrow> 'a tls" where
  "goto t p s = s\<lparr>pcs := (pcs s)(t := p)\<rparr>"

definition finish :: "tid \<Rightarrow> tl_result \<Rightarrow> 'a tls \<Rightarrow> 'a tls" where
  "finish t r s = s\<lparr>pcs := (pcs s)(t := Idle), results := (results s)(t := r)\<rparr>"

fun tl_call :: "tid \<Rightarrow> 'a tl_op \<Rightarrow> 'a tls \<Rightarrow> 'a tls" where
  "tl_call t (CallSet v) s = goto t (SetFind v 0) s"
| "tl_call t CallGet s = goto t (GetFind 0) s"
| "tl_call t CallErase s = goto t (EraseFind 0) s"

definition tl_set_step :: "tid \<Rightarrow> 'a tls \<Rightarrow> 'a tls" where
  "tl_set_step t s = (case pcs s t of
     SetFind v i \<Rightarrow>
       if i < length (threads s) then
         if threads s ! i = Some t then goto t (SetStore v i) s else goto t (SetFind v (Suc i)) s
       else goto t (SetClaim v 0) s
   | SetClaim v i \<Rightarrow>
       if i < length (threads s) then
         if threads s ! i = None then goto t (SetStore v i) (s\<lparr>threads := (threads s)[i := Some t]\<rparr>)
         else goto t (SetClaim v (Suc i)) s
       else finish t (SetDone False) s
   | SetStore v i \<Rightarrow>
       finish t (SetDone True) (s\<lparr>vals := (vals s)[i := v], latest := (latest s)(t := Some v)\<rparr>)
   | _ \<Rightarrow> s)"

definition tl_get_step :: "tid \<Rightarrow> 'a tls \<Rightarrow> 'a tls" where
  "tl_get_step t s = (case pcs s t of
     GetFind i \<Rightarrow>
       if i < length (threads s) then
         if threads s ! i = Some t then finish t (GetDone (Some i)) s else goto t (GetFind (Suc i)) s
       else finish t (GetDone None) s
   | _ \<Rightarrow> s)"

definition tl_erase_step :: "'a \<Rightarrow> tid \<Rightarrow> 'a tls \<Rightarrow> 'a tls" where
  "tl_erase_step dflt t s = (case pcs s t of
     EraseFind i \<Rightarrow>
       if i < length (threads s) then
         if threads s ! i = Some t then goto t (EraseClear i) s else goto t (EraseFind (Suc i)) s
       else finish t (EraseDone False) s
   | EraseClear i \<Rightarrow>
       goto t (EraseRelease i) (s\<lparr>vals := (vals s)[i := dflt], latest := (latest s)(t := None)\<rparr>)
   | EraseRelease i \<Rightarrow>
       if threads s ! i = Some t then finish t (EraseDone True) (s\<lparr>threads := (threads s)[i := None]\<rparr>)
       else finish t (EraseDone False) s
   | _ \<Rightarrow> s)"

text \<open>The next access of thread \<open>t\<close>; nothing happens when it is not in a call.\<close>

definition tl_step :: "'a \<Rightarrow> tid \<Rightarrow> 'a tls \<Rightarrow> 'a tls" where
  "tl_step dflt t s = (case pcs s t of
     Idle \<Rightarrow> s
   | SetFind v i \<Rightarrow> tl_set_step t s | SetClaim v i \<Rightarrow> tl_set_step t s | SetStore v i \<Rightarrow> tl_set_step t s
   | GetFind i \<Rightarrow> tl_get_step t s
   | _ \<Rightarrow> tl_erase_step dflt t s)"

text \<open>
  \<open>deinit\<close> is for a container no thread uses any more, so its stores, one slot after the other, are a loop here and not
  steps that other threads could see.
\<close>

fun tl_deinit_from :: "'a \<Rightarrow> nat \<Rightarrow> 'a tls \<Rightarrow> 'a tls" where
  "tl_deinit_from dflt 0 s = s"
| "tl_deinit_from dflt (Suc k) s =
     (let i = length (threads s) - Suc k
      in tl_deinit_from dflt k (s\<lparr>threads := (threads s)[i := None], vals := (vals s)[i := dflt],
           latest := (\<lambda>_. None)\<rparr>))"

definition tl_deinit :: "'a \<Rightarrow> 'a tls \<Rightarrow> 'a tls" where
  "tl_deinit dflt s = tl_deinit_from dflt (length (threads s)) s"

inductive tl_reachable :: "'a \<Rightarrow> nat \<Rightarrow> 'a tls \<Rightarrow> bool" for dflt N where
  start: "tl_reachable dflt N (tl_init dflt N)"
| call: "tl_reachable dflt N s \<Longrightarrow> pcs s t = Idle \<Longrightarrow> tl_reachable dflt N (tl_call t c s)"
| step: "tl_reachable dflt N s \<Longrightarrow> tl_reachable dflt N (tl_step dflt t s)"

section \<open>Invariant\<close>

definition owns :: "'a tls \<Rightarrow> tid \<Rightarrow> nat \<Rightarrow> bool" where
  "owns s t i \<longleftrightarrow> i < length (threads s) \<and> threads s ! i = Some t"

text \<open>What is known about the slots when a thread is at a given point of a call.\<close>

fun pc_ok :: "'a \<Rightarrow> 'a tls \<Rightarrow> tid \<Rightarrow> 'a pc \<Rightarrow> bool" where
  "pc_ok dflt s t Idle = True"
| "pc_ok dflt s t (SetFind v i) = (i \<le> length (threads s) \<and> (\<forall>k<i. \<not> owns s t k))"
| "pc_ok dflt s t (SetClaim v i) = (i \<le> length (threads s) \<and> (\<forall>k. \<not> owns s t k))"
| "pc_ok dflt s t (SetStore v i) = owns s t i"
| "pc_ok dflt s t (GetFind i) = (i \<le> length (threads s) \<and> (\<forall>k<i. \<not> owns s t k))"
| "pc_ok dflt s t (EraseFind i) = (i \<le> length (threads s) \<and> (\<forall>k<i. \<not> owns s t k))"
| "pc_ok dflt s t (EraseClear i) = owns s t i"
| "pc_ok dflt s t (EraseRelease i) = (owns s t i \<and> vals s ! i = dflt \<and> latest s t = None)"

definition slot_value :: "'a \<Rightarrow> 'a option \<Rightarrow> 'a" where
  "slot_value dflt l = (case l of None \<Rightarrow> dflt | Some v \<Rightarrow> v)"

definition tl_inv :: "'a \<Rightarrow> nat \<Rightarrow> 'a tls \<Rightarrow> bool" where
  "tl_inv dflt N s \<longleftrightarrow> length (threads s) = N \<and> length (vals s) = N \<and>
     (\<forall>t i j. owns s t i \<longrightarrow> owns s t j \<longrightarrow> i = j) \<and>
     (\<forall>i<N. threads s ! i = None \<longrightarrow> vals s ! i = dflt) \<and>
     (\<forall>t i. owns s t i \<longrightarrow> vals s ! i = slot_value dflt (latest s t)) \<and>
     (\<forall>t. (\<forall>i. \<not> owns s t i) \<longrightarrow> latest s t = None) \<and>
     (\<forall>t. pc_ok dflt s t (pcs s t))"

lemma tl_invD:
  assumes "tl_inv dflt N s"
  shows "length (threads s) = N" "length (vals s) = N"
    "owns s t i \<Longrightarrow> owns s t j \<Longrightarrow> i = j"
    "i < N \<Longrightarrow> threads s ! i = None \<Longrightarrow> vals s ! i = dflt"
    "owns s t i \<Longrightarrow> vals s ! i = slot_value dflt (latest s t)"
    "(\<forall>i. \<not> owns s t i) \<Longrightarrow> latest s t = None"
    "pc_ok dflt s t (pcs s t)"
  using assms by (auto simp: tl_inv_def)

lemma slot_value_simps [simp]: "slot_value d None = d" "slot_value d (Some v) = v"
  by (simp_all add: slot_value_def)

lemma tl_inv_init: "tl_inv dflt N (tl_init dflt N)"
  by (auto simp: tl_inv_def tl_init_def owns_def)

text \<open>Moving one thread's program counter changes nothing else.\<close>

lemma goto_sel [simp]:
  "threads (goto t p s) = threads s" "vals (goto t p s) = vals s" "latest (goto t p s) = latest s"
  "results (goto t p s) = results s" "pcs (goto t p s) = (pcs s)(t := p)"
  by (simp_all add: goto_def)

lemma finish_sel [simp]:
  "threads (finish t r s) = threads s" "vals (finish t r s) = vals s" "latest (finish t r s) = latest s"
  "results (finish t r s) = (results s)(t := r)" "pcs (finish t r s) = (pcs s)(t := Idle)"
  by (simp_all add: finish_def)

lemma owns_goto [simp]: "owns (goto t p s) u i = owns s u i"
  by (simp add: owns_def goto_def)

lemma owns_finish [simp]: "owns (finish t r s) u i = owns s u i"
  by (simp add: owns_def finish_def)

lemma pc_ok_frame:
  "(\<And>i. owns s' u i = owns s u i) \<Longrightarrow> length (threads s') = length (threads s) \<Longrightarrow>
   (\<And>i. owns s u i \<Longrightarrow> vals s' ! i = vals s ! i) \<Longrightarrow> latest s' u = latest s u \<Longrightarrow>
   pc_ok dflt s u p \<Longrightarrow> pc_ok dflt s' u p"
  by (cases p) auto

lemma tl_inv_goto:
  assumes "tl_inv dflt N s" and "pc_ok dflt s t p"
  shows "tl_inv dflt N (goto t p s)"
proof -
  have "pc_ok dflt (goto t p s) u (pcs (goto t p s) u)" for u
    using assms by (intro pc_ok_frame [of "goto t p s" u s]) (auto simp: goto_def tl_inv_def owns_def)
  with assms show ?thesis by (simp add: tl_inv_def)
qed

lemma finish_as_goto: "finish t r s = (goto t Idle s)\<lparr>results := (results s)(t := r)\<rparr>"
  by (simp add: finish_def goto_def)

lemma tl_inv_results: "tl_inv dflt N s \<Longrightarrow> tl_inv dflt N (s\<lparr>results := f\<rparr>)"
proof -
  assume "tl_inv dflt N s"
  moreover have "pc_ok dflt (s\<lparr>results := f\<rparr>) u p = pc_ok dflt s u p" for u p
    by (cases p) (simp_all add: owns_def)
  ultimately show ?thesis by (simp add: tl_inv_def owns_def)
qed

lemma tl_inv_finish: "tl_inv dflt N s \<Longrightarrow> tl_inv dflt N (finish t r s)"
  unfolding finish_as_goto by (intro tl_inv_results tl_inv_goto) simp_all

text \<open>A thread that changes the arrays only where it owns or claims a slot keeps the invariant.\<close>

lemma tl_inv_update:
  assumes inv: "tl_inv dflt N s"
    and shape: "length (threads s') = N" "length (vals s') = N" "pcs s' = pcs s"
    and others: "\<And>u k. u \<noteq> t \<Longrightarrow> owns s' u k = owns s u k" "\<And>u. u \<noteq> t \<Longrightarrow> latest s' u = latest s u"
      "\<And>u k. u \<noteq> t \<Longrightarrow> owns s u k \<Longrightarrow> vals s' ! k = vals s ! k"
    and own: "\<And>i j. owns s' t i \<Longrightarrow> owns s' t j \<Longrightarrow> i = j"
      "\<And>i. owns s' t i \<Longrightarrow> vals s' ! i = slot_value dflt (latest s' t)"
      "(\<forall>i. \<not> owns s' t i) \<Longrightarrow> latest s' t = None"
    and empty: "\<And>i. i < N \<Longrightarrow> threads s' ! i = None \<Longrightarrow> vals s' ! i = dflt"
    and pc: "pc_ok dflt s' t p"
  shows "tl_inv dflt N (goto t p s')"
proof -
  let ?s = "goto t p s'"
  note D = tl_invD [OF inv]
  have "pc_ok dflt ?s u (pcs ?s u)" for u
  proof (cases "u = t")
    case True
    then show ?thesis
      using pc by (intro pc_ok_frame [of ?s u s']) (auto simp: goto_def owns_def)
  next
    case False
    then have "pc_ok dflt ?s u (pcs s u)"
      using D(1,7) others by (intro pc_ok_frame [of ?s u s]) (auto simp: goto_def owns_def shape)
    with False show ?thesis by (simp add: shape)
  qed
  moreover have "i = j" if "owns s' u i" "owns s' u j" for u i j
    using that own(1) others(1) D(3) by (cases "u = t") auto
  moreover have "vals s' ! i = slot_value dflt (latest s' u)" if "owns s' u i" for u i
    using that own(2) others D(5) by (cases "u = t") auto
  moreover have "latest s' u = None" if "\<forall>i. \<not> owns s' u i" for u
    using that own(3) others D(6) by (cases "u = t") auto
  ultimately show ?thesis
    using shape empty unfolding tl_inv_def by (simp add: fun_upd_def)
qed

lemma owns_threads_update:
  "i < length (threads s) \<Longrightarrow>
   owns (s\<lparr>threads := (threads s)[i := x]\<rparr>) u k \<longleftrightarrow> (if k = i then x = Some u else owns s u k)"
  by (auto simp: owns_def nth_list_update)

lemma tl_inv_claim:
  assumes "tl_inv dflt N s" and "i < N" and "threads s ! i = None" and "\<forall>k. \<not> owns s t k"
  shows "tl_inv dflt N (goto t (SetStore v i) (s\<lparr>threads := (threads s)[i := Some t]\<rparr>))"
proof -
  note D = tl_invD [OF assms(1)]
  have i: "i < length (threads s)" using assms(2) D(1) by simp
  have free: "\<not> owns s u i" for u using assms(3) by (simp add: owns_def)
  show ?thesis
    by (rule tl_inv_update [OF assms(1)])
      (use assms D i free in \<open>auto simp: owns_threads_update nth_list_update split: if_splits\<close>)
qed

lemma tl_inv_write:
  assumes "tl_inv dflt N s" and "owns s t i" and "x = slot_value dflt l"
    and "pc_ok dflt (s\<lparr>vals := (vals s)[i := x], latest := (latest s)(t := l)\<rparr>) t p"
  shows "tl_inv dflt N (goto t p (s\<lparr>vals := (vals s)[i := x], latest := (latest s)(t := l)\<rparr>))"
proof -
  let ?s = "s\<lparr>vals := (vals s)[i := x], latest := (latest s)(t := l)\<rparr>"
  note D = tl_invD [OF assms(1)]
  have i: "i < N" "threads s ! i = Some t" using assms(2) D(1) by (simp_all add: owns_def)
  have o: "owns ?s u k = owns s u k" for u k by (simp add: owns_def)
  have other: "\<not> owns s u i" if "u \<noteq> t" for u
    using that assms(2) by (auto simp: owns_def)
  show ?thesis
    by (rule tl_inv_update [OF assms(1)])
      (use assms D i o other in \<open>auto simp: nth_list_update split: if_splits\<close>)
qed

lemma tl_inv_release:
  assumes "tl_inv dflt N s" and "owns s t i" and "vals s ! i = dflt" and "latest s t = None"
  shows "tl_inv dflt N (goto t Idle (s\<lparr>threads := (threads s)[i := None]\<rparr>))"
proof -
  note D = tl_invD [OF assms(1)]
  have i: "i < length (threads s)" using assms(2) by (simp add: owns_def)
  have other: "\<not> owns s u i" if "u \<noteq> t" for u
    using that assms(2) by (auto simp: owns_def)
  show ?thesis
    by (rule tl_inv_update [OF assms(1)])
      (use assms D i other in \<open>auto simp: owns_threads_update nth_list_update split: if_splits\<close>)
qed

text \<open>Every access keeps the invariant.\<close>

lemma not_owns_Suc: "\<lbrakk>\<forall>k<i. \<not> owns s t k; threads s ! i \<noteq> Some t\<rbrakk> \<Longrightarrow> \<forall>k<Suc i. \<not> owns s t k"
  by (auto simp: less_Suc_eq owns_def)

lemma not_owns_all: "\<lbrakk>\<forall>k<i. \<not> owns s t k; length (threads s) \<le> i\<rbrakk> \<Longrightarrow> \<not> owns s t k"
  by (meson leI le_trans not_le owns_def)

lemma tl_set_step_inv:
  assumes "tl_inv dflt N s"
  shows "tl_inv dflt N (tl_set_step t s)"
proof -
  note D = tl_invD [OF assms]
  show ?thesis
  proof (cases "pcs s t")
    case (SetFind v i)
    with D(7) [of t] show ?thesis
      by (auto simp: tl_set_step_def owns_def intro!: tl_inv_goto [OF assms]
          dest: not_owns_all dest!: not_owns_Suc simp: less_Suc_eq)
  next
    case (SetClaim v i)
    with D(7) [of t] show ?thesis
      by (auto simp: D(1) tl_set_step_def finish_as_goto intro!: tl_inv_goto [OF assms] tl_inv_results
          tl_inv_claim [OF assms])
  next
    case (SetStore v i)
    with D(7) [of t] show ?thesis
      by (auto simp: tl_set_step_def finish_as_goto intro!: tl_inv_results tl_inv_write [OF assms])
  qed (use assms in \<open>simp_all add: tl_set_step_def\<close>)
qed

lemma tl_get_step_inv:
  assumes "tl_inv dflt N s"
  shows "tl_inv dflt N (tl_get_step t s)"
  using tl_invD(7) [OF assms, of t] assms
  by (auto simp: tl_get_step_def owns_def less_Suc_eq intro!: tl_inv_goto tl_inv_finish split: pc.split)

lemma tl_erase_step_inv:
  assumes "tl_inv dflt N s"
  shows "tl_inv dflt N (tl_erase_step dflt t s)"
proof -
  note D = tl_invD [OF assms]
  show ?thesis
  proof (cases "pcs s t")
    case (EraseFind i)
    with D(7) [of t] show ?thesis
      by (auto simp: tl_erase_step_def owns_def less_Suc_eq intro!: tl_inv_goto tl_inv_finish assms)
  next
    case (EraseClear i)
    with D(7) [of t] have own: "owns s t i" by simp
    let ?s = "s\<lparr>vals := (vals s)[i := dflt], latest := (latest s)(t := None)\<rparr>"
    from own D(1,2) have "pc_ok dflt ?s t (EraseRelease i)" by (simp add: owns_def)
    with own EraseClear show ?thesis
      by (auto simp: tl_erase_step_def intro!: tl_inv_write [OF assms])
  next
    case (EraseRelease i)
    with D(7) [of t] have own: "owns s t i" "vals s ! i = dflt" "latest s t = None" by simp_all
    with EraseRelease tl_inv_results [OF tl_inv_release [OF assms own]] show ?thesis
      by (simp add: tl_erase_step_def finish_as_goto owns_def)
  qed (use assms in \<open>simp_all add: tl_erase_step_def\<close>)
qed

lemma tl_step_inv: "tl_inv dflt N s \<Longrightarrow> tl_inv dflt N (tl_step dflt t s)"
  by (cases "pcs s t") (simp_all add: tl_step_def tl_set_step_inv tl_get_step_inv tl_erase_step_inv)

lemma tl_call_inv: "tl_inv dflt N s \<Longrightarrow> tl_inv dflt N (tl_call t c s)"
  by (cases c) (auto intro: tl_inv_goto)

lemma tl_reachable_inv: "tl_reachable dflt N s \<Longrightarrow> tl_inv dflt N s"
  by (induction rule: tl_reachable.induct) (auto intro: tl_inv_init tl_call_inv tl_step_inv)

section \<open>Progress: every call ends after a bounded number of its own accesses\<close>

text \<open>How many accesses a call may still make, with \<open>N\<close> slots.\<close>

fun accesses_left :: "nat \<Rightarrow> 'a pc \<Rightarrow> nat" where
  "accesses_left N Idle = 0"
| "accesses_left N (SetFind v i) = 2 * N + 3 - i"
| "accesses_left N (SetClaim v i) = N + 2 - i"
| "accesses_left N (SetStore v i) = 1"
| "accesses_left N (GetFind i) = N + 1 - i"
| "accesses_left N (EraseFind i) = N + 3 - i"
| "accesses_left N (EraseClear i) = 2"
| "accesses_left N (EraseRelease i) = 1"

lemma tl_step_progress:
  assumes "tl_inv dflt N s" and "pcs s t \<noteq> Idle"
  shows "accesses_left N (pcs (tl_step dflt t s) t) < accesses_left N (pcs s t)"
  using tl_invD(1) [OF assms(1)] tl_invD(7) [OF assms(1), of t] assms(2)
  by (cases "pcs s t") (auto simp: tl_step_def tl_set_step_def tl_get_step_def tl_erase_step_def owns_def)

lemma tl_step_other: "u \<noteq> t \<Longrightarrow> pcs (tl_step dflt u s) t = pcs s t \<and> results (tl_step dflt u s) t = results s t"
  by (cases "pcs s u") (simp_all add: tl_step_def tl_set_step_def tl_get_step_def tl_erase_step_def)

text \<open>A schedule is a list of threads; each entry lets that thread make one access.\<close>

fun tl_sched :: "'a \<Rightarrow> tid list \<Rightarrow> 'a tls \<Rightarrow> 'a tls" where
  "tl_sched dflt [] s = s"
| "tl_sched dflt (u # us) s = tl_sched dflt us (tl_step dflt u s)"

lemma tl_sched_inv: "tl_inv dflt N s \<Longrightarrow> tl_inv dflt N (tl_sched dflt us s)"
  by (induction us arbitrary: s) (auto intro: tl_step_inv)

lemma tl_step_idle: "pcs s t = Idle \<Longrightarrow> tl_step dflt t s = s"
  by (simp add: tl_step_def)

lemma tl_sched_idle: "pcs s t = Idle \<Longrightarrow> pcs (tl_sched dflt us s) t = Idle"
proof (induction us arbitrary: s)
  case (Cons u us)
  then show ?case by (cases "u = t") (simp_all add: tl_step_idle tl_step_other)
qed simp

lemma tl_sched_ends:
  "tl_inv dflt N s \<Longrightarrow> accesses_left N (pcs s t) \<le> count_list us t \<Longrightarrow> pcs (tl_sched dflt us s) t = Idle"
proof (induction us arbitrary: s)
  case Nil
  then show ?case using tl_invD(1) [OF Nil(1)] tl_invD(7) [OF Nil(1), of t]
    by (cases "pcs s t") (auto simp: owns_def)
next
  case (Cons u us)
  show ?case
  proof (cases "u = t \<and> pcs s t \<noteq> Idle")
    case True
    with tl_step_progress [OF Cons.prems(1), of t] Cons.prems(2)
    have "accesses_left N (pcs (tl_step dflt t s) t) \<le> count_list us t" by simp
    with True Cons.IH [OF tl_step_inv [OF Cons.prems(1)]] show ?thesis by simp
  next
    case False
    then show ?thesis
      using Cons tl_step_inv [OF Cons.prems(1), of u]
      by (cases "u = t") (simp_all add: tl_step_other tl_step_idle tl_sched_idle)
  qed
qed

section \<open>A call that is not interrupted\<close>

text \<open>The map from threads to values that the container stands for.\<close>

definition tl_map :: "'a tls \<Rightarrow> tid \<rightharpoonup> 'a" where
  "tl_map s t = (if Some t \<in> set (threads s) then map_of (zip (threads s) (vals s)) (Some t) else None)"

definition tl_alone :: "'a \<Rightarrow> tid \<Rightarrow> 'a tls \<Rightarrow> 'a tls" where
  "tl_alone dflt t s = (tl_step dflt t ^^ (2 * length (threads s) + 3)) s"

lemma owns_in_set: "(\<exists>i. owns s t i) \<longleftrightarrow> Some t \<in> set (threads s)"
  by (auto simp: owns_def in_set_conv_nth)

lemma tl_map_owned:
  assumes "tl_inv dflt N s" and "owns s t i"
  shows "tl_map s t = Some (vals s ! i)"
proof -
  note D = tl_invD [OF assms(1)]
  from assms have t: "Some t \<in> set (threads s)" by (auto simp: owns_in_set [symmetric])
  then obtain v where v: "map_of (zip (threads s) (vals s)) (Some t) = Some v"
    by (metis D(1,2) map_of_zip_is_Some)
  then obtain k where "k < N" "threads s ! k = Some t" "vals s ! k = v"
    using map_of_SomeD [OF v] D(1,2) by (auto simp: in_set_zip)
  with assms(2) D(3) [of t k i] D(1) have "vals s ! i = v" by (simp add: owns_def)
  with t v show ?thesis by (simp add: tl_map_def)
qed

lemma tl_map_free: "\<forall>i. \<not> owns s t i \<Longrightarrow> tl_map s t = None"
  using owns_in_set [of s t] by (auto simp: tl_map_def)

lemma tl_map_eq:
  assumes "tl_inv dflt N s" and "tl_inv dflt N s'"
    and "\<And>i. owns s' u i = owns s u i" and "\<And>i. owns s u i \<Longrightarrow> vals s' ! i = vals s ! i"
  shows "tl_map s' u = tl_map s u"
proof (cases "\<exists>i. owns s u i")
  case True
  then obtain i where "owns s u i" by blast
  with assms show ?thesis by (simp add: tl_map_owned)
qed (use assms(3) in \<open>simp add: tl_map_free\<close>)

text \<open>A loop that passes over slots: \<open>P i\<close> is the program counter before iteration \<open>i\<close>.\<close>

lemma scan:
  assumes pass: "\<And>s i. pcs s t = P i \<Longrightarrow> i < length (threads s) \<Longrightarrow> \<not> Q (threads s ! i) \<Longrightarrow>
      tl_step dflt t s = goto t (P (Suc i)) s"
    and at: "pcs s t = P i"
  shows "i \<le> j \<Longrightarrow> j \<le> length (threads s) \<Longrightarrow> (\<And>k. i \<le> k \<Longrightarrow> k < j \<Longrightarrow> \<not> Q (threads s ! k)) \<Longrightarrow>
    (tl_step dflt t ^^ (j - i)) s = goto t (P j) s"
proof (induction j)
  case 0
  then show ?case using at by (simp add: goto_def fun_upd_idem)
next
  case (Suc j)
  show ?case
  proof (cases "i = Suc j")
    case True
    then show ?thesis using at by (simp add: goto_def fun_upd_idem)
  next
    case False
    with Suc.prems have "i \<le> j" by simp
    with Suc have "(tl_step dflt t ^^ (j - i)) s = goto t (P j) s" by simp
    moreover have "tl_step dflt t (goto t (P j) s) = goto t (P (Suc j)) (goto t (P j) s)"
      using Suc.prems \<open>i \<le> j\<close> by (intro pass) simp_all
    ultimately show ?thesis using \<open>i \<le> j\<close> by (simp add: Suc_diff_le goto_def)
  qed
qed

lemma alone_stays: "pcs s t = Idle \<Longrightarrow> (tl_step dflt t ^^ n) s = s"
  by (induction n) (simp_all add: tl_step_idle)

lemma alone_at:
  assumes "(tl_step dflt t ^^ m) s = s'" and "pcs s' t = Idle" and "m \<le> 2 * length (threads s) + 3"
  shows "tl_alone dflt t s = s'"
proof -
  have "2 * length (threads s) + 3 = (2 * length (threads s) + 3 - m) + m" using assms(3) by simp
  then have "tl_alone dflt t s = (tl_step dflt t ^^ (2 * length (threads s) + 3 - m)) s'"
    unfolding tl_alone_def using assms(1) by (metis funpow_add comp_apply)
  with alone_stays [OF assms(2)] show ?thesis by simp
qed

lemma goto_goto [simp]: "goto t p (goto t q s) = goto t p s"
  by (simp add: goto_def)

lemma least_owned:
  assumes "tl_inv dflt N s" and "owns s t i" and "k < i"
  shows "threads s ! k \<noteq> Some t"
proof
  assume "threads s ! k = Some t"
  with assms(2,3) have "owns s t k" by (simp add: owns_def)
  with tl_invD(3) [OF assms(1) this assms(2)] assms(3) show False by simp
qed

lemma set_alone_owned:
  assumes "tl_inv dflt N s" and "owns s t i"
  shows "tl_alone dflt t (goto t (SetFind v 0) s) =
    finish t (SetDone True) (s\<lparr>vals := (vals s)[i := v], latest := (latest s)(t := Some v)\<rparr>)"
proof (rule alone_at)
  have i: "i < length (threads s)" "threads s ! i = Some t" using assms(2) by (auto simp: owns_def)
  have "(tl_step dflt t ^^ (i - 0)) (goto t (SetFind v 0) s) = goto t (SetFind v i) (goto t (SetFind v 0) s)"
    using i least_owned [OF assms]
    by (intro scan [where Q = "\<lambda>x. x = Some t"]) (auto simp: tl_step_def tl_set_step_def)
  with i show "(tl_step dflt t ^^ Suc (Suc i)) (goto t (SetFind v 0) s) =
      finish t (SetDone True) (s\<lparr>vals := (vals s)[i := v], latest := (latest s)(t := Some v)\<rparr>)"
    by (simp add: tl_step_def tl_set_step_def goto_def finish_def)
qed (use assms in \<open>auto simp: owns_def\<close>)

lemma set_reaches_claim:
  assumes "\<forall>i. \<not> owns s t i"
  shows "(tl_step dflt t ^^ Suc (length (threads s))) (goto t (SetFind v 0) s) = goto t (SetClaim v 0) s"
proof -
  have "(tl_step dflt t ^^ (length (threads s) - 0)) (goto t (SetFind v 0) s)
      = goto t (SetFind v (length (threads s))) (goto t (SetFind v 0) s)"
    using assms
    by (intro scan [where Q = "\<lambda>x. x = Some t"]) (auto simp: tl_step_def tl_set_step_def owns_def)
  then show ?thesis by (simp add: tl_step_def tl_set_step_def)
qed

lemma set_alone_claim:
  assumes "\<forall>i. \<not> owns s t i" and "i < length (threads s)" and "threads s ! i = None"
    and "\<And>k. k < i \<Longrightarrow> threads s ! k \<noteq> None"
  shows "tl_alone dflt t (goto t (SetFind v 0) s) = finish t (SetDone True)
    (s\<lparr>threads := (threads s)[i := Some t], vals := (vals s)[i := v], latest := (latest s)(t := Some v)\<rparr>)"
proof (rule alone_at)
  have "(tl_step dflt t ^^ (i - 0)) (goto t (SetClaim v 0) s) = goto t (SetClaim v i) (goto t (SetClaim v 0) s)"
    using assms by (intro scan [where Q = "\<lambda>x. x = None"]) (auto simp: tl_step_def tl_set_step_def)
  with assms have "(tl_step dflt t ^^ Suc (Suc i)) (goto t (SetClaim v 0) s) = finish t (SetDone True)
    (s\<lparr>threads := (threads s)[i := Some t], vals := (vals s)[i := v], latest := (latest s)(t := Some v)\<rparr>)"
    by (simp add: tl_step_def tl_set_step_def goto_def finish_def)
  then show "(tl_step dflt t ^^ (Suc (Suc i) + Suc (length (threads s)))) (goto t (SetFind v 0) s) = finish t (SetDone True)
    (s\<lparr>threads := (threads s)[i := Some t], vals := (vals s)[i := v], latest := (latest s)(t := Some v)\<rparr>)"
    by (simp only: funpow_add comp_apply set_reaches_claim [OF assms(1)])
qed (use assms in simp_all)

lemma set_alone_full:
  assumes "\<forall>i. \<not> owns s t i" and "None \<notin> set (threads s)"
  shows "tl_alone dflt t (goto t (SetFind v 0) s) = finish t (SetDone False) s"
proof (rule alone_at)
  let ?n = "length (threads s)"
  have "(tl_step dflt t ^^ (?n - 0)) (goto t (SetClaim v 0) s) = goto t (SetClaim v ?n) (goto t (SetClaim v 0) s)"
    using assms(2) by (intro scan [where Q = "\<lambda>x. x = None"])
      (auto simp: tl_step_def tl_set_step_def in_set_conv_nth)
  then have "(tl_step dflt t ^^ Suc ?n) (goto t (SetClaim v 0) s) = finish t (SetDone False) s"
    by (simp add: tl_step_def tl_set_step_def goto_def finish_def)
  then show "(tl_step dflt t ^^ (Suc ?n + Suc ?n)) (goto t (SetFind v 0) s) = finish t (SetDone False) s"
    by (simp only: funpow_add comp_apply set_reaches_claim [OF assms(1)])
qed simp_all

lemma get_alone_owned:
  assumes "tl_inv dflt N s" and "owns s t i"
  shows "tl_alone dflt t (goto t (GetFind 0) s) = finish t (GetDone (Some i)) s"
proof (rule alone_at)
  have i: "i < length (threads s)" "threads s ! i = Some t" using assms(2) by (auto simp: owns_def)
  have "(tl_step dflt t ^^ (i - 0)) (goto t (GetFind 0) s) = goto t (GetFind i) (goto t (GetFind 0) s)"
    using i least_owned [OF assms]
    by (intro scan [where Q = "\<lambda>x. x = Some t"]) (auto simp: tl_step_def tl_get_step_def)
  with i show "(tl_step dflt t ^^ Suc i) (goto t (GetFind 0) s) = finish t (GetDone (Some i)) s"
    by (simp add: tl_step_def tl_get_step_def goto_def finish_def)
qed (use assms in \<open>auto simp: owns_def\<close>)

lemma get_alone_free:
  assumes "\<forall>i. \<not> owns s t i"
  shows "tl_alone dflt t (goto t (GetFind 0) s) = finish t (GetDone None) s"
proof (rule alone_at)
  let ?n = "length (threads s)"
  have "(tl_step dflt t ^^ (?n - 0)) (goto t (GetFind 0) s) = goto t (GetFind ?n) (goto t (GetFind 0) s)"
    using assms by (intro scan [where Q = "\<lambda>x. x = Some t"]) (auto simp: tl_step_def tl_get_step_def owns_def)
  then show "(tl_step dflt t ^^ Suc ?n) (goto t (GetFind 0) s) = finish t (GetDone None) s"
    by (simp add: tl_step_def tl_get_step_def goto_def finish_def)
qed simp_all

lemma erase_alone_owned:
  assumes "tl_inv dflt N s" and "owns s t i"
  shows "tl_alone dflt t (goto t (EraseFind 0) s) = finish t (EraseDone True)
    (s\<lparr>threads := (threads s)[i := None], vals := (vals s)[i := dflt], latest := (latest s)(t := None)\<rparr>)"
proof (rule alone_at)
  have i: "i < length (threads s)" "threads s ! i = Some t" using assms(2) by (auto simp: owns_def)
  have "(tl_step dflt t ^^ (i - 0)) (goto t (EraseFind 0) s) = goto t (EraseFind i) (goto t (EraseFind 0) s)"
    using i least_owned [OF assms]
    by (intro scan [where Q = "\<lambda>x. x = Some t"]) (auto simp: tl_step_def tl_erase_step_def)
  with i show "(tl_step dflt t ^^ Suc (Suc (Suc i))) (goto t (EraseFind 0) s) = finish t (EraseDone True)
    (s\<lparr>threads := (threads s)[i := None], vals := (vals s)[i := dflt], latest := (latest s)(t := None)\<rparr>)"
    by (simp add: tl_step_def tl_erase_step_def goto_def finish_def)
qed (use assms in \<open>auto simp: owns_def\<close>)

lemma erase_alone_free:
  assumes "\<forall>i. \<not> owns s t i"
  shows "tl_alone dflt t (goto t (EraseFind 0) s) = finish t (EraseDone False) s"
proof (rule alone_at)
  let ?n = "length (threads s)"
  have "(tl_step dflt t ^^ (?n - 0)) (goto t (EraseFind 0) s) = goto t (EraseFind ?n) (goto t (EraseFind 0) s)"
    using assms by (intro scan [where Q = "\<lambda>x. x = Some t"]) (auto simp: tl_step_def tl_erase_step_def owns_def)
  then show "(tl_step dflt t ^^ Suc ?n) (goto t (EraseFind 0) s) = finish t (EraseDone False) s"
    by (simp add: tl_step_def tl_erase_step_def goto_def finish_def)
qed simp_all

lemma first_free:
  assumes "None \<in> set (threads s)"
  obtains i where "i < length (threads s)" "threads s ! i = None" "\<And>k. k < i \<Longrightarrow> threads s ! k \<noteq> None"
proof -
  let ?P = "\<lambda>i. i < length (threads s) \<and> threads s ! i = None"
  from assms obtain k where k: "?P k" by (auto simp: in_set_conv_nth)
  show ?thesis
  proof (rule that [of "LEAST i. ?P i"])
    show "(LEAST i. ?P i) < length (threads s)" "threads s ! (LEAST i. ?P i) = None"
      using LeastI [of ?P k, OF k] by simp_all
    show "threads s ! j \<noteq> None" if "j < (LEAST i. ?P i)" for j
      using not_less_Least [OF that] LeastI [of ?P k, OF k] that by auto
  qed
qed

lemma tl_alone_inv: "tl_inv dflt N s \<Longrightarrow> tl_inv dflt N (tl_alone dflt t s)"
proof -
  assume inv: "tl_inv dflt N s"
  have "tl_inv dflt N ((tl_step dflt t ^^ n) s)" for n
    using inv by (induction n) (auto intro: tl_step_inv)
  then show ?thesis by (simp add: tl_alone_def)
qed

text \<open>What each operation does to the map, from any state that satisfies the invariant.\<close>

lemma set_alone_map:
  fixes v :: 'a and dflt :: 'a and t :: tid and s :: "'a tls"
  assumes inv: "tl_inv dflt N s"
  defines "s' \<equiv> tl_alone dflt t (goto t (SetFind v 0) s)"
  shows "if tl_map s t \<noteq> None \<or> None \<in> set (threads s)
    then results s' t = SetDone True \<and> tl_map s' = (tl_map s)(t \<mapsto> v)
    else results s' t = SetDone False \<and> tl_map s' = tl_map s"
proof -
  note D = tl_invD [OF inv]
  have inv': "tl_inv dflt N s'"
    unfolding s'_def by (intro tl_alone_inv tl_inv_goto inv) simp
  note eq = tl_map_eq [OF inv inv']
  show ?thesis
  proof (cases "\<exists>i. owns s t i")
    case True
    then obtain i where i: "owns s t i" by blast
    have s': "s' = finish t (SetDone True) (s\<lparr>vals := (vals s)[i := v], latest := (latest s)(t := Some v)\<rparr>)"
      unfolding s'_def using inv i by (rule set_alone_owned)
    then have own: "owns s' u k = owns s u k" for u k by (simp add: owns_def)
    with i have "tl_map s' t = Some v"
      using tl_map_owned [OF inv', of t i] D(1,2) s' by (simp add: owns_def)
    moreover have "tl_map s' u = tl_map s u" if "u \<noteq> t" for u
      using that i s' D(1,2) by (intro eq own) (auto simp: owns_def nth_list_update)
    ultimately show ?thesis using tl_map_owned [OF inv i] s' by (auto simp: fun_eq_iff)
  next
    case False
    then have none: "\<forall>i. \<not> owns s t i" by blast
    show ?thesis
    proof (cases "None \<in> set (threads s)")
      case True
      then obtain i where i: "i < length (threads s)" "threads s ! i = None" "\<And>k. k < i \<Longrightarrow> threads s ! k \<noteq> None"
        using first_free [of s] by blast
      have s': "s' = finish t (SetDone True)
         (s\<lparr>threads := (threads s)[i := Some t], vals := (vals s)[i := v], latest := (latest s)(t := Some v)\<rparr>)"
        unfolding s'_def using none i by (rule set_alone_claim)
      then have "tl_map s' t = Some v"
        using tl_map_owned [OF inv', of t i] D(1,2) i by (simp add: owns_def)
      moreover have "tl_map s' u = tl_map s u" if "u \<noteq> t" for u
        using that i s' D(1,2) by (intro eq) (auto simp: owns_def nth_list_update)
      ultimately show ?thesis using True s' by (auto simp: fun_eq_iff)
    next
      case False
      have s': "s' = finish t (SetDone False) s"
        unfolding s'_def using none False by (rule set_alone_full)
      then have "tl_map s' u = tl_map s u" for u by (intro eq) simp_all
      with False tl_map_free [OF none] s' show ?thesis by (auto simp: fun_eq_iff)
    qed
  qed
qed

lemma get_alone_map:
  fixes dflt :: 'a and t :: tid and s :: "'a tls"
  assumes inv: "tl_inv dflt N s"
  defines "s' \<equiv> tl_alone dflt t (goto t (GetFind 0) s)"
  shows "tl_map s' = tl_map s \<and> (case tl_map s t of None \<Rightarrow> results s' t = GetDone None
     | Some v \<Rightarrow> \<exists>i. results s' t = GetDone (Some i) \<and> i < N \<and> vals s' ! i = v)"
proof -
  have inv': "tl_inv dflt N s'"
    unfolding s'_def by (intro tl_alone_inv tl_inv_goto inv) simp
  show ?thesis
  proof (cases "\<exists>i. owns s t i")
    case True
    then obtain i where i: "owns s t i" by blast
    have s': "s' = finish t (GetDone (Some i)) s" unfolding s'_def using inv i by (rule get_alone_owned)
    then have "tl_map s' u = tl_map s u" for u by (intro tl_map_eq [OF inv inv']) simp_all
    with i tl_map_owned [OF inv i] tl_invD(1) [OF inv] s' show ?thesis by (auto simp: fun_eq_iff owns_def)
  next
    case False
    then have none: "\<forall>i. \<not> owns s t i" by blast
    have s': "s' = finish t (GetDone None) s" unfolding s'_def using none by (rule get_alone_free)
    then have "tl_map s' u = tl_map s u" for u by (intro tl_map_eq [OF inv inv']) simp_all
    with tl_map_free [OF none] s' show ?thesis by (auto simp: fun_eq_iff)
  qed
qed

lemma erase_alone_map:
  fixes dflt :: 'a and t :: tid and s :: "'a tls"
  assumes inv: "tl_inv dflt N s"
  defines "s' \<equiv> tl_alone dflt t (goto t (EraseFind 0) s)"
  shows "tl_map s' = (tl_map s)(t := None) \<and> results s' t = EraseDone (tl_map s t \<noteq> None)"
proof -
  note D = tl_invD [OF inv]
  have inv': "tl_inv dflt N s'"
    unfolding s'_def by (intro tl_alone_inv tl_inv_goto inv) simp
  show ?thesis
  proof (cases "\<exists>i. owns s t i")
    case True
    then obtain i where i: "owns s t i" by blast
    have s': "s' = finish t (EraseDone True)
       (s\<lparr>threads := (threads s)[i := None], vals := (vals s)[i := dflt], latest := (latest s)(t := None)\<rparr>)"
      unfolding s'_def using inv i by (rule erase_alone_owned)
    have "\<not> owns s' t k" for k
      using i D(3) [of t i k] s' by (auto simp: owns_def nth_list_update split: if_splits)
    then have "tl_map s' t = None" by (simp add: tl_map_free)
    moreover have "tl_map s' u = tl_map s u" if "u \<noteq> t" for u
      using that i s' D(1,2) by (intro tl_map_eq [OF inv inv']) (auto simp: owns_def nth_list_update)
    ultimately show ?thesis using tl_map_owned [OF inv i] s' by (auto simp: fun_eq_iff)
  next
    case False
    then have none: "\<forall>i. \<not> owns s t i" by blast
    have s': "s' = finish t (EraseDone False) s" unfolding s'_def using none by (rule erase_alone_free)
    then have "tl_map s' u = tl_map s u" for u by (intro tl_map_eq [OF inv inv']) simp_all
    with tl_map_free [OF none] s' show ?thesis by (auto simp: fun_eq_iff)
  qed
qed

section \<open>Properties\<close>

lemma tl_sched_reachable: "tl_reachable dflt N s \<Longrightarrow> tl_reachable dflt N (tl_sched dflt us s)"
  by (induction us arbitrary: s) (auto intro: tl_reachable.step)

text \<open>A container of two slots in which thread 7 has stored the value 5.\<close>

definition tl_sample :: "nat tls" where
  "tl_sample = tl_sched 0 [7, 3, 7, 7, 7, 7] (tl_call 7 (CallSet 5) (tl_init 0 2))"

lemmas tl_step_rules = tl_step_def tl_set_step_def tl_get_step_def tl_erase_step_def goto_def finish_def

lemma tl_sample_eq: "tl_sample = \<lparr>threads = [Some 7, None], vals = [5, 0], pcs = (\<lambda>_. Idle),
    results = (\<lambda>_. NoResult)(7 := SetDone True), latest = [7 \<mapsto> 5]\<rparr>"
  by (simp add: tl_sample_def tl_init_def tl_step_rules numeral_2_eq_2 fun_eq_iff)

lemma tl_sample_reachable: "tl_reachable 0 2 tl_sample"
  unfolding tl_sample_def
  by (intro tl_sched_reachable tl_reachable.call tl_reachable.start) (simp add: tl_init_def)

lemma tl_sample_get_reachable: "tl_reachable 0 2 (tl_call 7 CallGet tl_sample)"
  by (intro tl_reachable.call tl_sample_reachable) (simp add: tl_sample_eq)

text \<open>In every reachable state, whatever the interleaving, a thread owns at most one slot, and no slot
  is owned by two threads.\<close>

theorem thread_owns_one_slot:
  assumes "tl_reachable dflt N s" and "threads s ! i = Some t" and "threads s ! j = Some t" and "i < N" and "j < N"
  shows "i = j"
  using tl_invD [OF tl_reachable_inv [OF assms(1)]] assms(2-5) by (simp add: owns_def)

theorem thread_owns_one_slot_witness: "threads tl_sample ! 0 = Some 7 \<and> (0::nat) = 0"
  using thread_owns_one_slot [OF tl_sample_reachable, of 0 7 0] by (simp add: tl_sample_eq)








text \<open>C3: From every reachable state, a call that the other threads do not interrupt acts on the map from
  threads to values: \<open>set\<close> updates the caller's entry and returns true unless the caller has no slot
  and all slots are taken, in which case nothing changes; \<open>get\<close> returns the address of a slot with the
  caller's value, or null if there is none; \<open>erase\<close> removes the caller's entry and says whether there was one.\<close>

theorem thread_local_refines_map:
  assumes "tl_reachable dflt N s" and "pcs s t = Idle"
  shows "let s' = tl_alone dflt t (tl_call t c s); m = tl_map s; m' = tl_map s' in
    (case c of
       CallSet v \<Rightarrow>
         if m t \<noteq> None \<or> None \<in> set (threads s) then results s' t = SetDone True \<and> m' = m(t \<mapsto> v)
         else results s' t = SetDone False \<and> m' = m
     | CallGet \<Rightarrow> m' = m \<and> (case m t of None \<Rightarrow> results s' t = GetDone None
         | Some v \<Rightarrow> \<exists>i. results s' t = GetDone (Some i) \<and> i < N \<and> vals s' ! i = v)
     | CallErase \<Rightarrow> m' = m(t := None) \<and> results s' t = EraseDone (m t \<noteq> None))"
proof -
  note inv = tl_reachable_inv [OF assms(1)]
  show ?thesis
  proof (cases c)
    case (CallSet v)
    with set_alone_map [OF inv, of t v] show ?thesis by (simp add: Let_def del: not_None_eq)
  next
    case CallGet
    with get_alone_map [OF inv, of t] show ?thesis by (simp add: Let_def)
  next
    case CallErase
    with erase_alone_map [OF inv, of t] show ?thesis by (simp add: Let_def)
  qed
qed


theorem thread_local_refines_map_witness:
  "results (tl_alone 0 8 (tl_call 8 (CallSet 9) tl_sample)) 8 = SetDone True \<and>
   tl_map (tl_alone 0 8 (tl_call 8 (CallSet 9) tl_sample)) = (tl_map tl_sample)(8 \<mapsto> 9)"
proof -
  have "pcs tl_sample 8 = Idle" "None \<in> set (threads tl_sample)" by (simp_all add: tl_sample_eq)
  with thread_local_refines_map [OF tl_sample_reachable, of 8 "CallSet 9"] show ?thesis
    by (simp add: Let_def del: tl_call.simps)
qed
end
