(* ===== verification/Thread_Liveness.thy ===== *)
theory Thread_Liveness
  imports Thread_Local
begin

text \<open>
  What a thread may expect of \<open>ThreadLocal<T, N>\<close> under contention. Threads may call and make
  accesses in any order; as long as no more than \<open>N\<close> threads ever use the container, \<open>set\<close> never
  finds it full, although its search is not atomic and slots are released and claimed behind
  its back. The argument counts, for each slot \<open>i\<close>, the threads that are at or beyond it.
\<close>

section \<open>Runs with calls\<close>

datatype 'a tl_event = Calls tid "'a tl_op" | Accesses tid

text \<open>A thread that is in a call makes no other; it only continues.\<close>

fun tl_event_step :: "'a \<Rightarrow> 'a tl_event \<Rightarrow> 'a tls \<Rightarrow> 'a tls" where
  "tl_event_step dflt (Calls t c) s = (if pcs s t = Idle then tl_call t c s else s)"
| "tl_event_step dflt (Accesses t) s = tl_step dflt t s"

fun tl_run :: "'a \<Rightarrow> 'a tl_event list \<Rightarrow> 'a tls \<Rightarrow> 'a tls" where
  "tl_run dflt [] s = s"
| "tl_run dflt (e # es) s = tl_run dflt es (tl_event_step dflt e s)"

lemma tl_event_reachable: "tl_reachable dflt N s \<Longrightarrow> tl_reachable dflt N (tl_event_step dflt e s)"
  by (cases e) (auto intro: tl_reachable.call tl_reachable.step)

lemma tl_run_reachable: "tl_reachable dflt N s \<Longrightarrow> tl_reachable dflt N (tl_run dflt es s)"
  by (induction es arbitrary: s) (auto intro: tl_event_reachable)

section \<open>Threads that use the container\<close>

definition participants :: "'a tls \<Rightarrow> tid set" where
  "participants s = {t. pcs s t \<noteq> Idle \<or> results s t \<noteq> NoResult}"

lemma tl_step_results: "results (tl_step dflt t s) u = NoResult \<Longrightarrow> results s u = NoResult"
  by (cases "pcs s t"; cases "u = t") (auto simp: tl_step_def tl_set_step_def tl_get_step_def tl_erase_step_def split: if_splits)

lemma tl_step_participants: "participants (tl_step dflt t s) = participants s"
proof -
  have "u \<in> participants (tl_step dflt t s) \<longleftrightarrow> u \<in> participants s" for u
  proof (cases "u = t")
    case True
    then show ?thesis
      by (cases "pcs s t")
        (simp_all add: participants_def tl_step_def tl_set_step_def tl_get_step_def tl_erase_step_def)
  next
    case False
    then show ?thesis by (simp add: participants_def tl_step_other)
  qed
  then show ?thesis by blast
qed

lemma tl_call_sel [simp]:
  "threads (tl_call t c s) = threads s" "vals (tl_call t c s) = vals s" "latest (tl_call t c s) = latest s"
  "results (tl_call t c s) = results s" "owns (tl_call t c s) u i = owns s u i"
  "u \<noteq> t \<Longrightarrow> pcs (tl_call t c s) u = pcs s u" "pcs (tl_call t c s) t \<noteq> Idle"
  by (cases c; simp)+

lemma tl_call_participants: "participants (tl_call t c s) = insert t (participants s)"
proof -
  have "u \<in> participants (tl_call t c s) \<longleftrightarrow> u = t \<or> u \<in> participants s" for u
    by (cases "u = t") (simp_all add: participants_def del: tl_call.simps)
  then show ?thesis by blast
qed

lemma tl_event_participants: "participants s \<subseteq> participants (tl_event_step dflt e s)"
  by (cases e) (auto simp: tl_call_participants tl_step_participants)

lemma tl_run_participants: "participants s \<subseteq> participants (tl_run dflt es s)"
  by (induction es arbitrary: s) (auto dest: subsetD [OF tl_event_participants])

lemma tl_init_participants [simp]: "participants (tl_init dflt N) = {}"
  by (simp add: participants_def tl_init_def)

lemma finite_participants: "tl_reachable dflt N s \<Longrightarrow> finite (participants s)"
  by (induction rule: tl_reachable.induct) (simp_all add: tl_call_participants tl_step_participants)

section \<open>Where a thread is among the slots\<close>

text \<open>Thread \<open>t\<close> is at or beyond slot \<open>i\<close>: it owns such a slot, or is about to try one.\<close>

definition claiming :: "'a tls \<Rightarrow> tid \<Rightarrow> nat \<Rightarrow> bool" where
  "claiming s t i \<longleftrightarrow> (\<exists>v. pcs s t = SetClaim v i)"

definition beyond :: "'a tls \<Rightarrow> nat \<Rightarrow> tid set" where
  "beyond s i = {t. \<exists>j\<ge>i. owns s t j \<or> claiming s t j}"

text \<open>Whoever has passed \<open>i\<close> slots has left \<open>i\<close> threads behind.\<close>

definition crowd_ok :: "tid set \<Rightarrow> 'a tls \<Rightarrow> bool" where
  "crowd_ok T s \<longleftrightarrow> (\<forall>t i. owns s t i \<longrightarrow> t \<in> participants s) \<and>
     (\<forall>i. beyond s i \<noteq> {} \<longrightarrow> card (beyond s i) + i \<le> card T)"

lemma beyond_antimono: "i \<le> j \<Longrightarrow> beyond s j \<subseteq> beyond s i"
  unfolding beyond_def by (auto intro: order_trans)

lemma beyond_participants: "crowd_ok T s \<Longrightarrow> beyond s i \<subseteq> participants s"
  by (auto simp: beyond_def crowd_ok_def claiming_def participants_def)

lemma crowd_okD: "crowd_ok T s \<Longrightarrow> x \<in> beyond s i \<Longrightarrow> card (beyond s i) + i \<le> card T"
  unfolding crowd_ok_def by blast

lemma crowd_ok_shrink:
  assumes "crowd_ok T s" and "finite T" and "participants s \<subseteq> T"
    and "\<And>i. beyond s' i \<subseteq> beyond s i" and "\<And>t i. owns s' t i \<Longrightarrow> t \<in> participants s'"
  shows "crowd_ok T s'"
proof -
  have "card (beyond s' i) + i \<le> card T" if "beyond s' i \<noteq> {}" for i
  proof -
    have "finite (beyond s i)"
      using beyond_participants [OF assms(1)] assms(2,3) by (blast intro: finite_subset)
    with assms(4) have "card (beyond s' i) \<le> card (beyond s i)" by (intro card_mono)
    moreover have "card (beyond s i) + i \<le> card T"
      using crowd_okD [OF assms(1)] assms(4) [of i] that by blast
    ultimately show ?thesis by simp
  qed
  with assms(5) show ?thesis by (simp add: crowd_ok_def)
qed

lemma beyond_same:
  "(\<And>u i. owns s' u i = owns s u i) \<Longrightarrow> (\<And>u i. claiming s' u i = claiming s u i) \<Longrightarrow> beyond s' i = beyond s i"
  by (simp add: beyond_def)

text \<open>A thread that enters the second loop of \<open>set\<close> is before slot 0.\<close>

lemma crowd_ok_enter:
  assumes "crowd_ok T s" and "finite T" and "participants s \<subseteq> T" and "t \<in> participants s"
  shows "crowd_ok T (goto t (SetClaim v 0) s)"
proof -
  let ?s = "goto t (SetClaim v 0) s"
  have part: "participants ?s = participants s"
    using assms(4) by (auto simp: participants_def)
  have sub: "beyond ?s i \<subseteq> (if i = 0 then participants s else beyond s i)" for i
    using assms(1,4) beyond_participants [OF assms(1), of 0]
    by (auto simp: beyond_def claiming_def split: if_splits)
  have "card (beyond ?s i) + i \<le> card T" if "beyond ?s i \<noteq> {}" for i
  proof (cases "i = 0")
    case True
    with sub [of 0] assms(3) have "beyond ?s i \<subseteq> T" by auto
    with True show ?thesis using assms(2) by (simp add: card_mono)
  next
    case False
    have "finite (beyond s i)"
      using beyond_participants [OF assms(1)] assms(2,3) by (blast intro: finite_subset)
    moreover have s: "beyond ?s i \<subseteq> beyond s i" using sub [of i] False by simp
    ultimately have "card (beyond ?s i) \<le> card (beyond s i)" by (intro card_mono)
    moreover have "card (beyond s i) + i \<le> card T" using crowd_okD [OF assms(1)] that s by blast
    ultimately show ?thesis by simp
  qed
  then show ?thesis using assms(1) part by (simp add: crowd_ok_def)
qed

text \<open>A thread passes slot \<open>p\<close> only when another one owns it, and leaves that one behind.\<close>

lemma crowd_ok_pass:
  assumes inv: "tl_inv dflt N s" and ok: "crowd_ok T s" and T: "finite T" "participants s \<subseteq> T"
    and pc: "pcs s t = SetClaim v p" and p: "p < N" "threads s ! p = Some u"
  shows "crowd_ok T (goto t (SetClaim v (Suc p)) s)"
proof -
  let ?s = "goto t (SetClaim v (Suc p)) s"
  note D = tl_invD [OF inv]
  have part: "participants ?s = participants s" using pc by (auto simp: participants_def)
  from D(7) [of t] pc have none: "\<not> owns s t k" for k by simp
  have u: "owns s u p" using p D(1) by (simp add: owns_def)
  with none have ut: "u \<noteq> t" by auto
  have u_idle: "\<not> claiming s u k" for k
    using D(7) [of u] u by (auto simp: claiming_def)
  have tp: "t \<in> beyond s p" "u \<in> beyond s p" using pc u by (auto simp: beyond_def claiming_def)
  have fin: "finite (beyond s i)" for i
    using beyond_participants [OF ok] T by (blast intro: finite_subset)
  have "\<not> claiming s t k" if "Suc p \<le> k" for k using that pc by (simp add: claiming_def)
  then have out1: "t \<notin> beyond s (Suc p)" using none by (auto simp: beyond_def)
  have "\<not> owns s u k" if "Suc p \<le> k" for k using that D(3) [OF u, of k] by auto
  then have out2: "u \<notin> beyond s (Suc p)" using u_idle by (auto simp: beyond_def)
  note out = out1 out2
  have sub: "beyond ?s i \<subseteq> (if i = Suc p then insert t (beyond s i) else beyond s i)" for i
  proof
    fix w assume w: "w \<in> beyond ?s i"
    show "w \<in> (if i = Suc p then insert t (beyond s i) else beyond s i)"
    proof (cases "w = t")
      case True
      with w none have "i \<le> Suc p" by (auto simp: beyond_def claiming_def)
      moreover have "t \<in> beyond s i" if "i \<le> p" using that beyond_antimono tp by blast
      ultimately show ?thesis using True by (auto simp: le_Suc_eq)
    next
      case False
      with w show ?thesis by (auto simp: beyond_def claiming_def)
    qed
  qed
  have "card (beyond ?s i) + i \<le> card T" if ne: "beyond ?s i \<noteq> {}" for i
  proof (cases "i = Suc p")
    case True
    have "card (beyond s (Suc p)) + 2 \<le> card (beyond s p)"
    proof -
      have "insert t (insert u (beyond s (Suc p))) \<subseteq> beyond s p"
        using tp beyond_antimono [of p "Suc p" s] by auto
      then have "card (insert t (insert u (beyond s (Suc p)))) \<le> card (beyond s p)"
        by (intro card_mono fin)
      with out ut fin show ?thesis by simp
    qed
    moreover have "card (beyond ?s i) \<le> Suc (card (beyond s (Suc p)))"
      using sub [of i] True fin [of "Suc p"] out(1)
        card_mono [of "insert t (beyond s (Suc p))" "beyond ?s (Suc p)"] by simp
    moreover have "card (beyond s p) + p \<le> card T" using crowd_okD [OF ok tp(1)] .
    ultimately show ?thesis using True by simp
  next
    case False
    with sub [of i] have s: "beyond ?s i \<subseteq> beyond s i" by simp
    then have "card (beyond ?s i) \<le> card (beyond s i)" by (intro card_mono fin)
    moreover have "card (beyond s i) + i \<le> card T" using crowd_okD [OF ok] ne s by blast
    ultimately show ?thesis by simp
  qed
  then show ?thesis using ok part by (simp add: crowd_ok_def)
qed


text \<open>Every access keeps the count, and no \<open>set\<close> runs out of slots while \<open>T\<close> is small enough.\<close>

definition no_refusal :: "'a tls \<Rightarrow> bool" where
  "no_refusal s \<longleftrightarrow> (\<forall>t. results s t \<noteq> SetDone False)"

lemma nth_update_at: "i < length xs \<Longrightarrow> xs[k := x] ! i = (if k = i then x else xs ! i)"
  by (cases "k = i") simp_all

lemma tl_step_owns:
  "owns (tl_step dflt t s) u i \<Longrightarrow> owns s u i \<or> (u = t \<and> claiming s t i)"
  by (cases "pcs s t")
    (auto simp: tl_step_def tl_set_step_def tl_get_step_def tl_erase_step_def claiming_def owns_def
      nth_update_at split: if_splits)

lemma tl_step_claiming:
  assumes "tl_inv dflt N s" and "claiming (tl_step dflt t s) u i"
    and "\<nexists>v. pcs s t = SetFind v N" and "\<nexists>v p w. pcs s t = SetClaim v p \<and> p < N \<and> threads s ! p = Some w"
  shows "claiming s u i"
proof (cases "u = t")
  case True
  with assms(2-4) tl_invD(1) [OF assms(1)] tl_invD(7) [OF assms(1), of t] show ?thesis
    by (cases "pcs s t")
      (auto simp: tl_step_def tl_set_step_def tl_get_step_def tl_erase_step_def claiming_def split: if_splits)
qed (use assms in \<open>simp add: claiming_def tl_step_other\<close>)

lemma claiming_participates: "claiming s t i \<Longrightarrow> t \<in> participants s"
  by (auto simp: claiming_def participants_def)

lemma crowd_ok_step:
  assumes inv: "tl_inv dflt N s" and ok: "crowd_ok T s" and T: "finite T" "participants s \<subseteq> T"
  shows "crowd_ok T (tl_step dflt t s)"
proof -
  consider (enter) v where "pcs s t = SetFind v N"
    | (pass) v p u where "pcs s t = SetClaim v p" "p < N" "threads s ! p = Some u"
    | (other) "\<nexists>v. pcs s t = SetFind v N" "\<nexists>v p u. pcs s t = SetClaim v p \<and> p < N \<and> threads s ! p = Some u"
    by blast
  then show ?thesis
  proof cases
    case enter
    then have "tl_step dflt t s = goto t (SetClaim v 0) s"
      by (simp add: tl_step_def tl_set_step_def tl_invD(1) [OF inv])
    moreover have "t \<in> participants s" using enter by (simp add: participants_def)
    ultimately show ?thesis using crowd_ok_enter [OF ok T] by simp
  next
    case pass
    then have "tl_step dflt t s = goto t (SetClaim v (Suc p)) s"
      by (simp add: tl_step_def tl_set_step_def tl_invD(1) [OF inv])
    then show ?thesis using crowd_ok_pass [OF inv ok T pass] by simp
  next
    case other
    have claims: "claiming s u i" if "claiming (tl_step dflt t s) u i" for u i
      using tl_step_claiming [OF inv that other] .
    show ?thesis
    proof (rule crowd_ok_shrink [OF ok T])
      show "beyond (tl_step dflt t s) i \<subseteq> beyond s i" for i
        using claims tl_step_owns by (fastforce simp: beyond_def)
      show "u \<in> participants (tl_step dflt t s)" if "owns (tl_step dflt t s) u i" for u i
        using tl_step_owns [OF that] ok
        by (auto simp: tl_step_participants crowd_ok_def intro: claiming_participates)
    qed
  qed
qed

lemma crowd_ok_call:
  assumes "crowd_ok T s" and "finite T" and "participants s \<subseteq> T" and "pcs s t = Idle"
  shows "crowd_ok T (tl_call t c s)"
proof (rule crowd_ok_shrink [OF assms(1-3)])
  have "\<not> claiming (tl_call t c s) t i" for i by (cases c) (simp_all add: claiming_def)
  then have "claiming s u i" if "claiming (tl_call t c s) u i" for u i
    using that by (cases "u = t") (auto simp: claiming_def)
  then show "beyond (tl_call t c s) i \<subseteq> beyond s i" for i
    by (auto simp: beyond_def simp del: tl_call.simps)
  show "u \<in> participants (tl_call t c s)" if "owns (tl_call t c s) u i" for u i
    using that assms(1) by (auto simp: tl_call_participants crowd_ok_def simp del: tl_call.simps)
qed

lemma no_refusal_step:
  assumes inv: "tl_inv dflt N s" and ok: "crowd_ok T s" and T: "finite T" "participants s \<subseteq> T" "card T \<le> N"
    and "no_refusal s"
  shows "no_refusal (tl_step dflt t s)"
proof -
  have "\<not> claiming s t N"
  proof
    assume "claiming s t N"
    then have t: "t \<in> beyond s N" by (auto simp: beyond_def)
    moreover have "finite (beyond s N)" using beyond_participants [OF ok] T by (blast intro: finite_subset)
    ultimately have "0 < card (beyond s N)" by (auto simp: card_gt_0_iff)
    with crowd_okD [OF ok t] T(3) show False by simp
  qed
  moreover have "results (tl_step dflt t s) t \<noteq> SetDone False" if "\<not> claiming s t N"
    using that tl_invD(7) [OF inv, of t] tl_invD(1) [OF inv] \<open>no_refusal s\<close>
    by (cases "pcs s t") (auto simp: tl_step_def tl_set_step_def tl_get_step_def tl_erase_step_def
        claiming_def no_refusal_def)
  moreover have "results (tl_step dflt t s) u \<noteq> SetDone False" if "u \<noteq> t" for u
    using that \<open>no_refusal s\<close> tl_step_other [of t u dflt s] by (simp add: no_refusal_def)
  ultimately show ?thesis unfolding no_refusal_def by metis
qed

lemma few_threads_invariant:
  assumes "tl_reachable dflt N s" and "finite T" and "card T \<le> N"
  shows "participants s \<subseteq> T \<Longrightarrow> crowd_ok T s \<and> no_refusal s"
  using assms(1)
proof (induction rule: tl_reachable.induct)
  case start
  then show ?case
    by (auto simp: crowd_ok_def no_refusal_def tl_init_def beyond_def owns_def claiming_def)
next
  case (call s t c)
  then have "participants s \<subseteq> T" by (simp add: tl_call_participants)
  with call assms(2) show ?case by (simp add: crowd_ok_call no_refusal_def del: tl_call.simps)
next
  case (step s t)
  then have "participants s \<subseteq> T" by (simp add: tl_step_participants)
  with step assms(2,3) tl_reachable_inv [OF step(1)] show ?case
    by (auto intro: crowd_ok_step no_refusal_step)
qed


section \<open>The fate of one call of \<open>set\<close>\<close>

text \<open>Thread \<open>t\<close> is in a call of \<open>set(v)\<close>, or has been served and made no other call since.\<close>

definition set_underway :: "tid \<Rightarrow> 'a \<Rightarrow> 'a tls \<Rightarrow> bool" where
  "set_underway t v s \<longleftrightarrow> (\<exists>i. pcs s t \<in> {SetFind v i, SetClaim v i, SetStore v i})
     \<or> pcs s t = Idle \<and> (results s t = SetDone True \<and> latest s t = Some v \<or> results s t = SetDone False)"

lemma tl_step_latest_other: "u \<noteq> t \<Longrightarrow> latest (tl_step dflt u s) t = latest s t"
  by (cases "pcs s u") (simp_all add: tl_step_def tl_set_step_def tl_get_step_def tl_erase_step_def)

lemma set_underway_step: "set_underway t v s \<Longrightarrow> set_underway t v (tl_step dflt u s)"
proof (cases "u = t")
  case True
  then show "set_underway t v s \<Longrightarrow> ?thesis"
    by (cases "pcs s t") (auto simp: set_underway_def tl_step_def tl_set_step_def)
qed (simp add: set_underway_def tl_step_other tl_step_latest_other)

lemma set_underway_event:
  "set_underway t v s \<Longrightarrow> (\<And>c. e \<noteq> Calls t c) \<Longrightarrow> set_underway t v (tl_event_step dflt e s)"
proof (cases e)
  case (Calls u c)
  assume "set_underway t v s" "\<And>c. e \<noteq> Calls t c"
  moreover from this(2) Calls have "t \<noteq> u" by blast
  ultimately show ?thesis using Calls by (simp add: set_underway_def del: tl_call.simps)
qed (simp add: set_underway_step)

definition quiet :: "tid \<Rightarrow> 'a tl_event list \<Rightarrow> bool" where
  "quiet t es \<longleftrightarrow> list_all (\<lambda>e. case e of Calls u c \<Rightarrow> u \<noteq> t | Accesses u \<Rightarrow> True) es"

lemma quiet_Cons: "quiet t (e # es) \<longleftrightarrow> (\<forall>c. e \<noteq> Calls t c) \<and> quiet t es"
  by (cases e) (auto simp: quiet_def)

lemma set_underway_run: "set_underway t v s \<Longrightarrow> quiet t es \<Longrightarrow> set_underway t v (tl_run dflt es s)"
  by (induction es arbitrary: s) (auto simp: quiet_Cons intro: set_underway_event)

lemma tl_event_idle: "pcs s t = Idle \<Longrightarrow> (\<And>c. e \<noteq> Calls t c) \<Longrightarrow> pcs (tl_event_step dflt e s) t = Idle"
proof (cases e)
  case (Calls u c)
  assume "pcs s t = Idle" "\<And>c. e \<noteq> Calls t c"
  moreover from this(2) Calls have "t \<noteq> u" by blast
  ultimately show ?thesis using Calls by (simp del: tl_call.simps)
next
  case (Accesses u)
  assume "pcs s t = Idle"
  with Accesses show ?thesis by (cases "u = t") (simp_all add: tl_step_idle tl_step_other)
qed

lemma tl_event_progress:
  assumes "tl_inv dflt N s" and "\<And>c. e \<noteq> Calls t c"
  shows "accesses_left N (pcs (tl_event_step dflt e s) t) \<le> accesses_left N (pcs s t)"
    and "e = Accesses t \<Longrightarrow> accesses_left N (pcs s t) \<noteq> 0 \<Longrightarrow>
      accesses_left N (pcs (tl_event_step dflt e s) t) < accesses_left N (pcs s t)"
proof -
  have own: "accesses_left N (pcs (tl_step dflt t s) t) < accesses_left N (pcs s t)" if "pcs s t \<noteq> Idle"
    using tl_step_progress [OF assms(1) that] .
  show "accesses_left N (pcs (tl_event_step dflt e s) t) \<le> accesses_left N (pcs s t)"
  proof (cases e)
    case (Calls u c)
    with assms(2) have "t \<noteq> u" by blast
    with Calls show ?thesis by (simp del: tl_call.simps)
  next
    case (Accesses u)
    with own show ?thesis
      by (cases "u = t"; cases "pcs s t = Idle") (simp_all add: tl_step_other tl_step_idle less_imp_le)
  qed
  show "accesses_left N (pcs (tl_event_step dflt e s) t) < accesses_left N (pcs s t)"
    if "e = Accesses t" "accesses_left N (pcs s t) \<noteq> 0"
    using that own by (cases "pcs s t = Idle") simp_all
qed

lemma tl_event_inv: "tl_inv dflt N s \<Longrightarrow> tl_inv dflt N (tl_event_step dflt e s)"
  by (cases e) (auto intro: tl_call_inv tl_step_inv)

lemma accesses_left_0: "tl_inv dflt N s \<Longrightarrow> accesses_left N (pcs s t) = 0 \<Longrightarrow> pcs s t = Idle"
  using tl_invD(1) [of dflt N s] tl_invD(7) [of dflt N s t] by (cases "pcs s t") (auto simp: owns_def)

lemma tl_run_ends:
  "tl_inv dflt N s \<Longrightarrow> quiet t es \<Longrightarrow> accesses_left N (pcs s t) \<le> count_list es (Accesses t) \<Longrightarrow>
   pcs (tl_run dflt es s) t = Idle"
proof (induction es arbitrary: s)
  case Nil
  then show ?case by (simp add: accesses_left_0)
next
  case (Cons e es)
  then have q: "\<And>c. e \<noteq> Calls t c" "quiet t es" by (simp_all add: quiet_Cons)
  let ?s = "tl_event_step dflt e s"
  have "accesses_left N (pcs ?s t) \<le> count_list es (Accesses t)"
    using tl_event_progress [OF Cons.prems(1) q(1)] Cons.prems(3)
    by (cases "e = Accesses t"; cases "accesses_left N (pcs s t) = 0") fastforce+
  with Cons.IH [OF tl_event_inv [OF Cons.prems(1)] q(2)] show ?case by simp
qed

section \<open>Properties\<close>

text \<open>C13: In every reachable state in which at most \<open>N\<close> threads have used the container, no call of
  \<open>set\<close> has ever been refused, however the searches, claims and releases of the threads were interleaved.\<close>

theorem set_is_never_refused:
  assumes "tl_reachable dflt N s" and "card (participants s) \<le> N"
  shows "results s t \<noteq> SetDone False"
  using few_threads_invariant [OF assms(1) finite_participants [OF assms(1)] assms(2)]
  by (simp add: no_refusal_def)

text \<open>Three threads and two slots: the third one is refused.\<close>

definition crowded :: "nat tls" where
  "crowded = tl_run 0 (Calls 1 (CallSet 4) # replicate 7 (Accesses 1) @ Calls 2 (CallSet 5) # replicate 7 (Accesses 2)
     @ Calls 3 (CallSet 6) # replicate 7 (Accesses 3)) (tl_init 0 2)"

lemma crowded_refuses: "results crowded 3 = SetDone False"
  by (simp add: crowded_def tl_init_def tl_step_rules numeral_eq_Suc)

lemma participants_sample: "participants tl_sample = {7}"
  by (auto simp: participants_def tl_sample_eq)

theorem set_is_never_refused_witness: "results tl_sample 7 \<noteq> SetDone False \<and> results crowded 3 = SetDone False"
  using set_is_never_refused [OF tl_sample_reachable, of 7] crowded_refuses by (simp add: participants_sample)

text \<open>C12: Every call of \<open>set\<close> is served: whatever the other threads call and however they are scheduled, once
  its thread has made \<open>2 N + 3\<close> accesses the call has returned true and the container maps the thread to
  the value, provided that at most \<open>N\<close> threads use the container and the thread makes no other call.\<close>

theorem set_is_served:
  assumes "tl_reachable dflt N s" and "pcs s t = Idle"
    and "quiet t es" and "2 * N + 3 \<le> count_list es (Accesses t)"
    and "card (participants (tl_run dflt es (tl_call t (CallSet v) s))) \<le> N"
  shows "let s' = tl_run dflt es (tl_call t (CallSet v) s) in
    pcs s' t = Idle \<and> results s' t = SetDone True \<and> tl_map s' t = Some v"
proof -
  let ?s = "tl_call t (CallSet v) s"
  let ?s' = "tl_run dflt es ?s"
  have r: "tl_reachable dflt N ?s" using assms(1,2) by (rule tl_reachable.call)
  then have r': "tl_reachable dflt N ?s'" by (rule tl_run_reachable)
  note inv' = tl_reachable_inv [OF r']
  have idle: "pcs ?s' t = Idle"
    using assms(4) by (intro tl_run_ends [OF tl_reachable_inv [OF r] assms(3)]) simp
  moreover have "set_underway t v ?s" by (auto simp: set_underway_def)
  then have "set_underway t v ?s'" using assms(3) by (rule set_underway_run)
  ultimately have served: "results ?s' t = SetDone True" "latest ?s' t = Some v"
    using set_is_never_refused [OF r' assms(5), of t] by (auto simp: set_underway_def)
  then obtain i where i: "owns ?s' t i" using tl_invD(6) [OF inv', of t] served(2) by fastforce
  then have "tl_map ?s' t = Some v"
    using tl_map_owned [OF inv' i] tl_invD(5) [OF inv' i] served(2) by simp
  with idle served(1) show ?thesis by (simp add: Let_def)
qed

theorem set_is_served_witness:
  "tl_map (tl_run 0 (Calls 7 CallErase # concat (replicate 7 [Accesses 7, Accesses 8])) (tl_call 8 (CallSet 9) tl_sample)) 8 = Some 9"
proof -
  let ?es = "Calls 7 CallErase # concat (replicate 7 [Accesses 7, Accesses 8])"
  let ?s = "tl_run 0 ?es (tl_call 8 (CallSet 9) tl_sample)"
  have "participants ?s \<subseteq> {7, 8}"
    by (auto simp: participants_def tl_sample_eq tl_step_rules numeral_eq_Suc)
  then have "card (participants ?s) \<le> 2" using card_mono [of "{7, 8}" "participants ?s"] by simp
  moreover have "quiet 8 ?es" "2 * 2 + 3 \<le> count_list ?es (Accesses 8)"
    by (simp_all add: quiet_def numeral_eq_Suc)
  moreover have "pcs tl_sample 8 = Idle" by (simp add: tl_sample_eq)
  ultimately show ?thesis
    using set_is_served [OF tl_sample_reachable, of 8 ?es 9] unfolding Let_def by blast
qed

end
