(* ===== verification/Thread_Memory_Order.thy ===== *)
theory Thread_Memory_Order
  imports Thread_Local
begin

text \<open>
  \<open>ThreadLocal\<close> under the memory orders the code asks for. Its loads are acquire operations and its
  compare-exchanges acquire-release ones, which allow a thread to read a thread identifier that is no longer
  the newest. The model is the operational one with views: every slot keeps the list of all values written to
  its identifier, each with the view of the thread that wrote it; a thread may read any of them that is not older
  than what it has seen, and takes over the view of what it reads. A successful compare-exchange reads the newest
  value, a failing one is a load. The values themselves are ordinary variables: an access that has not
  seen an earlier access to the same value is a data race, which is undefined behaviour.
\<close>

section \<open>Views\<close>

text \<open>
  The newest identifier of each slot that was seen, as an index in its list, and how many of the accesses to
  each value were seen.
\<close>

record view =
  newest :: "nat \<Rightarrow> nat"
  seen :: "nat \<Rightarrow> nat"

definition no_view :: view where
  "no_view = \<lparr>newest = (\<lambda>_. 0), seen = (\<lambda>_. 0)\<rparr>"

definition view_join :: "view \<Rightarrow> view \<Rightarrow> view" where
  "view_join v w = \<lparr>newest = (\<lambda>i. max (newest v i) (newest w i)), seen = (\<lambda>i. max (seen v i) (seen w i))\<rparr>"

definition see_newest :: "nat \<Rightarrow> nat \<Rightarrow> view \<Rightarrow> view" where
  "see_newest i k v = v\<lparr>newest := (newest v)(i := max (newest v i) k)\<rparr>"

definition view_le :: "view \<Rightarrow> view \<Rightarrow> bool" where
  "view_le v w \<longleftrightarrow> (\<forall>i. newest v i \<le> newest w i \<and> seen v i \<le> seen w i)"

lemma view_join_sel [simp]:
  "newest (view_join v w) i = max (newest v i) (newest w i)" "seen (view_join v w) i = max (seen v i) (seen w i)"
  by (simp_all add: view_join_def)

lemma see_newest_sel [simp]:
  "newest (see_newest i k v) j = (if j = i then max (newest v i) k else newest v j)" "seen (see_newest i k v) = seen v"
  by (simp_all add: see_newest_def)

section \<open>State\<close>

text \<open>
  \<open>core\<close> holds what \<open>Thread_Local\<close> has, with the newest identifiers in \<open>threads\<close>; no load reads them there. \<open>accesses\<close> counts
  the accesses to a value.
\<close>

record 'a ra =
  core :: "'a tls"
  writes :: "nat \<Rightarrow> (tid option \<times> view) list"
  views :: "tid \<Rightarrow> view"
  accesses :: "nat \<Rightarrow> nat"
  race :: bool

definition ra_init :: "'a \<Rightarrow> nat \<Rightarrow> 'a ra" where
  "ra_init dflt N = \<lparr>core = tl_init dflt N, writes = (\<lambda>_. [(None, no_view)]), views = (\<lambda>_. no_view),
     accesses = (\<lambda>_. 0), race = False\<rparr>"

definition ra_core :: "('a tls \<Rightarrow> 'a tls) \<Rightarrow> 'a ra \<Rightarrow> 'a ra" where
  "ra_core f s = s\<lparr>core := f (core s)\<rparr>"

section \<open>Accesses\<close>

text \<open>Thread \<open>t\<close> may read the \<open>k\<close>-th identifier of slot \<open>i\<close>.\<close>

definition readable :: "'a ra \<Rightarrow> tid \<Rightarrow> nat \<Rightarrow> nat \<Rightarrow> bool" where
  "readable s t i k \<longleftrightarrow> newest (views s t) i \<le> k \<and> k < length (writes s i)"

definition acquire :: "tid \<Rightarrow> nat \<Rightarrow> nat \<Rightarrow> 'a ra \<Rightarrow> 'a ra" where
  "acquire t i k s = s\<lparr>views := (views s)(t := see_newest i k (view_join (views s t) (snd (writes s i ! k))))\<rparr>"

text \<open>The write of a successful compare-exchange, which follows the newest identifier and carries the thread's view.\<close>

definition release :: "tid \<Rightarrow> nat \<Rightarrow> tid option \<Rightarrow> 'a ra \<Rightarrow> 'a ra" where
  "release t i x s = (let v = see_newest i (length (writes s i)) (views s t) in
     s\<lparr>writes := (writes s)(i := writes s i @ [(x, v)]), views := (views s)(t := v),
       core := (core s)\<lparr>threads := (threads (core s))[i := x]\<rparr>\<rparr>)"

definition exchange :: "tid \<Rightarrow> nat \<Rightarrow> nat \<Rightarrow> tid option \<Rightarrow> 'a ra \<Rightarrow> 'a ra" where
  "exchange t i k x s = release t i x (acquire t i k s)"

text \<open>An access to \<open>values[i]\<close>.\<close>

definition touch :: "tid \<Rightarrow> nat \<Rightarrow> 'a ra \<Rightarrow> 'a ra" where
  "touch t i s = s\<lparr>race := race s \<or> seen (views s t) i < accesses s i, accesses := (accesses s)(i := Suc (accesses s i)),
     views := (views s)(t := (views s t)\<lparr>seen := (seen (views s t))(i := Suc (accesses s i))\<rparr>)\<rparr>"

text \<open>
  The next access of thread \<open>t\<close>, where \<open>k\<close> says which identifier it reads; there is no such access when it may not read that
  one, or when a compare-exchange would succeed on an identifier that is not the newest.
\<close>

definition ra_load :: "tid \<Rightarrow> nat \<Rightarrow> nat \<Rightarrow> ('a tls \<Rightarrow> 'a tls) \<Rightarrow> ('a tls \<Rightarrow> 'a tls) \<Rightarrow> 'a ra \<Rightarrow> 'a ra" where
  "ra_load t i k found other s =
     (if \<not> readable s t i k then s
      else if fst (writes s i ! k) = Some t then ra_core found (acquire t i k s)
      else ra_core other (acquire t i k s))"

definition ra_exchange ::
    "tid \<Rightarrow> nat \<Rightarrow> nat \<Rightarrow> tid option \<Rightarrow> tid option \<Rightarrow> ('a tls \<Rightarrow> 'a tls) \<Rightarrow> ('a tls \<Rightarrow> 'a tls) \<Rightarrow> 'a ra \<Rightarrow> 'a ra" where
  "ra_exchange t i k expected desired done' failed s =
     (if \<not> readable s t i k then s
      else if fst (writes s i ! k) \<noteq> expected then ra_core failed (acquire t i k s)
      else if Suc k = length (writes s i) then ra_core done' (exchange t i k desired s)
      else s)"

definition ra_step :: "'a \<Rightarrow> tid \<Rightarrow> nat \<Rightarrow> 'a ra \<Rightarrow> 'a ra" where
  "ra_step dflt t k s = (let N = length (threads (core s)) in case pcs (core s) t of
     Idle \<Rightarrow> s
   | SetFind v i \<Rightarrow>
       if i < N then ra_load t i k (goto t (SetStore v i)) (goto t (SetFind v (Suc i))) s
       else ra_core (goto t (SetClaim v 0)) s
   | SetClaim v i \<Rightarrow>
       if i < N then ra_exchange t i k None (Some t) (goto t (SetStore v i)) (goto t (SetClaim v (Suc i))) s
       else ra_core (finish t (SetDone False)) s
   | SetStore v i \<Rightarrow>
       ra_core (\<lambda>c. finish t (SetDone True) (c\<lparr>vals := (vals c)[i := v], latest := (latest c)(t := Some v)\<rparr>)) (touch t i s)
   | GetFind i \<Rightarrow>
       if i < N then ra_load t i k (finish t (GetDone (Some i))) (goto t (GetFind (Suc i))) s
       else ra_core (finish t (GetDone None)) s
   | EraseFind i \<Rightarrow>
       if i < N then ra_load t i k (goto t (EraseClear i)) (goto t (EraseFind (Suc i))) s
       else ra_core (finish t (EraseDone False)) s
   | EraseClear i \<Rightarrow>
       ra_core (\<lambda>c. goto t (EraseRelease i) (c\<lparr>vals := (vals c)[i := dflt], latest := (latest c)(t := None)\<rparr>)) (touch t i s)
   | EraseRelease i \<Rightarrow>
       ra_exchange t i k (Some t) None (finish t (EraseDone True)) (finish t (EraseDone False)) s)"

text \<open>A thread reads its value through the pointer its last call, a \<open>get\<close>, returned.\<close>

definition ra_use :: "tid \<Rightarrow> 'a ra \<Rightarrow> 'a ra" where
  "ra_use t s = (case (pcs (core s) t, results (core s) t) of (Idle, GetDone (Some i)) \<Rightarrow> touch t i s | _ \<Rightarrow> s)"

text \<open>
  \<open>locked\<close> restricts the compare-exchanges to those of x86, whose \<open>lock cmpxchg\<close> reads the newest
  value even when it fails; the loads stay as they are.
\<close>

inductive ra_reachable :: "bool \<Rightarrow> 'a \<Rightarrow> nat \<Rightarrow> 'a ra \<Rightarrow> bool" for locked dflt N where
  start: "ra_reachable locked dflt N (ra_init dflt N)"
| call: "ra_reachable locked dflt N s \<Longrightarrow> pcs (core s) t = Idle \<Longrightarrow> ra_reachable locked dflt N (ra_core (tl_call t c) s)"
| step: "ra_reachable locked dflt N s \<Longrightarrow>
    (\<forall>v i. locked \<and> pcs (core s) t = SetClaim v i \<and> i < N \<longrightarrow> Suc k = length (writes s i)) \<Longrightarrow>
    ra_reachable locked dflt N (ra_step dflt t k s)"
| pointer: "ra_reachable locked dflt N s \<Longrightarrow> ra_reachable locked dflt N (ra_use t s)"

section \<open>Invariant of the memory\<close>

text \<open>
  A thread has seen what it wrote itself, and what came right after it; a value's accesses were seen by the owner of
  its slot, or by whoever gave up the slot last.
\<close>

definition own_writes_seen :: "nat \<Rightarrow> 'a ra \<Rightarrow> bool" where
  "own_writes_seen N s \<longleftrightarrow> (\<forall>i<N. \<forall>k<length (writes s i). \<forall>t. fst (writes s i ! k) = Some t \<longrightarrow>
     min (Suc k) (length (writes s i) - 1) \<le> newest (views s t) i)"

definition newest_ok :: "nat \<Rightarrow> 'a ra \<Rightarrow> bool" where
  "newest_ok N s \<longleftrightarrow> (\<forall>i<N. writes s i \<noteq> [] \<and> fst (last (writes s i)) = threads (core s) ! i)"

definition views_bounded :: "nat \<Rightarrow> 'a ra \<Rightarrow> bool" where
  "views_bounded N s \<longleftrightarrow> (\<forall>i<N. (\<forall>t. newest (views s t) i < length (writes s i)) \<and>
     (\<forall>j<N. \<forall>m \<in> set (writes s j). newest (snd m) i < length (writes s i)))"

definition accesses_seen :: "nat \<Rightarrow> 'a ra \<Rightarrow> bool" where
  "accesses_seen N s \<longleftrightarrow> (\<forall>i<N. (\<forall>t. threads (core s) ! i = Some t \<longrightarrow> accesses s i \<le> seen (views s t) i) \<and>
     (threads (core s) ! i = None \<longrightarrow> accesses s i \<le> seen (snd (last (writes s i))) i))"

definition pointers_ok :: "'a tls \<Rightarrow> bool" where
  "pointers_ok c \<longleftrightarrow> (\<forall>t i. pcs c t = Idle \<and> results c t = GetDone (Some i) \<longrightarrow> owns c t i)"

definition memory_ok :: "nat \<Rightarrow> 'a ra \<Rightarrow> bool" where
  "memory_ok N s \<longleftrightarrow> length (threads (core s)) = N \<and> newest_ok N s \<and> own_writes_seen N s \<and> views_bounded N s \<and>
     accesses_seen N s \<and> \<not> race s"

definition ra_inv :: "'a \<Rightarrow> nat \<Rightarrow> 'a ra \<Rightarrow> bool" where
  "ra_inv dflt N s \<longleftrightarrow> tl_inv dflt N (core s) \<and> pointers_ok (core s) \<and> memory_ok N s"

lemmas memory_defs = memory_ok_def newest_ok_def own_writes_seen_def views_bounded_def accesses_seen_def

lemma ra_core_sel [simp]:
  "core (ra_core f s) = f (core s)" "writes (ra_core f s) = writes s" "views (ra_core f s) = views s"
  "accesses (ra_core f s) = accesses s" "race (ra_core f s) = race s"
  by (simp_all add: ra_core_def)

lemma ra_core_memory: "memory_ok N s \<Longrightarrow> threads (f (core s)) = threads (core s) \<Longrightarrow> memory_ok N (ra_core f s)"
  by (simp add: memory_defs)

lemma memory_init: "memory_ok N (ra_init dflt N)"
  by (simp add: memory_defs ra_init_def tl_init_def no_view_def)

lemma last_nth: "xs \<noteq> [] \<Longrightarrow> Suc k = length xs \<Longrightarrow> xs ! k = last xs"
  using last_conv_nth [of xs] by (metis diff_Suc_1)

text \<open>A thread that reads its own identifier reads the newest one, and reads it whenever it is the newest.\<close>

lemma reads_own:
  assumes "memory_ok N s" and "i < N" and "readable s t i k"
  shows "fst (writes s i ! k) = Some t \<longleftrightarrow> threads (core s) ! i = Some t"
proof
  have k: "k < length (writes s i)" "newest (views s t) i \<le> k" using assms(3) by (simp_all add: readable_def)
  have w: "writes s i \<noteq> []" "fst (last (writes s i)) = threads (core s) ! i" using assms(1,2) by (simp_all add: memory_defs)
  have own: "min (Suc j) (length (writes s i) - 1) \<le> newest (views s t) i"
    if "j < length (writes s i)" "fst (writes s i ! j) = Some t" for j
    using assms(1,2) that by (simp add: memory_ok_def own_writes_seen_def)
  {
    assume "fst (writes s i ! k) = Some t"
    from own [OF k(1) this] k have "Suc k = length (writes s i)" by linarith
    with last_nth [OF w(1)] \<open>fst (writes s i ! k) = Some t\<close> w(2) show "threads (core s) ! i = Some t" by simp
  next
    assume o: "threads (core s) ! i = Some t"
    have "min (Suc (length (writes s i) - 1)) (length (writes s i) - 1) \<le> newest (views s t) i"
      using w o by (intro own) (simp_all add: last_conv_nth)
    with k have "Suc k = length (writes s i)" by linarith
    with last_nth [OF w(1)] w(2) o show "fst (writes s i ! k) = Some t" by simp
  }
qed

text \<open>Acquiring only adds to a view.\<close>

lemma acquire_sel [simp]:
  "core (acquire t i k s) = core s" "writes (acquire t i k s) = writes s" "accesses (acquire t i k s) = accesses s"
  "race (acquire t i k s) = race s"
  by (simp_all add: acquire_def)

lemma acquire_grows: "newest (views s u) j \<le> newest (views (acquire t i k s) u) j" "seen (views s u) j \<le> seen (views (acquire t i k s) u) j"
  by (simp_all add: acquire_def le_max_iff_disj)

lemma acquire_memory:
  assumes "memory_ok N s" and "i < N" and "readable s t i k"
  shows "memory_ok N (acquire t i k s)"
proof -
  have k: "k < length (writes s i)" using assms(3) by (simp add: readable_def)
  have "own_writes_seen N (acquire t i k s)"
    using assms(1) acquire_grows(1) [of s _ _ t i k] unfolding memory_ok_def own_writes_seen_def
    by simp (meson le_trans)
  moreover have "accesses_seen N (acquire t i k s)"
    using assms(1) acquire_grows(2) [of s _ _ t i k] unfolding memory_ok_def accesses_seen_def
    by simp (meson le_trans)
  moreover have "views_bounded N (acquire t i k s)"
    using assms(1,2) k nth_mem [OF k] by (auto simp: memory_defs acquire_def)
  ultimately show ?thesis using assms(1) by (simp add: memory_ok_def newest_ok_def)
qed

lemma touch_sel [simp]:
  "core (touch t i s) = core s" "writes (touch t i s) = writes s" "newest (views (touch t i s) u) = newest (views s u)"
  by (simp_all add: touch_def)

lemma touch_memory:
  assumes "memory_ok N s" and "i < N" and "threads (core s) ! i = Some t"
  shows "memory_ok N (touch t i s)"
proof -
  have "accesses s i \<le> seen (views s t) i" using assms by (force simp: memory_defs)
  then have "\<not> race (touch t i s)" using assms(1) by (simp add: touch_def memory_ok_def)
  moreover have "accesses_seen N (touch t i s)"
    using assms by (auto simp: memory_defs touch_def split: option.splits)
  moreover have "own_writes_seen N (touch t i s)" "views_bounded N (touch t i s)" "newest_ok N (touch t i s)"
    using assms(1) by (simp_all add: memory_defs)
  ultimately show ?thesis using assms(1) by (simp add: memory_ok_def)
qed

lemma acquire_newest_view:
  "readable s t i k \<Longrightarrow> k \<le> newest (views (acquire t i k s) t) i \<and> seen (snd (writes s i ! k)) i \<le> seen (views (acquire t i k s) t) i"
  by (simp add: acquire_def)

text \<open>
  A compare-exchange that claims a free slot, or gives up an own one, and has acquired the newest identifier: the
  thread has seen every access to the value.
\<close>

lemma release_memory:
  assumes ok: "memory_ok N s" and i: "i < N"
    and change: "threads (core s) ! i = None \<and> x = Some t \<or> threads (core s) ! i = Some t \<and> x = None"
    and acc: "accesses s i \<le> seen (views s t) i"
  shows "memory_ok N (release t i x s)"
proof -
  let ?s = "release t i x s" and ?n = "length (writes s i)"
  have sel: "writes ?s = (writes s)(i := writes s i @ [(x, see_newest i ?n (views s t))])"
    "views ?s = (views s)(t := see_newest i ?n (views s t))" "threads (core ?s) = (threads (core s))[i := x]"
    "accesses ?s = accesses s" "race ?s = race s"
    by (simp_all add: release_def Let_def)
  have len: "length (threads (core s)) = N" and w: "writes s i \<noteq> []" "fst (last (writes s i)) = threads (core s) ! i"
    using ok i by (simp_all add: memory_defs)
  have "newest_ok N ?s"
    using ok len by (auto simp: memory_ok_def newest_ok_def sel nth_list_update)
  moreover have "own_writes_seen N ?s"
    unfolding own_writes_seen_def
  proof (intro allI impI)
    fix j k u
    assume j: "j < N" "k < length (writes ?s j)" "fst (writes ?s j ! k) = Some u"
    show "min (Suc k) (length (writes ?s j) - 1) \<le> newest (views ?s u) j"
    proof (cases "j = i \<and> (k = ?n \<or> Suc k = ?n)")
      case False
      then have k: "k < length (writes s j)" "fst (writes s j ! k) = Some u"
        using j by (auto simp: sel nth_append split: if_splits)
      then have "min (Suc k) (length (writes s j) - 1) \<le> newest (views s u) j"
        using ok j(1) by (simp add: memory_ok_def own_writes_seen_def)
      moreover have "j = i \<Longrightarrow> Suc k \<le> length (writes s j) - 1" using False k(1) by auto
      ultimately show ?thesis by (auto simp: sel)
    next
      case True
      have "u = t"
      proof (cases "k = ?n")
        case True
        then show ?thesis using \<open>j = i \<and> (k = ?n \<or> Suc k = ?n)\<close> j(3) change by (auto simp: sel)
      next
        case False
        then have "fst (last (writes s i)) = Some u"
          using True j(3) last_nth [OF w(1)] by (auto simp: sel nth_append)
        then show ?thesis using w(2) change by auto
      qed
      then show ?thesis using True by (auto simp: sel)
    qed
  qed
  moreover have "views_bounded N ?s"
  proof -
    have vs: "newest (views s u) j < length (writes s j)" if "j < N" for u j
      using ok that by (simp add: memory_ok_def views_bounded_def)
    have ms: "newest (snd m) j < length (writes s j)" if "j < N" "l < N" "m \<in> set (writes s l)" for m j l
      using ok that unfolding memory_ok_def views_bounded_def by blast
    have grow: "length (writes s j) \<le> length (writes ?s j)" for j by (simp add: sel)
    have new: "newest (see_newest i ?n (views s t)) j < length (writes ?s j)" if "j < N" for j
      using vs [OF that, of t] by (auto simp: sel)
    have "newest (views ?s u) j < length (writes ?s j)" if "j < N" for u j
      using vs [OF that, of t] vs [OF that, of u] by (auto simp: sel)
    moreover have "newest (snd m) j < length (writes ?s j)" if "j < N" "l < N" "m \<in> set (writes ?s l)" for m j l
    proof (cases "m \<in> set (writes s l)")
      case True
      then show ?thesis using less_le_trans [OF ms [OF that(1,2)] grow] by blast
    next
      case False
      then have "m = (x, see_newest i ?n (views s t))" using that(3) by (simp add: sel split: if_splits)
      then show ?thesis using new [OF that(1)] by simp
    qed
    ultimately show ?thesis unfolding views_bounded_def by blast
  qed
  moreover have "accesses_seen N ?s"
    using ok acc change len i by (auto simp: memory_ok_def accesses_seen_def sel nth_list_update)
  ultimately show ?thesis using ok by (simp add: memory_ok_def sel)
qed

lemma exchange_memory:
  assumes ok: "memory_ok N s" and i: "i < N" and k: "readable s t i k" "Suc k = length (writes s i)"
    and change: "threads (core s) ! i = None \<and> x = Some t \<or> threads (core s) ! i = Some t \<and> x = None"
  shows "memory_ok N (exchange t i k x s)"
  unfolding exchange_def
proof (rule release_memory)
  show "memory_ok N (acquire t i k s)" using ok i k(1) by (rule acquire_memory)
  have w: "writes s i \<noteq> []" using k(2) by auto
  show "accesses (acquire t i k s) i \<le> seen (views (acquire t i k s) t) i"
  proof (cases "threads (core s) ! i = None")
    case True
    then have "accesses s i \<le> seen (snd (writes s i ! k)) i"
      using ok i last_nth [OF w k(2)] by (simp add: memory_ok_def accesses_seen_def)
    then show ?thesis using acquire_newest_view [OF k(1)] by simp
  next
    case False
    then have "threads (core s) ! i = Some t" using change by auto
    then have "accesses s i \<le> seen (views s t) i" using ok i by (simp add: memory_ok_def accesses_seen_def)
    then show ?thesis using acquire_grows(2) [of s t i t i k] by simp
  qed
qed (use i change in simp_all)

lemma exchange_core:
  "core (exchange t i k x s) = (core s)\<lparr>threads := (threads (core s))[i := x]\<rparr>"
  by (simp add: exchange_def release_def Let_def)

section \<open>Every access is one of the interleaving model\<close>

text \<open>
  \<open>ra_moves\<close>: the core makes the step of \<open>Thread_Local\<close>, or none, or a thread that claims a slot passes over it although the newest
  identifier is null.
\<close>

definition passes_over :: "tid \<Rightarrow> 'a tls \<Rightarrow> 'a tls \<Rightarrow> bool" where
  "passes_over t c c' \<longleftrightarrow> (\<exists>v i. pcs c t = SetClaim v i \<and> i < length (threads c) \<and> c' = goto t (SetClaim v (Suc i)) c)"

definition ra_moves :: "'a \<Rightarrow> tid \<Rightarrow> 'a tls \<Rightarrow> 'a tls \<Rightarrow> bool" where
  "ra_moves dflt t c c' \<longleftrightarrow> c' = c \<or> c' = tl_step dflt t c \<or> passes_over t c c'"

lemma ra_load_moves:
  assumes "memory_ok N s" and "i < N"
    and "tl_step dflt t (core s) = (if threads (core s) ! i = Some t then found (core s) else other (core s))"
    and "threads (found (core s)) = threads (core s)" and "threads (other (core s)) = threads (core s)"
  shows "ra_moves dflt t (core s) (core (ra_load t i k found other s)) \<and> memory_ok N (ra_load t i k found other s)"
  using assms reads_own [OF assms(1,2)] acquire_memory [OF assms(1,2)]
  by (auto simp: ra_load_def ra_moves_def intro!: ra_core_memory)

lemma newest_read:
  "memory_ok N s \<Longrightarrow> i < N \<Longrightarrow> Suc k = length (writes s i) \<Longrightarrow> fst (writes s i ! k) = threads (core s) ! i"
  using last_nth [of "writes s i" k] by (simp add: memory_ok_def newest_ok_def)

lemma tl_step_threads:
  "threads (goto t p c) = threads c" "threads (finish t r c) = threads c"
  by simp_all

lemma ra_step_moves:
  assumes inv: "ra_inv dflt N s"
  shows "ra_moves dflt t (core s) (core (ra_step dflt t k s)) \<and> memory_ok N (ra_step dflt t k s)"
proof -
  have ok: "memory_ok N s" and tl: "tl_inv dflt N (core s)" using inv by (simp_all add: ra_inv_def)
  have len: "length (threads (core s)) = N" using ok by (simp add: memory_ok_def)
  note pc = tl_invD(7) [OF tl, of t]
  show ?thesis
  proof (cases "pcs (core s) t")
    case Idle
    then show ?thesis using ok by (simp add: ra_step_def ra_moves_def)
  next
    case (SetFind v i)
    show ?thesis
    proof (cases "i < N")
      case True
      then show ?thesis using SetFind len
        by (simp add: ra_step_def ra_load_moves [OF ok] tl_step_def tl_set_step_def)
    next
      case False
      then show ?thesis using SetFind len ra_core_memory [OF ok]
        by (simp add: ra_step_def ra_moves_def tl_step_def tl_set_step_def)
    qed
  next
    case (SetClaim v i)
    show ?thesis
    proof (cases "i < N \<and> readable s t i k")
      case True
      show ?thesis
      proof (cases "fst (writes s i ! k) = None")
        case None: True
        show ?thesis
        proof (cases "Suc k = length (writes s i)")
          case last: True
          have free: "threads (core s) ! i = None" using newest_read [OF ok _ last] True None by simp
          then have "memory_ok N (exchange t i k (Some t) s)" using True last by (intro exchange_memory ok) simp_all
          then show ?thesis using SetClaim True None last len free
            by (simp add: ra_step_def ra_exchange_def ra_moves_def tl_step_def tl_set_step_def exchange_core ra_core_memory)
        next
          case False
          then show ?thesis using SetClaim True None len ok by (simp add: ra_step_def ra_exchange_def ra_moves_def)
        qed
      next
        case False
        then show ?thesis using SetClaim True len acquire_memory [OF ok]
          by (simp add: ra_step_def ra_exchange_def ra_moves_def passes_over_def ra_core_memory)
      qed
    next
      case False
      then show ?thesis using SetClaim len ok
        by (auto simp: ra_step_def ra_exchange_def ra_moves_def tl_step_def tl_set_step_def ra_core_memory)
    qed
  next
    case (SetStore v i)
    then have "owns (core s) t i" using pc by simp
    then have "memory_ok N (touch t i s)" using len by (intro touch_memory ok) (simp_all add: owns_def)
    then show ?thesis using SetStore
      by (simp add: ra_step_def ra_moves_def tl_step_def tl_set_step_def ra_core_memory)
  next
    case (GetFind i)
    show ?thesis
    proof (cases "i < N")
      case True
      then show ?thesis using GetFind len
        by (simp add: ra_step_def ra_load_moves [OF ok] tl_step_def tl_get_step_def)
    next
      case False
      then show ?thesis using GetFind len ra_core_memory [OF ok]
        by (simp add: ra_step_def ra_moves_def tl_step_def tl_get_step_def)
    qed
  next
    case (EraseFind i)
    show ?thesis
    proof (cases "i < N")
      case True
      then show ?thesis using EraseFind len
        by (simp add: ra_step_def ra_load_moves [OF ok] tl_step_def tl_erase_step_def)
    next
      case False
      then show ?thesis using EraseFind len ra_core_memory [OF ok]
        by (simp add: ra_step_def ra_moves_def tl_step_def tl_erase_step_def)
    qed
  next
    case (EraseClear i)
    then have "owns (core s) t i" using pc by simp
    then have "memory_ok N (touch t i s)" using len by (intro touch_memory ok) (simp_all add: owns_def)
    then show ?thesis using EraseClear
      by (simp add: ra_step_def ra_moves_def tl_step_def tl_erase_step_def ra_core_memory)
  next
    case (EraseRelease i)
    then have i: "i < N" "threads (core s) ! i = Some t" using pc len by (simp_all add: owns_def)
    show ?thesis
    proof (cases "readable s t i k \<and> Suc k = length (writes s i)")
      case True
      then have "memory_ok N (exchange t i k None s)" using i by (intro exchange_memory ok) simp_all
      then show ?thesis using EraseRelease True i reads_own [OF ok i(1), of t k]
        by (simp add: ra_step_def ra_exchange_def ra_moves_def tl_step_def tl_erase_step_def exchange_core ra_core_memory)
    next
      case False
      then show ?thesis using EraseRelease i ok reads_own [OF ok i(1), of t k]
        by (simp add: ra_step_def ra_exchange_def ra_moves_def)
    qed
  qed
qed

text \<open>The steps of one thread change nothing of what another thread owns.\<close>

lemma tl_step_owns_other:
  assumes "tl_inv dflt N c" and "u \<noteq> t"
  shows "owns (tl_step dflt t c) u i = owns c u i"
  using tl_invD(7) [OF assms(1), of t] assms(2)
  by (cases "pcs c t")
    (auto simp: tl_step_def tl_set_step_def tl_get_step_def tl_erase_step_def owns_threads_update owns_def nth_list_update)

lemma tl_step_result:
  assumes "tl_inv dflt N c" and "pcs c t \<noteq> Idle" and "pcs (tl_step dflt t c) t = Idle"
    and "results (tl_step dflt t c) t = GetDone (Some i)"
  shows "owns (tl_step dflt t c) t i"
  using assms(2-4)
  by (cases "pcs c t")
    (auto simp: tl_step_def tl_set_step_def tl_get_step_def tl_erase_step_def owns_def split: if_splits)

lemma tl_step_pointers:
  assumes inv: "tl_inv dflt N c" and ok: "pointers_ok c"
  shows "pointers_ok (tl_step dflt t c)"
  unfolding pointers_ok_def
proof (intro allI impI)
  fix u i
  assume u: "pcs (tl_step dflt t c) u = Idle \<and> results (tl_step dflt t c) u = GetDone (Some i)"
  show "owns (tl_step dflt t c) u i"
  proof (cases "u = t")
    case True
    show ?thesis
    proof (cases "pcs c t = Idle")
      case True
      then show ?thesis using u ok \<open>u = t\<close> by (simp add: tl_step_idle pointers_ok_def)
    next
      case False
      then show ?thesis using u \<open>u = t\<close> tl_step_result [OF inv] by blast
    qed
  next
    case False
    then have "pcs c u = Idle \<and> results c u = GetDone (Some i)" using u tl_step_other [of t u dflt c] by simp
    then show ?thesis using ok tl_step_owns_other [OF inv False] by (simp add: pointers_ok_def)
  qed
qed

lemma passes_over_inv:
  assumes inv: "tl_inv dflt N c" and over: "passes_over t c c'"
  shows "tl_inv dflt N c'"
proof -
  from over obtain v i where o: "pcs c t = SetClaim v i" "i < length (threads c)" "c' = goto t (SetClaim v (Suc i)) c"
    by (auto simp: passes_over_def)
  then have "pc_ok dflt c t (SetClaim v (Suc i))" using tl_invD(7) [OF inv, of t] by simp
  then show ?thesis unfolding o(3) by (rule tl_inv_goto [OF inv])
qed

lemma passes_over_pointers: "pointers_ok c \<Longrightarrow> passes_over t c c' \<Longrightarrow> pointers_ok c'"
  by (auto simp: passes_over_def pointers_ok_def split: if_splits)

lemma ra_moves_inv:
  "tl_inv dflt N c \<Longrightarrow> pointers_ok c \<Longrightarrow> ra_moves dflt t c c' \<Longrightarrow> tl_inv dflt N c' \<and> pointers_ok c'"
  unfolding ra_moves_def by (elim disjE) (simp_all add: tl_step_inv tl_step_pointers passes_over_inv passes_over_pointers)

lemma tl_call_pointers: "pointers_ok c \<Longrightarrow> pointers_ok (tl_call t x c)"
  by (cases x) (auto simp: pointers_ok_def goto_def owns_def split: if_splits)

lemma tl_call_threads: "threads (tl_call t x c) = threads c"
  by (cases x) simp_all

lemma ra_use_inv:
  assumes inv: "ra_inv dflt N s"
  shows "ra_inv dflt N (ra_use t s) \<and> core (ra_use t s) = core s"
proof (cases "\<exists>i. pcs (core s) t = Idle \<and> results (core s) t = GetDone (Some i)")
  case True
  then obtain i where i: "pcs (core s) t = Idle" "results (core s) t = GetDone (Some i)" by blast
  then have "owns (core s) t i" using inv by (simp add: ra_inv_def pointers_ok_def)
  moreover have ok: "memory_ok N s" "length (threads (core s)) = N" using inv by (simp_all add: ra_inv_def memory_ok_def)
  ultimately have "memory_ok N (touch t i s)" by (intro touch_memory ok) (simp_all add: owns_def)
  then show ?thesis using i inv by (simp add: ra_use_def ra_inv_def)
next
  case False
  then have "ra_use t s = s"
    by (cases "pcs (core s) t"; cases "results (core s) t") (auto simp: ra_use_def split: option.split)
  then show ?thesis using inv by simp
qed

lemma ra_step_inv: "ra_inv dflt N s \<Longrightarrow> ra_inv dflt N (ra_step dflt t k s)"
  using ra_step_moves [of dflt N s t k] ra_moves_inv [of dflt N "core s" t] by (auto simp: ra_inv_def)

lemma ra_call_inv: "ra_inv dflt N s \<Longrightarrow> ra_inv dflt N (ra_core (tl_call t c) s)"
  by (simp add: ra_inv_def ra_core_memory tl_call_threads tl_call_inv tl_call_pointers del: tl_call.simps)

lemma ra_reachable_inv: "ra_reachable locked dflt N s \<Longrightarrow> ra_inv dflt N s"
proof (induction rule: ra_reachable.induct)
  case start
  have "pointers_ok (tl_init dflt N)" by (simp add: pointers_ok_def tl_init_def)
  then show ?case using memory_init [of N dflt] tl_inv_init [of dflt N] by (simp add: ra_inv_def ra_init_def)
next
  case (call s t c)
  then show ?case by (intro ra_call_inv)
next
  case (step s t k)
  then show ?case by (intro ra_step_inv)
next
  case (pointer s t)
  then show ?case by (simp add: ra_use_inv)
qed

section \<open>The interleaving model is enough\<close>

text \<open>When it may be read, the newest identifier gives the step of the interleaving model.\<close>

lemma newest_step:
  assumes inv: "ra_inv dflt N s" and last: "\<forall>i<N. Suc (k i) = length (writes s i)"
  shows "\<exists>j. core (ra_step dflt t j s) = tl_step dflt t (core s) \<and>
    (\<forall>v i. pcs (core s) t = SetClaim v i \<longrightarrow> i < N \<longrightarrow> j = k i)"
proof -
  have ok: "memory_ok N s" and tl: "tl_inv dflt N (core s)" using inv by (simp_all add: ra_inv_def)
  have len: "length (threads (core s)) = N" using ok by (simp add: memory_ok_def)
  have r: "readable s t i (k i)" "fst (writes s i ! k i) = threads (core s) ! i" if "i < N" for i
  proof -
    have l: "Suc (k i) = length (writes s i)" using last that by simp
    have "newest (views s t) i < length (writes s i)" using ok that by (simp add: memory_ok_def views_bounded_def)
    then show "readable s t i (k i)" unfolding readable_def l [symmetric] by simp
    show "fst (writes s i ! k i) = threads (core s) ! i" by (rule newest_read [OF ok that l])
  qed
  show ?thesis
  proof (cases "pcs (core s) t")
    case (EraseRelease i)
    then have "i < N" "threads (core s) ! i = Some t" using tl_invD(7) [OF tl, of t] len by (simp_all add: owns_def)
    then show ?thesis using EraseRelease r last
      by (intro exI [of _ "k i"]) (simp add: ra_step_def ra_exchange_def tl_step_def tl_erase_step_def exchange_core)
  next
    case (SetFind v i)
    then show ?thesis using r len by (intro exI [of _ "k i"]) (simp add: ra_step_def ra_load_def tl_step_def tl_set_step_def)
  next
    case (SetClaim v i)
    then show ?thesis using r len last
      by (intro exI [of _ "k i"]) (simp add: ra_step_def ra_exchange_def tl_step_def tl_set_step_def exchange_core)
  next
    case (GetFind i)
    then show ?thesis using r len by (intro exI [of _ "k i"]) (simp add: ra_step_def ra_load_def tl_step_def tl_get_step_def)
  next
    case (EraseFind i)
    then show ?thesis using r len by (intro exI [of _ "k i"]) (simp add: ra_step_def ra_load_def tl_step_def tl_erase_step_def)
  qed (simp_all add: ra_step_def tl_step_def tl_set_step_def tl_erase_step_def)
qed

lemma claim_newest:
  assumes inv: "ra_inv dflt N s" and "pcs (core s) t = SetClaim v i" and "i < N" and last: "Suc k = length (writes s i)"
  shows "core (ra_step dflt t k s) = core s \<or> core (ra_step dflt t k s) = tl_step dflt t (core s)"
proof -
  have "memory_ok N s" "length (threads (core s)) = N" using inv by (simp_all add: ra_inv_def memory_ok_def)
  with newest_read [of N s i k] show ?thesis
    using assms(2-4) by (simp add: ra_step_def ra_exchange_def tl_step_def tl_set_step_def exchange_core)
qed

lemma ra_reachable_core: "ra_reachable locked dflt N s \<Longrightarrow> locked \<Longrightarrow> tl_reachable dflt N (core s)"
proof (induction rule: ra_reachable.induct)
  case start
  then show ?case by (simp add: ra_init_def tl_reachable.start)
next
  case (call s t c)
  then show ?case by (simp add: tl_reachable.call del: tl_call.simps)
next
  case (step s t k)
  have inv: "ra_inv dflt N s" by (rule ra_reachable_inv [OF step.hyps(1)])
  have N: "length (threads (core s)) = N" using inv by (simp add: ra_inv_def memory_ok_def)
  have "core (ra_step dflt t k s) = core s \<or> core (ra_step dflt t k s) = tl_step dflt t (core s)"
  proof (cases "passes_over t (core s) (core (ra_step dflt t k s))")
    case True
    then obtain v i where c: "pcs (core s) t = SetClaim v i" "i < N" unfolding passes_over_def N by blast
    then have "Suc k = length (writes s i)" using step.hyps(2) step.prems by blast
    then show ?thesis by (rule claim_newest [OF inv c])
  next
    case False
    then show ?thesis using ra_step_moves [OF inv, of t k] by (auto simp: ra_moves_def)
  qed
  then show ?case using step.IH step.prems by (metis tl_reachable.step)
next
  case (pointer s t)
  then show ?case using ra_use_inv [OF ra_reachable_inv] by metis
qed

lemma core_ra_reachable:
  "tl_reachable dflt N c \<Longrightarrow> \<exists>s. ra_reachable True dflt N s \<and> core s = c"
proof (induction rule: tl_reachable.induct)
  case start
  have "core (ra_init dflt N) = tl_init dflt N" by (simp add: ra_init_def)
  then show ?case by (intro exI [of _ "ra_init dflt N"] conjI ra_reachable.start)
next
  case (call c t x)
  then obtain s where s: "ra_reachable True dflt N s" "core s = c" by blast
  then have "ra_reachable True dflt N (ra_core (tl_call t x) s)" using call.hyps by (intro ra_reachable.call) simp_all
  moreover have "core (ra_core (tl_call t x) s) = tl_call t x c" using s(2) by simp
  ultimately show ?case by blast
next
  case (step c t)
  then obtain s where s: "ra_reachable True dflt N s" "core s = c" by blast
  have inv: "ra_inv dflt N s" by (rule ra_reachable_inv [OF s(1)])
  have len: "Suc (length (writes s i) - 1) = length (writes s i)" if "i < N" for i
    using inv that by (simp add: ra_inv_def memory_ok_def newest_ok_def)
  from newest_step [OF inv, of "\<lambda>i. length (writes s i) - 1" t] len obtain j
    where j: "core (ra_step dflt t j s) = tl_step dflt t c"
      "\<forall>v i. pcs c t = SetClaim v i \<longrightarrow> i < N \<longrightarrow> j = length (writes s i) - 1" using s(2) by blast
  have "ra_reachable True dflt N (ra_step dflt t j s)"
    using j(2) len s by (intro ra_reachable.step) auto
  then show ?case using j(1) by blast
qed

section \<open>Properties\<close>

text \<open>C9: Under the acquire and release orders of the code, with any stale reads they allow, no two accesses to a value race
  (including those a thread makes through the pointer its \<open>get\<close> returned), a thread owns at most one slot, the
  pointer leads to the thread's own slot with the value it set last, and free slots hold the default.\<close>

theorem thread_local_race_free:
  assumes "ra_reachable locked dflt N s"
  shows "\<not> race s \<and>
    (\<forall>t i j. owns (core s) t i \<and> owns (core s) t j \<longrightarrow> i = j) \<and>
    (\<forall>t i. pcs (core s) t = Idle \<and> results (core s) t = GetDone (Some i) \<longrightarrow>
       owns (core s) t i \<and> vals (core s) ! i = slot_value dflt (latest (core s) t)) \<and>
    (\<forall>i<N. threads (core s) ! i = None \<longrightarrow> vals (core s) ! i = dflt)"
proof -
  have inv: "tl_inv dflt N (core s)" "pointers_ok (core s)" "\<not> race s"
    using ra_reachable_inv [OF assms] by (simp_all add: ra_inv_def memory_ok_def)
  show ?thesis using inv(2,3) tl_invD(3,4,5) [OF inv(1)] unfolding pointers_ok_def by blast
qed

text \<open>C10: On x86, where a compare-exchange reads the newest value even when it fails, the weaker orders of the loads make no
  difference: the states the threads can reach are exactly those of the interleaving model, on which the other properties rest.\<close>

theorem acquire_release_suffices:
  "(\<exists>s. ra_reachable True dflt N s \<and> core s = c) = tl_reachable dflt N c"
proof
  assume "\<exists>s. ra_reachable True dflt N s \<and> core s = c"
  then obtain s where "ra_reachable True dflt N s" "core s = c" by (elim exE conjE)
  then show "tl_reachable dflt N c" using ra_reachable_core [of True dflt N s] by simp
qed (rule core_ra_reachable)

text \<open>Two threads pass the only slot on; thread 2 first reads a stale null.\<close>

definition ra_turns :: "'a \<Rightarrow> (tid \<times> nat) list \<Rightarrow> 'a ra \<Rightarrow> 'a ra" where
  "ra_turns dflt ts s = fold (\<lambda>(t, k). ra_step dflt t k) ts s"

lemma ra_turns_reachable: "ra_reachable False dflt N s \<Longrightarrow> ra_reachable False dflt N (ra_turns dflt ts s)"
  unfolding ra_turns_def by (induction ts arbitrary: s) (auto intro!: ra_reachable.step)

definition slot_used :: "nat ra" where
  "slot_used = ra_turns 0 [(1, 0), (1, 0), (1, 0), (1, 0)] (ra_core (tl_call 1 (CallSet 5)) (ra_init 0 1))"

definition slot_freed :: "nat ra" where
  "slot_freed = ra_turns 0 [(1, 1), (1, 0), (1, 1)] (ra_core (tl_call 1 CallErase) slot_used)"

definition slot_found :: "nat ra" where
  "slot_found = ra_turns 0 [(2, 0), (2, 0), (2, 2), (2, 0)] (ra_core (tl_call 2 (CallSet 6)) slot_freed)"

definition slot_reused :: "nat ra" where
  "slot_reused = ra_use 2 (ra_turns 0 [(2, 3)] (ra_core (tl_call 2 CallGet) slot_found))"

lemmas ra_eval = ra_turns_def ra_step_def ra_load_def ra_exchange_def exchange_def release_def acquire_def readable_def
  touch_def ra_core_def ra_use_def ra_init_def tl_init_def goto_def finish_def view_join_def see_newest_def no_view_def Let_def

lemma slot_used_eval:
  "slot_used = \<lparr>core = \<lparr>threads = [Some 1], vals = [5], pcs = (\<lambda>_. Idle), results = (\<lambda>_. NoResult)(1 := SetDone True),
       latest = [1 \<mapsto> 5]\<rparr>,
     writes = (\<lambda>_. [(None, no_view)])(0 := [(None, no_view), (Some 1, see_newest 0 1 no_view)]),
     views = (\<lambda>_. no_view)(1 := \<lparr>newest = (\<lambda>_. 0)(0 := 1), seen = (\<lambda>_. 0)(0 := 1)\<rparr>),
     accesses = (\<lambda>_. 0)(0 := 1), race = False\<rparr>"
  by (simp add: slot_used_def ra_eval fun_upd_idem)

lemma slot_freed_eval:
  "slot_freed = \<lparr>core = \<lparr>threads = [None], vals = [0], pcs = (\<lambda>_. Idle), results = (\<lambda>_. NoResult)(1 := EraseDone True),
       latest = Map.empty\<rparr>,
     writes = (\<lambda>_. [(None, no_view)])(0 := [(None, no_view), (Some 1, see_newest 0 1 no_view),
       (None, \<lparr>newest = (\<lambda>_. 0)(0 := 2), seen = (\<lambda>_. 0)(0 := 2)\<rparr>)]),
     views = (\<lambda>_. no_view)(1 := \<lparr>newest = (\<lambda>_. 0)(0 := 2), seen = (\<lambda>_. 0)(0 := 2)\<rparr>),
     accesses = (\<lambda>_. 0)(0 := 2), race = False\<rparr>"
  by (simp add: slot_freed_def slot_used_eval ra_eval fun_upd_idem) (simp add: fun_eq_iff)

lemma slot_found_eval:
  "slot_found = \<lparr>core = \<lparr>threads = [Some 2], vals = [6], pcs = (\<lambda>_. Idle),
       results = (\<lambda>_. NoResult)(1 := EraseDone True, 2 := SetDone True), latest = [2 \<mapsto> 6]\<rparr>,
     writes = (\<lambda>_. [(None, no_view)])(0 := [(None, no_view), (Some 1, see_newest 0 1 no_view),
       (None, \<lparr>newest = (\<lambda>_. 0)(0 := 2), seen = (\<lambda>_. 0)(0 := 2)\<rparr>),
       (Some 2, \<lparr>newest = (\<lambda>_. 0)(0 := 3), seen = (\<lambda>_. 0)(0 := 2)\<rparr>)]),
     views = (\<lambda>_. no_view)(1 := \<lparr>newest = (\<lambda>_. 0)(0 := 2), seen = (\<lambda>_. 0)(0 := 2)\<rparr>,
       2 := \<lparr>newest = (\<lambda>_. 0)(0 := 3), seen = (\<lambda>_. 0)(0 := 3)\<rparr>),
     accesses = (\<lambda>_. 0)(0 := 3), race = False\<rparr>"
  by (simp add: slot_found_def slot_freed_eval ra_eval fun_upd_idem) (simp add: fun_eq_iff)

lemma slot_used_reachable: "ra_reachable False 0 1 slot_used"
  unfolding slot_used_def by (intro ra_turns_reachable ra_reachable.call ra_reachable.start) (simp add: ra_init_def tl_init_def)

lemma slot_used_idle: "pcs (core slot_used) 1 = Idle"
  by (simp add: slot_used_eval)

lemma slot_freed_reachable: "ra_reachable False 0 1 slot_freed"
  unfolding slot_freed_def by (intro ra_turns_reachable ra_reachable.call slot_used_reachable slot_used_idle)

lemma slot_freed_idle: "pcs (core slot_freed) 2 = Idle"
  by (simp add: slot_freed_eval)

lemma slot_found_reachable: "ra_reachable False 0 1 slot_found"
  unfolding slot_found_def by (intro ra_turns_reachable ra_reachable.call slot_freed_reachable slot_freed_idle)

lemma slot_found_idle: "pcs (core slot_found) 2 = Idle"
  by (simp add: slot_found_eval)

lemma slot_reused_reachable: "ra_reachable False 0 1 slot_reused"
  unfolding slot_reused_def by (intro ra_reachable.pointer ra_turns_reachable ra_reachable.call slot_found_reachable slot_found_idle)

theorem thread_local_race_free_witness:
  "\<not> race slot_reused \<and> accesses slot_reused 0 = 4 \<and> owns (core slot_reused) 2 0 \<and> vals (core slot_reused) ! 0 = 6"
proof -
  have get: "pcs (core slot_reused) 2 = Idle \<and> results (core slot_reused) 2 = GetDone (Some 0)" "accesses slot_reused 0 = 4"
    "slot_value 0 (latest (core slot_reused) 2) = 6"
    by (simp_all add: slot_reused_def slot_found_eval ra_eval)
  from thread_local_race_free [OF slot_reused_reachable]
  have "\<not> race slot_reused" and "owns (core slot_reused) 2 0 \<and> vals (core slot_reused) ! 0 = slot_value 0 (latest (core slot_reused) 2)"
    using get(1) by blast+
  then show ?thesis using get by simp
qed

text \<open>
  Without the restriction to x86 a \<open>set\<close> may be refused although a slot is free: the thread reads a stale identifier.
\<close>

lemma set_refused_spuriously:
  "let s = ra_turns 0 [(2, 0), (2, 0), (2, 1), (2, 0)] (ra_core (tl_call 2 (CallSet 6)) slot_freed)
   in ra_reachable False 0 1 s \<and> results (core s) 2 = SetDone False \<and> threads (core s) = [None]"
proof -
  have "results (core s) 2 = SetDone False \<and> threads (core s) = [None]"
    if "s = ra_turns 0 [(2, 0), (2, 0), (2, 1), (2, 0)] (ra_core (tl_call 2 (CallSet 6)) slot_freed)" for s
    unfolding that by (simp add: slot_freed_eval ra_eval)
  then show ?thesis
    unfolding Let_def by (intro conjI ra_turns_reachable ra_reachable.call slot_freed_reachable slot_freed_idle) simp_all
qed

end
