(* ===== verification/Thread_History.thy ===== *)
theory Thread_History
  imports Thread_Memory_Order Thread_Liveness
begin

text \<open>
  What the threads that share a \<open>ThreadLocal\<close> see of it, under the memory orders of the code: the history of the calls that
  returned, with their answers, and of the reads and writes through the pointers that \<open>get\<close> returned. The history is that of
  a map from threads to values on which the calls act one after the other, in the order in which they return. Since a call
  that returns before another one starts comes before it in the history, the container is linearizable.
\<close>

section \<open>Histories\<close>

text \<open>
  A \<open>set\<close> with its value and answer, a \<open>get\<close> with what its pointer leads to, an \<open>erase\<close> with its answer, and the value read or
  written through a pointer.
\<close>

datatype 'a tl_answer = SetAns 'a bool | GetAns "'a option" | EraseAns bool | ReadAns 'a | WroteAns 'a

type_synonym 'a tl_history = "(tid \<times> 'a tl_answer) list"

fun answer_of :: "'a list \<Rightarrow> 'a pc \<Rightarrow> tl_result \<Rightarrow> 'a tl_answer option" where
  "answer_of vs (SetClaim v i) (SetDone b) = Some (SetAns v b)"
| "answer_of vs (SetStore v i) (SetDone b) = Some (SetAns v b)"
| "answer_of vs (GetFind i) (GetDone r) = Some (GetAns (map_option ((!) vs) r))"
| "answer_of vs (EraseFind i) (EraseDone b) = Some (EraseAns b)"
| "answer_of vs (EraseRelease i) (EraseDone b) = Some (EraseAns b)"
| "answer_of vs p r = None"

text \<open>What a step adds to the history: the answer of the call that it ends.\<close>

definition returned :: "tid \<Rightarrow> 'a tls \<Rightarrow> 'a tls \<Rightarrow> 'a tl_history" where
  "returned t c c' = (if pcs c t \<noteq> Idle \<and> pcs c' t = Idle
     then (case answer_of (vals c') (pcs c t) (results c' t) of Some a \<Rightarrow> [(t, a)] | None \<Rightarrow> []) else [])"

text \<open>The pointer thread \<open>t\<close> has when its last call was a \<open>get\<close> that found a value.\<close>

definition pointer_of :: "tid \<Rightarrow> 'a tls \<Rightarrow> nat option" where
  "pointer_of t c = (case (pcs c t, results c t) of (Idle, GetDone (Some i)) \<Rightarrow> Some i | _ \<Rightarrow> None)"

definition ra_read :: "tid \<Rightarrow> 'a ra \<Rightarrow> 'a tl_history \<times> 'a ra" where
  "ra_read t s = (case pointer_of t (core s) of
     Some i \<Rightarrow> ([(t, ReadAns (vals (core s) ! i))], touch t i s)
   | None \<Rightarrow> ([], s))"

text \<open>A write through the pointer is also the thread's latest value.\<close>

definition ra_write :: "tid \<Rightarrow> 'a \<Rightarrow> 'a ra \<Rightarrow> 'a tl_history \<times> 'a ra" where
  "ra_write t x s = (case pointer_of t (core s) of
     Some i \<Rightarrow> ([(t, WroteAns x)],
       ra_core (\<lambda>c. c\<lparr>vals := (vals c)[i := x], latest := (latest c)(t := Some x)\<rparr>) (touch t i s))
   | None \<Rightarrow> ([], s))"

inductive ra_history :: "bool \<Rightarrow> 'a \<Rightarrow> nat \<Rightarrow> 'a ra \<Rightarrow> 'a tl_history \<Rightarrow> bool" for locked dflt N where
  start: "ra_history locked dflt N (ra_init dflt N) []"
| call: "ra_history locked dflt N s h \<Longrightarrow> pcs (core s) t = Idle \<Longrightarrow> ra_history locked dflt N (ra_core (tl_call t c) s) h"
| step: "ra_history locked dflt N s h \<Longrightarrow>
    (\<forall>v i. locked \<and> pcs (core s) t = SetClaim v i \<and> i < N \<longrightarrow> Suc k = length (writes s i)) \<Longrightarrow>
    ra_history locked dflt N (ra_step dflt t k s) (h @ returned t (core s) (core (ra_step dflt t k s)))"
| read: "ra_history locked dflt N s h \<Longrightarrow> ra_read t s = (e, s') \<Longrightarrow> ra_history locked dflt N s' (h @ e)"
| put: "ra_history locked dflt N s h \<Longrightarrow> ra_write t x s = (e, s') \<Longrightarrow> ra_history locked dflt N s' (h @ e)"

section \<open>The map\<close>

text \<open>What one entry of a history does to a map, when the map allows it.\<close>

fun map_step :: "tid \<times> 'a tl_answer \<Rightarrow> (tid \<rightharpoonup> 'a) \<Rightarrow> (tid \<rightharpoonup> 'a) option" where
  "map_step (t, SetAns v b) m = (if b then Some (m(t \<mapsto> v)) else if m t = None then Some m else None)"
| "map_step (t, GetAns r) m = (if m t = r then Some m else None)"
| "map_step (t, EraseAns b) m = (if b = (m t \<noteq> None) then Some (m(t := None)) else None)"
| "map_step (t, ReadAns x) m = (if m t = Some x then Some m else None)"
| "map_step (t, WroteAns x) m = (if m t \<noteq> None then Some (m(t \<mapsto> x)) else None)"

fun map_run :: "'a tl_history \<Rightarrow> (tid \<rightharpoonup> 'a) \<Rightarrow> (tid \<rightharpoonup> 'a) option" where
  "map_run [] m = Some m"
| "map_run (e # h) m = do { m' \<leftarrow> map_step e m; map_run h m' }"

lemma map_run_append: "map_run (h @ g) m = do { m' \<leftarrow> map_run h m; map_run g m' }"
  by (induction h arbitrary: m) (auto split: bind_split)

section \<open>Simulation\<close>

text \<open>
  The entry of thread \<open>t\<close> in the map is its latest value, except that between the two accesses that end an \<open>erase\<close> the entry is
  still there; and a thread has a value when it owns a slot, except between the two that begin its first.
\<close>

definition erasing :: "'a tls \<Rightarrow> tid \<Rightarrow> bool" where
  "erasing c t \<longleftrightarrow> (case pcs c t of EraseRelease i \<Rightarrow> True | _ \<Rightarrow> False)"

definition storing :: "'a tls \<Rightarrow> tid \<Rightarrow> bool" where
  "storing c t \<longleftrightarrow> (case pcs c t of SetStore v i \<Rightarrow> True | _ \<Rightarrow> False)"

definition shows_entry :: "'a tls \<Rightarrow> tid \<Rightarrow> 'a option \<Rightarrow> bool" where
  "shows_entry c t r \<longleftrightarrow> (if erasing c t then r \<noteq> None
     else r = latest c t \<and> ((\<exists>i. owns c t i) \<longrightarrow> \<not> storing c t \<longrightarrow> latest c t \<noteq> None))"

definition shows_map :: "'a tls \<Rightarrow> (tid \<rightharpoonup> 'a) \<Rightarrow> bool" where
  "shows_map c m \<longleftrightarrow> (\<forall>t. shows_entry c t (m t))"

lemmas entry_defs = shows_entry_def erasing_def storing_def

lemma shows_map_update:
  assumes "shows_map c m" and "\<And>u. u \<noteq> t \<Longrightarrow> pcs c' u = pcs c u \<and> latest c' u = latest c u \<and> (\<forall>i. owns c' u i = owns c u i)"
    and "\<And>u. u \<noteq> t \<Longrightarrow> m' u = m u" and "shows_entry c' t (m' t)"
  shows "shows_map c' m'"
  unfolding shows_map_def
proof
  fix u
  show "shows_entry c' u (m' u)"
  proof (cases "u = t")
    case False
    then have "shows_entry c u (m u)" using assms(1) by (simp add: shows_map_def)
    with False assms(2,3) [of u] show ?thesis by (simp add: entry_defs)
  qed (use assms(4) in simp)
qed

text \<open>An access of the interleaving model: what it returns, the map allows.\<close>

lemma tl_step_shows:
  assumes inv: "tl_inv dflt N c" and "shows_map c m"
  shows "\<exists>m'. map_run (returned t c (tl_step dflt t c)) m = Some m' \<and> shows_map (tl_step dflt t c) m'"
proof -
  let ?c = "tl_step dflt t c"
  have entry: "shows_entry c t (m t)" using assms(2) by (simp add: shows_map_def)
  have others: "pcs ?c u = pcs c u \<and> latest ?c u = latest c u \<and> (\<forall>i. owns ?c u i = owns c u i)" if "u \<noteq> t" for u
    using that tl_step_other [of t u dflt c] tl_step_latest_other [of t u dflt c] tl_step_owns_other [OF inv that] by simp
  have ok: ?thesis if "map_run (returned t c ?c) m = Some m'" "\<And>u. u \<noteq> t \<Longrightarrow> m' u = m u" "shows_entry ?c t (m' t)" for m'
    using that(1) shows_map_update [OF assms(2) others that(2,3)] by blast
  note D = tl_invD [OF inv]
  note pc = D(7) [of t] and len = D(1)
  show ?thesis
  proof (cases "pcs c t")
    case Idle
    then show ?thesis using entry by (intro ok [of m]) (simp_all add: tl_step_idle returned_def)
  next
    case (SetFind v i)
    then show ?thesis using entry pc
      by (intro ok [of m]) (auto simp: tl_step_def tl_set_step_def returned_def entry_defs)
  next
    case (SetClaim v i)
    then have "latest c t = None" "m t = None" using pc D(6) [of t] entry by (auto simp: entry_defs)
    then show ?thesis using SetClaim entry pc
      by (intro ok [of m]) (auto simp: tl_step_def tl_set_step_def returned_def entry_defs owns_def)
  next
    case (SetStore v i)
    then show ?thesis
      by (intro ok [of "m(t \<mapsto> v)"]) (auto simp: tl_step_def tl_set_step_def returned_def entry_defs)
  next
    case (GetFind i)
    show ?thesis
    proof (cases "i < N \<and> threads c ! i = Some t")
      case True
      then have o: "owns c t i" using len by (simp add: owns_def)
      then have "latest c t \<noteq> None" "m t = latest c t" using entry GetFind by (auto simp: entry_defs)
      then have "m t = Some (vals c ! i)" using D(5) [OF o] by auto
      then show ?thesis using GetFind True len entry
        by (intro ok [of m]) (auto simp: tl_step_def tl_get_step_def returned_def entry_defs)
    next
      case False
      then have "m t = None" if "\<not> i < N"
        using that pc GetFind D(6) [of t] not_owns_all [of i c t] len entry by (auto simp: entry_defs)
      then show ?thesis using GetFind False len entry
        by (intro ok [of m]) (auto simp: tl_step_def tl_get_step_def returned_def entry_defs)
    qed
  next
    case (EraseFind i)
    show ?thesis
    proof (cases "i < N")
      case True
      then show ?thesis using EraseFind len entry
        by (intro ok [of m]) (auto simp: tl_step_def tl_erase_step_def returned_def entry_defs)
    next
      case False
      then have "m t = None"
        using pc EraseFind D(6) [of t] not_owns_all [of i c t] len entry by (auto simp: entry_defs)
      then show ?thesis using EraseFind False len entry
        by (intro ok [of m]) (auto simp: tl_step_def tl_erase_step_def returned_def entry_defs)
    qed
  next
    case (EraseClear i)
    then have "m t \<noteq> None" using entry pc by (auto simp: entry_defs)
    then show ?thesis using EraseClear
      by (intro ok [of m]) (auto simp: tl_step_def tl_erase_step_def returned_def entry_defs)
  next
    case (EraseRelease i)
    then have o: "owns c t i" "latest c t = None" "m t \<noteq> None" using pc entry by (auto simp: entry_defs)
    then have "\<not> owns ?c t k" for k
      using EraseRelease D(3) [of t i k] by (auto simp: tl_step_def tl_erase_step_def owns_def nth_list_update split: if_splits)
    then show ?thesis using EraseRelease o
      by (intro ok [of "m(t := None)"]) (auto simp: tl_step_def tl_erase_step_def returned_def entry_defs owns_def)
  qed
qed

text \<open>Entering a call or passing over a slot changes no entry.\<close>

lemma shows_map_goto:
  assumes m: "shows_map c m" and c: "\<not> erasing c t" "\<not> storing c t" and p: "\<And>i. p \<noteq> EraseRelease i"
  shows "shows_map (goto t p c) m"
proof (rule shows_map_update [OF m, of t])
  have "shows_entry c t (m t)" using m by (simp add: shows_map_def)
  moreover have "\<not> erasing (goto t p c) t" using p by (simp add: erasing_def split: pc.split)
  moreover have "owns (goto t p c) t = owns c t" by (rule ext) simp
  ultimately show "shows_entry (goto t p c) t (m t)" using c by (simp add: shows_entry_def)
qed simp_all

lemma idle_entry:
  assumes "shows_map c m" and "pcs c t = Idle"
  shows "m t = latest c t" and "owns c t i \<Longrightarrow> latest c t \<noteq> None"
proof -
  have "shows_entry c t (m t)" using assms(1) by (simp add: shows_map_def)
  then have "m t = latest c t \<and> ((\<exists>i. owns c t i) \<longrightarrow> latest c t \<noteq> None)"
    unfolding shows_entry_def erasing_def storing_def using assms(2) by simp
  then show "m t = latest c t" and "owns c t i \<Longrightarrow> latest c t \<noteq> None" by blast+
qed

lemma passes_over_shows: "shows_map c m \<Longrightarrow> passes_over t c c' \<Longrightarrow> returned t c c' = [] \<and> shows_map c' m"
  using shows_map_goto [of c m t] by (auto simp: passes_over_def returned_def erasing_def storing_def)

lemma ra_moves_shows:
  assumes "tl_inv dflt N c" and "shows_map c m" and "ra_moves dflt t c c'"
  shows "\<exists>m'. map_run (returned t c c') m = Some m' \<and> shows_map c' m'"
proof -
  consider "c' = c" | "c' = tl_step dflt t c" | "passes_over t c c'" using assms(3) by (auto simp: ra_moves_def)
  then show ?thesis
  proof cases
    case 1
    then show ?thesis using assms(2) by (simp add: returned_def)
  next
    case 2
    then show ?thesis using tl_step_shows [OF assms(1,2)] by simp
  next
    case 3
    then show ?thesis using passes_over_shows [OF assms(2)] by simp
  qed
qed

lemma tl_call_shows: "pcs c t = Idle \<Longrightarrow> shows_map c m \<Longrightarrow> shows_map (tl_call t x c) m"
  using shows_map_goto [of c m t] by (cases x) (simp_all add: erasing_def storing_def)

text \<open>A pointer that is not null leads to the thread's own slot, where its entry in the map is.\<close>

lemma pointer_of_Some: "pointer_of t c = Some i \<longleftrightarrow> pcs c t = Idle \<and> results c t = GetDone (Some i)"
  by (auto simp: pointer_of_def split: pc.splits tl_result.splits option.splits)

lemma pointer_entry:
  assumes "tl_inv dflt N c" and "pointers_ok c" and "shows_map c m" and "pointer_of t c = Some i"
  shows "owns c t i" and "m t = Some (vals c ! i)"
proof -
  show o: "owns c t i" using assms(2,4) by (simp add: pointers_ok_def pointer_of_Some)
  have "m t = latest c t" "latest c t \<noteq> None"
    using idle_entry [OF assms(3)] assms(4) o by (simp_all add: pointer_of_Some)
  then show "m t = Some (vals c ! i)" using tl_invD(5) [OF assms(1) o] by auto
qed

lemma goto_Idle: "pcs c t = Idle \<Longrightarrow> goto t Idle c = c"
  by (simp add: goto_def fun_upd_idem)

lemma pointer_write_inv:
  assumes "tl_inv dflt N c" and "owns c t i" and "pcs c t = Idle"
  shows "tl_inv dflt N (c\<lparr>vals := (vals c)[i := x], latest := (latest c)(t := Some x)\<rparr>)"
  using tl_inv_write [OF assms(1,2), of x "Some x" Idle] assms(3)
    goto_Idle [of "c\<lparr>vals := (vals c)[i := x], latest := (latest c)(t := Some x)\<rparr>" t] by simp

section \<open>Properties\<close>

definition history_ok :: "'a \<Rightarrow> nat \<Rightarrow> 'a ra \<Rightarrow> 'a tl_history \<Rightarrow> bool" where
  "history_ok dflt N s h \<longleftrightarrow> ra_inv dflt N s \<and> (\<exists>m. map_run h Map.empty = Some m \<and> shows_map (core s) m)"

lemma touch_inv:
  assumes "ra_inv dflt N s" and "owns (core s) t i"
  shows "ra_inv dflt N (touch t i s)"
proof -
  have "memory_ok N s" "i < N" "threads (core s) ! i = Some t"
    using assms by (simp_all add: ra_inv_def memory_ok_def owns_def)
  then show ?thesis using assms(1) touch_memory by (simp add: ra_inv_def)
qed

lemma history_ok_append:
  assumes "history_ok dflt N s h" and "ra_inv dflt N s'"
    and "\<And>m. shows_map (core s) m \<Longrightarrow> \<exists>m'. map_run e m = Some m' \<and> shows_map (core s') m'"
  shows "history_ok dflt N s' (h @ e)"
  using assms by (fastforce simp: history_ok_def map_run_append)

lemma ra_history_ok: "ra_history locked dflt N s h \<Longrightarrow> history_ok dflt N s h"
proof (induction rule: ra_history.induct)
  case start
  have "shows_map (tl_init dflt N) Map.empty" by (simp add: shows_map_def entry_defs tl_init_def owns_def)
  then show ?case using ra_reachable_inv [OF ra_reachable.start] by (simp add: history_ok_def ra_init_def)
next
  case (call s h t c)
  then show ?case using history_ok_append [of dflt N s h "ra_core (tl_call t c) s" "[]"] tl_call_shows [of "core s" t]
    by (simp add: history_ok_def ra_call_inv del: tl_call.simps)
next
  case (step s h t k)
  then have inv: "ra_inv dflt N s" by (simp add: history_ok_def)
  then have "tl_inv dflt N (core s)" by (simp add: ra_inv_def)
  note moves = ra_moves_shows [OF this _ conjunct1 [OF ra_step_moves [OF inv, of t k]]]
  show ?case by (intro history_ok_append [OF step.IH] ra_step_inv inv moves)
next
  case (read s h t e s')
  then have inv: "ra_inv dflt N s" by (simp add: history_ok_def)
  then have c: "tl_inv dflt N (core s)" "pointers_ok (core s)" by (simp_all add: ra_inv_def)
  show ?case
  proof (cases "pointer_of t (core s)")
    case None
    then show ?thesis using read by (simp add: ra_read_def)
  next
    case (Some i)
    then have e: "e = [(t, ReadAns (vals (core s) ! i))]" "s' = touch t i s" using read.hyps(2) by (simp_all add: ra_read_def)
    have "\<exists>m'. map_run e m = Some m' \<and> shows_map (core s') m'" if "shows_map (core s) m" for m
      using pointer_entry [OF c that Some] that by (simp add: e)
    moreover have "owns (core s) t i" using c(2) Some by (simp add: pointers_ok_def pointer_of_Some)
    ultimately show ?thesis using touch_inv [OF inv] by (intro history_ok_append [OF read.IH]) (simp_all add: e)
  qed
next
  case (put s h t x e s')
  then have inv: "ra_inv dflt N s" by (simp add: history_ok_def)
  then have c: "tl_inv dflt N (core s)" "pointers_ok (core s)" by (simp_all add: ra_inv_def)
  show ?case
  proof (cases "pointer_of t (core s)")
    case None
    then show ?thesis using put by (simp add: ra_write_def)
  next
    case (Some i)
    let ?f = "\<lambda>c. c\<lparr>vals := (vals c)[i := x], latest := (latest c)(t := Some x)\<rparr>"
    have e: "e = [(t, WroteAns x)]" "s' = ra_core ?f (touch t i s)" using put.hyps(2) Some by (simp_all add: ra_write_def)
    have idle: "pcs (core s) t = Idle" using Some by (simp add: pointer_of_Some)
    have o: "owns (core s) t i" using c(2) Some by (simp add: pointers_ok_def pointer_of_Some)
    have f: "owns (?f (core s)) u j = owns (core s) u j" for u j by (simp add: owns_def)
    have "pointers_ok (?f (core s))" using c(2) by (simp add: pointers_ok_def f)
    then have "ra_inv dflt N s'"
      using touch_inv [OF inv o] pointer_write_inv [OF c(1) o idle]
      by (simp add: e ra_inv_def ra_core_memory)
    moreover have "\<exists>m'. map_run e m = Some m' \<and> shows_map (core s') m'" if "shows_map (core s) m" for m
    proof -
      have "map_run e m = Some (m(t \<mapsto> x))" using pointer_entry [OF c that Some] by (simp add: e)
      moreover have "shows_map (?f (core s)) (m(t \<mapsto> x))"
        by (rule shows_map_update [OF that, of t]) (simp_all add: f, simp add: entry_defs idle)
      ultimately show ?thesis by (simp add: e)
    qed
    ultimately show ?thesis by (intro history_ok_append [OF put.IH])
  qed
qed

lemma shows_map_idle:
  assumes "tl_inv dflt N c" and "shows_map c m" and "pcs c t = Idle"
  shows "m t = tl_map c t"
proof (cases "\<exists>i. owns c t i")
  case True
  then obtain i where o: "owns c t i" by blast
  then have "m t = latest c t" "latest c t \<noteq> None" using idle_entry [OF assms(2,3)] by blast+
  then show ?thesis using tl_invD(5) [OF assms(1) o] tl_map_owned [OF assms(1) o] by auto
next
  case False
  then have "latest c t = None" "m t = latest c t"
    using tl_invD(6) [OF assms(1)] idle_entry(1) [OF assms(2,3)] by blast+
  then show ?thesis using False by (simp add: tl_map_free)
qed

text \<open>At most one entry for each slot.\<close>

lemma shows_map_card:
  assumes inv: "tl_inv dflt N c" and m: "shows_map c m"
  shows "finite (dom m) \<and> card (dom m) \<le> N"
proof -
  have "Some t \<in> set (threads c)" if "m t \<noteq> None" for t
  proof (cases "erasing c t")
    case True
    then show ?thesis using tl_invD(7) [OF inv, of t] owns_in_set [of c t] by (auto simp: erasing_def split: pc.splits)
  next
    case False
    then have "latest c t \<noteq> None" using m that by (simp add: shows_map_def shows_entry_def)
    then have "\<not> (\<forall>i. \<not> owns c t i)" using tl_invD(6) [OF inv, of t] by argo
    then show ?thesis using owns_in_set [of c t] by simp
  qed
  then have sub: "Some ` dom m \<subseteq> set (threads c)" by (auto simp: dom_def)
  then have "finite (Some ` dom m)" "card (Some ` dom m) \<le> card (set (threads c))" using finite_subset card_mono by blast+
  moreover have "card (set (threads c)) \<le> N" using card_length [of "threads c"] tl_invD(1) [OF inv] by simp
  ultimately show ?thesis by (simp add: finite_image_iff card_image)
qed

text \<open>C8: However threads interleave under the memory orders of the code, whatever stale identifiers they read, and whatever they
  read and write through the pointers of their last \<open>get\<close>, the answers of the calls that returned are those of a map from
  threads to values on which the calls act one after the other in the order of their returns: \<open>set\<close> stores (or is refused
  to a thread without a value), \<open>get\<close> finds exactly the value last stored, \<open>erase\<close> removes it and says whether there was one.
  The map never has more than \<open>N\<close> entries, it is what the container holds for every thread that is not in a call, and nothing races.\<close>

theorem thread_local_linearizable:
  assumes "ra_history locked dflt N s h"
  shows "\<exists>m. map_run h Map.empty = Some m \<and> finite (dom m) \<and> card (dom m) \<le> N \<and>
    (\<forall>t. pcs (core s) t = Idle \<longrightarrow> m t = tl_map (core s) t) \<and> \<not> race s"
proof -
  obtain m where m: "map_run h Map.empty = Some m" "shows_map (core s) m" and inv: "ra_inv dflt N s"
    using ra_history_ok [OF assms] by (auto simp: history_ok_def)
  then have tl: "tl_inv dflt N (core s)" and "\<not> race s" by (simp_all add: ra_inv_def memory_ok_def)
  then show ?thesis using m shows_map_idle [OF tl m(2)] shows_map_card [OF tl m(2)] by blast
qed

text \<open>
  Thread 1 sets 5, gets the pointer and writes 7 through it; thread 2 is refused by a container of one slot; thread 1 reads its value
  and erases it. The number in a turn says which identifier is read.
\<close>

datatype 'a ra_action = Calls tid "'a tl_op" | Turn tid nat | Reads tid | Writes tid 'a

fun perform :: "'a \<Rightarrow> 'a ra_action \<Rightarrow> 'a tl_history \<times> 'a ra \<Rightarrow> 'a tl_history \<times> 'a ra" where
  "perform dflt (Calls t c) (h, s) = (if pcs (core s) t = Idle then (h, ra_core (tl_call t c) s) else (h, s))"
| "perform dflt (Turn t k) (h, s) = (let s' = ra_step dflt t k s in (h @ returned t (core s) (core s'), s'))"
| "perform dflt (Reads t) (h, s) = (let (e, s') = ra_read t s in (h @ e, s'))"
| "perform dflt (Writes t x) (h, s) = (let (e, s') = ra_write t x s in (h @ e, s'))"

lemma perform_history: "ra_history False dflt N s h \<Longrightarrow> perform dflt a (h, s) = (h', s') \<Longrightarrow> ra_history False dflt N s' h'"
  by (cases a) (auto simp: Let_def simp del: tl_call.simps split: if_splits prod.splits
      intro: ra_history.call ra_history.step ra_history.read ra_history.put)

definition performed :: "nat ra_action list \<Rightarrow> nat tl_history \<times> nat ra" where
  "performed as = fold (perform 0) as ([], ra_init 0 1)"

lemma performed_history: "performed as = (h, s) \<Longrightarrow> ra_history False 0 1 s h"
proof (induction as arbitrary: h s rule: rev_induct)
  case Nil
  then show ?case using ra_history.start [of False 0 1] by (auto simp: performed_def)
next
  case (snoc a as)
  obtain g r where "performed as = (g, r)" by fastforce
  then show ?case using snoc.IH [of g r] snoc.prems perform_history [of 0 1 r g a h s] by (simp add: performed_def)
qed

definition shared_slot :: "nat tl_history \<times> nat ra" where
  "shared_slot = performed
    [Calls 1 (CallSet 5), Turn 1 0, Turn 1 0, Turn 1 0, Turn 1 0, Calls 1 CallGet, Turn 1 1, Writes 1 7,
     Calls 2 (CallSet 6), Turn 2 0, Turn 2 0, Turn 2 1, Turn 2 0, Reads 1, Calls 1 CallErase, Turn 1 1, Turn 1 0, Turn 1 1]"

lemma shared_slot_history:
  "fst shared_slot = [(1, SetAns 5 True), (1, GetAns (Some 5)), (1, WroteAns 7), (2, SetAns 6 False), (1, ReadAns 7), (1, EraseAns True)]"
  by (simp add: shared_slot_def performed_def ra_eval returned_def ra_read_def ra_write_def pointer_of_def)

theorem thread_local_linearizable_witness:
  "map_run [(1, SetAns (5 :: nat) True), (1, GetAns (Some 5)), (1, WroteAns 7), (2, SetAns 6 False), (1, ReadAns 7), (1, EraseAns True)]
     Map.empty \<noteq> None \<and> \<not> race (snd shared_slot)"
proof -
  have "ra_history False 0 1 (snd shared_slot) (fst shared_slot)"
    using performed_history [of _ "fst shared_slot" "snd shared_slot"] unfolding shared_slot_def by simp
  from thread_local_linearizable [OF this] show ?thesis unfolding shared_slot_history by blast
qed

end
