(* ===== verification/Evector.thy ===== *)
theory Evector
  imports Lilu_Base "HOL-Library.Multiset"
begin

text \<open>
  The vector-like container \<open>evector_base\<close> of \<open>kern_util.hpp\<close>. Its block of memory is a list of
  cells (a cell is \<open>None\<close> until something is stored in it) that grows by \<open>kern_os_realloc\<close>. The
  allocator is not part of the repository: each operation that may call it takes its answer, an
  address or null, as an argument. A granted block has the bytes that were asked for and no more.
  \<open>destroyed\<close> logs the calls of the element destructor.
\<close>

section \<open>State\<close>

record 'a evec =
  ptr :: "(nat \<times> 'a option list) option"
  cnt :: size_t
  rsvd :: size_t
  held :: ledger
  destroyed :: "'a list"

definition ev_fresh :: "ledger \<Rightarrow> 'a evec" where
  "ev_fresh L = \<lparr>ptr = None, cnt = 0, rsvd = 0, held = L, destroyed = []\<rparr>"

section \<open>Operations\<close>

definition ev_size :: "'a evec \<Rightarrow> size_t" where
  "ev_size s = cnt s"

text \<open>\<open>data\<close> hands out the block itself.\<close>

definition ev_data :: "'a evec \<Rightarrow> (nat \<times> 'a option list) option" where
  "ev_data s = ptr s"

definition ev_last :: "'a evec \<Rightarrow> size_t" where
  "ev_last s = cnt s - 1"

text \<open>\<open>ptr[index]\<close>: undefined outside of the block and for a cell nothing was stored in.\<close>

definition ev_at :: "'a evec \<Rightarrow> size_t \<Rightarrow> 'a option" where
  "ev_at s index = (case ptr s of None \<Rightarrow> None
     | Some (a, cells) \<Rightarrow> (case cell_get cells (unat index) of Some (Some x) \<Rightarrow> Some x | _ \<Rightarrow> None))"

text \<open>The cells of a block of \<open>bytes\<close> bytes that takes over the contents of an old one.\<close>

definition realloc_cells :: "size_t \<Rightarrow> size_t \<Rightarrow> 'a option list \<Rightarrow> 'a option list" where
  "realloc_cells sizeofT bytes old =
     (let k = unat bytes div unat sizeofT in take k old @ replicate (k - length old) None)"

definition ev_block :: "'a evec \<Rightarrow> 'a option list" where
  "ev_block s = (case ptr s of None \<Rightarrow> [] | Some (a, cells) \<Rightarrow> cells)"

definition ev_reserve :: "size_t \<Rightarrow> size_t \<Rightarrow> nat option \<Rightarrow> size_t \<Rightarrow> 'a evec \<Rightarrow> (nat option \<times> 'a evec) option" where
  "ev_reserve sizeofT MUL answer num s =
     (if rsvd s < num then
        (case answer of
           None \<Rightarrow> Some (None, s)
         | Some nPtr \<Rightarrow> do {
             L \<leftarrow> (case ptr s of None \<Rightarrow> Some (held s) | Some (a, cells) \<Rightarrow> release_res KMemory a (held s));
             Some (Some nPtr, s\<lparr>
               ptr := Some (nPtr, realloc_cells sizeofT (MUL * num * sizeofT) (ev_block s)),
               rsvd := MUL * num,
               held := obtain_res KMemory (Some nPtr) L\<rparr>)
           })
      else Some (map_option fst (ptr s), s))"

text \<open>A failure also writes a line to the system log, which is not part of this state.\<close>

definition ev_push_back :: "size_t \<Rightarrow> size_t \<Rightarrow> nat option \<Rightarrow> 'a \<Rightarrow> 'a evec \<Rightarrow> (bool \<times> 'a evec) option" where
  "ev_push_back sizeofT MUL answer element s = do {
     (p, s) \<leftarrow> ev_reserve sizeofT MUL answer (cnt s + 1) s;
     (case ptr s of
        Some (a, cells) \<Rightarrow>
          if p \<noteq> None then do {
            cells \<leftarrow> cell_set cells (unat (cnt s)) (Some element);
            Some (True, s\<lparr>ptr := Some (a, cells), cnt := cnt s + 1\<rparr>)
          } else Some (False, s)
      | None \<Rightarrow> Some (False, s))
   }"

text \<open>
  \<open>lilu_os_memmove\<close> of \<open>bytes\<close> bytes from cell \<open>i + 1\<close> to cell \<open>i\<close>: undefined when it leaves the block or
  is not a whole number of cells.
\<close>

definition memmove_down :: "size_t \<Rightarrow> 'a list \<Rightarrow> nat \<Rightarrow> size_t \<Rightarrow> 'a list option" where
  "memmove_down sizeofT cells i bytes =
     (let n = unat bytes div unat sizeofT in
      if unat bytes mod unat sizeofT = 0 \<and> i + 1 + n \<le> length cells
      then Some (take i cells @ take n (drop (i + 1) cells) @ drop (i + n) cells) else None)"

definition ev_erase :: "size_t \<Rightarrow> size_t \<Rightarrow> bool \<Rightarrow> 'a evec \<Rightarrow> 'a evec option" where
  "ev_erase sizeofT index free s = do {
     x \<leftarrow> ev_at s index;
     (case ptr s of
        None \<Rightarrow> None
      | Some (a, cells) \<Rightarrow> do {
          let s = s\<lparr>destroyed := destroyed s @ [x], cnt := cnt s - 1\<rparr>;
          cells \<leftarrow> (if cnt s \<noteq> index
             then memmove_down sizeofT cells (unat index) ((cnt s - index) * sizeofT) else Some cells);
          (if free \<and> cnt s = 0 then do {
             L \<leftarrow> release_res KMemory a (held s);
             Some (s\<lparr>ptr := None, rsvd := 0, held := L\<rparr>)
           } else Some (s\<lparr>ptr := Some (a, cells)\<rparr>))
        })
   }"

text \<open>The destructor loop of \<open>deinit\<close>, from index \<open>i\<close> with \<open>k\<close> iterations left.\<close>

fun ev_destroy :: "nat \<Rightarrow> nat \<Rightarrow> 'a evec \<Rightarrow> 'a evec option" where
  "ev_destroy i 0 s = Some s"
| "ev_destroy i (Suc k) s = do {
     x \<leftarrow> ev_at s (of_nat i);
     ev_destroy (Suc i) k (s\<lparr>destroyed := destroyed s @ [x]\<rparr>)
   }"

definition ev_deinit :: "'a evec \<Rightarrow> 'a evec option" where
  "ev_deinit s = (case ptr s of
     None \<Rightarrow> Some s
   | Some (a, cells) \<Rightarrow> do {
       s \<leftarrow> ev_destroy 0 (unat (cnt s)) s;
       L \<leftarrow> release_res KMemory a (held s);
       Some (s\<lparr>ptr := None, cnt := 0, rsvd := 0, held := L\<rparr>)
     })"

section \<open>Invariant and abstraction\<close>

definition ev_inv :: "size_t \<Rightarrow> 'a evec \<Rightarrow> bool" where
  "ev_inv sizeofT s \<longleftrightarrow> 0 < unat sizeofT \<and> (case ptr s of
     None \<Rightarrow> cnt s = 0 \<and> rsvd s = 0
   | Some (a, cells) \<Rightarrow> length cells = unat (rsvd s) \<and> unat (cnt s) \<le> unat (rsvd s) \<and>
       unat (rsvd s) * unat sizeofT < 2 ^ 64 \<and>
       None \<notin> set (take (unat (cnt s)) cells) \<and> (KMemory, a) \<in> held s)"

definition ev_list :: "'a evec \<Rightarrow> 'a list" where
  "ev_list s = map the (take (unat (cnt s)) (ev_block s))"

text \<open>The ledger without the vector's own block.\<close>

definition ev_others :: "'a evec \<Rightarrow> ledger" where
  "ev_others s = (case ptr s of None \<Rightarrow> held s | Some (a, cells) \<Rightarrow> held s - {(KMemory, a)})"

lemma ev_inv_block:
  "ev_inv sz s \<Longrightarrow> length (ev_block s) = unat (rsvd s) \<and> unat (cnt s) \<le> unat (rsvd s) \<and>
     unat (rsvd s) * unat sz < 2 ^ 64 \<and> None \<notin> set (take (unat (cnt s)) (ev_block s)) \<and> 0 < unat sz"
  by (auto simp: ev_inv_def ev_block_def split: option.splits)

lemma length_ev_list: "ev_inv sz s \<Longrightarrow> length (ev_list s) = unat (cnt s)"
  using ev_inv_block [of sz s] by (simp add: ev_list_def)

lemma ev_at_list:
  assumes "ev_inv sz s" and "unat i < length (ev_list s)"
  shows "ev_at s i = Some (ev_list s ! unat i)"
proof -
  note B = ev_inv_block [OF assms(1)]
  from assms have i: "unat i < unat (cnt s)" by (simp add: length_ev_list)
  then have "ev_block s ! unat i \<in> set (take (unat (cnt s)) (ev_block s))"
    using B by (auto simp: in_set_conv_nth intro!: exI [of _ "unat i"])
  with B obtain x where "ev_block s ! unat i = Some x" by (metis not_None_eq)
  with i B show ?thesis
    by (auto simp: ev_at_def ev_list_def ev_block_def split: option.splits)
qed

section \<open>The operations keep the invariant\<close>

lemma realloc_cells_exact:
  assumes "0 < unat sz" and "unat m * unat n * unat sz < 2 ^ 64"
  shows "realloc_cells sz (m * n * sz) old = take (unat m * unat n) old @ replicate (unat m * unat n - length old) None"
    and "unat (m * n) = unat m * unat n"
proof -
  have "unat m * unat n \<le> unat m * unat n * unat sz" using assms(1) by (cases "unat sz") simp_all
  with assms(2) have "unat m * unat n < 2 ^ 64" by (rule order_le_less_trans [rotated])
  then show mn: "unat (m * n) = unat m * unat n" by (intro unat_mult_exact) simp
  with assms(2) have "unat (m * n * sz) = unat m * unat n * unat sz" by (subst unat_mult_exact) simp_all
  with assms(1) show "realloc_cells sz (m * n * sz) old = take (unat m * unat n) old @ replicate (unat m * unat n - length old) None"
    by (simp add: realloc_cells_def Let_def)
qed

lemma ev_reserve_grow:
  assumes inv: "ev_inv sz s" and m: "0 < unat m" and bound: "unat m * unat n * unat sz < 2 ^ 64"
    and fresh: "(KMemory, b) \<notin> ev_others s" and grow: "rsvd s < n"
  obtains s' where "ev_reserve sz m (Some b) n s = Some (Some b, s')" "ev_inv sz s'" "ev_list s' = ev_list s"
    "cnt s' = cnt s" "destroyed s' = destroyed s" "ev_others s' = ev_others s" "unat n \<le> unat (rsvd s')" "ptr s' \<noteq> None"
proof -
  note B = ev_inv_block [OF inv]
  note R = realloc_cells_exact [of sz m n, OF _ bound]
  let ?cells = "realloc_cells sz (m * n * sz) (ev_block s)"
  let ?L = "insert (KMemory, b) (ev_others s)"
  let ?s = "s\<lparr>ptr := Some (b, ?cells), rsvd := m * n, held := ?L\<rparr>"
  have n: "unat n \<le> unat m * unat n" using m by simp
  moreover have "unat (rsvd s) < unat n" using grow by (simp add: word_less_unat)
  ultimately have old: "unat (rsvd s) \<le> unat m * unat n" by linarith
  have len: "length ?cells = unat (m * n)" and pre: "take (unat (cnt s)) ?cells = take (unat (cnt s)) (ev_block s)"
    using B old unfolding R(1) [OF conjunct2 [OF conjunct2 [OF conjunct2 [OF conjunct2 [OF B]]]]]
    by (simp_all add: R(2) min_absorb1)
  have run: "ev_reserve sz m (Some b) n s = Some (Some b, ?s)"
    using grow inv by (auto simp: ev_reserve_def ev_others_def ev_inv_def split: option.splits)
  show ?thesis
  proof (rule that [OF run])
    show "ev_inv sz ?s"
      using len pre B old bound R(2) by (simp add: ev_inv_def)
    show "ev_list ?s = ev_list s" using pre by (simp add: ev_list_def ev_block_def)
    show "ev_others ?s = ev_others s" using fresh by (simp add: ev_others_def)
    show "unat n \<le> unat (rsvd ?s)" using R(2) B n by simp
  qed simp_all
qed

lemma ev_reserve_keep:
  assumes "ev_inv sz s" and "\<not> rsvd s < n \<or> answer = None"
  obtains p where "ev_reserve sz m answer n s = Some (p, s)"
    "p \<noteq> None \<Longrightarrow> ptr s \<noteq> None \<and> unat n \<le> unat (rsvd s)" "p = None \<Longrightarrow> answer = None \<or> n = 0"
proof (cases "rsvd s < n")
  case True
  with assms(2) show ?thesis by (intro that [of None]) (auto simp: ev_reserve_def)
next
  case False
  then have n: "unat n \<le> unat (rsvd s)" by (simp add: word_less_unat)
  moreover have "n = 0" if "ptr s = None" using that n assms(1) by (simp add: ev_inv_def unat_eq_0)
  ultimately show ?thesis
    using False by (intro that [of "map_option fst (ptr s)"]) (simp_all add: ev_reserve_def)
qed

definition ev_call_ok :: "size_t \<Rightarrow> size_t \<Rightarrow> size_t \<Rightarrow> nat option \<Rightarrow> 'a evec \<Rightarrow> bool" where
  "ev_call_ok sz m n answer s \<longleftrightarrow> 0 < unat m \<and> unat m * unat n * unat sz < 2 ^ 64 \<and>
     (case answer of None \<Rightarrow> True | Some b \<Rightarrow> (KMemory, b) \<notin> ev_others s)"

lemma ev_reserve_ok:
  assumes "ev_inv sz s" and "ev_call_ok sz m n answer s"
  obtains p s' where "ev_reserve sz m answer n s = Some (p, s')" "ev_inv sz s'" "ev_list s' = ev_list s"
    "cnt s' = cnt s" "destroyed s' = destroyed s" "ev_others s' = ev_others s"
    "p \<noteq> None \<Longrightarrow> ptr s' \<noteq> None \<and> unat n \<le> unat (rsvd s')"
    "p = None \<Longrightarrow> s' = s \<and> (answer = None \<or> n = 0)"
proof (cases "rsvd s < n \<and> answer \<noteq> None")
  case True
  then obtain b where b: "answer = Some b" and grow: "rsvd s < n" by blast
  from assms(2) b have ok: "0 < unat m" "unat m * unat n * unat sz < 2 ^ 64" "(KMemory, b) \<notin> ev_others s"
    by (simp_all add: ev_call_ok_def)
  from ev_reserve_grow [OF assms(1) ok grow] obtain s' where
    "ev_reserve sz m (Some b) n s = Some (Some b, s')" "ev_inv sz s'" "ev_list s' = ev_list s"
    "cnt s' = cnt s" "destroyed s' = destroyed s" "ev_others s' = ev_others s" "unat n \<le> unat (rsvd s')" "ptr s' \<noteq> None" .
  with b show ?thesis by (intro that [of "Some b" s']) simp_all
next
  case False
  then have "\<not> rsvd s < n \<or> answer = None" by blast
  with assms(1) obtain p where "ev_reserve sz m answer n s = Some (p, s)"
    "p \<noteq> None \<Longrightarrow> ptr s \<noteq> None \<and> unat n \<le> unat (rsvd s)" "p = None \<Longrightarrow> answer = None \<or> n = 0"
    by (rule ev_reserve_keep [of sz s n answer m]) blast
  with assms(1) show ?thesis by (intro that [of p s]) simp_all
qed

text \<open>\<open>push_back\<close> appends the element, or reports failure and changes nothing.\<close>

lemma ev_push_back_ok:
  assumes inv: "ev_inv sz s" and room: "unat (cnt s) + 1 < 2 ^ 64"
    and ok: "ev_call_ok sz m (cnt s + 1) answer s"
  obtains r s' where "ev_push_back sz m answer x s = Some (r, s')" "ev_inv sz s'"
    "ev_list s' = (if r then ev_list s @ [x] else ev_list s)" "destroyed s' = destroyed s"
    "ev_others s' = ev_others s" "\<not> r \<Longrightarrow> s' = s \<and> answer = None"
proof -
  have c1: "unat (cnt s + 1) = unat (cnt s) + 1" using room by (simp add: unat_add_exact)
  from inv ok obtain p t where t: "ev_reserve sz m answer (cnt s + 1) s = Some (p, t)" "ev_inv sz t"
    "ev_list t = ev_list s" "cnt t = cnt s" "destroyed t = destroyed s" "ev_others t = ev_others s"
    "p \<noteq> None \<Longrightarrow> ptr t \<noteq> None \<and> unat (cnt s + 1) \<le> unat (rsvd t)"
    "p = None \<Longrightarrow> t = s \<and> (answer = None \<or> cnt s + 1 = 0)"
    by (rule ev_reserve_ok) blast
  have c0: "cnt s + 1 \<noteq> 0" using c1 by (auto simp: word_eq_unat)
  show ?thesis
  proof (cases p)
    case None
    with t have "ev_push_back sz m answer x s = Some (False, t)"
      by (auto simp: ev_push_back_def split: option.split)
    with None t c0 show ?thesis by (intro that) auto
  next
    case (Some b)
    with t(7) c1 obtain a cells where cells: "ptr t = Some (a, cells)" "unat (cnt s) < unat (rsvd t)" by force
    then have len: "length cells = unat (rsvd t)" using ev_inv_block [OF t(2)] by (simp add: ev_block_def)
    let ?t = "t\<lparr>ptr := Some (a, cells[unat (cnt s) := Some x]), cnt := cnt t + 1\<rparr>"
    have run: "ev_push_back sz m answer x s = Some (True, ?t)"
      using t(1,4) cells len Some by (simp add: ev_push_back_def)
    have pre: "take (unat (cnt s) + 1) (cells[unat (cnt s) := Some x]) = take (unat (cnt s)) cells @ [Some x]"
      using cells(2) len by (simp add: take_Suc_conv_app_nth)
    show ?thesis
    proof (rule that [OF run])
      show "ev_inv sz ?t" using t(2,4) cells len pre c1 by (simp add: ev_inv_def)
      show "ev_list ?t = (if True then ev_list s @ [x] else ev_list s)"
        using t(3)[symmetric] t(4) cells len pre c1 by (simp add: ev_list_def ev_block_def)
    qed (use t cells in \<open>simp_all add: ev_others_def\<close>)
  qed
qed

text \<open>\<open>erase\<close> removes one element, having destroyed it, and frees the block with the last one.\<close>

lemma unat_diff_1: "0 < unat (a :: 'w::len word) \<Longrightarrow> Suc (unat (a - 1)) = unat a"
  by (simp add: unat_minus_1)

lemma memmove_down_exact:
  assumes "0 < unat sz" and "unat d * unat sz < 2 ^ 64" and "i + 1 + unat d \<le> length cells"
  shows "memmove_down sz cells i (d * sz) = Some (take i cells @ take (unat d) (drop (i + 1) cells) @ drop (i + unat d) cells)"
  using assms by (simp add: memmove_down_def Let_def unat_mult_exact)

definition erase_nth :: "nat \<Rightarrow> 'a list \<Rightarrow> 'a list" where
  "erase_nth i xs = take i xs @ drop (Suc i) xs"

lemma set_erase_nth: "set (erase_nth i xs) \<subseteq> set xs"
  by (auto simp: erase_nth_def dest: in_set_takeD in_set_dropD)

lemma take_memmove:
  assumes "i < n" and "n \<le> length cells"
  shows "take (n - 1) (take i cells @ take (n - 1 - i) (drop (i + 1) cells) @ drop (n - 1) cells) = erase_nth i (take n cells)"
  using assms by (simp add: erase_nth_def drop_take min_absorb2)

lemma ev_erase_run:
  assumes "ev_at s i = Some x" and "ptr s = Some (a, cells)" and "(KMemory, a) \<in> held s"
    and "(if cnt s - 1 \<noteq> i then memmove_down sz cells (unat i) ((cnt s - 1 - i) * sz) else Some cells) = Some cells'"
  shows "ev_erase sz i free s = Some (let t = s\<lparr>destroyed := destroyed s @ [x], cnt := cnt s - 1\<rparr> in
    if free \<and> cnt s - 1 = 0 then t\<lparr>ptr := None, rsvd := 0, held := held s - {(KMemory, a)}\<rparr>
    else t\<lparr>ptr := Some (a, cells')\<rparr>)"
proof -
  let ?t = "s\<lparr>destroyed := destroyed s @ [x], cnt := cnt s - 1\<rparr>"
  have t: "cnt ?t = cnt s - 1" "held ?t = held s" by simp_all
  show ?thesis
    by (simp only: ev_erase_def assms(1,2,4) release_res_held [OF assms(3)] Let_def option.case prod.case
        Option.bind.simps t if_distrib [of Some])
qed

lemma ev_erase_ok:
  assumes inv: "ev_inv sz s" and i: "unat i < length (ev_list s)"
  obtains s' where "ev_erase sz i free s = Some s'" "ev_inv sz s'"
    "ev_list s' = erase_nth (unat i) (ev_list s)" "destroyed s' = destroyed s @ [ev_list s ! unat i]"
    "ev_others s' = ev_others s" "free \<Longrightarrow> ev_list s' = [] \<Longrightarrow> ptr s' = None"
proof -
  note B = ev_inv_block [OF inv]
  let ?n = "unat (cnt s)"
  from i inv have in': "unat i < ?n" by (simp add: length_ev_list)
  with inv obtain a cells where p: "ptr s = Some (a, cells)" and a: "(KMemory, a) \<in> held s"
    by (auto simp: ev_inv_def split: option.splits)
  then have blk: "ev_block s = cells" by (simp add: ev_block_def)
  have n1: "unat (cnt s - 1) = ?n - 1" using in' by (simp add: unat_minus_1)
  define d where "d = cnt s - 1 - i"
  have d: "unat d = ?n - 1 - unat i"
    using in' n1 unfolding d_def by (simp add: unat_sub word_le_nat_alt)
  have "unat d \<le> unat (rsvd s)" using d B by linarith
  then have "unat d * unat sz \<le> unat (rsvd s) * unat sz" by simp
  with B have dsz: "unat d * unat sz < 2 ^ 64" by linarith
  let ?moved = "take (unat i) cells @ take (unat d) (drop (unat i + 1) cells) @ drop (unat i + unat d) cells"
  define cells' where "cells' = (if cnt s - 1 \<noteq> i then ?moved else cells)"
  have moved: "(if cnt s - 1 \<noteq> i then memmove_down sz cells (unat i) (d * sz) else Some cells) = Some cells'"
    using memmove_down_exact [of sz d "unat i" cells] B blk d dsz in' by (simp add: cells'_def)
  have pre: "take (?n - 1) cells' = erase_nth (unat i) (take ?n cells)"
  proof (cases "cnt s - 1 = i")
    case True
    with n1 have "unat i = ?n - 1" by simp
    with in' show ?thesis by (simp add: True cells'_def erase_nth_def min_absorb1)
  next
    case False
    have idx: "unat i + unat d = ?n - 1" using d in' by simp
    have le: "?n \<le> length cells" using B blk by simp
    show ?thesis unfolding cells'_def if_P [OF False] idx unfolding d using in' le by (rule take_memmove)
  qed
  have len: "length cells' = length cells"
    using B blk d in' by (auto simp: cells'_def min_def)
  have none: "None \<notin> set (erase_nth (unat i) (take ?n cells))"
    using B blk set_erase_nth [of "unat i" "take ?n cells"] by auto
  let ?t = "s\<lparr>destroyed := destroyed s @ [ev_list s ! unat i], cnt := cnt s - 1\<rparr>"
  let ?s = "?t\<lparr>ptr := Some (a, cells')\<rparr>"
  let ?f = "?t\<lparr>ptr := None, rsvd := 0, held := held s - {(KMemory, a)}\<rparr>"
  have run: "ev_erase sz i free s = Some (if free \<and> cnt s - 1 = 0 then ?f else ?s)"
    using ev_erase_run [OF ev_at_list [OF inv i] p a moved [unfolded d_def]] unfolding Let_def .
  have list: "ev_list ?s = erase_nth (unat i) (ev_list s)"
    using arg_cong [OF pre, of "map the"] n1 p
    by (simp add: ev_list_def ev_block_def erase_nth_def take_map drop_map)
  have "?n - 1 \<le> unat (rsvd s)" using B by linarith
  then have inv_s: "ev_inv sz ?s" using inv p B blk len none pre n1 by (simp add: ev_inv_def)
  show ?thesis
  proof (rule that [OF run], goal_cases)
    case 1
    show ?case using inv_s B by (simp add: ev_inv_def)
  next
    case 2
    have eq: "ev_list (if free \<and> cnt s - 1 = 0 then ?f else ?s) = ev_list ?s"
      by (cases "free \<and> cnt s - 1 = 0") (simp_all add: ev_list_def)
    show ?case unfolding eq by (rule list)
  next
    case 5
    then show ?case using length_ev_list [OF inv_s] by (auto simp: unat_eq_0 split: if_splits)
  qed (use p in \<open>simp_all add: ev_others_def\<close>)
qed

text \<open>\<open>deinit\<close> destroys every element in order and gives the block back.\<close>

lemma ev_at_destroyed [simp]: "ev_at (s\<lparr>destroyed := d\<rparr>) i = ev_at s i"
  by (simp add: ev_at_def)

lemma ev_destroy_run:
  assumes "\<And>j. j < k \<Longrightarrow> ev_at s (of_nat (i + j)) = Some (xs ! j)" and "length xs = k"
  shows "ev_destroy i k s = Some (s\<lparr>destroyed := destroyed s @ xs\<rparr>)"
  using assms
proof (induction k arbitrary: i s xs)
  case (Suc k)
  from Suc.prems(2) obtain y ys where xs: "xs = y # ys" by (cases xs) simp_all
  have "ev_at s (of_nat i) = Some y" using Suc.prems(1) [of 0] xs by simp
  moreover have "ev_at s (of_nat (Suc i + j)) = Some (ys ! j)" if "j < k" for j
    using Suc.prems(1) [of "Suc j"] that xs by (simp add: add.assoc)
  ultimately show ?case
    using Suc.IH [of "s\<lparr>destroyed := destroyed s @ [y]\<rparr>" "Suc i" ys] Suc.prems(2) xs by simp
qed simp

lemma ev_deinit_ok:
  assumes inv: "ev_inv sz s"
  shows "ev_deinit s = Some (s\<lparr>ptr := None, cnt := 0, rsvd := 0, held := ev_others s,
    destroyed := destroyed s @ ev_list s\<rparr>)"
proof (cases "ptr s")
  case None
  with inv show ?thesis by (simp add: ev_deinit_def ev_inv_def ev_others_def ev_list_def)
next
  case (Some p)
  then obtain a cells where p: "ptr s = Some (a, cells)" by (cases p) simp
  have "ev_at s (of_nat (0 + j)) = Some (ev_list s ! j)" if "j < unat (cnt s)" for j
  proof -
    have "unat (cnt s) < 2 ^ LENGTH(64)" by (rule unsigned_less)
    with that have "unat (of_nat j :: size_t) = j" by (simp add: unat_of_nat)
    with that ev_at_list [OF inv, of "of_nat j"] length_ev_list [OF inv] show ?thesis by simp
  qed
  then have "ev_destroy 0 (unat (cnt s)) s = Some (s\<lparr>destroyed := destroyed s @ ev_list s\<rparr>)"
    using length_ev_list [OF inv] by (intro ev_destroy_run) simp_all
  with p inv show ?thesis by (simp add: ev_deinit_def ev_inv_def ev_others_def)
qed

section \<open>Sequences of operations\<close>

datatype 'a evop =
    EvReserve size_t size_t "nat option"
  | EvPush size_t 'a "nat option"
  | EvErase size_t bool

text \<open>The boolean result is \<open>push_back\<close>'s, or whether \<open>reserve\<close> returned a pointer.\<close>

fun ev_step :: "size_t \<Rightarrow> 'a evop \<Rightarrow> 'a evec \<Rightarrow> (bool \<times> 'a evec) option" where
  "ev_step sz (EvReserve m n answer) s = do { (p, s) \<leftarrow> ev_reserve sz m answer n s; Some (p \<noteq> None, s) }"
| "ev_step sz (EvPush m x answer) s = ev_push_back sz m answer x s"
| "ev_step sz (EvErase i free) s = do { s \<leftarrow> ev_erase sz i free s; Some (True, s) }"

text \<open>
  When an operation may be called: byte counts that fit in \<open>size_t\<close>, an allocator that does not hand
  out a block that is still in use, and for \<open>erase\<close> an existing element.
\<close>

fun ev_pre :: "size_t \<Rightarrow> 'a evop \<Rightarrow> 'a evec \<Rightarrow> bool" where
  "ev_pre sz (EvReserve m n answer) s = ev_call_ok sz m n answer s"
| "ev_pre sz (EvPush m x answer) s = (unat (cnt s) + 1 < 2 ^ 64 \<and> ev_call_ok sz m (cnt s + 1) answer s)"
| "ev_pre sz (EvErase i free) s = (unat i < length (ev_list s))"

text \<open>What an operation makes of the list of elements, given its result.\<close>

fun ev_spec :: "'a evop \<Rightarrow> bool \<Rightarrow> 'a list \<Rightarrow> 'a list" where
  "ev_spec (EvReserve m n answer) r xs = xs"
| "ev_spec (EvPush m x answer) r xs = (if r then xs @ [x] else xs)"
| "ev_spec (EvErase i free) r xs = erase_nth (unat i) xs"

fun ev_gained :: "'a evop \<Rightarrow> bool \<Rightarrow> 'a list" where
  "ev_gained (EvPush m x answer) r = (if r then [x] else [])"
| "ev_gained _ r = []"

fun ev_lost :: "'a evop \<Rightarrow> 'a list \<Rightarrow> 'a list" where
  "ev_lost (EvErase i free) xs = [xs ! unat i]"
| "ev_lost _ xs = []"

lemma ev_step_ok:
  assumes "ev_inv sz s" and "ev_pre sz c s"
  obtains r s' where "ev_step sz c s = Some (r, s')" "ev_inv sz s'" "ev_list s' = ev_spec c r (ev_list s)"
    "destroyed s' = destroyed s @ ev_lost c (ev_list s)" "ev_others s' = ev_others s"
    "r \<or> (case c of EvErase i free \<Rightarrow> False | _ \<Rightarrow> s' = s)"
proof (cases c)
  case (EvReserve m n answer)
  with assms(2) have ok: "ev_call_ok sz m n answer s" by simp
  from assms(1) ok obtain p s' where "ev_reserve sz m answer n s = Some (p, s')" "ev_inv sz s'"
    "ev_list s' = ev_list s" "destroyed s' = destroyed s" "ev_others s' = ev_others s"
    "p = None \<Longrightarrow> s' = s \<and> (answer = None \<or> n = 0)"
    by (rule ev_reserve_ok) blast
  with EvReserve show ?thesis by (intro that [of "p \<noteq> None" s']) auto
next
  case (EvPush m x answer)
  with assms(2) have ok: "unat (cnt s) + 1 < 2 ^ 64" "ev_call_ok sz m (cnt s + 1) answer s" by simp_all
  from assms(1) ok obtain r s' where "ev_push_back sz m answer x s = Some (r, s')" "ev_inv sz s'"
    "ev_list s' = (if r then ev_list s @ [x] else ev_list s)" "destroyed s' = destroyed s"
    "ev_others s' = ev_others s" "\<not> r \<Longrightarrow> s' = s \<and> answer = None"
    by (rule ev_push_back_ok [of sz s m answer x]) blast
  with EvPush show ?thesis by (intro that [of r s']) auto
next
  case (EvErase i free)
  with assms(2) have ok: "unat i < length (ev_list s)" by simp
  from assms(1) ok obtain s' where "ev_erase sz i free s = Some s'" "ev_inv sz s'"
    "ev_list s' = erase_nth (unat i) (ev_list s)" "destroyed s' = destroyed s @ [ev_list s ! unat i]"
    "ev_others s' = ev_others s"
    by (rule ev_erase_ok [of sz s i free]) blast
  with EvErase show ?thesis by (intro that [of True s']) simp_all
qed

lemma mset_erase_nth: "i < length xs \<Longrightarrow> add_mset (xs ! i) (mset (erase_nth i xs)) = mset xs"
  using arg_cong [OF id_take_nth_drop [of i xs], of mset] by (simp add: erase_nth_def)

lemma ev_step_conserves:
  "ev_pre sz c s \<Longrightarrow> mset (ev_spec c r (ev_list s)) + mset (ev_lost c (ev_list s)) = mset (ev_list s) + mset (ev_gained c r)"
  by (cases c) (auto simp: mset_erase_nth)

text \<open>
  Running a list of operations, with the elements the container has taken over; and that each
  operation is called within its precondition.
\<close>

fun run_ops :: "('op \<Rightarrow> 's \<Rightarrow> ('r \<times> 's) option) \<Rightarrow> ('op \<Rightarrow> 'r \<Rightarrow> 'a list) \<Rightarrow> 'op list \<Rightarrow> 's \<Rightarrow> ('a list \<times> 's) option" where
  "run_ops step gained [] s = Some ([], s)"
| "run_ops step gained (c # cs) s = do {
     (r, s) \<leftarrow> step c s; (xs, s) \<leftarrow> run_ops step gained cs s; Some (gained c r @ xs, s) }"

fun pre_ops :: "('op \<Rightarrow> 's \<Rightarrow> ('r \<times> 's) option) \<Rightarrow> ('op \<Rightarrow> 's \<Rightarrow> bool) \<Rightarrow> 'op list \<Rightarrow> 's \<Rightarrow> bool" where
  "pre_ops step pre [] s = True"
| "pre_ops step pre (c # cs) s =
     (pre c s \<and> (case step c s of None \<Rightarrow> False | Some (r, s) \<Rightarrow> pre_ops step pre cs s))"

text \<open>
  The contract of a container that owns its elements: every operation called within its
  precondition is defined, keeps the invariant, and neither loses nor duplicates an element.
\<close>

locale owning_container =
  fixes step :: "'op \<Rightarrow> 's \<Rightarrow> ('r \<times> 's) option"
    and pre :: "'op \<Rightarrow> 's \<Rightarrow> bool"
    and inv :: "'s \<Rightarrow> bool"
    and elems :: "'s \<Rightarrow> 'a list"
    and dead :: "'s \<Rightarrow> 'a list"
    and gained :: "'op \<Rightarrow> 'r \<Rightarrow> 'a list"
  assumes step_runs: "inv s \<Longrightarrow> pre c s \<Longrightarrow> \<exists>r s'. step c s = Some (r, s') \<and> inv s' \<and>
    mset (elems s') + mset (dead s') = mset (elems s) + mset (dead s) + mset (gained c r)"
begin

lemma run_conserves:
  "inv s \<Longrightarrow> pre_ops step pre cs s \<Longrightarrow> \<exists>xs s'. run_ops step gained cs s = Some (xs, s') \<and> inv s' \<and>
     mset (elems s') + mset (dead s') = mset (elems s) + mset (dead s) + mset xs"
proof (induction cs arbitrary: s)
  case (Cons c cs)
  from Cons.prems(2) have "pre c s" by simp
  from step_runs [OF Cons.prems(1) this] obtain r t where t: "step c s = Some (r, t)" "inv t"
    "mset (elems t) + mset (dead t) = mset (elems s) + mset (dead s) + mset (gained c r)" by blast
  from t(1) Cons.prems(2) have "pre_ops step pre cs t" by simp
  from Cons.IH [OF t(2) this] obtain xs s' where s': "run_ops step gained cs t = Some (xs, s')" "inv s'"
    "mset (elems s') + mset (dead s') = mset (elems t) + mset (dead t) + mset xs" by blast
  from t(1) s'(1) have "run_ops step gained (c # cs) s = Some (gained c r @ xs, s')" by simp
  moreover have "mset (elems s') + mset (dead s') = mset (elems s) + mset (dead s) + mset (gained c r @ xs)"
    unfolding s'(3) t(3) by (simp add: ac_simps)
  ultimately show ?case using s'(2) by blast
qed simp

end

interpretation ev: owning_container "ev_step sz" "ev_pre sz" "\<lambda>s. ev_inv sz s \<and> ev_others s = L" ev_list destroyed ev_gained
proof unfold_locales
  fix s :: "'a evec" and c
  assume inv: "ev_inv sz s \<and> ev_others s = L" and pre: "ev_pre sz c s"
  from ev_step_ok [OF conjunct1 [OF inv] pre] obtain r s' where s': "ev_step sz c s = Some (r, s')" "ev_inv sz s'"
    "ev_list s' = ev_spec c r (ev_list s)" "destroyed s' = destroyed s @ ev_lost c (ev_list s)"
    "ev_others s' = ev_others s" "r \<or> (case c of EvErase i free \<Rightarrow> False | _ \<Rightarrow> s' = s)" .
  with inv ev_step_conserves [OF pre, of r]
  show "\<exists>r s'. ev_step sz c s = Some (r, s') \<and> (ev_inv sz s' \<and> ev_others s' = L) \<and>
    mset (ev_list s') + mset (destroyed s') = mset (ev_list s) + mset (destroyed s) + mset (ev_gained c r)"
    by (intro exI [of _ r] exI [of _ s']) (simp add: ac_simps)
qed

lemma ev_fresh_inv: "0 < unat sz \<Longrightarrow> ev_inv sz (ev_fresh L)"
  by (simp add: ev_inv_def ev_fresh_def)

lemma ev_list_empty: "cnt s = 0 \<Longrightarrow> ev_list s = []"
  by (simp add: ev_list_def)

lemma ev_fresh_sel [simp]: "ev_list (ev_fresh L) = []" "ev_others (ev_fresh L) = L" "destroyed (ev_fresh L) = []"
  by (simp_all add: ev_list_def ev_others_def ev_fresh_def)

section \<open>Properties\<close>

text \<open>C4: On a well-formed vector every operation called within its precondition is defined (it stays
  inside the block), keeps the vector well-formed, and acts on the list of elements as its
  specification says: \<open>push_back\<close> appends or fails, \<open>erase\<close> removes exactly the element at the index,
  \<open>reserve\<close> changes no element; only the erased element is destroyed, and no other resource of
  the kernel is touched.\<close>

theorem evector_refines_list:
  assumes "ev_inv sz s" and "ev_pre sz c s"
  shows "case ev_step sz c s of None \<Rightarrow> False
    | Some (r, s') \<Rightarrow> ev_inv sz s' \<and> ev_list s' = ev_spec c r (ev_list s) \<and>
        destroyed s' = destroyed s @ ev_lost c (ev_list s) \<and> ev_others s' = ev_others s \<and>
        (r \<or> s' = s)"
  by (rule ev_step_ok [OF assms]) (auto split: evop.splits)

text \<open>A vector of two elements, in a block for three.\<close>

definition ev_sample :: "nat evec" where
  "ev_sample = \<lparr>ptr = Some (1, [Some 10, Some 20, None]), cnt = 2, rsvd = 3, held = {(KMemory, 1)}, destroyed = []\<rparr>"

theorem evector_refines_list_witness:
  "case ev_step 8 (EvErase 0 True) ev_sample of None \<Rightarrow> False
   | Some (r, s') \<Rightarrow> ev_inv 8 s' \<and> ev_list s' = [20] \<and> destroyed s' = [10]"
proof -
  have "ev_inv 8 ev_sample" by (simp add: ev_sample_def ev_inv_def)
  moreover have "ev_list ev_sample = [10, 20]"
    by (simp add: ev_sample_def ev_list_def ev_block_def)
  moreover have "destroyed ev_sample = []" by (simp add: ev_sample_def)
  ultimately show ?thesis
    using evector_refines_list [of 8 ev_sample "EvErase 0 True"]
    by (simp add: erase_nth_def split: option.splits prod.splits)
qed

text \<open>C5: Starting from a fresh vector, any sequence of operations, each within its precondition,
  followed by \<open>deinit\<close> destroys every element that \<open>push_back\<close> accepted exactly once, and gives back
  exactly the memory the vector obtained.\<close>

theorem evector_destroys_exactly_once:
  assumes "0 < unat sz" and "pre_ops (ev_step sz) (ev_pre sz) cs (ev_fresh L)"
  shows "\<exists>xs s s'. run_ops (ev_step sz) ev_gained cs (ev_fresh L) = Some (xs, s) \<and> ev_deinit s = Some s' \<and>
    mset (destroyed s') = mset xs \<and> held s' = L \<and> ev_list s' = []"
proof -
  have "ev_inv sz (ev_fresh L) \<and> ev_others (ev_fresh L) = L" using ev_fresh_inv [OF assms(1)] by simp
  from ev.run_conserves [OF this assms(2)] obtain xs s where
    s: "run_ops (ev_step sz) ev_gained cs (ev_fresh L) = Some (xs, s)" "ev_inv sz s" "ev_others s = L"
      "mset (ev_list s) + mset (destroyed s) = mset xs" by auto
  have d: "mset (destroyed s) + mset (ev_list s) = mset xs" using s(4) by (simp add: add.commute)
  show ?thesis
    by (intro exI [of _ xs] exI [of _ s] exI conjI, rule s(1), rule ev_deinit_ok [OF s(2)])
      (simp_all add: s(3) d ev_list_empty)
qed

theorem evector_destroys_exactly_once_witness:
  "\<exists>xs s s'. run_ops (ev_step 8) ev_gained [EvPush 1 (10::nat) (Some 1), EvErase 0 True] (ev_fresh {}) = Some (xs, s) \<and>
    ev_deinit s = Some s' \<and> mset (destroyed s') = mset xs \<and> held s' = {} \<and> ev_list s' = []"
  by (rule evector_destroys_exactly_once)
    (simp_all add: ev_fresh_def ev_call_ok_def ev_others_def ev_push_back_def ev_reserve_def ev_block_def
      realloc_cells_def ev_list_def ev_erase_def ev_at_def Let_def)

text \<open>
  A \<open>push_back\<close> within the recorded capacity asks for no memory. It is defined as long as the block really has
  the cell.
\<close>

lemma unat_size_t_less: "unat (w :: size_t) < 2 ^ 64"
  using unsigned_less [of w, where 'a = nat] by simp

lemma cnt_Suc: "unat (cnt s) < unat (rsvd s) \<Longrightarrow> unat (cnt s + 1) = unat (cnt s) + 1"
  using unat_size_t_less [of "rsvd s"] by (simp add: unat_add_exact)

lemma ev_push_back_within:
  assumes "ptr s = Some (a, cells)" and "unat (cnt s) < unat (rsvd s)"
  shows "ev_push_back sz M answer x s =
    (if unat (cnt s) < length cells
     then Some (True, s\<lparr>ptr := Some (a, cells[unat (cnt s) := Some x]), cnt := cnt s + 1\<rparr>) else None)"
proof -
  from assms(2) have "\<not> rsvd s < cnt s + 1" by (simp add: word_less_nat_alt cnt_Suc)
  with assms(1) show ?thesis by (simp add: ev_push_back_def ev_reserve_def cell_set_def)
qed

definition pushes :: "size_t \<Rightarrow> ('a \<times> nat option) list \<Rightarrow> 'a evop list" where
  "pushes M = map (\<lambda>(x, answer). EvPush M x answer)"

lemma pushes_within:
  assumes "ptr s = Some (a, cells)" and "unat (cnt s) + length ps \<le> unat (rsvd s)" and "ps \<noteq> []"
  shows "run_ops (ev_step sz) ev_gained (pushes M ps) s = None \<longleftrightarrow> length cells < unat (cnt s) + length ps"
  using assms
proof (induction ps arbitrary: s cells)
  case (Cons q ps)
  obtain x answer where q: "q = (x, answer)" by fastforce
  have room: "unat (cnt s) < unat (rsvd s)" using Cons.prems(2) by simp
  note push = ev_push_back_within [OF Cons.prems(1) room, of sz M answer x]
  show ?case
  proof (cases "unat (cnt s) < length cells")
    case False
    then show ?thesis using push by (simp add: pushes_def q)
  next
    case True
    let ?t = "s\<lparr>ptr := Some (a, cells[unat (cnt s) := Some x]), cnt := cnt s + 1\<rparr>"
    note c1 = cnt_Suc [OF room]
    have run: "run_ops (ev_step sz) ev_gained (pushes M (q # ps)) s = None \<longleftrightarrow> run_ops (ev_step sz) ev_gained (pushes M ps) ?t = None"
      using push True by (auto simp: pushes_def q bind_eq_None_conv split: prod.splits)
    show ?thesis
    proof (cases ps)
      case Nil
      with True run show ?thesis by (simp add: pushes_def)
    next
      case (Cons q' ps')
      then show ?thesis
        unfolding run using Cons.IH [of ?t "cells[unat (cnt s) := Some x]"] Cons.prems c1 by simp
    qed
  qed
qed simp

text \<open>C33: \<open>reserve\<close> computes the byte count in \<open>size_t\<close>, without a check: when \<open>MUL * num\<close> elements need 2^64
  bytes or more and what remains of that modulo 2^64 has room for an element at least, the request succeeds with a block
  for just the elements that fit into the rest, while \<open>rsvd\<close> records all \<open>MUL * num\<close>. Within that recorded
  capacity \<open>push_back\<close> never asks for more memory, so a series of calls is undefined exactly from the first that
  passes the end of the block.\<close>

theorem evector_reserve_wraps:
  assumes "ev_inv sz s" and "rsvd s < num" and "2 ^ 64 \<le> unat (MUL * num) * unat sz" and "sz \<le> MUL * num * sz"
  shows "\<exists>s'. ev_reserve sz MUL (Some b) num s = Some (Some b, s') \<and> rsvd s' = MUL * num \<and> cnt s' = cnt s \<and>
    (let room = (unat (MUL * num) * unat sz) mod 2 ^ 64 div unat sz in
     length (ev_block s') = room \<and> 0 < room \<and> room < unat (rsvd s') \<and>
     (\<forall>ps. ps \<noteq> [] \<and> unat (cnt s) + length ps \<le> unat (rsvd s') \<longrightarrow>
        (run_ops (ev_step sz) ev_gained (pushes M ps) s' = None \<longleftrightarrow> room < unat (cnt s) + length ps)))"
proof -
  let ?n = "MUL * num" and ?room = "unat (MUL * num * sz) div unat sz"
  have sz: "0 < unat sz" using assms(1) by (simp add: ev_inv_def)
  have bytes: "unat (?n * sz) = (unat ?n * unat sz) mod 2 ^ 64" by (simp add: unat_word_ariths)
  have "unat (?n * sz) < unat ?n * unat sz" using assms(3) unat_size_t_less [of "?n * sz"] by linarith
  then have less: "?room < unat ?n" using sz by (simp add: less_mult_imp_div_less)
  have pos: "0 < ?room" using assms(4) sz by (simp add: word_le_nat_alt div_greater_zero_iff)
  define cells where "cells = realloc_cells sz (MUL * num * sz) (ev_block s)"
  have len: "length cells = ?room" by (simp add: cells_def realloc_cells_def Let_def)
  from assms(1,2) obtain L where run: "ev_reserve sz MUL (Some b) num s = Some (Some b, s\<lparr>ptr := Some (b, cells), rsvd := ?n, held := L\<rparr>)"
    by (auto simp: ev_reserve_def ev_inv_def cells_def split: option.splits)
  let ?t = "s\<lparr>ptr := Some (b, cells), rsvd := ?n, held := L\<rparr>"
  have "run_ops (ev_step sz) ev_gained (pushes M ps) ?t = None \<longleftrightarrow> ?room < unat (cnt s) + length ps"
    if "ps \<noteq> []" "unat (cnt s) + length ps \<le> unat ?n" for ps
    using pushes_within [of ?t b cells ps sz M] that len by simp
  then show ?thesis
    unfolding bytes [symmetric] by (intro exI [of _ ?t]) (simp add: run Let_def ev_block_def len less pos)
qed

theorem evector_reserve_wraps_witness:
  "\<exists>s. ev_reserve 16 1 (Some 7) (2 ^ 60 + 1) (ev_fresh {}) = Some (Some 7, s) \<and> rsvd s = 2 ^ 60 + 1 \<and>
     run_ops (ev_step 16) ev_gained (pushes 1 [(10 :: nat, None)]) s \<noteq> None \<and>
     run_ops (ev_step 16) ev_gained (pushes 1 [(10, None), (11, None)]) s = None"
proof -
  have "ev_inv 16 (ev_fresh {} :: nat evec)" "rsvd (ev_fresh {} :: nat evec) < 2 ^ 60 + 1"
    "2 ^ 64 \<le> unat (1 * (2 ^ 60 + 1) :: size_t) * unat (16 :: size_t)" "(16 :: size_t) \<le> 1 * (2 ^ 60 + 1) * 16"
    by (simp_all add: ev_inv_def ev_fresh_def)
  from evector_reserve_wraps [OF this, of 7 1] obtain s where
    s: "ev_reserve 16 1 (Some 7) (2 ^ 60 + 1) (ev_fresh {}) = Some (Some 7, s)" "rsvd s = 2 ^ 60 + 1" and
    runs: "\<And>ps :: (nat \<times> nat option) list. ps \<noteq> [] \<Longrightarrow> length ps \<le> 2 ^ 60 + 1 \<Longrightarrow>
      run_ops (ev_step 16) ev_gained (pushes 1 ps) s = None \<longleftrightarrow> 1 < length ps"
    by (auto simp: ev_fresh_def Let_def)
  show ?thesis using s runs [of "[(10, None)]"] runs [of "[(10, None), (11, None)]"] by auto
qed

end
