(* ===== verification/Evector_Aliasing.thy ===== *)
theory Evector_Aliasing
  imports Evector
begin

text \<open>
  \<open>push_back\<close> takes its element by reference and reads it after \<open>reserve\<close>. The calls of \<open>Evector\<close> pass an element outside of the
  vector; here it is one of the vector's own, \<open>v.push_back(v[i])\<close>, whose reference leads into the block the call may
  reallocate.
\<close>

section \<open>Pushing an own element\<close>

text \<open>
  The reference is formed first and points into the block at \<open>a\<close>. It is read after \<open>reserve\<close>, which is undefined when
  that block was freed, that is when the vector has moved to another one.
\<close>

definition ev_push_back_own :: "size_t \<Rightarrow> size_t \<Rightarrow> nat option \<Rightarrow> size_t \<Rightarrow> 'a evec \<Rightarrow> (bool \<times> 'a evec) option" where
  "ev_push_back_own sizeofT MUL answer index s = do {
     (a, block) \<leftarrow> ptr s;
     (p, s) \<leftarrow> ev_reserve sizeofT MUL answer (cnt s + 1) s;
     (case ptr s of
        Some (a', cells) \<Rightarrow>
          if p \<noteq> None then do {
            element \<leftarrow> (if a' = a then ev_at s index else None);
            cells \<leftarrow> cell_set cells (unat (cnt s)) (Some element);
            Some (True, s\<lparr>ptr := Some (a', cells), cnt := cnt s + 1\<rparr>)
          } else Some (False, s)
      | None \<Rightarrow> Some (False, s))
   }"

lemma ev_reserve_address:
  assumes "ev_reserve sz m answer n s = Some (p, t)" and "ptr s = Some (a, cells)"
  shows "map_option fst (ptr t) = (if rsvd s < n \<and> answer \<noteq> None then answer else Some a)"
  using assms by (auto simp: ev_reserve_def split: if_splits option.splits bind_splits)

text \<open>A vector is full when it has no room for one more.\<close>

lemma ev_full_iff:
  assumes "ev_inv sz s" and "unat (cnt s) + 1 < 2 ^ 64"
  shows "rsvd s < cnt s + 1 \<longleftrightarrow> rsvd s = cnt s"
proof -
  have "unat (cnt s + 1) = unat (cnt s) + 1" using assms(2) by (simp add: unat_add_exact)
  then show ?thesis using ev_inv_block [OF assms(1)] by (auto simp: word_less_unat word_eq_unat)
qed

text \<open>C34: Pushing an element of the vector itself acts as pushing a copy of it, except on a full vector that the allocator
  moves: there the element is read from the block that was freed, which is undefined.\<close>

theorem evector_self_push:
  assumes inv: "ev_inv sz s" and room: "unat (cnt s) + 1 < 2 ^ 64" and ok: "ev_call_ok sz m (cnt s + 1) answer s"
    and ptr: "ptr s = Some (a, cells)" and i: "unat i < unat (cnt s)"
  shows "ev_push_back_own sz m answer i s =
    (if rsvd s = cnt s \<and> answer \<noteq> None \<and> answer \<noteq> Some a then None
     else ev_push_back sz m answer (ev_list s ! unat i) s)"
proof -
  from inv ok obtain p t where t: "ev_reserve sz m answer (cnt s + 1) s = Some (p, t)" "ev_inv sz t"
    "ev_list t = ev_list s" "cnt t = cnt s"
    and p: "p = None \<Longrightarrow> t = s \<and> (answer = None \<or> cnt s + 1 = 0)"
    by (rule ev_reserve_ok) blast
  have addr: "map_option fst (ptr t) = (if rsvd s = cnt s \<and> answer \<noteq> None then answer else Some a)"
    using ev_reserve_address [OF t(1) ptr] ev_full_iff [OF inv room] by simp
  then obtain b block where b: "ptr t = Some (b, block)" by (cases "ptr t") (auto split: if_splits)
  have x: "ev_at t i = Some (ev_list s ! unat i)" using ev_at_list [OF t(2), of i] t(3) length_ev_list [OF inv] i by simp
  have c0: "cnt s + 1 \<noteq> 0" using room unat_add_exact [of "cnt s" 1] by (auto simp: word_eq_unat)
  show ?thesis
  proof (cases "rsvd s = cnt s \<and> answer \<noteq> None \<and> answer \<noteq> Some a")
    case True
    then have "b \<noteq> a" "p \<noteq> None" using addr b p c0 by auto
    then show ?thesis using True t(1) b ptr by (simp add: ev_push_back_own_def)
  next
    case False
    then have "b = a" using addr b by (auto split: if_splits)
    then show ?thesis using False t b ptr x by (auto simp: ev_push_back_own_def ev_push_back_def)
  qed
qed

text \<open>A full vector of one element that moves from block 3 to block 4, and one that grows in place.\<close>

theorem evector_self_push_witness:
  "let s = \<lparr>ptr = Some (3, [Some (8 :: nat)]), cnt = 1, rsvd = 1, held = {(KMemory, 3)}, destroyed = []\<rparr> in
   ev_push_back_own 8 1 (Some 4) 0 s = None \<and> ev_push_back_own 8 1 (Some 3) 0 s = ev_push_back 8 1 (Some 3) 8 s"
proof -
  let ?s = "\<lparr>ptr = Some (3, [Some (8 :: nat)]), cnt = 1, rsvd = 1, held = {(KMemory, 3)}, destroyed = []\<rparr>"
  have "ev_inv 8 ?s" "ev_call_ok 8 1 (cnt ?s + 1) (Some b) ?s" "ev_list ?s = [8]" for b
    by (simp_all add: ev_inv_def ev_call_ok_def ev_others_def ev_list_def ev_block_def)
  then show ?thesis
    using evector_self_push [of 8 ?s 1 "Some 4" 3 "[Some 8]" 0] evector_self_push [of 8 ?s 1 "Some 3" 3 "[Some 8]" 0]
    by (simp add: Let_def)
qed

end
