(* ===== verification/Owned_Vectors.thy ===== *)
theory Owned_Vectors
  imports Evector
begin

text \<open>
  Vectors of pointers to objects that the vector owns, \<open>evector<T *, T::deleter>\<close>: \<open>deinit\<close> runs the
  deleter of the type on every element and then frees the block. What each deleter must do is an
  interface; \<open>ppair\<close> and the classes whose deleter is a plain \<open>delete\<close> provide it here, the user patcher's
  structures in their theory.
\<close>

section \<open>Vectors in a shared ledger\<close>

text \<open>\<open>deinit\<close> of a vector within a ledger that other owners share.\<close>

definition deinit_in :: "'a evec \<Rightarrow> ledger \<Rightarrow> ledger option" where
  "deinit_in v L = map_option held (ev_deinit (v\<lparr>held := L\<rparr>))"

text \<open>What a vector owns, and a vector that \<open>ev_inv\<close> holds of once its own block is in the ledger.\<close>

definition block_of :: "'a evec \<Rightarrow> ledger" where
  "block_of v = (case ptr v of None \<Rightarrow> {} | Some (a, cells) \<Rightarrow> {(KMemory, a)})"

definition vec_ok :: "'a evec \<Rightarrow> bool" where
  "vec_ok v \<longleftrightarrow> (\<exists>sz. ev_inv sz (v\<lparr>held := block_of v\<rparr>))"

lemma vec_ok_inv: "vec_ok v \<Longrightarrow> block_of v \<subseteq> L \<Longrightarrow> \<exists>sz. ev_inv sz (v\<lparr>held := L, destroyed := d\<rparr>)"
  by (auto simp: vec_ok_def ev_inv_def block_of_def split: option.splits)

lemma ev_others_block: "ev_others (v\<lparr>held := L, destroyed := d\<rparr>) = L - block_of v"
  by (auto simp: ev_others_def block_of_def split: option.splits)

lemma vec_ok_fresh [simp]: "vec_ok (ev_fresh {})" "block_of (ev_fresh L) = {}"
  using ev_fresh_inv [of 8 "{}"] by (auto simp: vec_ok_def block_of_def ev_fresh_def)

lemma vec_ok_one: "vec_ok \<lparr>ptr = Some (b, [Some x]), cnt = 1, rsvd = 1, held = {}, destroyed = []\<rparr>"
  unfolding vec_ok_def by (rule exI [of _ 8]) (simp add: ev_inv_def block_of_def)

lemma ev_deinit_shared:
  assumes "vec_ok v" and "block_of v \<subseteq> L"
  obtains v' where "ev_deinit (v\<lparr>held := L, destroyed := []\<rparr>) = Some v'" "held v' = L - block_of v"
    "destroyed v' = ev_list v"
proof -
  obtain sz where "ev_inv sz (v\<lparr>held := L, destroyed := []\<rparr>)" using vec_ok_inv [OF assms] by blast
  from ev_deinit_ok [OF this] that show ?thesis by (simp add: ev_others_block ev_list_def ev_block_def)
qed

lemma deinit_in_ok:
  assumes "vec_ok v" and "block_of v \<subseteq> L"
  shows "deinit_in v L = Some (L - block_of v)"
proof -
  obtain sz where "ev_inv sz (v\<lparr>held := L, destroyed := destroyed v\<rparr>)" using vec_ok_inv [OF assms] by blast
  from ev_deinit_ok [OF this] show ?thesis
    using ev_others_block [where v = v and L = L and d = "destroyed v"] by (simp add: deinit_in_def)
qed

text \<open>Owners that share nothing.\<close>

fun apart :: "'x set list \<Rightarrow> bool" where
  "apart [] = True"
| "apart (A # As) = (list_all (\<lambda>B. A \<inter> B = {}) As \<and> apart As)"

lemma apart_map_UN: "apart (A # map f xs) \<longleftrightarrow> A \<inter> (\<Union>x \<in> set xs. f x) = {} \<and> apart (map f xs)"
  by (auto simp: list_all_iff)

section \<open>Destruction of the elements\<close>

text \<open>
  The destructor loop of \<open>deinit\<close> calls the deleter of every element before the block is freed; \<open>ev_deinit\<close>
  says which elements these are, in order.
\<close>

fun delete_all :: "('a \<Rightarrow> ledger \<Rightarrow> ledger option) \<Rightarrow> 'a list \<Rightarrow> ledger \<Rightarrow> ledger option" where
  "delete_all del [] L = Some L"
| "delete_all del (a # as) L = do { L \<leftarrow> del a L; delete_all del as L }"

definition vec_deinit :: "('a \<Rightarrow> ledger \<Rightarrow> ledger option) \<Rightarrow> 'a evec \<Rightarrow> ledger \<Rightarrow> ledger option" where
  "vec_deinit del v L = do {
     v' \<leftarrow> ev_deinit (v\<lparr>held := L, destroyed := []\<rparr>);
     L \<leftarrow> delete_all del (destroyed v') L;
     deinit_in v L
   }"

text \<open>What a deleter promises: of an object that is well-formed it releases exactly what the object owns.\<close>

locale owned_objects =
  fixes del :: "'a \<Rightarrow> ledger \<Rightarrow> ledger option"
    and owns :: "'a \<Rightarrow> ledger"
    and ok :: "'a \<Rightarrow> bool"
  assumes del_releases: "ok a \<Longrightarrow> owns a \<subseteq> L \<Longrightarrow> del a L = Some (L - owns a)"
begin

lemma delete_all_ok:
  "list_all ok as \<Longrightarrow> apart (map owns as) \<Longrightarrow> (\<Union>a \<in> set as. owns a) \<subseteq> L \<Longrightarrow>
   delete_all del as L = Some (L - (\<Union>a \<in> set as. owns a))"
proof (induction as arbitrary: L)
  case (Cons a as)
  have "del a L = Some (L - owns a)" using Cons.prems by (intro del_releases) auto
  moreover have "delete_all del as (L - owns a) = Some (L - owns a - (\<Union>a \<in> set as. owns a))"
    using Cons.prems by (intro Cons.IH) (auto simp: list_all_iff)
  ultimately show ?case by (simp add: Diff_Un Diff_Int_distrib) blast
qed simp

lemma vec_deinit_ok:
  assumes v: "vec_ok v" and objects: "list_all ok (ev_list v)" and sep: "apart (block_of v # map owns (ev_list v))"
    and own: "block_of v \<union> (\<Union>a \<in> set (ev_list v). owns a) \<subseteq> L"
  shows "vec_deinit del v L = Some (L - (block_of v \<union> (\<Union>a \<in> set (ev_list v). owns a)))"
proof -
  let ?R = "\<Union>a \<in> set (ev_list v). owns a"
  have b: "block_of v \<subseteq> L" "block_of v \<inter> ?R = {}" using own sep [unfolded apart_map_UN] by blast+
  obtain v' where v': "ev_deinit (v\<lparr>held := L, destroyed := []\<rparr>) = Some v'" "destroyed v' = ev_list v"
    by (rule ev_deinit_shared [OF v b(1)])
  have "delete_all del (ev_list v) L = Some (L - ?R)"
    using objects sep own by (intro delete_all_ok) (auto simp: list_all_iff)
  moreover have "deinit_in v (L - ?R) = Some (L - ?R - block_of v)" using b by (intro deinit_in_ok v) blast
  ultimately show ?thesis using v' by (simp add: vec_deinit_def) blast
qed

end

section \<open>Classes with a plain delete\<close>

text \<open>
  \<open>MachInfo::deleter\<close>, \<open>KextHandler::deleter\<close> and \<open>DisasmSig::deleter\<close> are \<open>delete i\<close>; the classes have no
  destructor, so the object itself is all that goes. \<open>create\<close> is \<open>new\<close>, which takes the allocator's answer.
\<close>

definition object_create :: "nat option \<Rightarrow> ledger \<Rightarrow> nat option \<times> ledger" where
  "object_create new L = (new, obtain_res KObject new L)"

definition object_deleter :: "nat \<Rightarrow> ledger \<Rightarrow> ledger option" where
  "object_deleter a L = release_res KObject a L"

interpretation obj: owned_objects object_deleter "\<lambda>a. {(KObject, a)}" "\<lambda>a. True"
  by unfold_locales (simp add: object_deleter_def)

section \<open>Pairs\<close>

record ('t, 'y) ppair =
  first :: 't
  second :: 'y

text \<open>\<open>emptyDeleter\<close>, for elements that own nothing.\<close>

definition emptyDeleter :: "'t \<Rightarrow> ledger \<Rightarrow> ledger option" where
  "emptyDeleter x L = Some L"

text \<open>The members of a new pair are what \<open>T\<close> and \<open>Y\<close> are default-initialised to.\<close>

definition ppair_create :: "'t \<Rightarrow> 'y \<Rightarrow> nat option \<Rightarrow> ledger \<Rightarrow> (nat \<times> ('t, 'y) ppair) option \<times> ledger" where
  "ppair_create t y new L = (map_option (\<lambda>a. (a, \<lparr>first = t, second = y\<rparr>)) new, obtain_res KObject new L)"

definition ppair_deleter ::
    "('t \<Rightarrow> ledger \<Rightarrow> ledger option) \<Rightarrow> ('y \<Rightarrow> ledger \<Rightarrow> ledger option) \<Rightarrow> (nat \<Rightarrow> ('t, 'y) ppair option) \<Rightarrow> nat \<Rightarrow> ledger \<Rightarrow> ledger option" where
  "ppair_deleter deleterT deleterY heap a L = do {
     p \<leftarrow> heap a;
     L \<leftarrow> deleterT (first p) L;
     L \<leftarrow> deleterY (second p) L;
     release_res KObject a L
   }"

text \<open>What a pair owns when its members own \<open>ownsT\<close> and \<open>ownsY\<close>.\<close>

definition ppair_owns :: "('t \<Rightarrow> ledger) \<Rightarrow> ('y \<Rightarrow> ledger) \<Rightarrow> (nat \<Rightarrow> ('t, 'y) ppair option) \<Rightarrow> nat \<Rightarrow> ledger" where
  "ppair_owns ownsT ownsY heap a = (case heap a of None \<Rightarrow> {}
     | Some p \<Rightarrow> ownsT (first p) \<union> ownsY (second p) \<union> {(KObject, a)})"

definition ppair_ok :: "('t \<Rightarrow> bool) \<Rightarrow> ('y \<Rightarrow> bool) \<Rightarrow> ('t \<Rightarrow> ledger) \<Rightarrow> ('y \<Rightarrow> ledger) \<Rightarrow> (nat \<Rightarrow> ('t, 'y) ppair option) \<Rightarrow> nat \<Rightarrow> bool" where
  "ppair_ok okT okY ownsT ownsY heap a = (case heap a of None \<Rightarrow> False
     | Some p \<Rightarrow> okT (first p) \<and> okY (second p) \<and> apart [ownsT (first p), ownsY (second p), {(KObject, a)}])"

text \<open>If the deleters of the members keep the contract, so does the deleter of the pair.\<close>

locale owned_pairs = t: owned_objects delT ownsT okT + y: owned_objects delY ownsY okY
  for delT :: "'t \<Rightarrow> ledger \<Rightarrow> ledger option" and ownsT okT
    and delY :: "'y \<Rightarrow> ledger \<Rightarrow> ledger option" and ownsY okY
begin

lemma ppair_deleter_ok:
  assumes "ppair_ok okT okY ownsT ownsY heap a" and "ppair_owns ownsT ownsY heap a \<subseteq> L"
  shows "ppair_deleter delT delY heap a L = Some (L - ppair_owns ownsT ownsY heap a)"
proof -
  from assms(1) obtain p where p: "heap a = Some p" "okT (first p)" "okY (second p)"
    "apart [ownsT (first p), ownsY (second p), {(KObject, a)}]" by (auto simp: ppair_ok_def split: option.splits)
  have own: "ppair_owns ownsT ownsY heap a = ownsT (first p) \<union> ownsY (second p) \<union> {(KObject, a)}"
    using p(1) by (simp add: ppair_owns_def)
  have "delT (first p) L = Some (L - ownsT (first p))" using assms(2) own by (intro t.del_releases p) auto
  moreover have "delY (second p) (L - ownsT (first p)) = Some (L - ownsT (first p) - ownsY (second p))"
    using assms(2) own p(4) by (intro y.del_releases p) auto
  moreover have "(KObject, a) \<in> L - ownsT (first p) - ownsY (second p)" using assms(2) own p(4) by auto
  ultimately show ?thesis using p(1) own by (simp add: ppair_deleter_def) blast
qed

end

sublocale owned_pairs \<subseteq> pair: owned_objects "ppair_deleter delT delY heap" "ppair_owns ownsT ownsY heap"
    "ppair_ok okT okY ownsT ownsY heap"
  by unfold_locales (rule ppair_deleter_ok)

text \<open>The pairs of callbacks and arguments that Lilu stores: neither member owns anything.\<close>

interpretation cbk: owned_pairs emptyDeleter "\<lambda>_. {}" "\<lambda>_. True" emptyDeleter "\<lambda>_. {}" "\<lambda>_. True"
  by unfold_locales (simp_all add: emptyDeleter_def)

section \<open>Lilu's stored vectors\<close>

text \<open>\<open>stored_vector<T, Y>\<close> is \<open>evector<ppair<T, Y> *, ppair<T, Y>::deleter>\<close>, with the pairs in \<open>heap\<close>.\<close>

definition stored_vector_deinit :: "(nat \<Rightarrow> ('t, 'y) ppair option) \<Rightarrow> nat evec \<Rightarrow> ledger \<Rightarrow> ledger option" where
  "stored_vector_deinit heap v L = vec_deinit (ppair_deleter emptyDeleter emptyDeleter heap) v L"

text \<open>\<open>deinit\<close> of a vector of stored callbacks (whatever the callbacks and their arguments are) deletes each
  pair once and frees the block, without running or deleting a callback, and gives back nothing else.\<close>

theorem stored_vector_deinit_releases:
  assumes "vec_ok v" and "\<forall>a \<in> set (ev_list v). heap a \<noteq> None" and "distinct (ev_list v)"
    and "block_of v \<union> (\<lambda>a. (KObject, a)) ` set (ev_list v) \<subseteq> L"
  shows "stored_vector_deinit heap v L = Some (L - (block_of v \<union> (\<lambda>a. (KObject, a)) ` set (ev_list v)))"
proof -
  let ?owns = "ppair_owns (\<lambda>_. {}) (\<lambda>_. {}) heap" and ?ok = "ppair_ok (\<lambda>_. True) (\<lambda>_. True) (\<lambda>_. {}) (\<lambda>_. {}) heap"
  have owns: "?owns a = {(KObject, a)}" if "a \<in> set (ev_list v)" for a
    using assms(2) that by (auto simp: ppair_owns_def)
  have ok: "list_all ?ok (ev_list v)" using assms(2) by (auto simp: list_all_iff ppair_ok_def)
  have all: "(\<Union>a \<in> set (ev_list v). ?owns a) = (\<lambda>a. (KObject, a)) ` set (ev_list v)" using owns by auto
  have "apart (map (\<lambda>a. {(KObject, a)}) as)" if "distinct as" for as :: "nat list"
    using that by (induction as) (auto simp: list_all_iff)
  then have "apart (map ?owns (ev_list v))" using assms(3) owns by (metis (no_types, lifting) map_cong)
  moreover have "block_of v \<inter> (\<lambda>a. (KObject, a)) ` set (ev_list v) = {}"
    by (auto simp: block_of_def split: option.splits)
  ultimately have "apart (block_of v # map ?owns (ev_list v))" unfolding apart_map_UN all by blast
  from cbk.pair.vec_deinit_ok [OF assms(1) ok this] assms(4) show ?thesis
    unfolding stored_vector_deinit_def all by blast
qed

theorem stored_vector_deinit_releases_witness:
  "stored_vector_deinit [5 \<mapsto> \<lparr>first = ''onPatcherLoad'', second = (0 :: nat)\<rparr>]
     \<lparr>ptr = Some (9, [Some 5]), cnt = 1, rsvd = 1, held = {}, destroyed = []\<rparr>
     {(KMemory, 9), (KObject, 5), (KLock, 1)} = Some {(KLock, 1)}"
proof -
  let ?v = "\<lparr>ptr = Some (9, [Some 5]), cnt = 1, rsvd = 1, held = {}, destroyed = []\<rparr> :: nat evec"
  have "ev_list ?v = [5]" "block_of ?v = {(KMemory, 9)}" by (simp_all add: ev_list_def ev_block_def block_of_def)
  then show ?thesis
    using stored_vector_deinit_releases [OF vec_ok_one [of 9 "5 :: nat"], of "[5 \<mapsto> \<lparr>first = ''onPatcherLoad'', second = (0 :: nat)\<rparr>]"
        "{(KMemory, 9), (KObject, 5), (KLock, 1)}"]
    by (auto simp: insert_Diff_if)
qed

end
