(* ===== verification/Util_Functions.thy ===== *)
theory Util_Functions
  imports Lilu_Base
begin

text \<open>
  The small inline functions of \<open>kern_util.hpp\<close>: alignment, bit masks and bit fields, the version
  literal parser, the element search and the null-safe string. The templates are modelled for an
  unsigned \<open>T\<close> at least as wide as \<open>unsigned int\<close> (\<open>uint32_t\<close>, \<open>uint64_t\<close>), where no integral
  promotion takes place; a shift by the width of \<open>T\<close> or more is undefined.
\<close>

section \<open>Alignment and bit fields\<close>

definition alignValue :: "'w::len word \<Rightarrow> 'w word \<Rightarrow> 'w word" where
  "alignValue sz align = (sz + align - 1) AND (NOT (align - 1))"

definition isAligned :: "u64 \<Rightarrow> u64 \<Rightarrow> bool" where
  "isAligned alignofT p \<longleftrightarrow> p mod alignofT = 0"

definition getBit :: "'w::len word \<Rightarrow> 'w word option" where
  "getBit n = (if unat n < LENGTH('w) then Some (push_bit (unat n) 1) else None)"

definition getBitMask :: "'w::len word \<Rightarrow> 'w word \<Rightarrow> 'w word option" where
  "getBitMask hi lo = do {
     h \<leftarrow> getBit hi;
     l \<leftarrow> getBit lo;
     Some ((h OR (h - 1)) AND (NOT (l - 1))) }"

definition getBitField :: "'w::len word \<Rightarrow> 'w word \<Rightarrow> 'w word \<Rightarrow> 'w word option" where
  "getBitField so hi lo = do {
     m \<leftarrow> getBitMask hi lo;
     if unat lo < LENGTH('w) then Some (drop_bit (unat lo) (so AND m)) else None }"

definition setBitField :: "'w::len word \<Rightarrow> 'w word \<Rightarrow> 'w word \<Rightarrow> 'w word option" where
  "setBitField so hi lo = do {
     m \<leftarrow> getBitMask hi lo;
     if unat lo < LENGTH('w) then Some (push_bit (unat lo) so AND m) else None }"

lemma getBit_minus_1: "(2 ^ n :: 'w::len word) - 1 = mask n"
  by (simp add: mask_eq_exp_minus_1)

lemma bit_upto: "n < LENGTH('w) \<Longrightarrow>
    bit ((2 ^ n :: 'w::len word) OR mask n) i \<longleftrightarrow> i \<le> n"
  by (auto simp: bit_or_iff bit_exp_iff bit_mask_iff)

lemma getBitMask_Some:
  assumes "unat hi < LENGTH('w)" "unat lo < LENGTH('w)"
  shows "getBitMask hi lo = Some ((2 ^ unat hi OR mask (unat hi)) AND NOT (mask (unat lo)) :: 'w::len word)"
  using assms by (simp add: getBitMask_def getBit_def mask_eq_exp_minus_1)

lemma bit_getBitMask:
  assumes "unat hi < LENGTH('w)" "unat lo < LENGTH('w)" "getBitMask hi lo = Some (m :: 'w::len word)"
  shows "bit m i \<longleftrightarrow> unat lo \<le> i \<and> i \<le> unat hi"
  using assms bit_upto [OF assms(1), of i]
  by (auto simp: getBitMask_Some bit_and_iff bit_not_iff bit_mask_iff)

text \<open>\<open>getBitMask(hi, lo)\<close> is defined exactly when both bit numbers lie within the type, and has
  exactly the bits from \<open>lo\<close> up to \<open>hi\<close> set (none when \<open>hi\<close> is below \<open>lo\<close>).\<close>

theorem getBitMask_bits:
  "(case getBitMask (hi :: 'w::len word) lo of
      None \<Rightarrow> LENGTH('w) \<le> unat hi \<or> LENGTH('w) \<le> unat lo
    | Some m \<Rightarrow> unat hi < LENGTH('w) \<and> unat lo < LENGTH('w) \<and>
        (\<forall>i. bit m i \<longleftrightarrow> unat lo \<le> i \<and> i \<le> unat hi))"
proof (cases "unat hi < LENGTH('w) \<and> unat lo < LENGTH('w)")
  case True
  then obtain m where m: "getBitMask hi lo = Some m" by (simp add: getBitMask_Some)
  with True bit_getBitMask [OF _ _ m] show ?thesis by simp
next
  case False
  then have "getBitMask hi lo = None" by (auto simp: getBitMask_def getBit_def)
  with False show ?thesis by auto
qed

text \<open>C31: Storing a value into a field and reading the field back gives the value's low
  \<open>hi - lo + 1\<close> bits, and the stored word has no bit outside of the field.\<close>

theorem bitField_roundtrip:
  fixes v hi lo :: "'w::len word"
  assumes "unat lo \<le> unat hi" and "unat hi < LENGTH('w)"
  shows "\<exists>w. setBitField v hi lo = Some w \<and>
     getBitField w hi lo = Some (take_bit (unat hi - unat lo + 1) v) \<and>
     (\<forall>i. bit w i \<longrightarrow> unat lo \<le> i \<and> i \<le> unat hi)"
proof -
  from assms have lo: "unat lo < LENGTH('w)" by simp
  with assms obtain m where m: "getBitMask hi lo = Some m" by (simp add: getBitMask_Some)
  note b = bit_getBitMask [OF assms(2) lo m]
  have "drop_bit (unat lo) (push_bit (unat lo) v AND m AND m) = take_bit (unat hi - unat lo + 1) v"
    using assms by (intro bit_word_eqI)
      (auto simp: bit_drop_bit_eq bit_and_iff bit_push_bit_iff bit_take_bit_iff b)
  moreover have "\<forall>i. bit (push_bit (unat lo) v AND m) i \<longrightarrow> unat lo \<le> i \<and> i \<le> unat hi"
    by (simp add: bit_and_iff b)
  ultimately show ?thesis
    unfolding setBitField_def getBitField_def using m lo by (simp del: drop_bit_and)
qed

theorem bitField_roundtrip_witness:
  "\<exists>w :: u32. setBitField 0xABC 15 8 = Some w \<and> getBitField w 15 8 = Some (take_bit 8 0xABC) \<and>
     (\<forall>i. bit w i \<longrightarrow> 8 \<le> i \<and> i \<le> 15)"
  using bitField_roundtrip [where v = "0xABC :: u32" and hi = 15 and lo = 8] by simp

lemma and_not_mask_shift: "w AND NOT (mask k) = push_bit k (drop_bit k (w :: 'w::len word))"
  by (rule bit_word_eqI) (auto simp: bit_simps)

lemma unat_and_not_mask:
  "unat (w AND NOT (mask k) :: 'w::len word) = unat w div 2 ^ k * 2 ^ k"
proof -
  have "unat w div 2 ^ k * 2 ^ k < 2 ^ LENGTH('w)"
    using le_less_trans [OF div_times_less_eq_dividend unsigned_less] .
  then show ?thesis
    unfolding and_not_mask_shift unsigned_push_bit_eq unsigned_drop_bit_eq
    by (simp add: drop_bit_eq_div push_bit_eq_mult take_bit_nat_eq_self)
qed

lemma unat_mask_word: "k \<le> LENGTH('w) \<Longrightarrow> unat (mask k :: 'w::len word) = 2 ^ k - 1"
  by (simp only: unat_eq_nat_uint uint_mask_eq min_absorb2) (simp add: mask_eq_exp_minus_1 nat_diff_distrib nat_power_eq)

lemma alignValue_pow2:
  "alignValue sz (2 ^ k :: 'w::len word) = (sz + mask k) AND NOT (mask k)"
  unfolding alignValue_def add_diff_eq [symmetric] getBit_minus_1 ..

lemma unat_alignValue:
  fixes sz :: "'w::len word"
  assumes "k < LENGTH('w)" and "unat sz + (2 ^ k - 1) < 2 ^ LENGTH('w)"
  shows "unat (alignValue sz (2 ^ k)) = (unat sz + (2 ^ k - 1)) div 2 ^ k * 2 ^ k"
proof -
  have "unat (mask k :: 'w word) = 2 ^ k - 1"
    using assms(1) by (simp add: unat_mask_word)
  with assms(2) have "unat (sz + mask k) = unat sz + (2 ^ k - 1)"
    by (simp add: unat_add_exact)
  then show ?thesis unfolding alignValue_pow2 unat_and_not_mask by simp
qed

lemma div_ceil_least:
  fixes a n :: nat
  assumes "0 < n"
  shows "a \<le> (a + (n - 1)) div n * n" and "(a + (n - 1)) div n * n < a + n"
    and "n dvd b \<Longrightarrow> a \<le> b \<Longrightarrow> (a + (n - 1)) div n * n \<le> b"
proof -
  let ?q = "(a + (n - 1)) div n"
  have split: "?q * n + (a + (n - 1)) mod n = a + (n - 1)" by simp
  have "(a + (n - 1)) mod n < n" using assms by simp
  with split show le: "a \<le> ?q * n" by linarith
  from split show less: "?q * n < a + n" using assms by linarith
  show "?q * n \<le> b" if b: "n dvd b" "a \<le> b"
  proof (rule ccontr)
    assume "\<not> ?q * n \<le> b"
    moreover obtain c where c: "b = c * n" using b(1) by (metis dvd_def mult.commute)
    ultimately have "c < ?q" using mult_le_mono1 [of ?q c n] by linarith
    then have "Suc c * n \<le> ?q * n" by (intro mult_le_mono1) simp
    with less b(2) c show False by simp
  qed
qed

text \<open>C38: For a power-of-two alignment, and as long as rounding up does not leave the type,
  \<open>alignValue\<close> returns the least multiple of the alignment that is not below the value.\<close>

theorem alignValue_least:
  fixes sz :: "'w::len word"
  assumes "k < LENGTH('w)" and "unat sz + (2 ^ k - 1) < 2 ^ LENGTH('w)"
  shows "2 ^ k dvd unat (alignValue sz (2 ^ k)) \<and> unat sz \<le> unat (alignValue sz (2 ^ k)) \<and>
    (\<forall>b. 2 ^ k dvd b \<and> unat sz \<le> b \<longrightarrow> unat (alignValue sz (2 ^ k)) \<le> b)"
proof -
  have "(0::nat) < 2 ^ k" by simp
  note least = div_ceil_least [OF this, where a = "unat sz"]
  show ?thesis
    unfolding unat_alignValue [OF assms] using least by (metis dvd_triv_right)
qed

theorem alignValue_least_witness:
  "unat (alignValue (4097 :: u64) (2 ^ 12)) = 8192 \<and>
   2 ^ 12 dvd unat (alignValue (4097 :: u64) (2 ^ 12)) \<and> unat (alignValue (4097 :: u64) (2 ^ 12)) \<le> 8192"
proof -
  have "unat (4097 :: u64) + (2 ^ 12 - 1) < 2 ^ LENGTH(64)" by simp
  from alignValue_least [OF _ this] show ?thesis by (simp add: alignValue_def)
qed

text \<open>Without that bound it wraps: every value above the last aligned one is "aligned" to 0.\<close>

theorem alignValue_wraps:
  assumes "k < LENGTH('w)" and "2 ^ LENGTH('w) \<le> unat (sz :: 'w::len word) + (2 ^ k - 1)"
  shows "alignValue sz (2 ^ k) = 0"
proof -
  have m: "unat (mask k :: 'w word) = 2 ^ k - 1"
    using assms(1) by (simp add: unat_mask_word)
  have "unat (sz + mask k) = unat sz + (2 ^ k - 1) - 2 ^ LENGTH('w)"
  proof -
    have "unat sz < 2 ^ LENGTH('w)" "(2::nat) ^ k \<le> 2 ^ LENGTH('w)"
      using assms(1) by (auto intro: power_increasing)
    then have "unat sz + (2 ^ k - 1) < 2 * 2 ^ LENGTH('w)" by linarith
    with assms(2) have "(unat sz + (2 ^ k - 1)) mod 2 ^ LENGTH('w) = unat sz + (2 ^ k - 1) - 2 ^ LENGTH('w)"
      by (rule mod_wrap_once)
    then show ?thesis by (simp add: unat_word_ariths m)
  qed
  moreover have "unat sz < 2 ^ LENGTH('w)" "(0::nat) < 2 ^ k" by (rule unsigned_less, simp)
  then have "unat sz + (2 ^ k - 1) - 2 ^ LENGTH('w) < 2 ^ k" using assms(2) by linarith
  ultimately have "unat (sz + mask k) < 2 ^ k" by (simp only:)
  then have "unat (alignValue sz (2 ^ k)) = 0"
    by (simp add: alignValue_pow2 unat_and_not_mask)
  then show ?thesis by (simp add: word_eq_unat)
qed

theorem alignValue_wraps_witness:
  "alignValue (0xFFFFFFFFFFFFF001 :: u64) (2 ^ 12) = 0"
  by (rule alignValue_wraps) simp_all

section \<open>Version literals\<close>

text \<open>
  \<open>parseModuleVersion\<close> reads the characters 0, 2 and 4 of the literal. The differences with
  \<open>'0'\<close> are \<open>int\<close>s; the first is converted to \<open>size_t\<close> before the multiplication, and the sums
  are computed in \<open>size_t\<close>. Reading past the terminating null is undefined.
\<close>

definition char_diff :: "char \<Rightarrow> int" where
  "char_diff c = of_char c - of_char (CHR ''0'')"

definition parseModuleVersion :: "string \<Rightarrow> size_t option" where
  "parseModuleVersion version = do {
     let s = version @ [CHR 0x00];
     c0 \<leftarrow> cell_get s 0;
     c2 \<leftarrow> cell_get s 2;
     c4 \<leftarrow> cell_get s 4;
     Some (of_int (char_diff c0) * 100 + of_int (char_diff c2 * 10) + of_int (char_diff c4)) }"

definition digit :: "nat \<Rightarrow> char" where
  "digit d = ''0123456789'' ! d"

lemma char_diff_digit [simp]: "d < 10 \<Longrightarrow> char_diff (digit d) = int d"
  by (auto simp: char_diff_def digit_def less_Suc_eq numeral_eq_Suc)

lemma decimal_eq: "y < 10 \<Longrightarrow> y' < 10 \<Longrightarrow> 10 * x + y = 10 * x' + y' \<longleftrightarrow> x = x' \<and> y = (y'::nat)"
  by (cases x x' rule: linorder_cases) auto

lemma decimal_less: "y < 10 \<Longrightarrow> y' < 10 \<Longrightarrow> 10 * x + y < 10 * x' + y' \<longleftrightarrow> x < x' \<or> x = x' \<and> y < (y'::nat)"
  by (cases x x' rule: linorder_cases) auto

text \<open>C39: On literals of the form \<open>a.b.c\<close> with one-digit components (and any suffix, which is ignored) the
  parsed number orders versions lexicographically and identifies them.\<close>

theorem parseModuleVersion_order:
  assumes "a < 10" "b < 10" "c < 10" "a' < 10" "b' < 10" "c' < (10::nat)"
  shows "\<exists>v v'. parseModuleVersion ([digit a, CHR ''.'', digit b, CHR ''.'', digit c] @ t) = Some v \<and>
    parseModuleVersion ([digit a', CHR ''.'', digit b', CHR ''.'', digit c'] @ t') = Some v' \<and>
    unat v = 100 * a + 10 * b + c \<and>
    (v < v' \<longleftrightarrow> a < a' \<or> a = a' \<and> (b < b' \<or> b = b' \<and> c < c')) \<and>
    (v = v' \<longleftrightarrow> (a, b, c) = (a', b', c'))"
proof -
  have val: "parseModuleVersion (digit x # CHR ''.'' # digit y # CHR ''.'' # digit z # u)
      = Some (of_nat (100 * x + 10 * y + z))" if "x < 10" "y < 10" "z < (10::nat)" for x y z u
    using that by (simp add: parseModuleVersion_def Let_def mult.commute)
  have un: "unat (of_nat (100 * x + 10 * y + z) :: size_t) = 100 * x + 10 * y + z"
    if "x < 10" "y < 10" "z < (10::nat)" for x y z
    using that by (subst unat_of_nat) simp
  have split: "100 * x + 10 * y + z = 10 * (10 * x + y) + z" for x y z :: nat by simp
  have eq: "100 * a + 10 * b + c = 100 * a' + 10 * b' + c' \<longleftrightarrow> a = a' \<and> b = b' \<and> c = c'"
    unfolding split by (simp only: assms decimal_eq conj_assoc)
  have less: "100 * a + 10 * b + c < 100 * a' + 10 * b' + c' \<longleftrightarrow> a < a' \<or> a = a' \<and> (b < b' \<or> b = b' \<and> c < c')"
    unfolding split by (simp only: assms decimal_less decimal_eq) blast
  show ?thesis
    unfolding append_Cons append_Nil val [OF assms(1-3)] val [OF assms(4-6)] word_less_unat word_eq_unat
    using un [OF assms(1-3)] un [OF assms(4-6)] by (simp add: eq less del: of_nat_add of_nat_mult)
qed

theorem parseModuleVersion_order_witness:
  "\<exists>v v'. parseModuleVersion ''1.2.0'' = Some v \<and> parseModuleVersion ''1.6.2'' = Some v' \<and> unat v = 120 \<and> v < v'"
proof -
  have d: "''1.2.0'' = [digit 1, CHR ''.'', digit 2, CHR ''.'', digit 0] @ []"
    "''1.6.2'' = [digit 1, CHR ''.'', digit 6, CHR ''.'', digit 2] @ []"
    by (simp_all add: digit_def)
  show ?thesis
    unfolding d using parseModuleVersion_order [of 1 2 0 1 6 2 "[]" "[]"] by auto
qed

text \<open>A component of two digits is misread: \<open>1.10.0\<close> parses to a smaller number than \<open>1.2.0\<close>,
  because the fifth character is then the second dot.\<close>

theorem parseModuleVersion_two_digits:
  "parseModuleVersion ''1.10.0'' = Some 108 \<and> parseModuleVersion ''1.2.0'' = Some 120"
  by (simp add: parseModuleVersion_def char_diff_def cell_get_def Let_def)

section \<open>Loops and null\<close>

text \<open>\<open>findNotEquals\<close>: the loop over \<open>i < size\<close>, an access outside of the container is undefined.\<close>

function findNotEquals_from :: "'a list \<Rightarrow> nat \<Rightarrow> 'a \<Rightarrow> nat \<Rightarrow> bool option" where
  "findNotEquals_from xs n value i =
     (if i < n then do {
        x \<leftarrow> cell_get xs i;
        if x \<noteq> value then Some True else findNotEquals_from xs n value (Suc i) }
      else Some False)"
  by pat_completeness auto
termination
  by (relation "measure (\<lambda>(xs, n, value, i). n - i)") auto

declare findNotEquals_from.simps [simp del]

definition findNotEquals :: "'a list \<Rightarrow> nat \<Rightarrow> 'a \<Rightarrow> bool option" where
  "findNotEquals xs n value = findNotEquals_from xs n value 0"

lemma findNotEquals_from_spec:
  "n \<le> length xs \<Longrightarrow> findNotEquals_from xs n v i = Some (\<exists>j. i \<le> j \<and> j < n \<and> xs ! j \<noteq> v)"
proof (induction xs n v i rule: findNotEquals_from.induct)
  case (1 xs n v i)
  show ?case
  proof (cases "i < n \<and> xs ! i = v")
    case True
    have "(\<exists>j. i \<le> j \<and> j < n \<and> xs ! j \<noteq> v) \<longleftrightarrow> (\<exists>j. Suc i \<le> j \<and> j < n \<and> xs ! j \<noteq> v)"
      using True by (metis Suc_leD not_less_eq_eq order_antisym)
    with True 1 show ?thesis by (subst findNotEquals_from.simps) simp
  next
    case False
    with "1.prems" show ?thesis by (subst findNotEquals_from.simps) auto
  qed
qed

text \<open>\<open>findNotEquals\<close> returns, and returns true, exactly when one of the first \<open>size\<close> elements differs
  from the value.\<close>

theorem findNotEquals_iff:
  assumes "n \<le> length xs"
  shows "findNotEquals xs n v = Some (\<exists>x \<in> set (take n xs). x \<noteq> v)"
proof -
  have "(\<exists>x \<in> set (take n xs). x \<noteq> v) \<longleftrightarrow> (\<exists>j < n. xs ! j \<noteq> v)"
    using assms by (fastforce simp: in_set_conv_nth)
  then show ?thesis
    using findNotEquals_from_spec [OF assms, of v 0] by (simp add: findNotEquals_def)
qed

theorem findNotEquals_iff_witness:
  "findNotEquals [0, 0, 5 :: nat] 2 0 = Some False \<and> findNotEquals [0, 0, 5 :: nat] 3 0 = Some True"
  using findNotEquals_iff [of 2 "[0, 0, 5 :: nat]" 0] findNotEquals_iff [of 3 "[0, 0, 5 :: nat]" 0]
  by (simp add: numeral_2_eq_2 numeral_3_eq_3)

definition safeString :: "string option \<Rightarrow> string" where
  "safeString str = (case str of Some s \<Rightarrow> s | None \<Rightarrow> ''(null)'')"

end
