(* ===== verification/C_Enum.thy ===== *)
theory C_Enum
  imports Lilu_Base
begin

text \<open>
  Enumerations of C as the headers write them: a list of enumerators, each with or without a
  constant expression, and the rule of C that gives them values. An enumerator without an
  expression is one more than its predecessor (the first is 0); an expression may name enumerators
  that come before it.
\<close>

datatype cexpr = Num int | Const string | Shl cexpr nat | BitOr cexpr cexpr | Add cexpr cexpr

datatype enumerator = Auto string | Init string cexpr

text \<open>Constant expressions are computed in the 32-bit type \<open>int\<close>.\<close>

definition int32 :: "int \<Rightarrow> int" where
  "int32 v = sint (word_of_int v :: u32)"

fun cexpr_value :: "(string \<times> int) list \<Rightarrow> cexpr \<Rightarrow> int option" where
  "cexpr_value env (Num v) = Some v"
| "cexpr_value env (Const c) = map_of env c"
| "cexpr_value env (Shl e k) = map_option (\<lambda>v. int32 (push_bit k v)) (cexpr_value env e)"
| "cexpr_value env (BitOr e f) = do { v \<leftarrow> cexpr_value env e; w \<leftarrow> cexpr_value env f; Some (v OR w) }"
| "cexpr_value env (Add e f) = do { v \<leftarrow> cexpr_value env e; w \<leftarrow> cexpr_value env f; Some (v + w) }"

text \<open>\<open>enum_from env n es\<close>: the constants of \<open>es\<close> when those of \<open>env\<close> precede and \<open>n\<close> is the next value.\<close>

fun enum_from :: "(string \<times> int) list \<Rightarrow> int \<Rightarrow> enumerator list \<Rightarrow> (string \<times> int) list option" where
  "enum_from env n [] = Some []"
| "enum_from env n (Auto x # es) = do { vs \<leftarrow> enum_from ((x, n) # env) (n + 1) es; Some ((x, n) # vs) }"
| "enum_from env n (Init x e # es) =
     do { v \<leftarrow> cexpr_value env e; vs \<leftarrow> enum_from ((x, v) # env) (v + 1) es; Some ((x, v) # vs) }"

definition enum_consts :: "enumerator list \<Rightarrow> (string \<times> int) list option" where
  "enum_consts es = enum_from [] 0 es"

definition enum_value :: "enumerator list \<Rightarrow> string \<Rightarrow> int option" where
  "enum_value es x = do { vs \<leftarrow> enum_consts es; map_of vs x }"

fun enum_name :: "enumerator \<Rightarrow> string" where
  "enum_name (Auto x) = x"
| "enum_name (Init x e) = x"

section \<open>Enumerations without expressions\<close>

fun is_auto :: "enumerator \<Rightarrow> bool" where
  "is_auto (Auto x) = True"
| "is_auto (Init x e) = False"

fun starts_at_0 :: "enumerator list \<Rightarrow> bool" where
  "starts_at_0 (Init x (Num v) # es) = (v = 0 \<and> list_all is_auto es)"
| "starts_at_0 es = list_all is_auto es"

text \<open>The consecutive values a run of such enumerators gets.\<close>

fun number_from :: "int \<Rightarrow> enumerator list \<Rightarrow> (string \<times> int) list" where
  "number_from n [] = []"
| "number_from n (e # es) = (enum_name e, n) # number_from (n + 1) es"

lemma enum_from_auto: "list_all is_auto es \<Longrightarrow> enum_from env n es = Some (number_from n es)"
proof (induction es arbitrary: env n)
  case (Cons e es)
  then show ?case by (cases e) simp_all
qed simp

lemma enum_consts_starts_at_0: "starts_at_0 es \<Longrightarrow> enum_consts es = Some (number_from 0 es)"
  by (cases es rule: starts_at_0.cases) (auto simp: enum_consts_def enum_from_auto)

lemma length_number_from [simp]: "length (number_from n es) = length es"
  by (induction es arbitrary: n) simp_all

lemma nth_number_from: "k < length es \<Longrightarrow> number_from n es ! k = (enum_name (es ! k), n + int k)"
  by (induction es arbitrary: n k) (auto simp: nth_Cons split: nat.split)

lemma map_snd_number_from: "map snd (number_from n es) = [n..n + int (length es) - 1]"
proof (induction es arbitrary: n)
  case (Cons e es)
  have "[n..n + 1 + int (length es) - 1] = n # [n + 1..n + 1 + int (length es) - 1]"
    by (rule upto_rec1) simp
  with Cons [of "n + 1"] show ?case by (simp add: add.commute add.left_commute)
qed simp

lemma enum_from_append:
  "enum_from env n (es @ fs) = do {
     vs \<leftarrow> enum_from env n es;
     ws \<leftarrow> enum_from (rev vs @ env) (if vs = [] then n else snd (last vs) + 1) fs;
     Some (vs @ ws) }"
proof (induction es arbitrary: env n)
  case (Cons e es)
  show ?case
  proof (cases e)
    case (Auto x)
    show ?thesis
    proof (cases "enum_from ((x, n) # env) (n + 1) es")
      case (Some vs)
      with Auto Cons [of "(x, n) # env" "n + 1"] show ?thesis by (cases "vs = []") simp_all
    qed (simp add: Auto Cons)
  next
    case (Init x c)
    show ?thesis
    proof (cases "cexpr_value env c")
      case (Some v)
      with Init Cons [of "(x, v) # env" "v + 1"] show ?thesis
        by (cases "enum_from ((x, v) # env) (v + 1) es"; cases "the (enum_from ((x, v) # env) (v + 1) es) = []")
          simp_all
    qed (simp add: Init)
  qed
qed simp

section \<open>Bounds on the constants\<close>

text \<open>
  A check of a bound on all constants that needs no lookup of names: a constant that repeats an
  earlier one is bounded by it. The next value is unknown after such a constant.
\<close>

fun enum_fits :: "int \<Rightarrow> int option \<Rightarrow> enumerator list \<Rightarrow> bool" where
  "enum_fits b n [] = True"
| "enum_fits b (Some n) (Auto x # es) = (0 \<le> n \<and> n < b \<and> enum_fits b (Some (n + 1)) es)"
| "enum_fits b None (Auto x # es) = False"
| "enum_fits b n (Init x (Num v) # es) = (0 \<le> v \<and> v < b \<and> enum_fits b (Some (v + 1)) es)"
| "enum_fits b n (Init x (Const c) # es) = enum_fits b None es"
| "enum_fits b n (Init x (Shl e k) # es) = False"
| "enum_fits b n (Init x (BitOr e f) # es) = False"
| "enum_fits b n (Init x (Add e f) # es) = False"

lemma enum_fits_sound:
  assumes "enum_fits b k es" and "k = None \<or> k = Some n" and "enum_from env n es = Some vs"
    and "\<forall>v \<in> snd ` set env. 0 \<le> v \<and> v < b"
  shows "\<forall>v \<in> snd ` set vs. 0 \<le> v \<and> v < b"
  using assms
proof (induction b k es arbitrary: env n vs rule: enum_fits.induct)
  case (2 b m x es)
  then obtain ws where ws: "enum_from ((x, n) # env) (n + 1) es = Some ws" "vs = (x, n) # ws"
    by (cases "enum_from ((x, n) # env) (n + 1) es") auto
  have "\<forall>w \<in> snd ` set ws. 0 \<le> w \<and> w < b" using 2(2-) by (intro 2(1) [OF _ _ ws(1)]) auto
  with 2(2,3) ws(2) show ?case by simp
next
  case (4 b m x v es)
  then obtain ws where ws: "enum_from ((x, v) # env) (v + 1) es = Some ws" "vs = (x, v) # ws"
    by (cases "enum_from ((x, v) # env) (v + 1) es") auto
  have "\<forall>w \<in> snd ` set ws. 0 \<le> w \<and> w < b" using 4(2-) by (intro 4(1) [OF _ _ ws(1)]) auto
  with 4(2) ws(2) show ?case by simp
next
  case (5 b m x c es)
  from 5(4) obtain v where v: "map_of env c = Some v" by (cases "map_of env c") auto
  with 5(4) obtain ws where ws: "enum_from ((x, v) # env) (v + 1) es = Some ws" "vs = (x, v) # ws"
    by (cases "enum_from ((x, v) # env) (v + 1) es") auto
  from v have bv: "0 \<le> v \<and> v < b" using 5(5) by (auto dest!: map_of_SomeD)
  have "\<forall>w \<in> snd ` set ws. 0 \<le> w \<and> w < b" using 5(2,5) bv by (intro 5(1) [OF _ _ ws(1)]) auto
  with bv ws(2) show ?case by simp
qed auto

text \<open>Every name an expression uses comes before it.\<close>

fun cexpr_names :: "cexpr \<Rightarrow> string list" where
  "cexpr_names (Num v) = []"
| "cexpr_names (Const c) = [c]"
| "cexpr_names (Shl e k) = cexpr_names e"
| "cexpr_names (BitOr e f) = cexpr_names e @ cexpr_names f"
| "cexpr_names (Add e f) = cexpr_names e @ cexpr_names f"

fun enum_closed :: "string list \<Rightarrow> enumerator list \<Rightarrow> bool" where
  "enum_closed ns [] = True"
| "enum_closed ns (Auto x # es) = enum_closed (x # ns) es"
| "enum_closed ns (Init x e # es) = (list_all (\<lambda>c. c \<in> set ns) (cexpr_names e) \<and> enum_closed (x # ns) es)"

lemma cexpr_value_closed:
  "list_all (\<lambda>c. c \<in> set (map fst env)) (cexpr_names e) \<Longrightarrow> \<exists>v. cexpr_value env e = Some v"
proof (induction e)
  case (Const c)
  then have "map_of env c \<noteq> None" by (simp add: map_of_eq_None_iff)
  then show ?case by auto
qed auto

lemma enum_closed_sound: "enum_closed (map fst env) es \<Longrightarrow> \<exists>vs. enum_from env n es = Some vs"
proof (induction es arbitrary: env n)
  case (Cons e es)
  show ?case
  proof (cases e)
    case (Auto x)
    with Cons.prems Cons.IH [of "(x, n) # env" "n + 1"] show ?thesis by auto
  next
    case (Init x c)
    from Init Cons.prems have "list_all (\<lambda>c. c \<in> set (map fst env)) (cexpr_names c)" by simp
    from cexpr_value_closed [OF this] obtain v where v: "cexpr_value env c = Some v" ..
    with Init Cons.prems Cons.IH [of "(x, v) # env" "v + 1"] show ?thesis by auto
  qed
qed simp

text \<open>All constants of an enumeration, in a type of \<open>b\<close> values.\<close>

lemma enum_consts_bounded:
  assumes "enum_fits b (Some 0) es" and "enum_closed [] es"
  obtains vs where "enum_consts es = Some vs" "\<forall>v \<in> snd ` set vs. 0 \<le> v \<and> v < b"
proof -
  from enum_closed_sound [of "[]" es 0] assms(2) obtain vs where vs: "enum_from [] 0 es = Some vs" by auto
  with enum_fits_sound [OF assms(1), of 0 "[]" vs] that show ?thesis by (simp add: enum_consts_def)
qed

text \<open>The two checks on an enumeration that begins with a run of enumerators without expressions.\<close>

lemma enum_closed_auto:
  "list_all is_auto es \<Longrightarrow> enum_closed ns (es @ fs) = enum_closed (rev (map enum_name es) @ ns) fs"
proof (induction es arbitrary: ns)
  case (Cons e es)
  then show ?case by (cases e) simp_all
qed simp

lemma enum_closed_plain:
  "starts_at_0 es \<Longrightarrow> enum_closed [] (es @ fs) = enum_closed (rev (map enum_name es)) fs"
  by (cases es rule: starts_at_0.cases) (auto simp: enum_closed_auto)

lemma enum_fits_auto:
  "list_all is_auto es \<Longrightarrow> 0 \<le> n \<Longrightarrow> n + int (length es) \<le> b \<Longrightarrow>
   enum_fits b (Some n) (es @ fs) = enum_fits b (Some (n + int (length es))) fs"
proof (induction es arbitrary: n)
  case (Cons e es)
  then show ?case by (cases e) (simp_all add: add.assoc)
qed simp

lemma enum_fits_plain:
  "starts_at_0 es \<Longrightarrow> int (length es) \<le> b \<Longrightarrow> enum_fits b (Some 0) (es @ fs) = enum_fits b (Some (int (length es))) fs"
  by (cases es rule: starts_at_0.cases) (auto simp: enum_fits_auto add.commute)

lemma enum_bounded_plain:
  assumes "starts_at_0 es" and "int (length es) \<le> b"
    and "enum_fits b (Some (int (length es))) fs" and "enum_closed (rev (map enum_name es)) fs"
  obtains vs where "enum_consts (es @ fs) = Some vs" "\<forall>v \<in> snd ` set vs. 0 \<le> v \<and> v < b"
  by (rule enum_consts_bounded [of b "es @ fs"])
    (use assms that in \<open>auto simp: enum_fits_plain enum_closed_plain\<close>)

end
