(* ===== verification/Kernel_Env.thy ===== *)
theory Kernel_Env
  imports C_Enum
begin

text \<open>
  The remaining inline functions of \<open>kern_util.hpp\<close>: the kernel version, boot arguments, array sizes, the
  comparison of a value with several others and the wrapper of foreign objects. What the kernel supplies
  (\<open>version_major\<close>, \<open>version_minor\<close>, the parser of boot arguments) is a parameter.
\<close>

section \<open>Kernel versions\<close>

definition KernelVersion :: "enumerator list" where
  "KernelVersion = [
    Init ''Tiger'' (Num 8), Init ''Leopard'' (Num 9), Init ''SnowLeopard'' (Num 10), Init ''Lion'' (Num 11),
    Init ''MountainLion'' (Num 12), Init ''Mavericks'' (Num 13), Init ''Yosemite'' (Num 14), Init ''ElCapitan'' (Num 15),
    Init ''Sierra'' (Num 16), Init ''HighSierra'' (Num 17), Init ''Mojave'' (Num 18), Init ''Catalina'' (Num 19),
    Init ''BigSur'' (Num 20), Init ''Monterey'' (Num 21), Init ''Ventura'' (Num 22)]"

text \<open>
  The enumeration has no fixed underlying type, so its values are those of the five bits its largest
  enumerator needs; converting another number to it is undefined.
\<close>

definition getKernelVersion :: "int \<Rightarrow> int option" where
  "getKernelVersion version_major = (if 0 \<le> version_major \<and> version_major < 32 then Some version_major else None)"

definition getKernelMinorVersion :: "int \<Rightarrow> int" where
  "getKernelMinorVersion version_minor = version_minor"

lemma kernel_versions:
  "enum_consts KernelVersion = Some (zip (map enum_name KernelVersion) [8..22])"
  by (simp add: enum_consts_def KernelVersion_def upto.simps)

text \<open>The conversion is defined for every release listed, and for other numbers of five bits.\<close>

lemma getKernelVersion_releases:
  "list_all (\<lambda>(n, v). getKernelVersion v = Some v) (zip (map enum_name KernelVersion) [8..22]) \<and>
   (getKernelVersion v = None) = (v < 0 \<or> 31 < v)"
  by (auto simp: getKernelVersion_def KernelVersion_def upto.simps)

section \<open>Boot arguments\<close>

text \<open>
  What the parser of boot arguments answers and the bytes it writes. Writing more of them than the buffer has is
  undefined.
\<close>

type_synonym parsed = "bool \<times> u8 list"

definition write_arg :: "parsed \<Rightarrow> u8 list \<Rightarrow> (bool \<times> u8 list) option" where
  "write_arg r buf = (if length (snd r) \<le> length buf then Some (fst r, snd r @ drop (length (snd r)) buf) else None)"

text \<open>
  \<open>lilu_get_boot_args\<close>: on i386 a wrapper of \<open>PE_parse_boot_arg\<close>, which has no parameter for the length of the buffer, and
  else a name for \<open>PE_parse_boot_argn\<close>.
\<close>

definition lilu_get_boot_args ::
    "bool \<Rightarrow> (string \<Rightarrow> parsed) \<Rightarrow> (string \<Rightarrow> nat \<Rightarrow> parsed) \<Rightarrow> string \<Rightarrow> u8 list \<Rightarrow> nat \<Rightarrow> (bool \<times> u8 list) option" where
  "lilu_get_boot_args i386 PE_parse_boot_arg PE_parse_boot_argn arg_string arg_ptr max_len =
     (if i386 then write_arg (PE_parse_boot_arg arg_string) arg_ptr
      else write_arg (PE_parse_boot_argn arg_string max_len) arg_ptr)"

text \<open>\<open>val\<close> is the local array \<open>int[16]\<close>, dropped after the call.\<close>

definition checkKernelArgument :: "(string \<Rightarrow> u8 list \<Rightarrow> nat \<Rightarrow> (bool \<times> u8 list) option) \<Rightarrow> u8 list \<Rightarrow> string \<Rightarrow> bool option" where
  "checkKernelArgument get_boot_args val name = map_option fst (get_boot_args name val (16 * 4))"

text \<open>C35: With a parser that keeps to the length it is given, \<open>checkKernelArgument\<close> is defined and says whether the argument was
  passed; the wrapper for i386 drops the length, and there the check overflows its array exactly when the parser writes
  more than 64 bytes.\<close>

theorem checkKernelArgument_bounds:
  assumes "length val = 16 * 4" and "\<And>name n. length (snd (argn name n)) \<le> n"
  shows "checkKernelArgument (lilu_get_boot_args False arg argn) val name = Some (fst (argn name 64)) \<and>
    checkKernelArgument (lilu_get_boot_args True arg argn) val name
      = (if length (snd (arg name)) \<le> 64 then Some (fst (arg name)) else None)"
  using assms by (simp add: checkKernelArgument_def lilu_get_boot_args_def write_arg_def)

text \<open>A parser that copies the value of the argument, cut to the length in the bounded form.\<close>

theorem checkKernelArgument_bounds_witness:
  "checkKernelArgument (lilu_get_boot_args False (\<lambda>_. (True, replicate 65 7)) (\<lambda>_ n. (True, take n (replicate 65 7)))) (replicate 64 0)
     ''-liludbg'' = Some True \<and>
   checkKernelArgument (lilu_get_boot_args True (\<lambda>_. (True, replicate 65 7)) (\<lambda>_ n. (True, take n (replicate 65 7)))) (replicate 64 0)
     ''-liludbg'' = None"
  using checkKernelArgument_bounds [where val = "replicate 64 0" and argn = "\<lambda>_ n. (True, take n (replicate 65 7))" and name = "''-liludbg''"
      and arg = "\<lambda>_. (True, replicate 65 7)"] by (simp del: replicate.simps)

section \<open>Interrupts\<close>

text \<open>The i386 form: \<open>flags\<close> is what \<open>pushf\<close> pushed and \<open>EFL_IF\<close> the mask of the interrupt flag.\<close>

definition lilu_get_interrupts_enabled :: "u32 \<Rightarrow> u32 \<Rightarrow> bool" where
  "lilu_get_interrupts_enabled EFL_IF flags = (flags AND EFL_IF \<noteq> 0)"

lemma lilu_get_interrupts_enabled_bit: "lilu_get_interrupts_enabled (push_bit n 1) flags = bit flags n"
  if "n < 32"
proof -
  have "bit (flags AND push_bit n 1) k = (k = n \<and> bit flags n)" for k
    using that by (auto simp: bit_simps)
  then show ?thesis unfolding lilu_get_interrupts_enabled_def by (metis bit_0_eq bit_eqI bot_apply bot_bool_def)
qed

section \<open>Names and hints\<close>

text \<open>The preprocessor pastes tokens; \<open>product\<close> is the name of the plugin.\<close>

definition Concat :: "string \<Rightarrow> string \<Rightarrow> string" where
  "Concat a b = a @ b"

definition ADDPR :: "string \<Rightarrow> string \<Rightarrow> string" where
  "ADDPR product a = Concat (Concat product ''_'') a"

text \<open>Within a plugin prefixing keeps names apart, and so it does between plugins when no name has an underscore.\<close>

lemma ADDPR_inject: "ADDPR product a = ADDPR product b \<longleftrightarrow> a = b"
  by (simp add: ADDPR_def Concat_def)

lemma ADDPR_plugins:
  assumes "ADDPR product a = ADDPR product' b" and "CHR ''_'' \<notin> set product" and "CHR ''_'' \<notin> set product'"
  shows "product = product' \<and> a = b"
proof -
  have e: "product @ CHR ''_'' # a = product' @ CHR ''_'' # b" using assms(1) by (simp add: ADDPR_def Concat_def)
  have cut: "takeWhile (\<lambda>c. c \<noteq> CHR ''_'') (xs @ CHR ''_'' # ys) = xs" if "CHR ''_'' \<notin> set xs" for xs ys
    using that by (induction xs) auto
  from e cut [OF assms(2)] cut [OF assms(3)] have "product = product'" by metis
  with e show ?thesis by simp
qed

text \<open>Branch hints: \<open>__builtin_expect(!!(x), _)\<close> has the value of \<open>!!(x)\<close>.\<close>

definition LIKELY :: "int \<Rightarrow> int" where
  "LIKELY x = (if x \<noteq> 0 then 1 else 0)"

section \<open>Arrays and values\<close>

definition arrsize :: "'a list \<Rightarrow> nat" where
  "arrsize array = length array"

text \<open>
  The fold expressions of \<open>isOneOf\<close> and \<open>isNotOneOf\<close>, which stop at the first argument that decides.
  \<open>eq\<close> and \<open>ne\<close> are the operators \<open>==\<close> and \<open>!=\<close> of the types involved.
\<close>

fun isOneOf :: "('a \<Rightarrow> 'b \<Rightarrow> bool) \<Rightarrow> 'a \<Rightarrow> 'b list \<Rightarrow> bool" where
  "isOneOf eq v [] = False"
| "isOneOf eq v (a # as) = (eq v a \<or> isOneOf eq v as)"

fun isNotOneOf :: "('a \<Rightarrow> 'b \<Rightarrow> bool) \<Rightarrow> 'a \<Rightarrow> 'b list \<Rightarrow> bool" where
  "isNotOneOf ne v [] = True"
| "isNotOneOf ne v (a # as) = (ne v a \<and> isNotOneOf ne v as)"

text \<open>With the equality of the type they are membership and its negation.\<close>

lemma isOneOf_member: "isOneOf (=) v as \<longleftrightarrow> v \<in> set as"
  by (induction as) auto

lemma isNotOneOf_negates: "(\<And>a. ne v a = (\<not> eq v a)) \<Longrightarrow> isNotOneOf ne v as \<longleftrightarrow> \<not> isOneOf eq v as"
  by (induction as) auto

text \<open>A \<open>Value\<close> refers to the value it was made of.\<close>

record 'a cpp_value =
  held_value :: 'a

definition Value_of :: "'a \<Rightarrow> 'a cpp_value" where
  "Value_of v = \<lparr>held_value = v\<rparr>"

lemma Value_of_isOneOf: "isOneOf (=) (held_value (Value_of v)) as \<longleftrightarrow> v \<in> set as"
  by (simp add: Value_of_def isOneOf_member)

text \<open>\<open>FunctionCast\<close> turns an address into a pointer of the type of its first argument, whose value it drops.\<close>

definition FunctionCast :: "'f \<Rightarrow> u64 \<Rightarrow> u64" where
  "FunctionCast org ptr = ptr"

text \<open>\<open>remove_reference\<close> on types: \<open>evector<T &>\<close> and \<open>evector<T &&>\<close> hold what \<open>evector<T>\<close> holds.\<close>

datatype cpp_type = Plain string | LRef cpp_type | RRef cpp_type

fun remove_reference :: "cpp_type \<Rightarrow> cpp_type" where
  "remove_reference (LRef t) = t"
| "remove_reference (RRef t) = t"
| "remove_reference t = t"

text \<open>\<open>OSObjectWrapper\<close>: the wrapped pointer comes back as it was given, at whatever type.\<close>

record object_wrapper =
  wrapped :: "nat option"

definition wrapper_get :: "object_wrapper \<Rightarrow> nat option" where
  "wrapper_get w = wrapped w"

end
