(* ===== verification/Diagnostics.thy ===== *)
theory Diagnostics
  imports Util_Functions
begin

text \<open>
  The logging and panic macros of \<open>kern_util.hpp\<close>. A message is formatted by the system's \<open>printf\<close>; here it is
  the text that results for the caller's format and arguments, and the macros add the product name, the
  module in a field of ten characters, the separator and the line end. The log and the call traces are
  lists of the lines that were written.
\<close>

section \<open>State\<close>

record console =
  log_lines :: "string list"
  backtraces :: "string list"

text \<open>How a plugin was built, and the flag it exports.\<close>

record build =
  PRODUCT_NAME :: string
  DEBUG :: bool

text \<open>A statement either lets the run continue, or stops the system with a message; what was written stays.\<close>

datatype 'a checked = Continues 'a | Stops string 'a

section \<open>Formats\<close>

text \<open>\<open>%10s\<close>: padded with spaces on the left to at least ten characters.\<close>

definition field10 :: "string \<Rightarrow> string" where
  "field10 s = replicate (10 - length s) CHR '' '' @ s"

text \<open>\<open>"%s%10s: @ " str "\n"\<close> with the product name and \<open>safeString(module)\<close>.\<close>

definition line_of :: "build \<Rightarrow> string option \<Rightarrow> string \<Rightarrow> string" where
  "line_of b module str = PRODUCT_NAME b @ field10 (safeString module) @ '': @ '' @ str @ [CHR 0x0A]"

section \<open>Macros\<close>

definition SYSLOG_COND :: "build \<Rightarrow> bool \<Rightarrow> string option \<Rightarrow> string \<Rightarrow> console \<Rightarrow> console" where
  "SYSLOG_COND b cond module str s = (if cond then s\<lparr>log_lines := log_lines s @ [line_of b module str]\<rparr> else s)"

definition SYSLOG :: "build \<Rightarrow> string option \<Rightarrow> string \<Rightarrow> console \<Rightarrow> console" where
  "SYSLOG b module str s = SYSLOG_COND b True module str s"

definition SYSTRACE_COND :: "build \<Rightarrow> bool \<Rightarrow> string option \<Rightarrow> string \<Rightarrow> console \<Rightarrow> console" where
  "SYSTRACE_COND b cond module str s =
     (if cond then (let s = SYSLOG b module str s in s\<lparr>backtraces := backtraces s @ [line_of b module str]\<rparr>) else s)"

definition SYSTRACE :: "build \<Rightarrow> string option \<Rightarrow> string \<Rightarrow> console \<Rightarrow> console" where
  "SYSTRACE b module str s = SYSTRACE_COND b True module str s"

definition PANIC_COND :: "build \<Rightarrow> bool \<Rightarrow> string option \<Rightarrow> string \<Rightarrow> console \<Rightarrow> console checked" where
  "PANIC_COND b cond module str s = (if cond then Stops (line_of b module str) s else Continues s)"

definition PANIC :: "build \<Rightarrow> string option \<Rightarrow> string \<Rightarrow> console \<Rightarrow> console checked" where
  "PANIC b module str s = PANIC_COND b True module str s"

text \<open>The debug variants put \<open>"%s"\<close> with \<open>"(DBG) "\<close> before the message, and are empty unless \<open>DEBUG\<close> is defined.\<close>

definition DBGLOG_COND :: "build \<Rightarrow> bool \<Rightarrow> bool \<Rightarrow> string option \<Rightarrow> string \<Rightarrow> console \<Rightarrow> console" where
  "DBGLOG_COND b debugEnabled cond module str s =
     (if DEBUG b then SYSLOG_COND b (debugEnabled \<and> cond) module (''(DBG) '' @ str) s else s)"

definition DBGLOG :: "build \<Rightarrow> bool \<Rightarrow> string option \<Rightarrow> string \<Rightarrow> console \<Rightarrow> console" where
  "DBGLOG b debugEnabled module str s = (if DEBUG b then DBGLOG_COND b debugEnabled True module str s else s)"

definition DBGTRACE_COND :: "build \<Rightarrow> bool \<Rightarrow> bool \<Rightarrow> string option \<Rightarrow> string \<Rightarrow> console \<Rightarrow> console" where
  "DBGTRACE_COND b debugEnabled cond module str s =
     (if DEBUG b then SYSTRACE_COND b (debugEnabled \<and> cond) module (''(DBG) '' @ str) s else s)"

definition DBGTRACE :: "build \<Rightarrow> bool \<Rightarrow> string option \<Rightarrow> string \<Rightarrow> console \<Rightarrow> console" where
  "DBGTRACE b debugEnabled module str s = (if DEBUG b then DBGTRACE_COND b debugEnabled True module str s else s)"

lemmas macro_defs = SYSLOG_COND_def SYSLOG_def SYSTRACE_COND_def SYSTRACE_def PANIC_COND_def PANIC_def
  DBGLOG_COND_def DBGLOG_def DBGTRACE_COND_def DBGTRACE_def

section \<open>Printing of addresses and identifiers\<close>

text \<open>\<open>CASTKADDR\<close> splits an address into the two halves that \<open>PRIKADDR\<close>, \<open>"0x%08X%08X"\<close>, prints.\<close>

definition CASTKADDR :: "u64 \<Rightarrow> u32 \<times> u32" where
  "CASTKADDR x = (ucast (drop_bit 32 x), ucast x)"

definition hex_digit :: "nat \<Rightarrow> char" where
  "hex_digit n = ''0123456789ABCDEF'' ! n"

text \<open>The last \<open>k\<close> hexadecimal digits of a number.\<close>

fun hex :: "nat \<Rightarrow> nat \<Rightarrow> string" where
  "hex 0 n = []"
| "hex (Suc k) n = hex k (n div 16) @ [hex_digit (n mod 16)]"

definition print_kaddr :: "u64 \<Rightarrow> string" where
  "print_kaddr x = (case CASTKADDR x of (hi, lo) \<Rightarrow> ''0x'' @ hex 8 (unat hi) @ hex 8 (unat lo))"

text \<open>\<open>CASTUUID\<close> takes the first 16 bytes; \<open>PRIUUID\<close> prints them in groups of 4, 2, 2, 2 and 6.\<close>

definition CASTUUID :: "u8 list \<Rightarrow> u8 list option" where
  "CASTUUID uuid = (if 16 \<le> length uuid then Some (map (\<lambda>i. uuid ! i) [0..<16]) else None)"

definition print_bytes :: "u8 list \<Rightarrow> string" where
  "print_bytes bs = concat (map (\<lambda>b. hex 2 (unat b)) bs)"

definition print_uuid :: "u8 list \<Rightarrow> string option" where
  "print_uuid uuid = do {
     bs \<leftarrow> CASTUUID uuid;
     Some (print_bytes (take 4 bs) @ ''-'' @ print_bytes (take 2 (drop 4 bs)) @ ''-'' @ print_bytes (take 2 (drop 6 bs))
       @ ''-'' @ print_bytes (take 2 (drop 8 bs)) @ ''-'' @ print_bytes (drop 10 bs)) }"

section \<open>Lemmas\<close>

lemma length_hex [simp]: "length (hex k n) = k"
  by (induction k arbitrary: n) simp_all

lemma hex_digit_inj: "a < 16 \<Longrightarrow> b < 16 \<Longrightarrow> hex_digit a = hex_digit b \<longleftrightarrow> a = b"
proof -
  have "distinct ''0123456789ABCDEF''" by (simp add: distinct_conv_nth nth_Cons') 
  moreover have "length ''0123456789ABCDEF'' = 16" by simp
  ultimately show "a < 16 \<Longrightarrow> b < 16 \<Longrightarrow> ?thesis" unfolding hex_digit_def by (simp add: nth_eq_iff_index_eq)
qed

lemma hex_inj: "a < 16 ^ k \<Longrightarrow> b < 16 ^ k \<Longrightarrow> hex k a = hex k b \<Longrightarrow> a = b"
proof (induction k arbitrary: a b)
  case (Suc k)
  from Suc.prems have "a div 16 < 16 ^ k" "b div 16 < 16 ^ k" by (simp_all add: less_mult_imp_div_less mult.commute)
  with Suc have "a div 16 = b div 16" "a mod 16 = b mod 16" by (simp_all add: hex_digit_inj)
  then show ?case by (metis div_mult_mod_eq)
qed simp

lemma length_field10: "length (field10 s) = max 10 (length s)"
  by (simp add: field10_def)

lemma field10_short: "length s \<le> 10 \<Longrightarrow> field10 s = replicate (10 - length s) CHR '' '' @ s"
  by (simp add: field10_def)

text \<open>Modules of at most ten characters that do not begin with a space are told apart by their field.\<close>

definition short_name :: "string \<Rightarrow> bool" where
  "short_name s \<longleftrightarrow> s \<noteq> [] \<and> hd s \<noteq> CHR '' '' \<and> length s \<le> 10"

lemma field10_strip: "short_name s \<Longrightarrow> dropWhile (\<lambda>c. c = CHR '' '') (field10 s) = s"
  by (cases s) (simp_all add: field10_def short_name_def dropWhile_append)

lemma field10_inj: "short_name s \<Longrightarrow> short_name t \<Longrightarrow> field10 s = field10 t \<Longrightarrow> s = t"
  by (metis field10_strip)


lemma line_of_inj:
  assumes "short_name m" and "short_name n" and "line_of b (Some m) str = line_of b (Some n) str'"
  shows "m = n \<and> str = str'"
proof -
  have "length (field10 m) = length (field10 n)"
    using assms(1,2) by (simp add: length_field10 short_name_def)
  with assms(3) have "field10 m = field10 n \<and> str = str'" by (simp add: line_of_def safeString_def)
  with field10_inj assms(1,2) show ?thesis by blast
qed

section \<open>Sequences of statements\<close>

datatype statement = Log bool "string option" string | Trace bool "string option" string
  | DbgLog bool "string option" string | DbgTrace bool "string option" string | Panic bool "string option" string

fun execute :: "build \<Rightarrow> bool \<Rightarrow> statement \<Rightarrow> console \<Rightarrow> console checked" where
  "execute b dbg (Log c m str) s = Continues (SYSLOG_COND b c m str s)"
| "execute b dbg (Trace c m str) s = Continues (SYSTRACE_COND b c m str s)"
| "execute b dbg (DbgLog c m str) s = Continues (DBGLOG_COND b dbg c m str s)"
| "execute b dbg (DbgTrace c m str) s = Continues (DBGTRACE_COND b dbg c m str s)"
| "execute b dbg (Panic c m str) s = PANIC_COND b c m str s"

fun execute_all :: "build \<Rightarrow> bool \<Rightarrow> statement list \<Rightarrow> console \<Rightarrow> console checked" where
  "execute_all b dbg [] s = Continues s"
| "execute_all b dbg (c # cs) s = (case execute b dbg c s of Continues s \<Rightarrow> execute_all b dbg cs s | Stops str s \<Rightarrow> Stops str s)"

text \<open>The specification: what a statement writes, and whether it ends the run.\<close>

fun written :: "build \<Rightarrow> bool \<Rightarrow> statement \<Rightarrow> string list" where
  "written b dbg (Log c m str) = (if c then [line_of b m str] else [])"
| "written b dbg (Trace c m str) = (if c then [line_of b m str] else [])"
| "written b dbg (DbgLog c m str) = (if DEBUG b \<and> dbg \<and> c then [line_of b m (''(DBG) '' @ str)] else [])"
| "written b dbg (DbgTrace c m str) = (if DEBUG b \<and> dbg \<and> c then [line_of b m (''(DBG) '' @ str)] else [])"
| "written b dbg (Panic c m str) = []"

fun is_trace :: "statement \<Rightarrow> bool" where
  "is_trace (Trace c m str) = True"
| "is_trace (DbgTrace c m str) = True"
| "is_trace _ = False"

fun fatal :: "statement \<Rightarrow> bool" where
  "fatal (Panic c m str) = c"
| "fatal _ = False"

fun panic_line :: "build \<Rightarrow> statement \<Rightarrow> string" where
  "panic_line b (Panic c m str) = line_of b m str"
| "panic_line b _ = []"

lemma execute_spec:
  "execute b dbg c s = (if fatal c then Stops (panic_line b c) s
     else Continues \<lparr>log_lines = log_lines s @ written b dbg c,
       backtraces = backtraces s @ (if is_trace c then written b dbg c else [])\<rparr>)"
  by (cases c) (simp_all add: macro_defs Let_def)

section \<open>Properties\<close>


text \<open>Calls of \<open>SYSLOG\<close> one after the other, and the text that the log then is.\<close>

definition log_calls :: "build \<Rightarrow> (string \<times> string) list \<Rightarrow> console \<Rightarrow> console" where
  "log_calls b calls = fold (\<lambda>(m, str). SYSLOG b (Some m) str) calls"

lemma log_calls_lines:
  "log_lines (log_calls b calls s) = log_lines s @ map (\<lambda>(m, str). line_of b (Some m) str) calls"
  unfolding log_calls_def
  by (induction calls arbitrary: s) (auto simp: SYSLOG_def SYSLOG_COND_def)

definition one_line :: "string \<Rightarrow> bool" where
  "one_line s \<longleftrightarrow> CHR 0x0A \<notin> set s"

definition is_line :: "string \<Rightarrow> bool" where
  "is_line l \<longleftrightarrow> (\<exists>u. l = u @ [CHR 0x0A] \<and> one_line u)"

lemma is_line_cut: "is_line k \<Longrightarrow> takeWhile (\<lambda>c. c \<noteq> CHR 0x0A) (k @ rest) @ [CHR 0x0A] = k"
  by (auto simp: is_line_def one_line_def takeWhile_append)

lemma concat_lines_inj:
  "list_all is_line ls \<Longrightarrow> list_all is_line ks \<Longrightarrow> concat ls = concat ks \<Longrightarrow> ls = ks"
proof (induction ls arbitrary: ks)
  case Nil
  then show ?case by (cases ks) (auto simp: is_line_def)
next
  case (Cons l ls)
  from Cons.prems obtain k ks' where ks: "ks = k # ks'" by (cases ks) (auto simp: is_line_def)
  from Cons.prems ks have eq: "l @ concat ls = k @ concat ks'" and "is_line l" "is_line k" by simp_all
  from is_line_cut [OF this(2), of "concat ls"] is_line_cut [OF this(3), of "concat ks'"] have "l = k"
    unfolding eq by (rule box_equals [OF refl])
  moreover from this eq have "concat ls = concat ks'" by simp
  with Cons.IH [of ks'] Cons.prems ks have "ls = ks'" by simp
  ultimately show ?case by (simp add: ks)
qed

lemma line_of_is_line:
  "one_line (PRODUCT_NAME b) \<Longrightarrow> one_line m \<Longrightarrow> one_line str \<Longrightarrow> is_line (line_of b (Some m) str)"
  by (simp add: is_line_def line_of_def one_line_def field10_def safeString_def)

definition plain_call :: "string \<times> string \<Rightarrow> bool" where
  "plain_call = (\<lambda>(m, str). short_name m \<and> one_line m \<and> one_line str)"

lemma line_of_inj_on: "inj_on (\<lambda>(m, str). line_of b (Some m) str) (Collect plain_call)"
proof (rule inj_onI)
  fix c d assume calls: "c \<in> Collect plain_call" "d \<in> Collect plain_call"
    and eq: "(case c of (m, str) \<Rightarrow> line_of b (Some m) str) = (case d of (m, str) \<Rightarrow> line_of b (Some m) str)"
  obtain m str n str' where c: "c = (m, str)" and d: "d = (n, str')" by fastforce
  from calls have "short_name m" "short_name n" by (simp_all add: c d plain_call_def)
  from line_of_inj [OF this, of b str str'] eq show "c = d" by (simp add: c d)
qed



text \<open>A printed address is complete: \<open>CASTKADDR\<close> loses no bit of it, and the 18 characters determine it.\<close>

theorem print_kaddr_is_injective:
  "(case CASTKADDR x of (hi, lo) \<Rightarrow> push_bit 32 (ucast hi) OR ucast lo = x) \<and> length (print_kaddr x) = 18 \<and>
   (print_kaddr x = print_kaddr y \<longleftrightarrow> x = y)"
proof -
  have "push_bit 32 (ucast (ucast (drop_bit 32 z) :: u32)) OR ucast (ucast z :: u32) = z" for z :: u64
  proof (rule bit_word_eqI)
    fix n assume n: "n < LENGTH(64)"
    show "bit (push_bit 32 (ucast (ucast (drop_bit 32 z) :: u32)) OR ucast (ucast z :: u32) :: u64) n \<longleftrightarrow> bit z n"
      using n by (cases "n < 32") (auto simp: bit_or_iff bit_push_bit_iff bit_ucast_iff bit_drop_bit_eq)
  qed
  then have join: "(case CASTKADDR z of (hi, lo) \<Rightarrow> push_bit 32 (ucast hi) OR ucast lo = z)" for z
    by (simp add: CASTKADDR_def)
  have bound: "unat (w :: u32) < 16 ^ 8" for w using unsigned_less [of w] by simp
  have hex8: "v = w" if "hex 8 (unat v) = hex 8 (unat w)" for v w :: u32
    using hex_inj [OF bound [of v] bound [of w] that] by (rule word_unat_eq_iff [THEN iffD2])
  obtain h l where x: "CASTKADDR x = (h, l)" by fastforce
  obtain h' l' where y: "CASTKADDR y = (h', l')" by fastforce
  have "print_kaddr x = print_kaddr y \<longleftrightarrow> hex 8 (unat h) = hex 8 (unat h') \<and> hex 8 (unat l) = hex 8 (unat l')"
    by (simp only: print_kaddr_def x y prod.case append.simps list.inject append_eq_append_conv length_hex simp_thms)
  also have "\<dots> \<longleftrightarrow> h = h' \<and> l = l'"
    using hex8 by blast
  also have "\<dots> \<longleftrightarrow> x = y"
  proof
    assume "h = h' \<and> l = l'"
    then have "CASTKADDR x = CASTKADDR y" using x y by simp
    with join [of x] join [of y] show "x = y" by (simp only: x y prod.case) simp
  next
    assume "x = y"
    with x y show "h = h' \<and> l = l'" by simp
  qed
  finally show ?thesis
    using join [of x] by (simp add: print_kaddr_def x del: hex.simps)
qed

end
