(* ===== verification/Platform.thy ===== *)
theory Platform
  imports C_Enum
begin

text \<open>
  What the configuration headers decide: the aliases of \<open>kern_compat.hpp\<close>, the switches of \<open>kern_config.hpp\<close> and
  Capstone's replacement for \<open>stdint.h\<close> and \<open>inttypes.h\<close> (\<open>platform.h\<close>), whose format strings the kernel
  build uses. Macros that expand to a name or a text are strings.
\<close>

section \<open>Lilu's switches and aliases\<close>

definition config_macros :: "(string \<times> int) list" where
  "config_macros = [(''LILU_KEXTPATCH_SUPPORT'', 1), (''LILU_COMPRESSION_SUPPORT'', 1)]"

definition compat_aliases :: "(string \<times> string) list" where
  "compat_aliases = [(''lilu_os_memcpy'', ''memcpy''), (''lilu_os_memmove'', ''memmove''), (''lilu_os_strncpy'', ''strncpy''),
     (''lilu_os_strncat'', ''strncat''), (''lilu_os_strlcat'', ''strlcat''), (''lilu_os_strlcpy'', ''strlcpy''),
     (''lilu_os_strcat'', ''strcat''), (''lilu_os_bcopy'', ''bcopy'')]"

definition lilu_strtou :: "bool \<Rightarrow> string" where
  "lilu_strtou i386 = (if i386 then ''strtoul'' else ''strtouq'')"

text \<open>Every alias is the prefixed name of what it stands for.\<close>

lemma compat_aliases_prefixed: "list_all (\<lambda>(a, f). a = ''lilu_os_'' @ f) compat_aliases \<and> distinct (map snd compat_aliases)"
  by (simp add: compat_aliases_def)

section \<open>Integer types of platform.h\<close>

datatype width = W8 | W16 | W32 | W64

fun bits :: "width \<Rightarrow> nat" where
  "bits W8 = 8" | "bits W16 = 16" | "bits W32 = 32" | "bits W64 = 64"

text \<open>The types that \<open>int8_t\<close> to \<open>int64_t\<close> and their unsigned forms name, without the sign.\<close>

datatype c_integer = CChar | CShort | CInt | CLong | CLongLong

fun stdint_type :: "width \<Rightarrow> c_integer" where
  "stdint_type W8 = CChar" | "stdint_type W16 = CShort" | "stdint_type W32 = CInt" | "stdint_type W64 = CLongLong"

fun INT_MIN :: "width \<Rightarrow> int" where
  "INT_MIN W8 = - 127 - 1" | "INT_MIN W16 = - 32767 - 1" | "INT_MIN W32 = - 2147483647 - 1"
| "INT_MIN W64 = - 9223372036854775807 - 1"

fun INT_MAX :: "width \<Rightarrow> int" where
  "INT_MAX W8 = 127" | "INT_MAX W16 = 32767" | "INT_MAX W32 = 2147483647" | "INT_MAX W64 = 9223372036854775807"

fun UINT_MAX :: "width \<Rightarrow> int" where
  "UINT_MAX W8 = 0xff" | "UINT_MAX W16 = 0xffff" | "UINT_MAX W32 = 0xffffffff" | "UINT_MAX W64 = 0xffffffffffffffff"

text \<open>The limits are those of two's complement numbers of the width.\<close>

lemma stdint_limits: "INT_MIN w = - (2 ^ (bits w - 1)) \<and> INT_MAX w = 2 ^ (bits w - 1) - 1 \<and> UINT_MAX w = 2 ^ bits w - 1"
  by (cases w) simp_all

lemma stdint_limits_words:
  "INT_MIN W8 \<le> sint (b :: 8 word) \<and> sint b \<le> INT_MAX W8 \<and> uint b \<le> UINT_MAX W8"
  "INT_MIN W64 \<le> sint (q :: 64 word) \<and> sint q \<le> INT_MAX W64 \<and> uint q \<le> UINT_MAX W64"
  using sint_ge [of b] sint_lt [of b] uint_bounded [of b] sint_ge [of q] sint_lt [of q] uint_bounded [of q] by simp_all

section \<open>Format strings\<close>

datatype conversion = Conv_d | Conv_i | Conv_o | Conv_u | Conv_x | Conv_X

fun conversion_letter :: "conversion \<Rightarrow> string" where
  "conversion_letter Conv_d = ''d''" | "conversion_letter Conv_i = ''i''" | "conversion_letter Conv_o = ''o''"
| "conversion_letter Conv_u = ''u''" | "conversion_letter Conv_x = ''x''" | "conversion_letter Conv_X = ''X''"

text \<open>\<open>old_msvc\<close> is \<open>defined(_MSC_VER) && _MSC_VER <= 1700\<close>.\<close>

fun length_modifier :: "bool \<Rightarrow> width \<Rightarrow> string" where
  "length_modifier old_msvc W8 = ''hh''"
| "length_modifier old_msvc W16 = ''h''"
| "length_modifier old_msvc W32 = (if old_msvc then ''l'' else '''')"
| "length_modifier old_msvc W64 = ''ll''"

text \<open>\<open>PRId8\<close> to \<open>PRIX64\<close>.\<close>

definition PRI :: "bool \<Rightarrow> width \<Rightarrow> conversion \<Rightarrow> string" where
  "PRI old_msvc w c = length_modifier old_msvc w @ conversion_letter c"

text \<open>The type C says a length modifier stands for, and the sizes of the types with both compilers.\<close>

definition modifier_type :: "string \<Rightarrow> c_integer option" where
  "modifier_type m = map_of [(''hh'', CChar), (''h'', CShort), ('''', CInt), (''l'', CLong), (''ll'', CLongLong)] m"

fun type_bits :: "bool \<Rightarrow> c_integer \<Rightarrow> nat" where
  "type_bits old_msvc CChar = 8" | "type_bits old_msvc CShort = 16" | "type_bits old_msvc CInt = 32"
| "type_bits old_msvc CLong = (if old_msvc then 32 else 64)" | "type_bits old_msvc CLongLong = 64"

lemma stdint_type_bits: "type_bits old_msvc (stdint_type w) = bits w"
  by (cases w) simp_all

text \<open>Every format string prints an integer of its own width with its own conversion.\<close>

lemma PRI_reads_width:
  "map_option (type_bits old_msvc) (modifier_type (butlast (PRI old_msvc w c))) = Some (bits w) \<and>
   [last (PRI old_msvc w c)] = conversion_letter c"
  by (cases w; cases c) (simp_all add: PRI_def modifier_type_def)

lemma PRI_distinct: "PRI old_msvc w c = PRI old_msvc v d \<longleftrightarrow> w = v \<and> c = d"
proof
  assume e: "PRI old_msvc w c = PRI old_msvc v d"
  then have "bits w = bits v" "conversion_letter c = conversion_letter d"
    using PRI_reads_width [of old_msvc w c] PRI_reads_width [of old_msvc v d] by simp_all
  then show "w = v \<and> c = d" by (cases w; cases v; cases c; cases d) simp_all
qed simp

end
