(* ===== verification/Layout.thy ===== *)
theory Layout
  imports Lilu_Base
begin

text \<open>
  How the compiler lays out the structures of the headers (the rules of the x86 System V ABI that the
  code relies on when it writes \<open>sizeof\<close>, \<open>offsetof\<close>, \<open>PACKED\<close> and \<open>static_assert\<close>): a field starts at
  the next multiple of its alignment, a structure is as aligned as its most aligned field and is
  padded to a multiple of that, a packed structure has no padding, and the fields of a union all
  start at 0. Types are data here, so that sizes and offsets are computed.
\<close>

section \<open>Types\<close>

text \<open>\<open>Prim n\<close> is a scalar of \<open>n\<close> bytes that is aligned to its size.\<close>

datatype ctype = Prim nat | Arr ctype nat | Struct "(string \<times> ctype) list"
  | Packed "(string \<times> ctype) list" | Union "(string \<times> ctype) list"

abbreviation "c_u8 \<equiv> Prim 1"
abbreviation "c_u16 \<equiv> Prim 2"
abbreviation "c_u32 \<equiv> Prim 4"
abbreviation "c_u64 \<equiv> Prim 8"
abbreviation "c_bool \<equiv> Prim 1"
abbreviation "c_enum \<equiv> Prim 4"

text \<open>\<open>n\<close> rounded up to a multiple of \<open>a\<close>.\<close>

definition round_up :: "nat \<Rightarrow> nat \<Rightarrow> nat" where
  "round_up n a = (n + a - 1) div a * a"

fun align_of :: "ctype \<Rightarrow> nat" and align_max :: "(string \<times> ctype) list \<Rightarrow> nat" where
  "align_of (Prim n) = n"
| "align_of (Arr t n) = align_of t"
| "align_of (Struct fs) = align_max fs"
| "align_of (Packed fs) = 1"
| "align_of (Union fs) = align_max fs"
| "align_max [] = 1"
| "align_max (f # fs) = max (align_of (snd f)) (align_max fs)"

text \<open>\<open>end_of packed off fs\<close> is where the fields \<open>fs\<close> end when they are placed from \<open>off\<close> on.\<close>

definition place :: "bool \<Rightarrow> nat \<Rightarrow> ctype \<Rightarrow> nat" where
  "place packed off t = (if packed then off else round_up off (align_of t))"

fun size_of :: "ctype \<Rightarrow> nat" and end_of :: "bool \<Rightarrow> nat \<Rightarrow> (string \<times> ctype) list \<Rightarrow> nat"
  and size_max :: "(string \<times> ctype) list \<Rightarrow> nat" where
  "size_of (Prim n) = n"
| "size_of (Arr t n) = n * size_of t"
| "size_of (Struct fs) = round_up (end_of False 0 fs) (align_max fs)"
| "size_of (Packed fs) = end_of True 0 fs"
| "size_of (Union fs) = round_up (size_max fs) (align_max fs)"
| "end_of packed off [] = off"
| "end_of packed off (f # fs) = end_of packed (place packed off (snd f) + size_of (snd f)) fs"
| "size_max [] = 0"
| "size_max (f # fs) = max (size_of (snd f)) (size_max fs)"

text \<open>The fields of a structure with their offsets.\<close>

fun placed :: "bool \<Rightarrow> nat \<Rightarrow> (string \<times> ctype) list \<Rightarrow> (string \<times> nat \<times> ctype) list" where
  "placed packed off [] = []"
| "placed packed off (f # fs) =
     (let at = place packed off (snd f) in (fst f, at, snd f) # placed packed (at + size_of (snd f)) fs)"

fun fields_of :: "ctype \<Rightarrow> (string \<times> nat \<times> ctype) list" where
  "fields_of (Struct fs) = placed False 0 fs"
| "fields_of (Packed fs) = placed True 0 fs"
| "fields_of (Union fs) = map (\<lambda>(f, t). (f, 0, t)) fs"
| "fields_of _ = []"

text \<open>A part of an object: a field of a structure or union, or an element of an array.\<close>

datatype selector = Fld string | Idx nat

fun select :: "ctype \<Rightarrow> selector \<Rightarrow> (nat \<times> ctype) option" where
  "select (Arr t n) (Idx i) = (if i < n then Some (i * size_of t, t) else None)"
| "select (Arr t n) (Fld f) = None"
| "select t (Fld f) = map_of (fields_of t) f"
| "select t (Idx i) = None"

fun part :: "ctype \<Rightarrow> selector list \<Rightarrow> (nat \<times> ctype) option" where
  "part t [] = Some (0, t)"
| "part t (x # xs) = do { (off, u) \<leftarrow> select t x; (off', w) \<leftarrow> part u xs; Some (off + off', w) }"

definition offset_of :: "ctype \<Rightarrow> string \<Rightarrow> nat option" where
  "offset_of t f = map_option fst (part t [Fld f])"

text \<open>Scalars of the sizes that the machine has.\<close>

fun machine_type :: "ctype \<Rightarrow> bool" where
  "machine_type (Prim n) = (n \<in> {1, 2, 4, 8, 16})"
| "machine_type (Arr t n) = machine_type t"
| "machine_type (Struct fs) = list_all (\<lambda>f. machine_type (snd f)) fs"
| "machine_type (Packed fs) = list_all (\<lambda>f. machine_type (snd f)) fs"
| "machine_type (Union fs) = list_all (\<lambda>f. machine_type (snd f)) fs"

section \<open>Rounding and alignment\<close>

lemma round_up_ge: "0 < a \<Longrightarrow> n \<le> round_up n a"
  using div_mult_mod_eq [of "n + a - 1" a] mod_less_divisor [of a "n + a - 1"]
  unfolding round_up_def by linarith

lemma round_up_less: "0 < a \<Longrightarrow> round_up n a < n + a"
  using div_times_less_eq_dividend [of "n + a - 1" a] unfolding round_up_def by linarith

lemma round_up_dvd [simp]: "a dvd round_up n a"
  by (simp add: round_up_def)

lemma round_up_id [simp]:
  assumes "a dvd n" and "0 < a"
  shows "round_up n a = n"
proof -
  from assms(1) obtain k where "n = a * k" ..
  moreover have "a * k + a - 1 = (a - 1) + a * k" using assms(2) by simp
  then have "(a * k + a - 1) div a = k" using assms(2) by (simp only: div_mult_self2) simp
  ultimately show ?thesis by (simp add: round_up_def)
qed

lemma pow2_max: "\<lbrakk>\<exists>i. a = (2::nat) ^ i; \<exists>j. b = (2::nat) ^ j\<rbrakk> \<Longrightarrow> \<exists>k. max a b = 2 ^ k"
  by (auto simp: max_def)

lemma pow2_le_dvd: "\<lbrakk>\<exists>i. a = (2::nat) ^ i; \<exists>j. b = (2::nat) ^ j; a \<le> b\<rbrakk> \<Longrightarrow> a dvd b"
  by (auto simp: le_imp_power_dvd)

lemma align_pow2:
  "machine_type t \<Longrightarrow> \<exists>k. align_of t = 2 ^ k"
  "list_all (\<lambda>f. machine_type (snd f)) fs \<Longrightarrow> \<exists>k. align_max fs = 2 ^ k"
proof (induction t and fs rule: align_of_align_max.induct)
  case (1 n)
  then show ?case
    by (auto intro: exI [of _ 0] exI [of _ 1] exI [of _ 2] exI [of _ 3] exI [of _ 4])
next
  case 6
  then show ?case by (auto intro: exI [of _ 0])
next
  case (4 fs)
  then show ?case by (auto intro: exI [of _ 0])
qed (auto intro: pow2_max)

lemma align_pos: "machine_type t \<Longrightarrow> 0 < align_of t" "list_all (\<lambda>f. machine_type (snd f)) fs \<Longrightarrow> 0 < align_max fs"
  using align_pow2(1) [of t] align_pow2(2) [of fs] by auto

lemma align_max_dvd:
  assumes "list_all (\<lambda>f. machine_type (snd f)) fs" and "f \<in> set fs"
  shows "align_of (snd f) dvd align_max fs"
proof (rule pow2_le_dvd)
  show "align_of (snd f) \<le> align_max fs" using assms(2) by (induction fs) auto
qed (use assms align_pow2 in \<open>auto simp: list_all_iff\<close>)

text \<open>The size of a type is a multiple of its alignment, so arrays need no padding.\<close>

lemma align_dvd_size: "align_of t dvd size_of t"
  by (induction t) (auto intro: dvd_mult)

section \<open>Fields\<close>

lemma place_ge: "machine_type t \<Longrightarrow> off \<le> place packed off t"
  by (simp add: place_def round_up_ge align_pos)

lemma place_aligned: "align_of t dvd place False off t"
  by (simp add: place_def)

lemma end_of_ge: "list_all (\<lambda>f. machine_type (snd f)) fs \<Longrightarrow> off \<le> end_of packed off fs"
proof (induction fs arbitrary: off)
  case (Cons f fs)
  then have "place packed off (snd f) + size_of (snd f) \<le> end_of packed off (f # fs)" by simp
  moreover have "off \<le> place packed off (snd f)" using Cons.prems by (simp add: place_ge)
  ultimately show ?case by linarith
qed simp

text \<open>Each field lies between where the fields begin and where they end.\<close>

lemma placed_bounds:
  "list_all (\<lambda>f. machine_type (snd f)) fs \<Longrightarrow> (f, at, t) \<in> set (placed packed off fs) \<Longrightarrow>
   off \<le> at \<and> at + size_of t \<le> end_of packed off fs"
proof (induction fs arbitrary: off)
  case (Cons g fs)
  let ?next = "place packed off (snd g) + size_of (snd g)"
  have ge: "off \<le> place packed off (snd g)" using Cons.prems by (simp add: place_ge)
  have "?next \<le> end_of packed ?next fs" using Cons.prems by (simp add: end_of_ge)
  moreover have "?next \<le> at \<and> at + size_of t \<le> end_of packed ?next fs" if "(f, at, t) \<in> set (placed packed ?next fs)"
    using Cons.IH [OF _ that] Cons.prems(1) by simp
  ultimately show ?case using Cons.prems(2) ge by (auto simp: Let_def)
qed simp

text \<open>Of two fields, the one declared first ends before the other begins.\<close>

lemma placed_ordered:
  "list_all (\<lambda>f. machine_type (snd f)) fs \<Longrightarrow>
   sorted_wrt (\<lambda>(f, at, t) (g, at', u). at + size_of t \<le> at') (placed packed off fs)"
proof (induction fs arbitrary: off)
  case (Cons g fs)
  let ?next = "place packed off (snd g) + size_of (snd g)"
  have "?next \<le> at" if "(f, at, t) \<in> set (placed packed ?next fs)" for f at t
    using placed_bounds [OF _ that] Cons.prems by simp
  with Cons show ?case by (auto simp: Let_def)
qed simp

lemma placed_fst: "map fst (placed packed off fs) = map fst fs"
  by (induction fs arbitrary: off) (simp_all add: Let_def)

lemma placed_types: "(f, at, t) \<in> set (placed packed off fs) \<Longrightarrow> (f, t) \<in> set fs"
  by (induction fs arbitrary: off) (auto simp: Let_def)

lemma placed_aligned: "(f, at, t) \<in> set (placed False off fs) \<Longrightarrow> align_of t dvd at"
  by (induction fs arbitrary: off) (auto simp: Let_def place_aligned)

lemma size_max_ge: "f \<in> set fs \<Longrightarrow> size_of (snd f) \<le> size_max fs"
  by (induction fs) auto

lemma sorted_wrt_pair:
  assumes "sorted_wrt P xs" and "x \<in> set xs" and "y \<in> set xs" and "x \<noteq> y"
  shows "P x y \<or> P y x"
proof -
  from assms(2,3) obtain i j where "i < length xs" "xs ! i = x" "j < length xs" "xs ! j = y"
    by (auto simp: in_set_conv_nth)
  with assms(1,4) show ?thesis by (cases i j rule: linorder_cases) (auto dest: sorted_wrt_nth_less)
qed

section \<open>Parts of an object\<close>

lemma select_field:
  "select t (Fld f) = Some (at, u) \<Longrightarrow> (f, at, u) \<in> set (fields_of t)"
  by (cases t) (auto dest: map_of_SomeD)

lemma field_bounds:
  assumes "machine_type t" and "(f, at, u) \<in> set (fields_of t)"
  shows "at + size_of u \<le> size_of t \<and> machine_type u"
proof (cases t)
  case (Struct fs)
  then have fs: "list_all (\<lambda>f. machine_type (snd f)) fs" using assms(1) by simp
  have "end_of False 0 fs \<le> size_of t" using Struct fs by (simp add: round_up_ge align_pos)
  with placed_bounds [OF fs] placed_types assms Struct fs show ?thesis
    by (fastforce simp: list_all_iff)
next
  case (Packed fs)
  then have fs: "list_all (\<lambda>f. machine_type (snd f)) fs" using assms(1) by simp
  with placed_bounds [OF fs] placed_types assms Packed show ?thesis by (fastforce simp: list_all_iff)
next
  case (Union fs)
  then have fs: "list_all (\<lambda>f. machine_type (snd f)) fs" using assms(1) by simp
  have f: "(f, u) \<in> set fs" "at = 0" using assms(2) Union by auto
  have "size_max fs \<le> size_of t" using Union fs by (simp add: round_up_ge align_pos)
  with size_max_ge [OF f(1)] f fs show ?thesis by (fastforce simp: list_all_iff)
qed (use assms in auto)

lemma select_bounds:
  assumes "machine_type t" and "select t x = Some (at, u)"
  shows "at + size_of u \<le> size_of t \<and> machine_type u"
proof (cases x)
  case (Fld f)
  with assms select_field field_bounds show ?thesis by blast
next
  case (Idx i)
  with assms(2) obtain n where t: "t = Arr u n" "i < n" "at = i * size_of u"
    by (cases t) (auto split: if_splits)
  then have "Suc i * size_of u \<le> n * size_of u" by (intro mult_le_mono1) simp
  with t assms(1) show ?thesis by simp
qed

text \<open>Every part of an object lies inside of it.\<close>

lemma part_bounds:
  "machine_type t \<Longrightarrow> part t p = Some (at, u) \<Longrightarrow> at + size_of u \<le> size_of t \<and> machine_type u"
proof (induction p arbitrary: t at)
  case (Cons x p)
  from Cons.prems(2) obtain o1 w o2 where p: "select t x = Some (o1, w)" "part w p = Some (o2, u)" "at = o1 + o2"
    by (auto simp: bind_eq_Some_conv split: prod.splits)
  with select_bounds [OF Cons.prems(1) p(1)] Cons.IH [of w o2] show ?case by simp
qed simp


text \<open>Without packed structures every part is aligned like its type, relative to an aligned object.\<close>

fun unpacked :: "ctype \<Rightarrow> bool" where
  "unpacked (Prim n) = True"
| "unpacked (Arr t n) = unpacked t"
| "unpacked (Struct fs) = list_all (\<lambda>f. unpacked (snd f)) fs"
| "unpacked (Packed fs) = False"
| "unpacked (Union fs) = list_all (\<lambda>f. unpacked (snd f)) fs"

lemma select_aligned:
  assumes "machine_type t" and "unpacked t" and "select t x = Some (at, u)"
  shows "align_of u dvd at \<and> align_of u dvd align_of t \<and> unpacked u"
proof (cases t)
  case (Struct fs)
  with assms(3) obtain f where f: "(f, at, u) \<in> set (placed False 0 fs)"
    by (cases x) (auto dest: map_of_SomeD)
  with placed_types [OF f] align_max_dvd [of fs "(f, u)"] placed_aligned [OF f] assms(1,2) Struct show ?thesis
    by (fastforce simp: list_all_iff)
next
  case (Union fs)
  with assms(3) obtain f where f: "(f, u) \<in> set fs" "at = 0"
    by (cases x) (auto dest!: map_of_SomeD)
  with align_max_dvd [of fs "(f, u)"] assms(1,2) Union show ?thesis by (fastforce simp: list_all_iff)
next
  case (Arr v n)
  with assms(2,3) align_dvd_size [of v] show ?thesis by (cases x) (auto split: if_splits)
qed (use assms in \<open>cases x; simp\<close>)+

lemma part_aligned:
  "machine_type t \<Longrightarrow> unpacked t \<Longrightarrow> part t p = Some (at, u) \<Longrightarrow> align_of u dvd at \<and> align_of u dvd align_of t"
proof (induction p arbitrary: t at)
  case (Cons x p)
  from Cons.prems(3) obtain o1 w o2 where p: "select t x = Some (o1, w)" "part w p = Some (o2, u)" "at = o1 + o2"
    by (auto simp: bind_eq_Some_conv split: prod.splits)
  from select_aligned [OF Cons.prems(1,2) p(1)] Cons.IH [OF _ _ p(2)] select_bounds [OF Cons.prems(1) p(1)] p(3)
  show ?case by (auto intro: dvd_trans)
qed simp

text \<open>Different parts of a structure or an array do not overlap.\<close>

fun is_union :: "ctype \<Rightarrow> bool" where
  "is_union (Union fs) = True"
| "is_union t = False"

definition no_overlap :: "nat \<Rightarrow> nat \<Rightarrow> nat \<Rightarrow> nat \<Rightarrow> bool" where
  "no_overlap a m b n \<longleftrightarrow> a + m \<le> b \<or> b + n \<le> a"

lemma placed_no_overlap:
  assumes "list_all (\<lambda>f. machine_type (snd f)) fs"
    and "(f, a, t) \<in> set (placed packed 0 fs)" and "(g, b, u) \<in> set (placed packed 0 fs)" and "f \<noteq> g"
  shows "no_overlap a (size_of t) b (size_of u)"
  using sorted_wrt_pair [OF placed_ordered [OF assms(1)] assms(2,3)] assms(4) by (auto simp: no_overlap_def)

lemma select_Arr:
  "select (Arr w n) x = Some (a, u) \<longleftrightarrow> (\<exists>i<n. x = Idx i \<and> a = i * size_of w \<and> u = w)"
  by (cases x) auto

lemma select_no_overlap:
  assumes "machine_type t" and "\<not> is_union t"
    and "select t x = Some (a, u)" and "select t y = Some (b, v)" and "x \<noteq> y"
  shows "no_overlap a (size_of u) b (size_of v)"
proof (cases t)
  case (Struct fs)
  with assms(3-5) obtain f g where "(f, a, u) \<in> set (placed False 0 fs)" "(g, b, v) \<in> set (placed False 0 fs)" "f \<noteq> g"
    by (cases x; cases y) (auto dest!: map_of_SomeD)
  with placed_no_overlap [of fs f a u False g b v] assms(1) Struct show ?thesis by simp
next
  case (Packed fs)
  with assms(3-5) obtain f g where "(f, a, u) \<in> set (placed True 0 fs)" "(g, b, v) \<in> set (placed True 0 fs)" "f \<noteq> g"
    by (cases x; cases y) (auto dest!: map_of_SomeD)
  with placed_no_overlap [of fs f a u True g b v] assms(1) Packed show ?thesis by simp
next
  case (Arr w n)
  with assms(3,4) obtain i j where ij: "a = i * size_of w" "b = j * size_of w" "u = w" "v = w" "x = Idx i" "y = Idx j"
    by (metis select_Arr)
  with assms(5) have "i \<noteq> j" by simp
  then have "Suc i \<le> j \<or> Suc j \<le> i" by linarith
  then have "Suc i * size_of w \<le> j * size_of w \<or> Suc j * size_of w \<le> i * size_of w"
    using mult_le_mono1 by blast
  with ij(1-4) show ?thesis by (simp add: no_overlap_def add.commute)
qed (use assms in \<open>cases x; simp\<close>)+

lemma part_append: "part t (p @ q) = do { (off, u) \<leftarrow> part t p; (off', w) \<leftarrow> part u q; Some (off + off', w) }"
proof (induction p arbitrary: t)
  case Nil
  then show ?case by (cases "part t q") auto
next
  case (Cons x p)
  show ?case
  proof (cases "select t x")
    case (Some s)
    then show ?thesis using Cons by (cases s; cases "part (snd s) p") (auto simp: add.assoc split: bind_splits)
  qed simp
qed

lemma no_overlap_inside:
  "no_overlap a m b n \<Longrightarrow> i + m' \<le> m \<Longrightarrow> j + n' \<le> n \<Longrightarrow> no_overlap (c + (a + i)) m' (c + (b + j)) n'"
  by (auto simp: no_overlap_def)

lemma part_no_overlap:
  assumes t: "machine_type t" and c: "part t c = Some (oc, w)" "\<not> is_union w" and xy: "x \<noteq> y"
    and p: "part t (c @ x # p) = Some (a, u)" and q: "part t (c @ y # q) = Some (b, v)"
  shows "no_overlap a (size_of u) b (size_of v)"
proof -
  from p c(1) obtain a1 u1 a2 where u: "select w x = Some (a1, u1)" "part u1 p = Some (a2, u)" "a = oc + (a1 + a2)"
    by (auto simp: part_append bind_eq_Some_conv split: prod.splits)
  from q c(1) obtain b1 v1 b2 where v: "select w y = Some (b1, v1)" "part v1 q = Some (b2, v)" "b = oc + (b1 + b2)"
    by (auto simp: part_append bind_eq_Some_conv split: prod.splits)
  have w: "machine_type w" using part_bounds [OF t c(1)] by simp
  with select_bounds u(1) v(1) have "machine_type u1" "machine_type v1" by blast+
  with u(2) v(2) part_bounds have "a2 + size_of u \<le> size_of u1" "b2 + size_of v \<le> size_of v1" by blast+
  with select_no_overlap [OF w c(2) u(1) v(1) xy] u(3) v(3) show ?thesis by (auto intro: no_overlap_inside)
qed

section \<open>Access by offset\<close>

text \<open>
  \<open>getMember<T>(that, off)\<close> is a reference to the \<open>sizeof(T)\<close> bytes at \<open>that + off\<close>: reading it yields
  these bytes, assigning to it replaces them.
\<close>

type_synonym memory = "nat \<Rightarrow> u8"

definition getMember :: "nat \<Rightarrow> nat \<Rightarrow> size_t \<Rightarrow> memory \<Rightarrow> u8 list" where
  "getMember sizeofT that off mem = map (\<lambda>i. mem (that + unat off + i)) [0..<sizeofT]"

definition getMember_assign :: "nat \<Rightarrow> nat \<Rightarrow> size_t \<Rightarrow> u8 list \<Rightarrow> memory \<Rightarrow> memory" where
  "getMember_assign sizeofT that off v mem =
     (\<lambda>a. if that + unat off \<le> a \<and> a < that + unat off + sizeofT then v ! (a - (that + unat off)) else mem a)"

lemma getMember_assigned:
  "length v = n \<Longrightarrow> getMember n that off (getMember_assign n that off v mem) = v"
  by (rule nth_equalityI) (auto simp: getMember_def getMember_assign_def)

lemma getMember_no_overlap:
  "no_overlap (unat off) m (unat off') n \<Longrightarrow>
   getMember n that off' (getMember_assign m that off v mem) = getMember n that off' mem"
  by (auto simp: getMember_def getMember_assign_def no_overlap_def)

text \<open>C27: Access by offset is as good as access by name: for an object of any type, assigning through
  \<open>getMember\<close> at the offset of one of its parts stores the value there, leaves every part that is reached by
  a different field or element alone, and writes nothing outside of the object.\<close>

theorem getMember_is_field_access:
  assumes "machine_type t" and "size_of t < 2 ^ 64"
    and "part t c = Some (oc, w)" and "\<not> is_union w" and "x \<noteq> y"
    and "part t (c @ x # p) = Some (a, u)" and "part t (c @ y # q) = Some (b, v)" and "length val = size_of u"
  shows "let mem' = getMember_assign (size_of u) that (of_nat a) val mem in
    getMember (size_of u) that (of_nat a) mem' = val \<and>
    getMember (size_of v) that (of_nat b) mem' = getMember (size_of v) that (of_nat b) mem \<and>
    {addr. mem' addr \<noteq> mem addr} \<subseteq> {that..<that + size_of t}"
proof -
  have in_a: "a + size_of u \<le> size_of t" and in_b: "b + size_of v \<le> size_of t"
    using part_bounds [OF assms(1)] assms(6,7) by blast+
  then have n: "unat (of_nat a :: size_t) = a" "unat (of_nat b :: size_t) = b"
    using assms(2) by (simp_all add: unat_of_nat)
  have "no_overlap a (size_of u) b (size_of v)" by (rule part_no_overlap [OF assms(1,3,4,5,6,7)])
  with n have "getMember (size_of v) that (of_nat b) (getMember_assign (size_of u) that (of_nat a) val mem)
      = getMember (size_of v) that (of_nat b) mem" by (intro getMember_no_overlap) simp
  moreover have "{addr. getMember_assign (size_of u) that (of_nat a) val mem addr \<noteq> mem addr} \<subseteq> {that..<that + size_of t}"
    using in_a n(1) by (auto simp: getMember_assign_def split: if_splits)
  ultimately show ?thesis using getMember_assigned [OF assms(8)] by (simp add: Let_def)
qed

end
