(* ===== verification/Patcher.thy ===== *)
theory Patcher
  imports Lilu_Base
begin

text \<open>
  The inline code of class \<open>KernelPatcher\<close> (\<open>kern_patcher.hpp\<close>): solving symbols in a range, one or
  many, replacing entries of virtual tables, and the jump instructions that are written over the
  start of a routed function. \<open>solveSymbol(id, symbol)\<close> and \<open>clearError\<close>, which the header only
  declares, are parameters.
\<close>

section \<open>Errors and outcomes\<close>

datatype patcher_error = NoError | NoKinfoFound | NoSymbolFound | KernInitFailure | KernRunningInitFailure
  | KextListeningFailure | DisasmFailure | MemoryIssue | MemoryProtection | PointerRange | AlreadyDone
  | LockError | Unsupported | InvalidSymbolFound

text \<open>
  The patcher's error code and the memory that requests point to, from addresses to \<open>mach_vm_address_t\<close>.
\<close>

record patcher =
  code :: patcher_error
  store :: "nat \<Rightarrow> mach_addr"

type_synonym solver = "size_t \<Rightarrow> string \<Rightarrow> patcher \<Rightarrow> mach_addr \<times> patcher"

section \<open>Solving symbols\<close>

definition solveSymbol_in :: "solver \<Rightarrow> size_t \<Rightarrow> string \<Rightarrow> mach_addr \<Rightarrow> size_t \<Rightarrow> bool \<Rightarrow> patcher \<Rightarrow> (mach_addr \<times> patcher) outcome" where
  "solveSymbol_in solveSymbol kid symbol start sz crash s =
     (let (addr, s) = solveSymbol kid symbol s in
      if addr \<noteq> 0 then
        (if start \<le> addr \<and> addr < start + sz then Returns (addr, s)
         else let s = s\<lparr>code := InvalidSymbolFound\<rparr> in if crash then Panics else Returns (0, s))
      else Returns (0, s))"

record solve_request =
  symbol :: string
  address :: nat

text \<open>
  The loop of \<open>solveMultiple\<close> from index \<open>i\<close> with \<open>k\<close> iterations left. \<open>None\<close>: an index outside of the
  array of requests.
\<close>

fun solveMultiple_from :: "solver \<Rightarrow> (patcher \<Rightarrow> patcher) \<Rightarrow> size_t \<Rightarrow> solve_request list \<Rightarrow> mach_addr \<Rightarrow> size_t \<Rightarrow> bool \<Rightarrow> bool
    \<Rightarrow> nat \<Rightarrow> nat \<Rightarrow> patcher \<Rightarrow> (bool \<times> patcher) outcome option" where
  "solveMultiple_from solveSymbol clearError kid requests start sz crash force i 0 s = Some (Returns (True, s))"
| "solveMultiple_from solveSymbol clearError kid requests start sz crash force i (Suc k) s = do {
     request \<leftarrow> cell_get requests i;
     (case solveSymbol_in solveSymbol kid (symbol request) start sz crash s of
        Panics \<Rightarrow> Some Panics
      | Returns (result, s) \<Rightarrow>
          if result \<noteq> 0 then
            solveMultiple_from solveSymbol clearError kid requests start sz crash force (Suc i) k
              (s\<lparr>store := (store s)(address request := result)\<rparr>)
          else let s = clearError s in
            if \<not> force then Some (Returns (False, s))
            else solveMultiple_from solveSymbol clearError kid requests start sz crash force (Suc i) k s)
   }"

definition solveMultiple :: "solver \<Rightarrow> (patcher \<Rightarrow> patcher) \<Rightarrow> size_t \<Rightarrow> solve_request list \<Rightarrow> size_t \<Rightarrow> mach_addr \<Rightarrow> size_t
    \<Rightarrow> bool \<Rightarrow> bool \<Rightarrow> patcher \<Rightarrow> (bool \<times> patcher) outcome option" where
  "solveMultiple solveSymbol clearError kid requests num start sz crash force s =
     solveMultiple_from solveSymbol clearError kid requests start sz crash force 0 (unat num) s"

definition solveMultiple_array :: "solver \<Rightarrow> (patcher \<Rightarrow> patcher) \<Rightarrow> size_t \<Rightarrow> solve_request list \<Rightarrow> mach_addr \<Rightarrow> size_t
    \<Rightarrow> bool \<Rightarrow> bool \<Rightarrow> patcher \<Rightarrow> (bool \<times> patcher) outcome option" where
  "solveMultiple_array solveSymbol clearError kid requests start sz crash force s =
     solveMultiple solveSymbol clearError kid requests (of_nat (length requests)) start sz crash force s"

text \<open>
  The documented behaviour of the two functions: \<open>solveSymbol\<close> returns the address the kernel item's symbol table
  has for the symbol, or 0, and does not write to the requests' targets; \<open>clearError\<close> resets the error.
\<close>

definition solver_contract :: "(size_t \<Rightarrow> string \<Rightarrow> mach_addr) \<Rightarrow> solver \<Rightarrow> bool" where
  "solver_contract table solve \<longleftrightarrow> (\<forall>kid x s. fst (solve kid x s) = table kid x \<and> store (snd (solve kid x s)) = store s)"

definition clear_contract :: "(patcher \<Rightarrow> patcher) \<Rightarrow> bool" where
  "clear_contract clear \<longleftrightarrow> (\<forall>s. clear s = s\<lparr>code := NoError\<rparr>)"

text \<open>The address a request is solved to, if it is.\<close>

definition in_range :: "mach_addr \<Rightarrow> size_t \<Rightarrow> mach_addr \<Rightarrow> bool" where
  "in_range start sz a \<longleftrightarrow> a \<noteq> 0 \<and> unat start \<le> unat a \<and> unat a < unat start + unat sz"

lemma solveSymbol_in_range':
  assumes "solver_contract table solve" and "unat start + unat sz < 2 ^ 64"
  shows "case solveSymbol_in solve kid x start sz crash s of
     Panics \<Rightarrow> crash \<and> table kid x \<noteq> 0 \<and> \<not> in_range start sz (table kid x)
   | Returns (a, s') \<Rightarrow> store s' = store s \<and>
       (if in_range start sz (table kid x) then a = table kid x
        else a = 0 \<and> (table kid x = 0 \<or> \<not> crash \<and> code s' = InvalidSymbolFound))"
proof -
  obtain t where t: "solve kid x s = (table kid x, t)" "store t = store s"
    using assms(1) unfolding solver_contract_def by (metis prod.collapse)
  have "unat (start + sz) = unat start + unat sz" using assms(2) by (intro unat_add_exact) simp
  with t show ?thesis
    by (auto simp: solveSymbol_in_def in_range_def Let_def word_le_nat_alt word_less_nat_alt)
qed

text \<open>C22: As long as the range ends within the address space, \<open>solveSymbol\<close> with a range returns the
  symbol's address exactly when that is a non-null address in the range; for an address out of
  range it records \<open>InvalidSymbolFound\<close> and returns null, or panics when asked to.\<close>

theorem solveSymbol_in_range:
  assumes "solver_contract table solve" and "unat start + unat sz < 2 ^ 64"
  shows "case solveSymbol_in solve kid x start sz crash s of
     Panics \<Rightarrow> crash \<and> table kid x \<noteq> 0 \<and> \<not> in_range start sz (table kid x)
   | Returns (a, s') \<Rightarrow> store s' = store s \<and>
       (if in_range start sz (table kid x) then a = table kid x
        else a = 0 \<and> (table kid x = 0 \<or> \<not> crash \<and> code s' = InvalidSymbolFound))"
  using assms by (rule solveSymbol_in_range')

definition sample_solver :: "(size_t \<Rightarrow> string \<Rightarrow> mach_addr) \<Rightarrow> solver" where
  "sample_solver table kid x s = (table kid x, if table kid x = 0 then s\<lparr>code := NoSymbolFound\<rparr> else s)"

definition sample_table :: "size_t \<Rightarrow> string \<Rightarrow> mach_addr" where
  "sample_table kid x = (if kid = 1 then (if x = ''_start'' then 0x1000 else if x = ''_stop'' then 0x1800 else 0) else 0)"

lemma sample_solver_contract: "solver_contract table (sample_solver table)"
  by (simp add: solver_contract_def sample_solver_def)

theorem solveSymbol_in_range_witness:
  "case solveSymbol_in (sample_solver sample_table) 1 ''_stop'' 0x1000 0x800 False \<lparr>code = NoError, store = (\<lambda>_. 0)\<rparr> of
     Panics \<Rightarrow> False | Returns (a, s) \<Rightarrow> a = 0 \<and> code s = InvalidSymbolFound"
  using solveSymbol_in_range [OF sample_solver_contract [of sample_table], where start = "0x1000" and sz = "0x800"
      and kid = 1 and x = "''_stop''" and crash = False and s = "\<lparr>code = NoError, store = (\<lambda>_. 0)\<rparr>"]
  by (simp add: sample_table_def in_range_def split: outcome.splits prod.splits)


section \<open>Solving many symbols\<close>

text \<open>Whether a request can be solved, and the writes of requests that are.\<close>

definition solvable :: "(size_t \<Rightarrow> string \<Rightarrow> mach_addr) \<Rightarrow> size_t \<Rightarrow> mach_addr \<Rightarrow> size_t \<Rightarrow> solve_request \<Rightarrow> bool" where
  "solvable table kid start sz r \<longleftrightarrow> in_range start sz (table kid (symbol r))"

definition solved_store :: "(size_t \<Rightarrow> string \<Rightarrow> mach_addr) \<Rightarrow> size_t \<Rightarrow> solve_request list \<Rightarrow> (nat \<Rightarrow> mach_addr) \<Rightarrow> nat \<Rightarrow> mach_addr" where
  "solved_store table kid rs m = fold (\<lambda>r m. m(address r := table kid (symbol r))) rs m"

lemma solved_store_simps [simp]:
  "solved_store table kid [] m = m"
  "solved_store table kid (r # rs) m = solved_store table kid rs (m(address r := table kid (symbol r)))"
  by (simp_all add: solved_store_def)

lemma solveSymbol_in_cases:
  assumes "solver_contract table solve" and "unat start + unat sz < 2 ^ 64"
  obtains (solved) s' where "in_range start sz (table kid x)" "table kid x \<noteq> 0" "store s' = store s"
      "solveSymbol_in solve kid x start sz crash s = Returns (table kid x, s')"
  | (failed) s' where "\<not> in_range start sz (table kid x)" "store s' = store s"
      "solveSymbol_in solve kid x start sz crash s = Returns (0, s')"
  | (panics) "crash" "\<not> in_range start sz (table kid x)" "solveSymbol_in solve kid x start sz crash s = Panics"
  using solveSymbol_in_range' [OF assms, where kid = kid and x = x and crash = crash and s = s]
  by (auto split: outcome.splits if_splits simp: in_range_def)

text \<open>What a run over the requests \<open>rs\<close> from the memory \<open>m\<close> may end with.\<close>

definition solve_post :: "(size_t \<Rightarrow> string \<Rightarrow> mach_addr) \<Rightarrow> size_t \<Rightarrow> mach_addr \<Rightarrow> size_t \<Rightarrow> bool \<Rightarrow> bool
    \<Rightarrow> solve_request list \<Rightarrow> (nat \<Rightarrow> mach_addr) \<Rightarrow> (bool \<times> patcher) outcome option \<Rightarrow> bool" where
  "solve_post table kid start sz crash force rs m res =
     (let ok = solvable table kid start sz in
      case res of
        Some (Returns (r, s)) \<Rightarrow>
          if force then r \<and> store s = solved_store table kid (filter ok rs) m
          else r = list_all ok rs \<and> store s = solved_store table kid (takeWhile ok rs) m \<and> (r \<or> code s = NoError)
      | Some Panics \<Rightarrow> crash
      | None \<Rightarrow> False)"

lemma solve_post_solved:
  "solvable table kid start sz r \<Longrightarrow> solve_post table kid start sz crash force (r # rs) m res =
   solve_post table kid start sz crash force rs (m(address r := table kid (symbol r))) res"
  by (cases res) (simp_all add: solve_post_def Let_def split: outcome.split)

lemma solve_post_skipped:
  "\<not> solvable table kid start sz r \<Longrightarrow> solve_post table kid start sz crash True (r # rs) m res =
   solve_post table kid start sz crash True rs m res"
  by (cases res) (simp_all add: solve_post_def Let_def split: outcome.split)

lemma solve_from_spec:
  assumes c: "solver_contract table solve" "unat start + unat sz < 2 ^ 64" and clear: "clear_contract clear"
  shows "i + k \<le> length requests \<Longrightarrow> solve_post table kid start sz crash force (take k (drop i requests)) (store s)
    (solveMultiple_from solve clear kid requests start sz crash force i k s)"
proof (induction k arbitrary: i s)
  case 0
  then show ?case by (simp add: solve_post_def)
next
  case (Suc k)
  then have i: "i < length requests" by simp
  then have rs: "take (Suc k) (drop i requests) = requests ! i # take k (drop (Suc i) requests)"
    by (simp add: Cons_nth_drop_Suc [symmetric])
  note IH = Suc.IH [of "Suc i"]
  show ?case
  proof (rule solveSymbol_in_cases [OF c, where kid = kid and x = "symbol (requests ! i)" and s = s and crash = crash])
    fix s' assume s': "in_range start sz (table kid (symbol (requests ! i)))" "table kid (symbol (requests ! i)) \<noteq> 0"
      "store s' = store s"
      "solveSymbol_in solve kid (symbol (requests ! i)) start sz crash s = Returns (table kid (symbol (requests ! i)), s')"
    then have sol: "solvable table kid start sz (requests ! i)" by (simp add: solvable_def)
    let ?t = "s'\<lparr>store := (store s')(address (requests ! i) := table kid (symbol (requests ! i)))\<rparr>"
    have t: "store ?t = (store s)(address (requests ! i) := table kid (symbol (requests ! i)))" using s'(3) by simp
    have run: "solveMultiple_from solve clear kid requests start sz crash force i (Suc k) s =
        solveMultiple_from solve clear kid requests start sz crash force (Suc i) k ?t"
      using s'(2,4) i by (simp del: fun_upd_apply)
    show ?thesis
      unfolding rs run solve_post_solved [OF sol] t [symmetric] using Suc.prems by (intro IH) simp
  next
    fix s' assume s': "\<not> in_range start sz (table kid (symbol (requests ! i)))" "store s' = store s"
      "solveSymbol_in solve kid (symbol (requests ! i)) start sz crash s = Returns (0, s')"
    then have no: "\<not> solvable table kid start sz (requests ! i)" by (simp add: solvable_def)
    show ?thesis
    proof (cases force)
      case True
      then show ?thesis using Suc.prems s' i no clear IH [of "s'\<lparr>code := NoError\<rparr>"]
        by (simp add: rs solve_post_skipped clear_contract_def)
    next
      case False
      then show ?thesis using s' i no clear by (simp add: rs clear_contract_def solve_post_def Let_def)
    qed
  next
    assume "crash" "solveSymbol_in solve kid (symbol (requests ! i)) start sz crash s = Panics"
    then show ?thesis using i by (simp add: solve_post_def Let_def)
  qed
qed

text \<open>C21: Without \<open>force\<close>, and unless the kernel panics on request, \<open>solveMultiple\<close> returns true exactly
  when every symbol has an address in the range. The addresses of the symbols before the first that
  has none, of all when it returns true, have been written to their targets, and nothing
  else has; the error is reset when it returns false.\<close>

theorem solveMultiple_strict:
  assumes "solver_contract table solve" and "clear_contract clear"
    and "unat start + unat sz < 2 ^ 64" and "unat num \<le> length requests"
  shows "case solveMultiple solve clear kid requests num start sz crash False s of
     Some (Returns (r, s')) \<Rightarrow>
       let rs = take (unat num) requests; ok = solvable table kid start sz in
       r = list_all ok rs \<and> store s' = solved_store table kid (takeWhile ok rs) (store s) \<and> (r \<or> code s' = NoError)
   | Some Panics \<Rightarrow> crash
   | None \<Rightarrow> False"
  using solve_from_spec [OF assms(1,3,2), where i = 0 and k = "unat num" and requests = requests and kid = kid
      and crash = crash and force = False and s = s] assms(4)
  by (auto simp: solveMultiple_def solve_post_def Let_def split: option.splits outcome.splits)

theorem solveMultiple_strict_witness:
  "case solveMultiple (sample_solver sample_table) (\<lambda>s. s\<lparr>code := NoError\<rparr>) 1
      [\<lparr>symbol = ''_start'', address = 10\<rparr>, \<lparr>symbol = ''_stop'', address = 11\<rparr>] 2 0x1000 0x1000 False False
      \<lparr>code = NoError, store = (\<lambda>_. 0)\<rparr> of
     Some (Returns (r, s)) \<Rightarrow> r \<and> store s 10 = 0x1000 \<and> store s 11 = 0x1800
   | _ \<Rightarrow> False"
proof -
  have "clear_contract (\<lambda>s. s\<lparr>code := NoError\<rparr>)" by (simp add: clear_contract_def)
  from solveMultiple_strict [OF sample_solver_contract [of sample_table] this, where kid = 1 and start = "0x1000"
      and sz = "0x1000" and num = 2 and crash = False and s = "\<lparr>code = NoError, store = (\<lambda>_. 0)\<rparr>"
      and requests = "[\<lparr>symbol = ''_start'', address = 10\<rparr>, \<lparr>symbol = ''_stop'', address = 11\<rparr>]"]
  show ?thesis
    by (auto simp: Let_def solvable_def in_range_def sample_table_def split: option.splits outcome.splits)
qed

text \<open>C36: With \<open>force\<close> it returns true even when symbols are missing, although its description promises
  false "if at least one symbol cannot be solved": the solvable requests are written, the targets of the others
  are left as they were, and the result does not tell them apart.\<close>

theorem solveMultiple_force:
  assumes "solver_contract table solve" and "clear_contract clear"
    and "unat start + unat sz < 2 ^ 64" and "unat num \<le> length requests"
  shows "case solveMultiple solve clear kid requests num start sz crash True s of
     Some (Returns (r, s')) \<Rightarrow>
       r \<and> store s' = solved_store table kid (filter (solvable table kid start sz) (take (unat num) requests)) (store s)
   | Some Panics \<Rightarrow> crash
   | None \<Rightarrow> False"
  using solve_from_spec [OF assms(1,3,2), where i = 0 and k = "unat num" and requests = requests and kid = kid
      and crash = crash and force = True and s = s] assms(4)
  by (auto simp: solveMultiple_def solve_post_def Let_def split: option.splits outcome.splits)

theorem solveMultiple_force_witness:
  "case solveMultiple (sample_solver sample_table) (\<lambda>s. s\<lparr>code := NoError\<rparr>) 1
      [\<lparr>symbol = ''_missing'', address = 10\<rparr>] 1 0x1000 0x1000 False True \<lparr>code = NoError, store = (\<lambda>_. 7)\<rparr> of
     Some (Returns (r, s)) \<Rightarrow> r \<and> store s 10 = 7
   | _ \<Rightarrow> False"
proof -
  have "clear_contract (\<lambda>s. s\<lparr>code := NoError\<rparr>)" by (simp add: clear_contract_def)
  from solveMultiple_force [OF sample_solver_contract [of sample_table] this, where kid = 1 and start = "0x1000"
      and sz = "0x1000" and num = 1 and crash = False and s = "\<lparr>code = NoError, store = (\<lambda>_. 7)\<rparr>"
      and requests = "[\<lparr>symbol = ''_missing'', address = 10\<rparr>]"]
  show ?thesis
    by (auto simp: solvable_def in_range_def sample_table_def split: option.splits outcome.splits)
qed

section \<open>Virtual tables\<close>

text \<open>
  \<open>vtable_of\<close> gives the first word of an object, the address of its virtual table (or null); \<open>vtables\<close>
  the entries of the tables. Objects of a class share a table.
\<close>

record 'f vheap =
  vtable_of :: "nat \<Rightarrow> nat option"
  vtables :: "nat \<Rightarrow> 'f list"

text \<open>
  The second component of the result is what is written to \<open>*orgFunc\<close>, if anything; \<open>org\<close> says whether
  the caller passes such a pointer.
\<close>

definition routeVirtual :: "nat option \<Rightarrow> nat \<Rightarrow> 'f \<Rightarrow> bool \<Rightarrow> 'f vheap \<Rightarrow> (bool \<times> 'f option \<times> 'f vheap) option" where
  "routeVirtual obj off func org h =
     (case (case obj of Some o' \<Rightarrow> vtable_of h o' | None \<Rightarrow> None) of
        Some vt \<Rightarrow> do {
          old \<leftarrow> cell_get (vtables h vt) off;
          (if old = func then Some (False, None, h)
           else do {
             table \<leftarrow> cell_set (vtables h vt) off func;
             Some (True, if org then Some old else None, h\<lparr>vtables := (vtables h)(vt := table)\<rparr>)
           })
        }
      | None \<Rightarrow> Some (False, None, h))"

text \<open>C23: \<open>routeVirtual\<close> replaces exactly one entry of the object's virtual table, hands out the entry it
  replaced, and never replaces it twice: repeating the call, on this or on any object that
  shares the table, fails and leaves the saved original alone.\<close>

theorem routeVirtual_once:
  assumes "vtable_of h x = Some vt" and "off < length (vtables h vt)" and "vtables h vt ! off \<noteq> func"
    and "vtable_of h y = Some vt"
  shows "case routeVirtual (Some x) off func True h of
     Some (r, old, h') \<Rightarrow> r \<and> old = Some (vtables h vt ! off) \<and>
       vtables h' = (vtables h)(vt := (vtables h vt)[off := func]) \<and> vtable_of h' = vtable_of h \<and>
       routeVirtual (Some y) off func org h' = Some (False, None, h')
   | None \<Rightarrow> False"
  using assms by (simp add: routeVirtual_def)

theorem routeVirtual_once_witness:
  "routeVirtual (Some 2) 1 (9 :: nat) True
     \<lparr>vtable_of = (\<lambda>_. Some 0), vtables = (\<lambda>_. [4, 9, 6])\<rparr> =
   Some (False, None, \<lparr>vtable_of = (\<lambda>_. Some 0), vtables = (\<lambda>_. [4, 9, 6])\<rparr>) \<and>
   (case routeVirtual (Some 1) 1 (9 :: nat) True \<lparr>vtable_of = (\<lambda>_. Some 0), vtables = (\<lambda>_. [4, 5, 6])\<rparr> of
      Some (r, old, h') \<Rightarrow> r \<and> old = Some 5 \<and> routeVirtual (Some 2) 1 9 True h' = Some (False, None, h')
    | None \<Rightarrow> False)"
proof -
  let ?h = "\<lparr>vtable_of = (\<lambda>_. Some 0), vtables = (\<lambda>_. [4, 5, 6 :: nat])\<rparr>"
  have "vtable_of ?h 1 = Some 0" "1 < length (vtables ?h 0)" "vtables ?h 0 ! 1 \<noteq> 9" "vtable_of ?h 2 = Some 0"
    by simp_all
  from routeVirtual_once [OF this, of True] show ?thesis
    by (auto simp: routeVirtual_def split: option.splits)
qed

section \<open>Jump instructions\<close>

text \<open>
  The three overlaid structures of the union \<open>FunctionPatch\<close> on x86-64, where a pointer has 8 bytes.
  Each ends in an array \<open>org\<close> that fills it up to 16 or 8 bytes, so that one atomic store writes it.
\<close>

datatype patch_kind = LongPatch | MediumPatch | SmallPatch

fun org_offset :: "patch_kind \<Rightarrow> nat" where
  "org_offset LongPatch = 2 + 4 + 8"
| "org_offset MediumPatch = 2 + 4"
| "org_offset SmallPatch = 1 + 4"

fun org_size :: "patch_kind \<Rightarrow> nat" where
  "org_size LongPatch = 8 - 8 + 2"
| "org_size MediumPatch = 2"
| "org_size SmallPatch = 3"

definition patch_size :: "patch_kind \<Rightarrow> nat" where
  "patch_size k = org_offset k + org_size k"

text \<open>The constants \<open>SmallJump\<close>, \<open>LongJump\<close> and \<open>MediumJump\<close>.\<close>

fun jump_size :: "patch_kind \<Rightarrow> nat" where
  "jump_size SmallPatch = 1 + 4"
| "jump_size LongPatch = 6 + 8"
| "jump_size MediumPatch = 6"

text \<open>\<open>sourceIt\<close> fills \<open>org\<close> with the bytes of memory at the same offsets from \<open>source\<close>.\<close>

fun sourceIt_from :: "patch_kind \<Rightarrow> (nat \<Rightarrow> u8) \<Rightarrow> nat \<Rightarrow> nat \<Rightarrow> nat \<Rightarrow> u8 list \<Rightarrow> u8 list option" where
  "sourceIt_from T mem source i 0 patch = Some patch"
| "sourceIt_from T mem source i (Suc k) patch = do {
     patch \<leftarrow> cell_set patch (org_offset T + i) (mem (source + org_offset T + i));
     sourceIt_from T mem source (Suc i) k patch }"

definition sourceIt :: "patch_kind \<Rightarrow> (nat \<Rightarrow> u8) \<Rightarrow> nat \<Rightarrow> u8 list \<Rightarrow> u8 list option" where
  "sourceIt T mem source patch = sourceIt_from T mem source 0 (org_size T) patch"

lemma patch_size_is: "patch_size LongPatch = 16" "patch_size MediumPatch = 8" "patch_size SmallPatch = 8"
  by (simp_all add: patch_size_def)

lemma jump_size_org: "jump_size T = org_offset T"
  by (cases T) simp_all

text \<open>The loop overwrites the next \<open>k\<close> bytes, or leaves the structure.\<close>

lemma sourceIt_from_spec:
  "k = 0 \<or> org_offset T + i + k \<le> length patch \<Longrightarrow> sourceIt_from T mem source i k patch = Some
     (take (org_offset T + i) patch @ map (\<lambda>j. mem (source + j)) [org_offset T + i..<org_offset T + i + k] @
      drop (org_offset T + i + k) patch)"
proof (induction k arbitrary: i patch)
  case (Suc k)
  let ?n = "org_offset T + i"
  let ?p = "patch[?n := mem (source + ?n)]"
  from Suc.prems have n: "?n < length patch" by simp
  have "take (Suc ?n) ?p = take ?n patch @ [mem (source + ?n)]" using n by (simp add: take_Suc_conv_app_nth)
  moreover have "[?n..<?n + Suc k] = ?n # [Suc ?n..<Suc ?n + k]" by (simp add: upt_conv_Cons)
  moreover have "sourceIt_from T mem source (Suc i) k ?p = Some
     (take (Suc ?n) ?p @ map (\<lambda>j. mem (source + j)) [Suc ?n..<Suc ?n + k] @ drop (Suc ?n + k) ?p)"
    using Suc.IH [of "Suc i" ?p] Suc.prems by simp
  ultimately show ?case using n by (simp add: cell_set_def add.assoc)
qed simp

lemma sourceIt_from_outside:
  "length patch < org_offset T + i + k \<Longrightarrow> 0 < k \<Longrightarrow> sourceIt_from T mem source i k patch = None"
proof (induction k arbitrary: i patch)
  case (Suc k)
  show ?case
  proof (cases "org_offset T + i < length patch")
    case True
    with Suc.prems have "0 < k" by simp
    with Suc.IH [of "patch[org_offset T + i := mem (source + org_offset T + i)]" "Suc i"] Suc.prems True
    show ?thesis by (simp add: cell_set_def)
  qed (simp add: cell_set_def)
qed simp


section \<open>Kext information\<close>

text \<open>\<open>sys\<close> and \<open>user\<close> are the arrays of flags, indexed by \<open>SysFlags\<close>.\<close>

datatype sys_flag = Loaded | Reloadable | Disabled | FSOnly | FSFallback | Reserved

fun sys_index :: "sys_flag \<Rightarrow> nat" where
  "sys_index Loaded = 0" | "sys_index Reloadable = 1" | "sys_index Disabled = 2"
| "sys_index FSOnly = 3" | "sys_index FSFallback = 4" | "sys_index Reserved = 5"

definition SysFlagNum :: nat where
  "SysFlagNum = 6"

definition UserFlagNum :: nat where
  "UserFlagNum = 8 - SysFlagNum"

record kext_info =
  kext_id :: "string option"
  paths :: "string list"
  pathNum :: size_t
  sys :: "bool list"
  user :: "bool list"
  loadIndex :: size_t

definition kext_fresh :: kext_info where
  "kext_fresh = \<lparr>kext_id = None, paths = [], pathNum = 0, sys = replicate SysFlagNum False,
     user = replicate UserFlagNum False, loadIndex = 0\<rparr>"

definition switchOff :: "kext_info \<Rightarrow> kext_info option" where
  "switchOff k = do { f \<leftarrow> cell_set (sys k) (sys_index Disabled) True; Some (k\<lparr>sys := f\<rparr>) }"

text \<open>The first static assertion, and the layout the second one asks for: four words and 8 flags.\<close>

lemma kext_info_layout:
  "0 < UserFlagNum" "length (sys kext_fresh) + length (user kext_fresh) = 8"
  by (simp_all add: UserFlagNum_def SysFlagNum_def kext_fresh_def)

lemma switchOff_only_disables:
  assumes "length (sys k) = SysFlagNum"
  obtains k' where "switchOff k = Some k'" "user k' = user k" "loadIndex k' = loadIndex k"
    "\<And>f. sys k' ! sys_index f = (f = Disabled \<or> sys k ! sys_index f)"
proof -
  have len: "2 < length (sys k)" using assms by (simp add: SysFlagNum_def)
  have "sys_index f = 2 \<longleftrightarrow> f = Disabled" for f by (cases f) simp_all
  with len show ?thesis
    by (intro that [of "k\<lparr>sys := (sys k)[2 := True]\<rparr>"]) (simp_all add: switchOff_def nth_list_update)
qed

text \<open>\<open>KextHandler::create\<close>.\<close>

record 'h kext_handler =
  kh_self :: "nat option"
  kh_id :: string
  kh_index :: size_t
  kh_address :: mach_addr
  kh_size :: size_t
  kh_handler :: 'h
  kh_loaded :: bool
  kh_reloadable :: bool

definition kh_create :: "string \<Rightarrow> size_t \<Rightarrow> 'h \<Rightarrow> bool \<Rightarrow> bool \<Rightarrow> 'h kext_handler" where
  "kh_create i idx h l r = \<lparr>kh_self = None, kh_id = i, kh_index = idx, kh_address = 0, kh_size = 0,
     kh_handler = h, kh_loaded = l, kh_reloadable = r\<rparr>"

end
