(* ===== verification/Cpu_Info.thy ===== *)
theory Cpu_Info
  imports C_Enum Util_Functions
begin

text \<open>
  The namespace \<open>CPUInfo\<close> (\<open>kern_cpu.hpp\<close>): the layout of the CPU version, the tables of models, vendor
  signatures and feature bits, and the arithmetic of the CPU topology.
\<close>

section \<open>CPU version\<close>

text \<open>The bit fields of \<open>CpuVersion\<close>, allocated from the least significant bit as on x86.\<close>

record cpu_version =
  stepping :: "4 word"
  model :: "4 word"
  family :: "4 word"
  cpu_type :: "2 word"
  reserved1 :: "2 word"
  extendedModel :: "4 word"
  extendedFamily :: "8 word"
  reserved2 :: "4 word"

definition version_of :: "u32 \<Rightarrow> cpu_version" where
  "version_of w = \<lparr>stepping = ucast w, model = ucast (drop_bit 4 w), family = ucast (drop_bit 8 w),
     cpu_type = ucast (drop_bit 12 w), reserved1 = ucast (drop_bit 14 w), extendedModel = ucast (drop_bit 16 w),
     extendedFamily = ucast (drop_bit 20 w), reserved2 = ucast (drop_bit 28 w)\<rparr>"

definition version_bits :: "cpu_version \<Rightarrow> u32" where
  "version_bits v = ucast (stepping v) OR push_bit 4 (ucast (model v)) OR push_bit 8 (ucast (family v))
     OR push_bit 12 (ucast (cpu_type v)) OR push_bit 14 (ucast (reserved1 v))
     OR push_bit 16 (ucast (extendedModel v)) OR push_bit 20 (ucast (extendedFamily v))
     OR push_bit 28 (ucast (reserved2 v))"

section \<open>Models and generations\<close>

definition CpuModel :: "enumerator list" where
  "CpuModel = [
    Init ''CPU_MODEL_UNKNOWN'' (Num 0), Init ''CPU_MODEL_PENRYN'' (Num 23),
    Init ''CPU_MODEL_NEHALEM'' (Num 26), Init ''CPU_MODEL_FIELDS'' (Num 30),
    Init ''CPU_MODEL_DALES'' (Num 31), Init ''CPU_MODEL_NEHALEM_EX'' (Num 46),
    Init ''CPU_MODEL_DALES_32NM'' (Num 37), Init ''CPU_MODEL_WESTMERE'' (Num 44),
    Init ''CPU_MODEL_WESTMERE_EX'' (Num 47), Init ''CPU_MODEL_SANDYBRIDGE'' (Num 42),
    Init ''CPU_MODEL_JAKETOWN'' (Num 45), Init ''CPU_MODEL_IVYBRIDGE'' (Num 58),
    Init ''CPU_MODEL_IVYBRIDGE_EP'' (Num 62), Init ''CPU_MODEL_CRYSTALWELL'' (Num 70),
    Init ''CPU_MODEL_HASWELL'' (Num 60), Init ''CPU_MODEL_HASWELL_EP'' (Num 63),
    Init ''CPU_MODEL_HASWELL_ULT'' (Num 69), Init ''CPU_MODEL_BROADWELL'' (Num 61),
    Init ''CPU_MODEL_BROADWELL_ULX'' (Num 61), Init ''CPU_MODEL_BROADWELL_ULT'' (Num 61),
    Init ''CPU_MODEL_BRYSTALWELL'' (Num 71), Init ''CPU_MODEL_SKYLAKE'' (Num 78),
    Init ''CPU_MODEL_SKYLAKE_ULT'' (Num 78), Init ''CPU_MODEL_SKYLAKE_ULX'' (Num 78),
    Init ''CPU_MODEL_SKYLAKE_DT'' (Num 94), Init ''CPU_MODEL_SKYLAKE_W'' (Num 85),
    Init ''CPU_MODEL_KABYLAKE'' (Num 142), Init ''CPU_MODEL_KABYLAKE_ULT'' (Num 142),
    Init ''CPU_MODEL_KABYLAKE_ULX'' (Num 142), Init ''CPU_MODEL_KABYLAKE_DT'' (Num 158),
    Init ''CPU_MODEL_CANNONLAKE'' (Num 102), Init ''CPU_MODEL_ICELAKE_Y'' (Num 125),
    Init ''CPU_MODEL_ICELAKE_U'' (Num 126), Init ''CPU_MODEL_ICELAKE_SP'' (Num 159),
    Init ''CPU_MODEL_COMETLAKE_S'' (Num 165), Init ''CPU_MODEL_COMETLAKE_Y'' (Num 165),
    Init ''CPU_MODEL_COMETLAKE_U'' (Num 166), Init ''CPU_MODEL_ROCKETLAKE_S'' (Num 167),
    Init ''CPU_MODEL_TIGERLAKE_U'' (Num 140), Init ''CPU_MODEL_ALDERLAKE_S'' (Num 151),
    Init ''CPU_MODEL_RAPTORLAKE_S'' (Num 183)]"

datatype CpuVendor = VendorUnknown | AMD | Intel

datatype CpuGeneration = GenerationUnknown | Penryn | Nehalem | Westmere | SandyBridge | IvyBridge | Haswell | Broadwell | Skylake | KabyLake | CoffeeLake | CannonLake | IceLake | CometLake | RocketLake | TigerLake | AlderLake | RaptorLake | MaxGeneration

section \<open>Vendor signatures\<close>

text \<open>The constants \<open>signature_V_ebx\<close>, \<open>signature_V_edx\<close> and \<open>signature_V_ecx\<close> of each vendor \<open>V\<close>.\<close>

definition vendor_signatures :: "(string \<times> u32 \<times> u32 \<times> u32) list" where
  "vendor_signatures = [
    (''AMD'', 0x68747541, 0x69746E65, 0x444D4163), (''CENTAUR'', 0x746E6543, 0x48727561, 0x736C7561),
    (''CYRIX'', 0x69727943, 0x736E4978, 0x64616574), (''INTEL'', 0x756E6547, 0x49656E69, 0x6C65746E),
    (''TM1'', 0x6E617254, 0x74656D73, 0x55504361), (''TM2'', 0x756E6547, 0x54656E69, 0x3638784D),
    (''NSC'', 0x646F6547, 0x43534E20, 0x79622065), (''NEXGEN'', 0x4778654E, 0x72446E65, 0x6E657669),
    (''RISE'', 0x65736952, 0x65736952, 0x65736952), (''SIS'', 0x20536953, 0x20536953, 0x20536953),
    (''UMC'', 0x20434D55, 0x20434D55, 0x20434D55), (''VIA'', 0x20414956, 0x20414956, 0x20414956),
    (''VORTEX'', 0x74726F56, 0x36387865, 0x436F5320)]"

text \<open>The text a processor reports: the bytes of ebx, edx and ecx, least significant first.\<close>

definition reg_text :: "u32 \<Rightarrow> string" where
  "reg_text r = map (\<lambda>i. char_of (unat (ucast (drop_bit (8 * i) r) :: u8))) [0, 1, 2, 3]"

definition vendor_text :: "string \<Rightarrow> string option" where
  "vendor_text v = map_option (\<lambda>(b, d, c). reg_text b @ reg_text d @ reg_text c) (map_of vendor_signatures v)"

section \<open>Feature bits\<close>

text \<open>The constants \<open>bit_*\<close>, by CPUID leaf and register.\<close>

definition features_1_ecx :: "(string \<times> u32) list" where
  "features_1_ecx = [
    (''bit_SSE3'', 0x00000001), (''bit_PCLMULQDQ'', 0x00000002), (''bit_DTES64'', 0x00000004),
    (''bit_MONITOR'', 0x00000008), (''bit_DSCPL'', 0x00000010), (''bit_VMX'', 0x00000020),
    (''bit_SMX'', 0x00000040), (''bit_EIST'', 0x00000080), (''bit_TM2'', 0x00000100),
    (''bit_SSSE3'', 0x00000200), (''bit_CNXTID'', 0x00000400), (''bit_FMA'', 0x00001000),
    (''bit_CMPXCHG16B'', 0x00002000), (''bit_xTPR'', 0x00004000), (''bit_PDCM'', 0x00008000),
    (''bit_PCID'', 0x00020000), (''bit_DCA'', 0x00040000), (''bit_SSE41'', 0x00080000),
    (''bit_SSE42'', 0x00100000), (''bit_x2APIC'', 0x00200000), (''bit_MOVBE'', 0x00400000),
    (''bit_POPCNT'', 0x00800000), (''bit_TSCDeadline'', 0x01000000), (''bit_AESNI'', 0x02000000),
    (''bit_XSAVE'', 0x04000000), (''bit_OSXSAVE'', 0x08000000), (''bit_AVX'', 0x10000000),
    (''bit_F16C'', 0x20000000), (''bit_RDRND'', 0x40000000)]"

definition features_1_edx :: "(string \<times> u32) list" where
  "features_1_edx = [
    (''bit_FPU'', 0x00000001), (''bit_VME'', 0x00000002), (''bit_DE'', 0x00000004),
    (''bit_PSE'', 0x00000008), (''bit_TSC'', 0x00000010), (''bit_MSR'', 0x00000020),
    (''bit_PAE'', 0x00000040), (''bit_MCE'', 0x00000080), (''bit_CX8'', 0x00000100),
    (''bit_APIC'', 0x00000200), (''bit_SEP'', 0x00000800), (''bit_MTRR'', 0x00001000),
    (''bit_PGE'', 0x00002000), (''bit_MCA'', 0x00004000), (''bit_CMOV'', 0x00008000),
    (''bit_PAT'', 0x00010000), (''bit_PSE36'', 0x00020000), (''bit_PSN'', 0x00040000),
    (''bit_CLFSH'', 0x00080000), (''bit_DS'', 0x00200000), (''bit_ACPI'', 0x00400000),
    (''bit_MMX'', 0x00800000), (''bit_FXSR'', 0x01000000), (''bit_SSE'', 0x02000000),
    (''bit_SSE2'', 0x04000000), (''bit_SS'', 0x08000000), (''bit_HTT'', 0x10000000),
    (''bit_TM'', 0x20000000), (''bit_PBE'', 0x80000000)]"

definition features_7_ebx :: "(string \<times> u32) list" where
  "features_7_ebx = [
    (''bit_FSGSBASE'', 0x00000001), (''bit_SGX'', 0x00000004), (''bit_BMI'', 0x00000008),
    (''bit_HLE'', 0x00000010), (''bit_AVX2'', 0x00000020), (''bit_SMEP'', 0x00000080),
    (''bit_BMI2'', 0x00000100), (''bit_ENH_MOVSB'', 0x00000200), (''bit_RTM'', 0x00000800),
    (''bit_MPX'', 0x00004000), (''bit_AVX512F'', 0x00010000), (''bit_AVX512DQ'', 0x00020000),
    (''bit_RDSEED'', 0x00040000), (''bit_ADX'', 0x00080000), (''bit_AVX512IFMA'', 0x00200000),
    (''bit_CLFLUSHOPT'', 0x00800000), (''bit_CLWB'', 0x01000000), (''bit_AVX512PF'', 0x04000000),
    (''bit_AVX51SER'', 0x08000000), (''bit_AVX512CD'', 0x10000000), (''bit_SHA'', 0x20000000),
    (''bit_AVX512BW'', 0x40000000), (''bit_AVX512VL'', 0x80000000)]"

definition features_7_ecx :: "(string \<times> u32) list" where
  "features_7_ecx = [
    (''bit_PREFTCHWT1'', 0x00000001), (''bit_AVX512VBMI'', 0x00000002), (''bit_PKU'', 0x00000004),
    (''bit_OSPKE'', 0x00000010), (''bit_AVX512VPOPCNTDQ'', 0x00004000), (''bit_RDPID'', 0x00400000)]"

definition features_7_edx :: "(string \<times> u32) list" where
  "features_7_edx = [
    (''bit_AVX5124VNNIW'', 0x00000004), (''bit_AVX5124FMAPS'', 0x00000008)]"

definition features_13_eax :: "(string \<times> u32) list" where
  "features_13_eax = [
    (''bit_XSAVEOPT'', 0x00000001), (''bit_XSAVEC'', 0x00000002), (''bit_XSAVES'', 0x00000008)]"

definition features_80000001_ecx :: "(string \<times> u32) list" where
  "features_80000001_ecx = [
    (''bit_LAHF_LM'', 0x00000001), (''bit_ABM'', 0x00000020), (''bit_SSE4a'', 0x00000040),
    (''bit_PRFCHW'', 0x00000100), (''bit_XOP'', 0x00000800), (''bit_LWP'', 0x00008000),
    (''bit_FMA4'', 0x00010000), (''bit_TBM'', 0x00200000), (''bit_MWAITX'', 0x20000000)]"

definition features_80000001_edx :: "(string \<times> u32) list" where
  "features_80000001_edx = [
    (''bit_MMXEXT'', 0x00400000), (''bit_LM'', 0x20000000), (''bit_3DNOWP'', 0x40000000),
    (''bit_3DNOW'', 0x80000000)]"

definition features_80000001_ebx :: "(string \<times> u32) list" where
  "features_80000001_ebx = [
    (''bit_CLZERO'', 0x00000001)]"

section \<open>Topology\<close>

definition MaxCpus :: nat where
  "MaxCpus = 64"

record cpu_topology =
  packageCount :: u8
  physicalCount :: "u8 list"
  logicalCount :: "u8 list"
  numberToPackage :: "u8 list"
  numberToPhysical :: "u8 list"
  numberToLogical :: "u8 list"

text \<open>A loop that adds the \<open>k\<close> counts from index \<open>i\<close> on to \<open>acc\<close>, in \<open>uint8_t\<close>.\<close>

fun add_counts :: "u8 list \<Rightarrow> nat \<Rightarrow> nat \<Rightarrow> u8 \<Rightarrow> u8 option" where
  "add_counts counts i 0 acc = Some acc"
| "add_counts counts i (Suc k) acc = do { c \<leftarrow> cell_get counts i; add_counts counts (Suc i) k (acc + c) }"

definition totalPhysical :: "cpu_topology \<Rightarrow> u8 option" where
  "totalPhysical t = do { count \<leftarrow> cell_get (physicalCount t) 0;
     add_counts (physicalCount t) 1 (unat (packageCount t) - 1) count }"

definition totalLogical :: "cpu_topology \<Rightarrow> u8 option" where
  "totalLogical t = do { count \<leftarrow> cell_get (logicalCount t) 0;
     add_counts (logicalCount t) 1 (unat (packageCount t) - 1) count }"

definition numberToPhysicalUnique :: "cpu_topology \<Rightarrow> u8 \<Rightarrow> u8 option" where
  "numberToPhysicalUnique t i = do {
     package \<leftarrow> cell_get (numberToPackage t) (unat i);
     num \<leftarrow> add_counts (physicalCount t) 0 (unat package) 0;
     p \<leftarrow> cell_get (numberToPhysical t) (unat i);
     Some (num + p)
   }"

section \<open>The sums\<close>

definition cores_before :: "u8 list \<Rightarrow> nat \<Rightarrow> nat" where
  "cores_before counts k = sum_list (map unat (take k counts))"

lemma cores_before_Suc: "k < length counts \<Longrightarrow> cores_before counts (Suc k) = cores_before counts k + unat (counts ! k)"
  by (simp add: cores_before_def take_Suc_conv_app_nth)

lemma cores_before_mono: "j \<le> k \<Longrightarrow> cores_before counts j \<le> cores_before counts k"
  using take_add [of j "k - j" counts] by (simp add: cores_before_def)

lemma add_counts_exact:
  "i + k \<le> length counts \<Longrightarrow> unat acc = cores_before counts i \<Longrightarrow> cores_before counts (i + k) < 256 \<Longrightarrow>
   \<exists>r. add_counts counts i k acc = Some r \<and> unat r = cores_before counts (i + k)"
proof (induction k arbitrary: i acc)
  case (Suc k)
  have s: "cores_before counts (Suc i) = cores_before counts i + unat (counts ! i)"
    using Suc.prems(1) by (intro cores_before_Suc) simp
  moreover have "cores_before counts (Suc i) \<le> cores_before counts (i + Suc k)" by (intro cores_before_mono) simp
  ultimately have "unat acc + unat (counts ! i) < 2 ^ LENGTH(8)" using Suc.prems(2,3) by simp
  then have "unat (acc + counts ! i) = cores_before counts (Suc i)" using Suc.prems(2) s by (simp add: unat_add_exact)
  with Suc.IH [of "Suc i" "acc + counts ! i"] Suc.prems show ?case by simp
qed simp

text \<open>A topology as \<open>getCpuTopology\<close> fills it in: every CPU is in a package that exists, on a core of it.\<close>

definition topology_ok :: "cpu_topology \<Rightarrow> bool" where
  "topology_ok t \<longleftrightarrow> 1 \<le> unat (packageCount t) \<and> unat (packageCount t) \<le> MaxCpus \<and>
     length (physicalCount t) = MaxCpus \<and> length (numberToPackage t) = MaxCpus \<and> length (numberToPhysical t) = MaxCpus \<and>
     cores_before (physicalCount t) (unat (packageCount t)) < 256 \<and>
     (\<forall>i < MaxCpus. unat (numberToPackage t ! i) < unat (packageCount t) \<and>
        unat (numberToPhysical t ! i) < unat (physicalCount t ! unat (numberToPackage t ! i)))"

lemma totalPhysical_exact:
  assumes "topology_ok t"
  obtains r where "totalPhysical t = Some r" "unat r = cores_before (physicalCount t) (unat (packageCount t))"
proof -
  have l: "length (physicalCount t) = 64" "1 \<le> unat (packageCount t)" "unat (packageCount t) \<le> 64"
    "cores_before (physicalCount t) (unat (packageCount t)) < 256"
    using assms by (simp_all add: topology_ok_def MaxCpus_def)
  have "unat (physicalCount t ! 0) = cores_before (physicalCount t) 1"
    using l(1) by (cases "physicalCount t") (simp_all add: cores_before_def)
  with add_counts_exact [of 1 "unat (packageCount t) - 1" "physicalCount t" "physicalCount t ! 0"] l that show ?thesis
    by (auto simp: totalPhysical_def)
qed

lemma unique_exact:
  assumes ok: "topology_ok t" and i: "unat i < MaxCpus"
  obtains r where "numberToPhysicalUnique t i = Some r"
    "unat r = cores_before (physicalCount t) (unat (numberToPackage t ! unat i)) + unat (numberToPhysical t ! unat i)"
    "unat r < cores_before (physicalCount t) (Suc (unat (numberToPackage t ! unat i)))"
    "unat (numberToPackage t ! unat i) < unat (packageCount t)"
proof -
  let ?p = "numberToPackage t ! unat i" and ?c = "physicalCount t" and ?q = "numberToPhysical t ! unat i"
  have l: "length ?c = 64" "length (numberToPackage t) = 64" "length (numberToPhysical t) = 64"
    "unat (packageCount t) \<le> 64" "cores_before ?c (unat (packageCount t)) < 256"
    "unat ?p < unat (packageCount t)" "unat ?q < unat (?c ! unat ?p)"
    using ok i by (auto simp: topology_ok_def MaxCpus_def)
  have s: "cores_before ?c (Suc (unat ?p)) = cores_before ?c (unat ?p) + unat (?c ! unat ?p)"
    using l by (intro cores_before_Suc) simp
  have m: "cores_before ?c (Suc (unat ?p)) \<le> cores_before ?c (unat (packageCount t))"
    using l(6) by (intro cores_before_mono) simp
  have "cores_before ?c (0 + unat ?p) < 256" using s m l by simp
  with add_counts_exact [of 0 "unat ?p" ?c 0] l obtain n where
    n: "add_counts ?c 0 (unat ?p) 0 = Some n" "unat n = cores_before ?c (unat ?p)" by (auto simp: cores_before_def)
  have "unat n + unat ?q < 2 ^ LENGTH(8)" using n(2) s m l by simp
  then have u: "unat (n + ?q) = cores_before ?c (unat ?p) + unat ?q" using n(2) by (simp add: unat_add_exact)
  have "numberToPhysicalUnique t i = Some (n + ?q)"
    using n(1) l i by (simp add: numberToPhysicalUnique_def MaxCpus_def)
  from that [OF this u] s l u show ?thesis by simp
qed

section \<open>Properties\<close>

text \<open>C25: In a topology as it is filled in, \<open>numberToPhysicalUnique\<close> numbers the physical cores: the numbers
  lie below \<open>totalPhysical\<close>, and two CPUs get the same number exactly when they are threads of the
  same core of the same package; nothing wraps around in \<open>uint8_t\<close>.\<close>

theorem topology_numbering:
  assumes "topology_ok t" and "unat i < MaxCpus" and "unat j < MaxCpus"
  shows "case (numberToPhysicalUnique t i, numberToPhysicalUnique t j, totalPhysical t) of
      (Some a, Some b, Some n) \<Rightarrow> a < n \<and>
        (a = b \<longleftrightarrow> numberToPackage t ! unat i = numberToPackage t ! unat j \<and>
          numberToPhysical t ! unat i = numberToPhysical t ! unat j)
    | _ \<Rightarrow> False"
proof -
  let ?c = "physicalCount t" and ?p = "\<lambda>i. unat (numberToPackage t ! unat i)" and ?q = "\<lambda>i. unat (numberToPhysical t ! unat i)"
  obtain a where a: "numberToPhysicalUnique t i = Some a" "unat a = cores_before ?c (?p i) + ?q i"
    "unat a < cores_before ?c (Suc (?p i))" "?p i < unat (packageCount t)" by (rule unique_exact [OF assms(1,2)])
  obtain b where b: "numberToPhysicalUnique t j = Some b" "unat b = cores_before ?c (?p j) + ?q j"
    "unat b < cores_before ?c (Suc (?p j))" "?p j < unat (packageCount t)" by (rule unique_exact [OF assms(1,3)])
  obtain n where n: "totalPhysical t = Some n" "unat n = cores_before ?c (unat (packageCount t))"
    by (rule totalPhysical_exact [OF assms(1)])
  have "unat a < unat n" using a(3,4) cores_before_mono [of "Suc (?p i)" "unat (packageCount t)" ?c] n(2) by simp
  moreover have "?p i = ?p j" if "unat a = unat b"
  proof (rule ccontr)
    assume "?p i \<noteq> ?p j"
    then have "Suc (?p i) \<le> ?p j \<or> Suc (?p j) \<le> ?p i" by linarith
    then have "cores_before ?c (Suc (?p i)) \<le> cores_before ?c (?p j) \<or> cores_before ?c (Suc (?p j)) \<le> cores_before ?c (?p i)"
      using cores_before_mono by blast
    with that a b show False by linarith
  qed
  ultimately show ?thesis using a b n by (auto simp: word_less_unat word_eq_unat)
qed

text \<open>Two packages of two cores with two threads each.\<close>

definition sample_topology :: cpu_topology where
  "sample_topology = \<lparr>packageCount = 2, physicalCount = 2 # 2 # replicate 62 0, logicalCount = 4 # 4 # replicate 62 0,
     numberToPackage = [0, 0, 0, 0, 1, 1, 1, 1] @ replicate 56 0,
     numberToPhysical = [0, 1, 0, 1, 0, 1, 0, 1] @ replicate 56 0,
     numberToLogical = [0, 1, 2, 3, 0, 1, 2, 3] @ replicate 56 0\<rparr>"

lemma sample_topology_ok: "topology_ok sample_topology"
proof -
  have pk: "x = 0 \<or> x = 1" if "x \<in> set (numberToPackage sample_topology)" for x
    using that by (auto simp: sample_topology_def)
  have ph: "x = 0 \<or> x = 1" if "x \<in> set (numberToPhysical sample_topology)" for x
    using that by (auto simp: sample_topology_def)
  have len: "length (numberToPackage sample_topology) = 64" "length (numberToPhysical sample_topology) = 64"
    by (simp_all add: sample_topology_def)
  have c: "packageCount sample_topology = 2" "physicalCount sample_topology ! 0 = 2" "physicalCount sample_topology ! 1 = 2"
    by (simp_all add: sample_topology_def)
  have "unat (numberToPackage sample_topology ! i) < unat (packageCount sample_topology) \<and>
      unat (numberToPhysical sample_topology ! i)
        < unat (physicalCount sample_topology ! unat (numberToPackage sample_topology ! i))" if "i < 64" for i
  proof -
    have "numberToPackage sample_topology ! i \<in> set (numberToPackage sample_topology)"
      "numberToPhysical sample_topology ! i \<in> set (numberToPhysical sample_topology)"
      using that len by (auto intro: nth_mem)
    with pk ph have "numberToPackage sample_topology ! i = 0 \<or> numberToPackage sample_topology ! i = 1"
      "numberToPhysical sample_topology ! i = 0 \<or> numberToPhysical sample_topology ! i = 1" by blast+
    then show ?thesis using c by auto
  qed
  then show ?thesis
    by (simp add: topology_ok_def MaxCpus_def len) (simp add: sample_topology_def cores_before_def)
qed

theorem topology_numbering_witness:
  "case (numberToPhysicalUnique sample_topology 5, numberToPhysicalUnique sample_topology 7, totalPhysical sample_topology) of
     (Some a, Some b, Some n) \<Rightarrow> a < n \<and> a = b
   | _ \<Rightarrow> False"
proof -
  have "unat (5 :: u8) < MaxCpus" "unat (7 :: u8) < MaxCpus" by (simp_all add: MaxCpus_def)
  from topology_numbering [OF sample_topology_ok this] show ?thesis
    by (auto simp: sample_topology_def split: option.splits)
qed

lemma getBitField_exact:
  assumes "unat hi < LENGTH('w)" and "unat lo < LENGTH('w)"
  shows "getBitField (w :: 'w::len word) hi lo = Some (take_bit (Suc (unat hi) - unat lo) (drop_bit (unat lo) w))"
proof -
  obtain m where m: "getBitMask hi lo = Some (m :: 'w word)" using getBitMask_Some [OF assms] by blast
  have "drop_bit (unat lo) (w AND m) = take_bit (Suc (unat hi) - unat lo) (drop_bit (unat lo) w)"
    by (rule bit_word_eqI) (auto simp: bit_simps bit_getBitMask [OF assms m])
  with m assms(2) show ?thesis by (simp add: getBitField_def)
qed

lemma field_bit:
  "bit (push_bit lo (ucast (ucast (drop_bit lo w) :: 'a::len word)) :: u32) n \<longleftrightarrow>
   lo \<le> n \<and> n < lo + LENGTH('a) \<and> n < 32 \<and> bit (w :: u32) n"
  by (auto simp: bit_simps)

lemma version_bits_of: "version_bits (version_of w) = w"
proof (rule bit_word_eqI)
  fix n assume "n < LENGTH(32)"
  then show "bit (version_bits (version_of w)) n = bit w n"
    using field_bit [of 0 w n, where 'a = 4]
    by (simp add: version_bits_def version_of_def bit_or_iff field_bit) linarith
qed

lemma field_other:
  "\<not> bit (push_bit lo (ucast (f :: 'a::len word)) :: u32) n" if "n < lo \<or> lo + LENGTH('a) \<le> n"
  using that by (auto simp: bit_simps dest: bit_imp_le_length)

lemma field_own:
  "bit (push_bit lo (ucast (f :: 'a::len word)) :: u32) (lo + n) \<longleftrightarrow> bit f n" if "lo + LENGTH('a) \<le> 32"
  using that by (auto simp: bit_simps dest: bit_imp_le_length)

lemma field_read:
  fixes f :: "'a::len word"
  assumes "\<And>n. n < LENGTH('a) \<Longrightarrow> bit w (lo + n) = bit f n"
  shows "ucast (drop_bit lo (w :: u32)) = f"
  using assms by (intro bit_word_eqI) (auto simp: bit_simps)

lemma version_of_bits: "version_of (version_bits v) = v"
proof -
  let ?w = "version_bits v"
  have b0: "bit ?w (0 + n) = bit (stepping v) n" if "n < 4" for n
    using that field_own [of 0 "stepping v" n] by (simp add: version_bits_def bit_or_iff field_other)
  have b4: "bit ?w (4 + n) = bit (model v) n" if "n < 4" for n
    using that field_other [of "4 + n" 0 "stepping v"] by (simp add: version_bits_def bit_or_iff field_other field_own)
  have b8: "bit ?w (8 + n) = bit (family v) n" if "n < 4" for n
    using that field_other [of "8 + n" 0 "stepping v"] by (simp add: version_bits_def bit_or_iff field_other field_own)
  have b12: "bit ?w (12 + n) = bit (cpu_type v) n" if "n < 2" for n
    using that field_other [of "12 + n" 0 "stepping v"] by (simp add: version_bits_def bit_or_iff field_other field_own)
  have b14: "bit ?w (14 + n) = bit (reserved1 v) n" if "n < 2" for n
    using that field_other [of "14 + n" 0 "stepping v"] by (simp add: version_bits_def bit_or_iff field_other field_own)
  have b16: "bit ?w (16 + n) = bit (extendedModel v) n" if "n < 4" for n
    using that field_other [of "16 + n" 0 "stepping v"] by (simp add: version_bits_def bit_or_iff field_other field_own)
  have b20: "bit ?w (20 + n) = bit (extendedFamily v) n" if "n < 8" for n
    using that field_other [of "20 + n" 0 "stepping v"] by (simp add: version_bits_def bit_or_iff field_other field_own)
  have b28: "bit ?w (28 + n) = bit (reserved2 v) n" if "n < 4" for n
    using that field_other [of "28 + n" 0 "stepping v"] by (simp add: version_bits_def bit_or_iff field_other field_own)
  have "ucast (drop_bit 0 ?w) = stepping v" by (rule field_read) (use b0 in simp)
  moreover have "ucast (drop_bit 4 ?w) = model v" by (rule field_read) (use b4 in simp)
  moreover have "ucast (drop_bit 8 ?w) = family v" by (rule field_read) (use b8 in simp)
  moreover have "ucast (drop_bit 12 ?w) = cpu_type v" by (rule field_read) (use b12 in simp)
  moreover have "ucast (drop_bit 14 ?w) = reserved1 v" by (rule field_read) (use b14 in simp)
  moreover have "ucast (drop_bit 16 ?w) = extendedModel v" by (rule field_read) (use b16 in simp)
  moreover have "ucast (drop_bit 20 ?w) = extendedFamily v" by (rule field_read) (use b20 in simp)
  moreover have "ucast (drop_bit 28 ?w) = reserved2 v" by (rule field_read) (use b28 in simp)
  ultimately show ?thesis by (simp add: version_of_def)
qed

lemma field_take: "ucast (ucast (x :: u32) :: 'a::len word) = take_bit LENGTH('a) x"
  by (rule bit_word_eqI) (auto simp: bit_simps)

text \<open>The fields of \<open>CpuVersion\<close> lie where \<open>getBitField\<close> of \<open>kern_util.hpp\<close> finds them, and reading the register into
  them loses nothing, in either direction.\<close>

theorem cpu_version_roundtrip:
  "version_bits (version_of w) = w \<and> version_of (version_bits v) = v \<and>
   getBitField w 3 0 = Some (ucast (stepping (version_of w))) \<and>
   getBitField w 7 4 = Some (ucast (model (version_of w))) \<and>
   getBitField w 11 8 = Some (ucast (family (version_of w))) \<and>
   getBitField w 19 16 = Some (ucast (extendedModel (version_of w))) \<and>
   getBitField w 27 20 = Some (ucast (extendedFamily (version_of w)))"
  by (simp add: version_bits_of version_of_bits getBitField_exact)
    (simp add: version_of_def field_take)

text \<open>The constants spell the vendor names of the comments, except for \<open>NSC\<close>, whose edx and ecx are
  exchanged: they spell "Geod NSCe by" instead of "Geode by NSC".\<close>

theorem vendor_signatures_spell:
  "map vendor_text [''AMD'', ''CENTAUR'', ''CYRIX'', ''INTEL'', ''TM1'', ''TM2'', ''NEXGEN'', ''RISE'', ''SIS'', ''UMC'', ''VIA'', ''VORTEX'']
    = map Some [''AuthenticAMD'', ''CentaurHauls'', ''CyrixInstead'', ''GenuineIntel'', ''TransmetaCPU'', ''GenuineTMx86'',
        ''NexGenDriven'', ''RiseRiseRise'', ''SiS SiS SiS '', ''UMC UMC UMC '', ''VIA VIA VIA '', ''Vortex86 SoC''] \<and>
   vendor_text ''NSC'' = Some ''Geod NSCe by''"
  by (simp add: vendor_text_def vendor_signatures_def reg_text_def char_of_def bit_0)

text \<open>Every feature constant is a single bit, and no two features of a register share one.\<close>

definition single_bits :: "(string \<times> u32) list \<Rightarrow> bool" where
  "single_bits fs = (distinct (map snd fs) \<and> list_all (\<lambda>(n, b). b \<noteq> 0 \<and> b AND (b - 1) = 0) fs)"

lemma features_single_bits:
  "list_all single_bits [features_1_ecx, features_1_edx, features_7_ebx, features_7_ecx, features_7_edx,
     features_13_eax, features_80000001_ecx, features_80000001_edx, features_80000001_ebx]"
  by (simp add: single_bits_def features_1_ecx_def features_1_edx_def features_7_ebx_def features_7_ecx_def
      features_7_edx_def features_13_eax_def features_80000001_ecx_def features_80000001_edx_def features_80000001_ebx_def)

end
