(* ===== verification/Structures.thy ===== *)
theory Structures
  imports Layout Patcher Cpu_Info
begin

text \<open>
  The structures of Lilu's own headers as the compiler lays them out: the ones that plugins fill in
  and hand to Lilu (so that their layout is part of the binary interface), the ones that overlay
  machine code, and the ones that describe stored data. The three structures that the code also
  asserts something about on i386 take the width \<open>w\<close> of a pointer, 8 or 4, and hold no scalar
  wider than that; the others are given for x86-64.
\<close>

abbreviation "c_ptr \<equiv> Prim 8"
abbreviation "c_size_t \<equiv> Prim 8"
abbreviation "c_addr \<equiv> Prim 8"

section \<open>Containers\<close>

definition evector_layout :: ctype where
  "evector_layout = Struct [(''ptr'', c_ptr), (''cnt'', c_size_t), (''rsvd'', c_size_t)]"

definition ThreadLocal_layout :: "ctype \<Rightarrow> nat \<Rightarrow> ctype" where
  "ThreadLocal_layout T N = Struct [(''threads'', Arr c_ptr N), (''values'', Arr T N)]"

definition CircularBuffer_layout :: ctype where
  "CircularBuffer_layout = Struct [(''storage'', c_ptr), (''size'', c_u32), (''indexr'', c_u32), (''indexw'', c_u32),
     (''count'', c_u32), (''lock'', c_ptr)]"

definition ppair_layout :: "ctype \<Rightarrow> ctype \<Rightarrow> ctype" where
  "ppair_layout T Y = Struct [(''first'', T), (''second'', Y)]"

section \<open>Kernel patcher\<close>

definition KextInfo_layout :: "nat \<Rightarrow> ctype" where
  "KextInfo_layout w = Struct [(''id'', Prim w), (''paths'', Prim w), (''pathNum'', Prim w),
     (''sys'', Arr c_bool SysFlagNum), (''user'', Arr c_bool UserFlagNum), (''loadIndex'', Prim w)]"

definition SolveRequest_layout :: ctype where
  "SolveRequest_layout = Struct [(''symbol'', c_ptr), (''address'', c_ptr)]"

definition KextHandler_layout :: ctype where
  "KextHandler_layout = Struct [(''self'', c_ptr), (''id'', c_ptr), (''index'', c_size_t), (''address'', c_addr),
     (''size'', c_size_t), (''handler'', c_ptr), (''loaded'', c_bool), (''reloadable'', c_bool)]"

definition LookupPatch_layout :: ctype where
  "LookupPatch_layout = Struct [(''kext'', c_ptr), (''find'', c_ptr), (''replace'', c_ptr), (''size'', c_size_t),
     (''count'', c_size_t)]"

definition RouteRequest_layout :: ctype where
  "RouteRequest_layout = Struct [(''symbol'', c_ptr), (''from'', c_addr), (''to'', c_addr), (''org'', c_ptr)]"

text \<open>The union \<open>FunctionPatch\<close>, and the words by which it is written at once.\<close>

definition LongPatch_layout :: "nat \<Rightarrow> ctype" where
  "LongPatch_layout w = Packed [(''opcode'', c_u16), (''argument'', c_u32), (''disp'', Prim w), (''org'', Arr c_u8 (8 - w + 2))]"

definition MediumPatch_layout :: ctype where
  "MediumPatch_layout = Packed [(''opcode'', c_u16), (''argument'', c_u32), (''org'', Arr c_u8 2)]"

definition SmallPatch_layout :: ctype where
  "SmallPatch_layout = Packed [(''opcode'', c_u8), (''argument'', c_u32), (''org'', Arr c_u8 3)]"

definition FunctionPatch_layout :: ctype where
  "FunctionPatch_layout = Union [(''l'', LongPatch_layout 8), (''m'', MediumPatch_layout), (''s'', SmallPatch_layout),
     (''value64'', c_u64), (''value128'', Prim 16)]"

fun patch_layout :: "patch_kind \<Rightarrow> ctype" where
  "patch_layout LongPatch = LongPatch_layout 8"
| "patch_layout MediumPatch = MediumPatch_layout"
| "patch_layout SmallPatch = SmallPatch_layout"

section \<open>User patcher\<close>

definition BinaryModPatch_layout :: "nat \<Rightarrow> ctype" where
  "BinaryModPatch_layout w = Struct [(''cpu'', c_u32), (''flags'', c_u32), (''find'', Prim w), (''replace'', Prim w),
     (''size'', Prim w), (''skip'', Prim w), (''count'', Prim w), (''segment'', c_enum), (''section'', c_u32)]"

definition BinaryModInfo_layout :: ctype where
  "BinaryModInfo_layout = Struct [(''path'', c_ptr), (''patches'', c_ptr), (''count'', c_size_t), (''startTEXT'', c_addr),
     (''endTEXT'', c_addr), (''startDATA'', c_addr), (''endDATA'', c_addr)]"

definition ProcInfo_layout :: ctype where
  "ProcInfo_layout = Struct [(''path'', c_ptr), (''len'', c_u32), (''section'', c_u32), (''flags'', c_u32)]"

definition MapEntry_layout :: ctype where
  "MapEntry_layout = Struct [(''filename'', c_ptr), (''length'', c_size_t), (''startTEXT'', c_addr), (''endTEXT'', c_addr),
     (''startDATA'', c_addr), (''endDATA'', c_addr)]"

text \<open>\<open>MAXPATHLEN\<close> comes from the system headers.\<close>

definition PendingUser_layout :: "nat \<Rightarrow> ctype" where
  "PendingUser_layout MAXPATHLEN = Struct [(''path'', Arr c_u8 MAXPATHLEN), (''pathLen'', c_u32)]"

definition PatchRef_layout :: ctype where
  "PatchRef_layout = Struct [(''i'', c_size_t), (''pageOffs'', evector_layout), (''segOffs'', evector_layout)]"

definition LookupStorage_layout :: ctype where
  "LookupStorage_layout = Struct [(''mod'', c_ptr), (''refs'', evector_layout), (''page'', c_ptr), (''pageOff'', c_addr)]"

definition Lookup_layout :: ctype where
  "Lookup_layout = Struct [(''offs'', Arr c_u32 4), (''c'', Arr evector_layout 4)]"

section \<open>Kernel images\<close>

definition MachInfo_layout :: ctype where
  "MachInfo_layout = Struct [(''running_text_addr'', c_addr), (''disk_text_addr'', c_addr), (''kaslr_slide'', c_addr),
     (''file_buf'', c_ptr), (''prelink_dict'', c_ptr), (''prelink_addr'', c_ptr), (''prelink_vmaddr'', c_addr),
     (''file_buf_size'', c_u32), (''sym_buf'', c_ptr), (''sym_buf_ro'', c_bool), (''sym_fileoff'', c_u64), (''sym_size'', c_size_t),
     (''symboltable_fileoff'', c_u32), (''symboltable_nr_symbols'', c_u32), (''stringtable_fileoff'', c_u32),
     (''stringtable_size'', c_u32), (''running_mh'', c_ptr), (''address_slots'', c_addr), (''address_slots_end'', c_addr),
     (''fat_offset'', c_u64), (''memory_size'', c_size_t), (''kaslr_slide_set'', c_bool), (''allow_decompress'', c_bool),
     (''prelink_slid'', c_bool), (''kernel_collection'', c_bool), (''self_uuid'', Arr c_u64 2), (''isKernel'', c_bool),
     (''objectId'', c_ptr)]"

section \<open>Lilu's interface\<close>

definition LiluAPI_layout :: ctype where
  "LiluAPI_layout = Struct [(''access'', c_ptr), (''currentRunMode'', c_u32), (''apiRequestsOver'', c_bool),
     (''patcherLoadedCallbacks'', evector_layout), (''kextLoadedCallbacks'', evector_layout),
     (''binaryLoadedCallbacks'', evector_layout), (''entitlementRequestedCallbacks'', evector_layout),
     (''storedKexts'', evector_layout), (''storedProcs'', evector_layout), (''storedBinaryMods'', evector_layout),
     (''orgCopyClientEntitlement'', c_ptr)]"

section \<open>Devices and processors\<close>

definition ExternalVideo_layout :: ctype where
  "ExternalVideo_layout = Struct [(''video'', c_ptr), (''audio'', c_ptr), (''vendor'', c_u32)]"

definition BaseDeviceInfo_layout :: ctype where
  "BaseDeviceInfo_layout = Struct [(''boardIdentifier'', Arr c_u8 48), (''modelIdentifier'', Arr c_u8 48), (''modelType'', c_u32),
     (''firmwareVendor'', c_enum), (''bootloaderVendor'', c_enum), (''cpuVendor'', c_enum), (''cpuGeneration'', c_enum),
     (''cpuFamily'', c_u32), (''cpuModel'', c_u32), (''cpuStepping'', c_u32), (''cpuMaxLevel'', c_u32),
     (''cpuMaxLevelExt'', c_u32), (''cpuHasAvx2'', c_bool)]"

definition CpuTopology_layout :: ctype where
  "CpuTopology_layout = Struct [(''packageCount'', c_u8), (''physicalCount'', Arr c_u8 MaxCpus), (''logicalCount'', Arr c_u8 MaxCpus),
     (''numberToPackage'', Arr c_u8 MaxCpus), (''numberToPhysical'', Arr c_u8 MaxCpus), (''numberToLogical'', Arr c_u8 MaxCpus)]"

section \<open>Disassembler\<close>

definition DisasmSig_layout :: ctype where
  "DisasmSig_layout = Struct [(''ins'', c_enum), (''sub'', c_bool), (''addr'', c_bool)]"

definition hde32s_layout :: ctype where
  "hde32s_layout = Packed [(''len'', c_u8), (''p_rep'', c_u8), (''p_lock'', c_u8), (''p_seg'', c_u8), (''p_66'', c_u8),
     (''p_67'', c_u8), (''opcode'', c_u8), (''opcode2'', c_u8), (''modrm'', c_u8), (''modrm_mod'', c_u8),
     (''modrm_reg'', c_u8), (''modrm_rm'', c_u8), (''sib'', c_u8), (''sib_scale'', c_u8), (''sib_index'', c_u8),
     (''sib_base'', c_u8), (''imm'', Union [(''imm8'', c_u8), (''imm16'', c_u16), (''imm32'', c_u32)]),
     (''disp'', Union [(''disp8'', c_u8), (''disp16'', c_u16), (''disp32'', c_u32)]), (''flags'', c_u32)]"

definition hde64s_layout :: ctype where
  "hde64s_layout = Packed [(''len'', c_u8), (''p_rep'', c_u8), (''p_lock'', c_u8), (''p_seg'', c_u8), (''p_66'', c_u8),
     (''p_67'', c_u8), (''rex'', c_u8), (''rex_w'', c_u8), (''rex_r'', c_u8), (''rex_x'', c_u8), (''rex_b'', c_u8),
     (''opcode'', c_u8), (''opcode2'', c_u8), (''modrm'', c_u8), (''modrm_mod'', c_u8),
     (''modrm_reg'', c_u8), (''modrm_rm'', c_u8), (''sib'', c_u8), (''sib_scale'', c_u8), (''sib_index'', c_u8), (''sib_base'', c_u8),
     (''imm'', Union [(''imm8'', c_u8), (''imm16'', c_u16), (''imm32'', c_u32), (''imm64'', c_u64)]),
     (''disp'', Union [(''disp8'', c_u8), (''disp16'', c_u16), (''disp32'', c_u32)]), (''flags'', c_u32)]"

section \<open>Stored data\<close>

definition Compression_Header_layout :: ctype where
  "Compression_Header_layout = Struct [(''magic'', c_u32), (''compression'', c_u32), (''hash'', c_u32), (''decompressed'', c_u32),
     (''compressed'', c_u32), (''version'', c_u32), (''padding'', Arr c_u32 90)]"

definition NVStorage_Header_layout :: ctype where
  "NVStorage_Header_layout = Packed [(''magic'', c_u16), (''version'', c_u8), (''opts'', c_u8)]"

definition BlockSize :: nat where
  "BlockSize = 16"

definition Encrypted_Data_layout :: ctype where
  "Encrypted_Data_layout = Packed [(''size'', c_u32), (''buf'', Arr c_u8 (BlockSize - 4))]"

definition Encrypted_layout :: ctype where
  "Encrypted_layout = Packed [(''iv'', Arr c_u8 BlockSize),
     (''anonymous'', Union [(''enc'', Encrypted_Data_layout), (''buf'', Arr c_u8 BlockSize)])]"

section \<open>Static assertions\<close>

lemmas kernel_layouts = KextInfo_layout_def SolveRequest_layout_def KextHandler_layout_def LookupPatch_layout_def
  RouteRequest_layout_def LongPatch_layout_def MediumPatch_layout_def SmallPatch_layout_def FunctionPatch_layout_def
  UserFlagNum_def SysFlagNum_def

lemmas layout_eval = round_up_def place_def offset_of_def Let_def

text \<open>The assertions about layout of \<open>kern_patcher.hpp\<close> and \<open>kern_user.hpp\<close>, on both architectures (pointers of 8 and of
  4 bytes): \<open>KextInfo\<close> is four words and eight flags, \<open>BinaryModPatch\<close> has 56 and 36 bytes, there is a user flag, and
  the long jump has 16 bytes and the others 8. The ones of \<open>kern_cpu.hpp\<close> (the bit fields of \<open>CpuVersion\<close> fill 32
  bits), \<open>kern_efi.hpp\<close> and \<open>kern_version.hpp\<close> are met by the definitions of \<open>Cpu_Info\<close>, \<open>Storage_Formats\<close>
  and \<open>Kext_Version\<close>.\<close>

lemma layout_assertions:
  "size_of (KextInfo_layout 8) = 4 * 8 + 8 \<and> size_of (KextInfo_layout 4) = 4 * 4 + 8 \<and> 0 < UserFlagNum \<and>
   size_of (BinaryModPatch_layout 8) = 56 \<and> size_of (BinaryModPatch_layout 4) = 36 \<and>
   size_of (LongPatch_layout 8) = 2 * size_of c_u64 \<and> size_of (LongPatch_layout 4) = 2 * size_of c_u64 \<and>
   size_of MediumPatch_layout = size_of c_u64 \<and> size_of SmallPatch_layout = size_of c_u64"
  by (simp add: kernel_layouts BinaryModPatch_layout_def layout_eval)

text \<open>
  What the model of \<open>sourceIt\<close> says about the three jumps is what their layout says: their size, where the
  bytes that are filled up begin and how many they are. The jump proper ends where \<open>org\<close> begins, and
  the word that is stored has the size of the whole.
\<close>

lemma patch_layout_agrees:
  "size_of (patch_layout k) = patch_size k"
  "part (patch_layout k) [Fld ''org''] = Some (org_offset k, Arr c_u8 (org_size k))"
  "jump_size k = org_offset k"
  "part FunctionPatch_layout [Fld (if k = LongPatch then ''value128'' else ''value64'')] = Some (0, Prim (patch_size k))"
  by (cases k; simp add: kernel_layouts layout_eval patch_size_def)+

section \<open>Headers of stored data\<close>

text \<open>Each field begins where the one before ended, and the last ends with the object.\<close>

fun gapless :: "nat \<Rightarrow> (string \<times> nat \<times> ctype) list \<Rightarrow> nat \<Rightarrow> bool" where
  "gapless off [] end = (off = end)"
| "gapless off (f # fs) end = (fst (snd f) = off \<and> gapless (off + size_of (snd (snd f))) fs end)"

definition holds_byte :: "nat \<Rightarrow> string \<times> nat \<times> ctype \<Rightarrow> bool" where
  "holds_byte i f \<longleftrightarrow> fst (snd f) \<le> i \<and> i < fst (snd f) + size_of (snd (snd f))"

lemma gapless_ge: "gapless off fs end \<Longrightarrow> f \<in> set fs \<Longrightarrow> off \<le> fst (snd f)"
  by (induction fs arbitrary: off) (auto dest: add_leD1)

lemma gapless_covers:
  "gapless off fs end \<Longrightarrow> off \<le> i \<Longrightarrow> i < end \<Longrightarrow> \<exists>!f. f \<in> set fs \<and> holds_byte i f"
proof (induction fs arbitrary: off)
  case (Cons f fs)
  let ?next = "off + size_of (snd (snd f))"
  show ?case
  proof (cases "i < ?next")
    case True
    then have "holds_byte i f" using Cons.prems by (simp add: holds_byte_def)
    moreover have "\<not> holds_byte i g" if "g \<in> set fs" for g
      using gapless_ge [of ?next fs "end" g] that Cons.prems(1) True by (simp add: holds_byte_def)
    ultimately show ?thesis by auto
  next
    case False
    then have "\<not> holds_byte i f" using Cons.prems by (simp add: holds_byte_def)
    with Cons.IH [of ?next] Cons.prems False show ?thesis by auto
  qed
qed simp

definition stored_formats :: "ctype list" where
  "stored_formats = [Compression_Header_layout, NVStorage_Header_layout, Encrypted_layout, Encrypted_Data_layout]"

lemma stored_formats_gapless: "T \<in> set stored_formats \<Longrightarrow> gapless 0 (fields_of T) (size_of T)"
  by (auto simp: stored_formats_def Compression_Header_layout_def NVStorage_Header_layout_def Encrypted_layout_def
      Encrypted_Data_layout_def BlockSize_def layout_eval)

text \<open>The headers of compressed, stored and encrypted data have no padding, whether or not they are declared
  packed: every byte belongs to exactly one field, so a header that is filled in field by field has no
  byte that is left over from what the memory held before.\<close>

theorem stored_headers_have_no_padding:
  assumes "T \<in> set stored_formats" and "i < size_of T"
  shows "\<exists>!f. f \<in> set (fields_of T) \<and> holds_byte i f"
  using gapless_covers [OF stored_formats_gapless [OF assms(1)]] assms(2) by simp

theorem stored_headers_have_no_padding_witness:
  "\<exists>!f. f \<in> set (fields_of Compression_Header_layout) \<and> holds_byte 383 f"
proof -
  have "size_of Compression_Header_layout = 384"
    by (simp add: Compression_Header_layout_def layout_eval)
  then show ?thesis
    using stored_headers_have_no_padding [of Compression_Header_layout 383] by (simp add: stored_formats_def)
qed

text \<open>
  An encrypted value is the vector followed by the blocks that are encrypted; its first block begins with
  the size, as the description of stored values says.
\<close>

lemma Encrypted_blocks:
  "size_of Encrypted_layout = 2 * BlockSize" "size_of Encrypted_Data_layout = BlockSize"
  "part Encrypted_layout [Fld ''anonymous'', Fld ''enc'', Fld ''size''] = Some (16, c_u32)"
  "part Encrypted_layout [Fld ''anonymous'', Fld ''buf''] = Some (16, Arr c_u8 BlockSize)"
  by (simp_all add: Encrypted_layout_def Encrypted_Data_layout_def BlockSize_def layout_eval)

section \<open>Access by offset to kext information\<close>

theorem getMember_is_field_access_witness:
  "let mem' = getMember_assign 1 4096 26 [1] (\<lambda>_. 0) in
   getMember 1 4096 26 mem' = [1] \<and> getMember 8 4096 32 mem' = getMember 8 4096 32 (\<lambda>_. 0)"
proof -
  let ?T = "KextInfo_layout 8"
  have "machine_type ?T" "size_of ?T < 2 ^ 64"
    and "part ?T [Fld ''sys'', Idx 2] = Some (26, c_bool)" "part ?T [Fld ''loadIndex''] = Some (32, Prim 8)"
    by (simp_all add: kernel_layouts layout_eval)
  then show ?thesis
    using getMember_is_field_access [of ?T "[]" 0 ?T "Fld ''sys''" "Fld ''loadIndex''" "[Idx 2]" 26 c_bool "[]" 32 "Prim 8" "[1]" 4096 "\<lambda>_. 0"]
    by (simp add: KextInfo_layout_def Let_def)
qed

end
