(* ===== verification/Patch_Requests.thy ===== *)
theory Patch_Requests
  imports Patcher
begin

text \<open>
  The rest of the inline code of \<open>kern_patcher.hpp\<close>, \<open>kern_mach.hpp\<close> and \<open>kern_policy.hpp\<close>: the construction of route
  requests, Mach-O descriptions and policies, the wrappers that take arrays, and the constants and paths of the
  patcher. The functions the wrappers call are declared only: they are parameters.
\<close>

section \<open>Route requests\<close>

record route_request =
  rr_symbol :: "string option"
  rr_from :: mach_addr
  rr_to :: mach_addr
  rr_org :: "nat option"

text \<open>The three constructors; \<open>o\<close> is the place of the trampoline.\<close>

definition RouteRequest_wrap :: "string \<Rightarrow> mach_addr \<Rightarrow> nat \<Rightarrow> route_request" where
  "RouteRequest_wrap s t p = \<lparr>rr_symbol = Some s, rr_from = 0, rr_to = t, rr_org = Some p\<rparr>"

text \<open>The second one reinterprets the place of an object of another type.\<close>

definition RouteRequest_wrap_any :: "string \<Rightarrow> mach_addr \<Rightarrow> nat \<Rightarrow> route_request" where
  "RouteRequest_wrap_any s t p = RouteRequest_wrap s t p"

definition RouteRequest_route :: "string \<Rightarrow> mach_addr \<Rightarrow> route_request" where
  "RouteRequest_route s t = \<lparr>rr_symbol = Some s, rr_from = 0, rr_to = t, rr_org = None\<rparr>"

text \<open>
  \<open>route\<close> is the declared function of the same name, with the arguments identifier, requests, number, start, size,
  \<open>kernelRoute\<close> and \<open>force\<close>.
\<close>

type_synonym 's router =
  "size_t \<Rightarrow> route_request list \<Rightarrow> nat \<Rightarrow> mach_addr \<Rightarrow> size_t \<Rightarrow> bool \<Rightarrow> bool \<Rightarrow> 's \<Rightarrow> bool \<times> 's"

definition routeMultiple_array :: "'s router \<Rightarrow> size_t \<Rightarrow> route_request list \<Rightarrow> mach_addr \<Rightarrow> size_t \<Rightarrow> bool \<Rightarrow> bool \<Rightarrow> 's \<Rightarrow> bool \<times> 's" where
  "routeMultiple_array route i requests start sz kernelRoute force s =
     route i requests (length requests) start sz kernelRoute force s"

definition routeMultipleLong_array :: "'s router \<Rightarrow> size_t \<Rightarrow> route_request list \<Rightarrow> mach_addr \<Rightarrow> size_t \<Rightarrow> bool \<Rightarrow> bool \<Rightarrow> 's \<Rightarrow> bool \<times> 's" where
  "routeMultipleLong_array route i requests start sz kernelRoute force s =
     route i requests (length requests) start sz kernelRoute force s"

definition routeMultipleShort_array :: "'s router \<Rightarrow> size_t \<Rightarrow> route_request list \<Rightarrow> mach_addr \<Rightarrow> size_t \<Rightarrow> bool \<Rightarrow> bool \<Rightarrow> 's \<Rightarrow> bool \<times> 's" where
  "routeMultipleShort_array route i requests start sz kernelRoute force s =
     route i requests (length requests) start sz kernelRoute force s"

section \<open>Find and replace\<close>

text \<open>A buffer is its bytes, or null; each comes with the size that is passed along.\<close>

type_synonym sized = "u8 list option \<times> nat"

text \<open>\<open>data\<close>, \<open>find\<close>, \<open>findMask\<close>, \<open>replace\<close>, \<open>replaceMask\<close>, \<open>count\<close>, \<open>skip\<close>.\<close>

type_synonym replacer = "u8 list \<Rightarrow> sized \<Rightarrow> sized \<Rightarrow> sized \<Rightarrow> sized \<Rightarrow> nat \<Rightarrow> nat \<Rightarrow> bool \<times> u8 list"

definition findAndReplace :: "replacer \<Rightarrow> u8 list \<Rightarrow> sized \<Rightarrow> sized \<Rightarrow> bool \<times> u8 list" where
  "findAndReplace withMask data fnd rep = withMask data fnd (None, 0) rep (None, 0) 0 0"

text \<open>The arrays of the templates have the same length; \<open>None\<close> is a call that does not compile.\<close>

definition findAndReplace_array :: "replacer \<Rightarrow> u8 list \<Rightarrow> u8 list \<Rightarrow> u8 list \<Rightarrow> (bool \<times> u8 list) option" where
  "findAndReplace_array withMask data fnd rep =
     (if length fnd = length rep then Some (findAndReplace withMask data (Some fnd, length fnd) (Some rep, length rep)) else None)"

definition findAndReplaceWithMask_array ::
    "replacer \<Rightarrow> u8 list \<Rightarrow> u8 list \<Rightarrow> u8 list \<Rightarrow> u8 list \<Rightarrow> u8 list \<Rightarrow> nat \<Rightarrow> nat \<Rightarrow> (bool \<times> u8 list) option" where
  "findAndReplaceWithMask_array withMask data fnd fmask rep rmask count skip =
     (if list_all (\<lambda>a. length a = length fnd) [fmask, rep, rmask]
      then Some (withMask data (Some fnd, length fnd) (Some fmask, length fnd) (Some rep, length fnd) (Some rmask, length fnd) count skip)
      else None)"

section \<open>Constants and paths of the patcher\<close>

datatype JumpType = JumpAuto | JumpLong | JumpShort | JumpMedium

definition TempExecutableMemorySize :: size_t where "TempExecutableMemorySize = 4096"

definition prelinkKernelPaths :: "string list" where
  "prelinkKernelPaths = [
    ''/System/Library/Caches/com.apple.kext.caches/Startup/kernelcache'',
    ''/System/Library/PrelinkedKernels/prelinkedkernel'',
    ''/macOS Install Data/Locked Files/Boot Files/prelinkedkernel'',
    ''/com.apple.boot.R/prelinkedkernel'',
    ''/com.apple.boot.S/System/Library/PrelinkedKernels/prelinkedkernel'',
    ''/com.apple.recovery.boot/prelinkedkernel'',
    ''/kernelcache'']"

definition kernelPaths :: "string list" where
  "kernelPaths = [''/System/Library/Kernels/kernel'', ''/mach_kernel'']"

lemma kernel_paths:
  "length prelinkKernelPaths = 7 \<and> length kernelPaths = 2 \<and> distinct (prelinkKernelPaths @ kernelPaths) \<and>
   list_all (\<lambda>p. hd p = CHR ''/'') (prelinkKernelPaths @ kernelPaths)"
  by (simp add: prelinkKernelPaths_def kernelPaths_def)

section \<open>Mach-O descriptions\<close>

definition KASLRAlignment :: u64 where "KASLRAlignment = 0x100000"

text \<open>\<open>HeaderSize\<close> is two pages; \<open>page\<close> is \<open>PAGE_SIZE_64\<close>.\<close>

definition HeaderSize :: "u64 \<Rightarrow> u64" where "HeaderSize page = page * 2"

record mach_info =
  isKernel :: bool
  objectId :: "string option"
  running_text_addr :: mach_addr
  disk_text_addr :: mach_addr
  kaslr_slide :: mach_addr
  file_buf :: "nat option"
  prelink_dict :: "nat option"
  prelink_addr :: "nat option"
  prelink_vmaddr :: mach_addr
  file_buf_size :: u32
  sym_buf :: "nat option"
  sym_buf_ro :: bool
  sym_fileoff :: u64
  sym_size :: size_t
  symboltable_fileoff :: u32
  symboltable_nr_symbols :: u32
  stringtable_fileoff :: u32
  stringtable_size :: u32
  running_mh :: "nat option"
  address_slots :: mach_addr
  address_slots_end :: mach_addr
  fat_offset :: u64
  memory_size :: size_t
  kaslr_slide_set :: bool
  allow_decompress :: bool
  prelink_slid :: bool
  kernel_collection :: bool
  self_uuid :: "u64 list"

definition MachInfo_new :: "u64 \<Rightarrow> bool \<Rightarrow> string option \<Rightarrow> mach_info" where
  "MachInfo_new page asKernel i = \<lparr>isKernel = asKernel, objectId = i, running_text_addr = 0, disk_text_addr = 0, kaslr_slide = 0,
     file_buf = None, prelink_dict = None, prelink_addr = None, prelink_vmaddr = 0, file_buf_size = 0,
     sym_buf = None, sym_buf_ro = False, sym_fileoff = 0, sym_size = 0, symboltable_fileoff = 0,
     symboltable_nr_symbols = 0, stringtable_fileoff = 0, stringtable_size = 0, running_mh = None,
     address_slots = 0, address_slots_end = 0, fat_offset = 0, memory_size = HeaderSize page,
     kaslr_slide_set = False, allow_decompress = True, prelink_slid = False, kernel_collection = False,
     self_uuid = [0, 0]\<rparr>"

text \<open>\<open>create\<close>: \<open>new\<close> is the answer of the allocator.\<close>

definition MachInfo_create :: "u64 \<Rightarrow> bool \<Rightarrow> string option \<Rightarrow> nat option \<Rightarrow> (nat \<times> mach_info) option" where
  "MachInfo_create page asKernel i new = map_option (\<lambda>a. (a, MachInfo_new page asKernel i)) new"

definition getFatOffset :: "mach_info \<Rightarrow> u64" where
  "getFatOffset m = fat_offset m"

section \<open>Policies\<close>

record 'ops mac_policy_conf =
  mpc_name :: string
  mpc_fullname :: string
  mpc_labelnames :: "nat option"
  mpc_labelname_count :: u32
  mpc_ops :: 'ops
  mpc_loadtime_flags :: u32
  mpc_field_off :: "nat option"
  mpc_runtime_flags :: u32

record 'ops policy =
  policyHandle :: u32
  policyConf :: "'ops mac_policy_conf"

definition Policy_new :: "string \<Rightarrow> string \<Rightarrow> 'ops \<Rightarrow> 'ops policy" where
  "Policy_new n descr ops = \<lparr>policyHandle = 0, policyConf = \<lparr>mpc_name = n, mpc_fullname = descr, mpc_labelnames = None,
     mpc_labelname_count = 0, mpc_ops = ops, mpc_loadtime_flags = 0, mpc_field_off = None, mpc_runtime_flags = 0\<rparr>\<rparr>"

end
