(* ===== verification/Plugin_Start.thy ===== *)
theory Plugin_Start
  imports Util_Functions
begin

text \<open>
  The life of a Lilu plugin: \<open>plugin_start.cpp\<close>, which every plugin is linked with, and the inline
  code of class \<open>LiluAPI\<close> (\<open>kern_api.hpp\<close>). The functions of Lilu itself, the boot arguments and the
  methods of the parent class \<open>IOService\<close> are parameters.
\<close>

section \<open>Interface of Lilu\<close>

datatype api_error = NoError | LockError | MemoryError | UnsupportedFeature | IncompatibleOS | Disabled | TooLate | Offline

fun running_mode :: "string \<Rightarrow> u32 option" where
  "running_mode m = map_of [(''RunningNormal'', 1), (''AllowNormal'', 1), (''RunningInstallerRecovery'', 2),
     (''AllowInstallerRecovery'', 2), (''RunningSafeMode'', 4), (''AllowSafeMode'', 4)] m"

text \<open>The mask of modes the kernel runs in is set elsewhere.\<close>

definition getRunMode :: "u32 \<Rightarrow> u32" where
  "getRunMode currentRunMode = currentRunMode"

definition CompatibilityVersion :: "size_t option" where
  "CompatibilityVersion = parseModuleVersion ''1.2.0''"

lemma CompatibilityVersion_is: "CompatibilityVersion = Some 120"
  by (simp add: CompatibilityVersion_def parseModuleVersion_def char_diff_def)

text \<open>
  \<open>onPatcherLoadForce\<close>, \<open>onKextLoadForce\<close>, \<open>onProcLoadForce\<close> and \<open>onEntitlementRequestForce\<close>: each passes its arguments on and
  panics unless the registration succeeds.
\<close>

definition onPatcherLoadForce :: "('cb \<Rightarrow> 'user \<Rightarrow> 's \<Rightarrow> api_error \<times> 's) \<Rightarrow> 'cb \<Rightarrow> 'user \<Rightarrow> 's \<Rightarrow> 's outcome" where
  "onPatcherLoadForce onPatcherLoad callback user s =
     (let (err, s) = onPatcherLoad callback user s in if err \<noteq> NoError then Panics else Returns s)"

definition onKextLoadForce ::
    "('infos \<Rightarrow> size_t \<Rightarrow> 'cb \<Rightarrow> 'user \<Rightarrow> 's \<Rightarrow> api_error \<times> 's) \<Rightarrow> 'infos \<Rightarrow> size_t \<Rightarrow> 'cb \<Rightarrow> 'user \<Rightarrow> 's \<Rightarrow> 's outcome" where
  "onKextLoadForce onKextLoad infos num callback user s =
     (let (err, s) = onKextLoad infos num callback user s in if err \<noteq> NoError then Panics else Returns s)"

definition onProcLoadForce ::
    "('infos \<Rightarrow> size_t \<Rightarrow> 'cb \<Rightarrow> 'user \<Rightarrow> 'mods \<Rightarrow> size_t \<Rightarrow> 's \<Rightarrow> api_error \<times> 's)
     \<Rightarrow> 'infos \<Rightarrow> size_t \<Rightarrow> 'cb \<Rightarrow> 'user \<Rightarrow> 'mods \<Rightarrow> size_t \<Rightarrow> 's \<Rightarrow> 's outcome" where
  "onProcLoadForce onProcLoad infos num callback user mods modnum s =
     (let (err, s) = onProcLoad infos num callback user mods modnum s in if err \<noteq> NoError then Panics else Returns s)"

definition onEntitlementRequestForce :: "('cb \<Rightarrow> 'user \<Rightarrow> 's \<Rightarrow> api_error \<times> 's) \<Rightarrow> 'cb \<Rightarrow> 'user \<Rightarrow> 's \<Rightarrow> 's outcome" where
  "onEntitlementRequestForce onEntitlementRequest callback user s =
     (let (err, s) = onEntitlementRequest callback user s in if err \<noteq> NoError then Panics else Returns s)"

section \<open>State of a plugin\<close>

text \<open>The configuration; a call of its last member, \<open>pluginStart\<close>, is an event.\<close>

record plugin_config =
  product :: string
  version :: size_t
  runmode :: u32
  disableArg :: "string list"
  disableArgNum :: size_t
  debugArg :: "string list"
  debugArgNum :: size_t
  betaArg :: "string list"
  betaArgNum :: size_t
  minKernel :: int
  maxKernel :: int

text \<open>The calls a plugin makes, in order; \<open>RequestAccess\<close> records the answer.\<close>

datatype event = RequestAccess api_error | ShouldLoad api_error | PluginStarts | ReleaseAccess

record plugin =
  startSuccess :: bool
  debugEnabled :: bool
  debugPrintDelay :: u32
  selfInstance :: "nat option"
  events :: "event list"

definition plugin_fresh :: plugin where
  "plugin_fresh = \<lparr>startSuccess = False, debugEnabled = False, debugPrintDelay = 0, selfInstance = None, events = []\<rparr>"

text \<open>
  What the plugin finds: the answer of \<open>requestAccess\<close>, the answer of \<open>shouldLoad\<close> with the new value of the
  flag it is given by reference, the boot arguments that are present, and the value of \<open>liludelay\<close>.
\<close>

record environment =
  requestAccess :: api_error
  shouldLoad :: "plugin_config \<Rightarrow> bool \<Rightarrow> api_error \<times> bool"
  boot_arg :: "string \<Rightarrow> bool"
  liludelay :: "u32 option"

definition log_event :: "event \<Rightarrow> plugin \<Rightarrow> plugin" where
  "log_event e s = s\<lparr>events := events s @ [e]\<rparr>"

section \<open>kern_start and kern_stop\<close>

text \<open>The loop over the debug arguments, from index \<open>i\<close> with \<open>k\<close> left; it ends with the first that is present.\<close>

fun debug_arg_from :: "environment \<Rightarrow> plugin_config \<Rightarrow> nat \<Rightarrow> nat \<Rightarrow> bool option" where
  "debug_arg_from env cfg i 0 = Some False"
| "debug_arg_from env cfg i (Suc k) = do {
     a \<leftarrow> cell_get (debugArg cfg) i;
     (if boot_arg env a then Some True else debug_arg_from env cfg (Suc i) k) }"

definition KERN_SUCCESS :: int where "KERN_SUCCESS = 0"
definition KERN_FAILURE :: int where "KERN_FAILURE = 5"

definition kern_start :: "environment \<Rightarrow> plugin_config \<Rightarrow> plugin \<Rightarrow> (int \<times> plugin) option" where
  "kern_start env cfg s = do {
     let s = (case liludelay env of Some d \<Rightarrow> s\<lparr>debugPrintDelay := d\<rparr> | None \<Rightarrow> s);
     let error = requestAccess env;
     let s = log_event (RequestAccess error) s;
     let s = (if error = NoError then
         (let (error, dbg) = shouldLoad env cfg (debugEnabled s);
              s = log_event (ShouldLoad error) (s\<lparr>debugEnabled := dbg\<rparr>);
              s = (if error = NoError then log_event PluginStarts (s\<lparr>startSuccess := True\<rparr>) else s)
          in log_event ReleaseAccess s)
       else s);
     found \<leftarrow> debug_arg_from env cfg 0 (unat (debugArgNum cfg));
     let s = (if found then s\<lparr>debugEnabled := True\<rparr> else s);
     let s = (if boot_arg env ''-liludbgall'' then s\<lparr>debugEnabled := True\<rparr> else s);
     Some (KERN_SUCCESS, s)
   }"

definition kern_stop :: "plugin \<Rightarrow> int" where
  "kern_stop s = (if startSuccess s then KERN_FAILURE else KERN_SUCCESS)"

section \<open>The IOService methods\<close>

text \<open>\<open>super\<close> is the answer of the method of \<open>IOService\<close>.\<close>

definition p_probe :: "nat \<Rightarrow> nat option \<Rightarrow> plugin \<Rightarrow> nat option \<times> plugin" where
  "p_probe this super s = (let s = s\<lparr>selfInstance := Some this\<rparr> in (if startSuccess s then super else None, s))"

definition p_start :: "nat \<Rightarrow> bool \<Rightarrow> plugin \<Rightarrow> bool \<times> plugin" where
  "p_start this super s = (let s = s\<lparr>selfInstance := Some this\<rparr> in if \<not> super then (False, s) else (startSuccess s, s))"

definition p_stop :: "plugin \<Rightarrow> plugin" where
  "p_stop s = s\<lparr>selfInstance := None\<rparr>"

datatype io_call = Probe nat "nat option" | Start nat bool | Stop

datatype io_result = Probed "nat option" | Started bool | Stopped

fun io_step :: "io_call \<Rightarrow> plugin \<Rightarrow> io_result \<times> plugin" where
  "io_step (Probe this super) s = map_prod Probed id (p_probe this super s)"
| "io_step (Start this super) s = map_prod Started id (p_start this super s)"
| "io_step Stop s = (Stopped, p_stop s)"

fun io_run :: "io_call list \<Rightarrow> plugin \<Rightarrow> io_result list \<times> plugin" where
  "io_run [] s = ([], s)"
| "io_run (c # cs) s = (let (r, s) = io_step c s; (rs, s) = io_run cs s in (r # rs, s))"

section \<open>Properties\<close>

lemma log_event_sel [simp]:
  "startSuccess (log_event e s) = startSuccess s" "debugEnabled (log_event e s) = debugEnabled s"
  "selfInstance (log_event e s) = selfInstance s" "events (log_event e s) = events s @ [e]"
  by (simp_all add: log_event_def)

lemma debug_arg_from_spec:
  "i + k \<le> length (debugArg cfg) \<Longrightarrow> debug_arg_from env cfg i k = Some (list_ex (boot_arg env) (take k (drop i (debugArg cfg))))"
proof (induction k arbitrary: i)
  case (Suc k)
  then have "drop i (debugArg cfg) = debugArg cfg ! i # drop (Suc i) (debugArg cfg)"
    by (simp add: Cons_nth_drop_Suc)
  with Suc show ?case by simp
qed simp

text \<open>C19: A plugin's main function runs, exactly once and while access to Lilu is held, if and only if Lilu
  grants access and approves of the plugin; access that was granted is always released; the
  result is success in any case, and debug output is on if \<open>shouldLoad\<close> or a debug argument asked for it.\<close>

theorem kern_start_protocol:
  assumes "unat (debugArgNum cfg) \<le> length (debugArg cfg)"
  shows "case kern_start env cfg plugin_fresh of None \<Rightarrow> False
    | Some (result, s) \<Rightarrow> result = KERN_SUCCESS \<and>
        (startSuccess s \<longleftrightarrow> requestAccess env = NoError \<and> fst (shouldLoad env cfg False) = NoError) \<and>
        events s = (case requestAccess env of
            NoError \<Rightarrow> [RequestAccess NoError, ShouldLoad (fst (shouldLoad env cfg False))]
              @ (if startSuccess s then [PluginStarts] else []) @ [ReleaseAccess]
          | e \<Rightarrow> [RequestAccess e]) \<and>
        (debugEnabled s \<longleftrightarrow> requestAccess env = NoError \<and> snd (shouldLoad env cfg False)
          \<or> list_ex (boot_arg env) (''-liludbgall'' # take (unat (debugArgNum cfg)) (debugArg cfg)))"
  using debug_arg_from_spec [of 0 "unat (debugArgNum cfg)" cfg env] assms
  by (cases "shouldLoad env cfg False"; cases "liludelay env"; cases "requestAccess env")
    (simp_all add: kern_start_def plugin_fresh_def Let_def)

definition sample_config :: plugin_config where
  "sample_config = \<lparr>product = ''Sample'', version = 100, runmode = 1, disableArg = [''-sampleoff''], disableArgNum = 1, debugArg = [''-sampledbg''],
     debugArgNum = 1, betaArg = [''-samplebeta''], betaArgNum = 1, minKernel = 12, maxKernel = 22\<rparr>"

definition sample_env :: "api_error \<Rightarrow> environment" where
  "sample_env e = \<lparr>requestAccess = NoError, shouldLoad = (\<lambda>_ dbg. (e, dbg)), boot_arg = (\<lambda>a. a = ''-sampledbg''), liludelay = None\<rparr>"

theorem kern_start_protocol_witness:
  "case kern_start (sample_env Disabled) sample_config plugin_fresh of None \<Rightarrow> False
   | Some (result, s) \<Rightarrow> result = KERN_SUCCESS \<and> \<not> startSuccess s \<and> debugEnabled s \<and>
       events s = [RequestAccess NoError, ShouldLoad Disabled, ReleaseAccess]"
  using kern_start_protocol [of sample_config "sample_env Disabled"]
  by (auto simp: sample_config_def sample_env_def split: option.splits)

text \<open>Lilu approves of a plugin when it grants access and \<open>shouldLoad\<close> then answers without an error.\<close>

definition approved :: "environment \<Rightarrow> plugin_config \<Rightarrow> bool" where
  "approved env cfg \<longleftrightarrow> requestAccess env = NoError \<and> fst (shouldLoad env cfg False) = NoError"

lemma kern_start_approved:
  assumes "unat (debugArgNum cfg) \<le> length (debugArg cfg)"
  obtains s where "kern_start env cfg plugin_fresh = Some (KERN_SUCCESS, s)" "startSuccess s = approved env cfg"
    "count_list (events s) PluginStarts = (if approved env cfg then 1 else 0)"
  using debug_arg_from_spec [of 0 "unat (debugArgNum cfg)" cfg env] assms
  by (cases "shouldLoad env cfg False"; cases "liludelay env"; cases "requestAccess env = NoError")
    (auto simp: kern_start_def plugin_fresh_def approved_def Let_def)

lemma io_step_keeps: "startSuccess (snd (io_step c s)) = startSuccess s \<and> events (snd (io_step c s)) = events s"
  by (cases c) (simp_all add: p_probe_def p_start_def p_stop_def Let_def)

text \<open>What the parent class \<open>IOService\<close> answers to a call by itself.\<close>

fun parent_answer :: "io_call \<Rightarrow> io_result" where
  "parent_answer (Probe this super) = Probed super"
| "parent_answer (Start this super) = Started super"
| "parent_answer Stop = Stopped"

lemma io_step_result:
  "startSuccess s \<Longrightarrow> fst (io_step c s) = parent_answer c"
  "\<not> startSuccess s \<Longrightarrow> fst (io_step c s) \<in> {Probed None, Started False, Stopped}"
  by (cases c; simp add: p_probe_def p_start_def Let_def)+

lemma io_run_spec:
  "startSuccess (snd (io_run cs s)) = startSuccess s \<and> events (snd (io_run cs s)) = events s \<and>
   (if startSuccess s then fst (io_run cs s) = map parent_answer cs
    else set (fst (io_run cs s)) \<subseteq> {Probed None, Started False, Stopped})"
proof (induction cs arbitrary: s)
  case (Cons c cs)
  obtain r t rs u where "io_step c s = (r, t)" "io_run cs t = (rs, u)" by fastforce
  then show ?case using io_step_keeps [of c s] io_step_result [of s c] Cons [of t] by auto
qed simp

text \<open>C20: Whatever the I/O Kit calls after \<open>kern_start\<close>, in any order and however often: when Lilu refused the plugin, by
  denying access or by an error of \<open>shouldLoad\<close>, \<open>probe\<close> never offers the driver, \<open>start\<close> never succeeds, the
  plugin's main function has not run and the plugin may be unloaded at any time; when Lilu approved of it,
  both methods answer what \<open>IOService\<close> answers, the main function has run once and unloading is refused for ever.\<close>

theorem refused_plugin_stays_out:
  assumes "unat (debugArgNum cfg) \<le> length (debugArg cfg)"
  shows "\<exists>s. kern_start env cfg plugin_fresh = Some (KERN_SUCCESS, s) \<and>
    (let (results, s') = io_run calls s in
     if requestAccess env = NoError \<and> fst (shouldLoad env cfg False) = NoError
     then results = map parent_answer calls \<and> count_list (events s') PluginStarts = 1 \<and> kern_stop s' = KERN_FAILURE
     else set results \<subseteq> {Probed None, Started False, Stopped} \<and> PluginStarts \<notin> set (events s') \<and>
       kern_stop s' = KERN_SUCCESS)"
proof -
  obtain s where s: "kern_start env cfg plugin_fresh = Some (KERN_SUCCESS, s)" "startSuccess s = approved env cfg"
    "count_list (events s) PluginStarts = (if approved env cfg then 1 else 0)"
    using assms by (rule kern_start_approved)
  have "PluginStarts \<notin> set (events s)" if "\<not> approved env cfg"
    using s(3) that by (simp add: count_list_0_iff)
  then show ?thesis
    using io_run_spec [of calls s] s
    by (intro exI [of _ s] conjI s(1)) (simp add: approved_def kern_stop_def Let_def split_beta)
qed

theorem refused_plugin_stays_out_witness:
  "case kern_start (sample_env Disabled) sample_config plugin_fresh of None \<Rightarrow> False
   | Some (result, s) \<Rightarrow> (let (results, s') = io_run [Probe 1 (Some 2), Start 1 True, Stop] s in
       Started True \<notin> set results \<and> Probed (Some 2) \<notin> set results \<and> kern_stop s' = KERN_SUCCESS)"
  using refused_plugin_stays_out [of sample_config "sample_env Disabled" "[Probe 1 (Some 2), Start 1 True, Stop]"]
  by (auto simp: sample_config_def sample_env_def)

end
