(* ===== verification/User_Patcher.thy ===== *)
theory User_Patcher
  imports Owned_Vectors C_Enum
begin

text \<open>
  The inline code and tables of class \<open>UserPatcher\<close> (\<open>kern_user.hpp\<close>): the segments a patch may address, the
  records patches are described with, and the lookup storage, which owns a page and a vector of
  references that own two vectors each. The allocators are parameters.
\<close>

section \<open>Segments and patches\<close>

text \<open>\<open>FileSegment\<close>, with the two tables indexed by it.\<close>

datatype FileSegment = SegmentTextText | SegmentTextStubs | SegmentTextConst | SegmentTextCstring
  | SegmentTextUstring | SegmentDataConst | SegmentDataCfstring | SegmentDataCommon

fun segment_index :: "FileSegment \<Rightarrow> nat" where
  "segment_index SegmentTextText = 0" | "segment_index SegmentTextStubs = 1"
| "segment_index SegmentTextConst = 2" | "segment_index SegmentTextCstring = 3"
| "segment_index SegmentTextUstring = 4" | "segment_index SegmentDataConst = 5"
| "segment_index SegmentDataCfstring = 6" | "segment_index SegmentDataCommon = 7"

definition SegmentsTextStart :: nat where "SegmentsTextStart = 0"
definition SegmentsTextEnd :: nat where "SegmentsTextEnd = 4"
definition SegmentsDataStart :: nat where "SegmentsDataStart = 5"
definition SegmentsDataEnd :: nat where "SegmentsDataEnd = 7"
definition SegmentTotal :: nat where "SegmentTotal = 8"

definition fileSegments :: "string list" where
  "fileSegments = [''__TEXT'', ''__TEXT'', ''__TEXT'', ''__TEXT'', ''__TEXT'', ''__DATA'', ''__DATA'', ''__DATA'']"

definition fileSections :: "string list" where
  "fileSections = [''__text'', ''__stubs'', ''__const'', ''__cstring'', ''__ustring'', ''__const'', ''__cfstring'', ''__common'']"

text \<open>Segments compare as their numbers do.\<close>

lemma segment_index_inject: "segment_index f = segment_index g \<longleftrightarrow> f = g"
  by (cases f; cases g) simp_all

instantiation FileSegment :: linorder
begin

definition less_eq_FileSegment :: "FileSegment \<Rightarrow> FileSegment \<Rightarrow> bool" where
  "less_eq_FileSegment f g \<longleftrightarrow> segment_index f \<le> segment_index g"

definition less_FileSegment :: "FileSegment \<Rightarrow> FileSegment \<Rightarrow> bool" where
  "less_FileSegment f g \<longleftrightarrow> segment_index f < segment_index g"

instance
  by intro_classes (auto simp: less_eq_FileSegment_def less_FileSegment_def simp flip: segment_index_inject)

end

text \<open>
  The tables are as long as the enumeration, the text segments are a range of it and so are the data segments, and a
  segment and its section name one entry.
\<close>

lemma segment_tables:
  "length fileSegments = SegmentTotal \<and> length fileSections = SegmentTotal \<and> segment_index f < SegmentTotal \<and>
   (fileSegments ! segment_index f = ''__TEXT'' \<longleftrightarrow> f \<in> {SegmentTextText..SegmentTextUstring}) \<and>
   (fileSegments ! segment_index f = ''__DATA'' \<longleftrightarrow> f \<in> {SegmentDataConst..SegmentDataCommon}) \<and>
   segment_index SegmentTextText = SegmentsTextStart \<and> segment_index SegmentTextUstring = SegmentsTextEnd \<and>
   segment_index SegmentDataConst = SegmentsDataStart \<and> segment_index SegmentDataCommon = SegmentsDataEnd \<and>
   (fileSegments ! segment_index f = fileSegments ! segment_index g \<and>
    fileSections ! segment_index f = fileSections ! segment_index g \<longrightarrow> f = g)"
  by (cases f; cases g) (simp_all add: fileSegments_def fileSections_def SegmentTotal_def SegmentsTextStart_def
      SegmentsTextEnd_def SegmentsDataStart_def SegmentsDataEnd_def less_eq_FileSegment_def)

record binary_mod_patch =
  cpu :: u32
  patch_flags :: u32
  find_bytes :: "u8 list"
  replace_bytes :: "u8 list"
  patch_size :: size_t
  skip :: size_t
  count :: size_t
  segment :: FileSegment
  patch_section :: u32

record binary_mod_info =
  mod_path :: string
  patches :: "binary_mod_patch list"
  mod_count :: size_t
  startTEXT :: u64
  endTEXT :: u64
  startDATA :: u64
  endDATA :: u64

record proc_info =
  proc_path :: "string option"
  proc_len :: u32
  proc_section :: u32
  proc_flags :: u32

definition proc_info_fresh :: proc_info where
  "proc_info_fresh = \<lparr>proc_path = None, proc_len = 0, proc_section = 0, proc_flags = 0\<rparr>"

text \<open>The flags of patches and processes.\<close>

definition BinaryModPatchFlags :: "enumerator list" where
  "BinaryModPatchFlags = [Init ''LocalOnly'' (Num 1)]"

definition ProcFlags :: "enumerator list" where
  "ProcFlags = [
    Init ''MatchExact'' (Num 0), Init ''MatchAny'' (Num 1), Init ''MatchPrefix'' (Num 2), Init ''MatchSuffix'' (Num 4),
    Init ''MatchMask'' (BitOr (BitOr (BitOr (Const ''MatchExact'') (Const ''MatchAny'')) (Const ''MatchPrefix'')) (Const ''MatchSuffix''))]"

definition SectionDisabled :: u32 where "SectionDisabled = 0"

text \<open>A process description that was not filled in is disabled and matches exactly.\<close>

lemma proc_info_fresh_disabled:
  "proc_section proc_info_fresh = SectionDisabled \<and> enum_value ProcFlags ''MatchExact'' = Some (uint (proc_flags proc_info_fresh)) \<and>
   enum_value ProcFlags ''MatchMask'' = Some 7"
  by (simp add: proc_info_fresh_def SectionDisabled_def ProcFlags_def enum_value_def enum_consts_def)

section \<open>Shared caches\<close>

definition SharedCacheMapHaswell :: string where "SharedCacheMapHaswell = ''/private/var/db/dyld/dyld_shared_cache_x86_64h.map''"
definition SharedCacheMapLegacy :: string where "SharedCacheMapLegacy = ''/private/var/db/dyld/dyld_shared_cache_x86_64.map''"
definition sharedCacheHaswell :: string where "sharedCacheHaswell = ''/private/var/db/dyld/dyld_shared_cache_x86_64h''"
definition sharedCacheLegacy :: string where "sharedCacheLegacy = ''/private/var/db/dyld/dyld_shared_cache_x86_64''"
definition bigSurSharedCacheMapHaswell :: string where "bigSurSharedCacheMapHaswell = ''/System/Library/dyld/dyld_shared_cache_x86_64h.map''"
definition bigSurSharedCacheMapLegacy :: string where "bigSurSharedCacheMapLegacy = ''/System/Library/dyld/dyld_shared_cache_x86_64.map''"
definition bigSurSharedCacheHaswell :: string where "bigSurSharedCacheHaswell = ''/System/Library/dyld/dyld_shared_cache_x86_64h''"
definition bigSurSharedCacheLegacy :: string where "bigSurSharedCacheLegacy = ''/System/Library/dyld/dyld_shared_cache_x86_64''"
definition venturaSharedCacheMapHaswell :: string where
  "venturaSharedCacheMapHaswell = ''/System/Volumes/Preboot/Cryptexes/OS/System/Library/dyld/dyld_shared_cache_x86_64h.map''"
definition venturaSharedCacheMapLegacy :: string where
  "venturaSharedCacheMapLegacy = ''/System/Volumes/Preboot/Cryptexes/OS/System/Library/dyld/dyld_shared_cache_x86_64.map''"
definition venturaSharedCacheHaswell :: string where
  "venturaSharedCacheHaswell = ''/System/Volumes/Preboot/Cryptexes/OS/System/Library/dyld/dyld_shared_cache_x86_64h''"
definition venturaSharedCacheLegacy :: string where
  "venturaSharedCacheLegacy = ''/System/Volumes/Preboot/Cryptexes/OS/System/Library/dyld/dyld_shared_cache_x86_64''"

text \<open>The map of a cache is next to it, the Haswell cache next to the legacy one, and Ventura has Big Sur's in a volume.\<close>

lemmas cache_paths = SharedCacheMapHaswell_def SharedCacheMapLegacy_def sharedCacheHaswell_def sharedCacheLegacy_def
  bigSurSharedCacheMapHaswell_def bigSurSharedCacheMapLegacy_def bigSurSharedCacheHaswell_def bigSurSharedCacheLegacy_def
  venturaSharedCacheMapHaswell_def venturaSharedCacheMapLegacy_def venturaSharedCacheHaswell_def venturaSharedCacheLegacy_def

lemma shared_cache_paths:
  "map (\<lambda>p. p @ ''.map'') [sharedCacheHaswell, sharedCacheLegacy, bigSurSharedCacheHaswell, bigSurSharedCacheLegacy,
      venturaSharedCacheHaswell, venturaSharedCacheLegacy]
    = [SharedCacheMapHaswell, SharedCacheMapLegacy, bigSurSharedCacheMapHaswell, bigSurSharedCacheMapLegacy,
      venturaSharedCacheMapHaswell, venturaSharedCacheMapLegacy] \<and>
   map (\<lambda>p. p @ ''h'') [sharedCacheLegacy, bigSurSharedCacheLegacy, venturaSharedCacheLegacy]
    = [sharedCacheHaswell, bigSurSharedCacheHaswell, venturaSharedCacheHaswell] \<and>
   venturaSharedCacheLegacy = ''/System/Volumes/Preboot/Cryptexes/OS'' @ bigSurSharedCacheLegacy"
  by (simp add: cache_paths)

section \<open>Lookup storage\<close>

record patch_ref =
  ref_i :: size_t
  pageOffs :: "u64 evec"
  segOffs :: "u64 evec"

text \<open>The vector of references holds the addresses of \<open>PatchRef\<close> objects.\<close>

record lookup_storage =
  ls_mod :: "binary_mod_info option"
  refs :: "nat evec"
  page :: "nat option"
  pageOff :: u64

definition patch_ref_create :: "nat option \<Rightarrow> ledger \<Rightarrow> (nat \<times> patch_ref) option \<times> ledger" where
  "patch_ref_create new L = (case new of None \<Rightarrow> (None, L)
     | Some a \<Rightarrow> (Some (a, \<lparr>ref_i = 0, pageOffs = ev_fresh {}, segOffs = ev_fresh {}\<rparr>), obtain_res KObject (Some a) L))"

definition patch_ref_deleter :: "(nat \<Rightarrow> patch_ref option) \<Rightarrow> nat \<Rightarrow> ledger \<Rightarrow> ledger option" where
  "patch_ref_deleter heap a L = do {
     r \<leftarrow> heap a;
     L \<leftarrow> deinit_in (pageOffs r) L;
     L \<leftarrow> deinit_in (segOffs r) L;
     release_res KObject a L
   }"

definition lookup_storage_deleter :: "(nat \<Rightarrow> patch_ref option) \<Rightarrow> nat \<Rightarrow> lookup_storage \<Rightarrow> ledger \<Rightarrow> ledger option" where
  "lookup_storage_deleter heap a p L = do {
     L \<leftarrow> (case page p of Some pg \<Rightarrow> release_res KPage pg L | None \<Rightarrow> Some L);
     L \<leftarrow> vec_deinit (patch_ref_deleter heap) (refs p) L;
     release_res KObject a L
   }"

text \<open>\<open>new\<close> and \<open>page_create\<close> are the answers of the allocator and of \<open>Page::create\<close>.\<close>

definition lookup_storage_create ::
    "nat option \<Rightarrow> nat option \<Rightarrow> ledger \<Rightarrow> ((nat \<times> lookup_storage) option \<times> ledger) option" where
  "lookup_storage_create new page_create L = (case new of
     None \<Rightarrow> Some (None, L)
   | Some a \<Rightarrow> (let L = obtain_res KObject (Some a) L;
         p = \<lparr>ls_mod = None, refs = ev_fresh {}, page = page_create, pageOff = 0\<rparr>;
         L = obtain_res KPage page_create L
       in if page p = None then do { L \<leftarrow> lookup_storage_deleter (\<lambda>_. None) a p L; Some (None, L) }
          else Some (Some (a, p), L)))"

section \<open>Ownership\<close>

text \<open>What a reference and a storage own, and which of them are well-formed.\<close>

definition ref_owns :: "(nat \<Rightarrow> patch_ref option) \<Rightarrow> nat \<Rightarrow> ledger" where
  "ref_owns heap a = (case heap a of None \<Rightarrow> {}
     | Some r \<Rightarrow> {(KObject, a)} \<union> block_of (pageOffs r) \<union> block_of (segOffs r))"

definition ref_ok :: "(nat \<Rightarrow> patch_ref option) \<Rightarrow> nat \<Rightarrow> bool" where
  "ref_ok heap a \<longleftrightarrow> (case heap a of None \<Rightarrow> False
     | Some r \<Rightarrow> vec_ok (pageOffs r) \<and> vec_ok (segOffs r) \<and> block_of (pageOffs r) \<inter> block_of (segOffs r) = {})"

lemma patch_ref_deleter_ok:
  assumes "ref_ok heap a" and "ref_owns heap a \<subseteq> L"
  shows "patch_ref_deleter heap a L = Some (L - ref_owns heap a)"
proof -
  from assms(1) obtain r where r: "heap a = Some r" "vec_ok (pageOffs r)" "vec_ok (segOffs r)"
    "block_of (pageOffs r) \<inter> block_of (segOffs r) = {}" by (auto simp: ref_ok_def split: option.splits)
  have own: "ref_owns heap a = {(KObject, a)} \<union> block_of (pageOffs r) \<union> block_of (segOffs r)"
    using r(1) by (simp add: ref_owns_def)
  have "deinit_in (pageOffs r) L = Some (L - block_of (pageOffs r))"
    using assms(2) own by (intro deinit_in_ok r) auto
  moreover have "deinit_in (segOffs r) (L - block_of (pageOffs r)) = Some (L - block_of (pageOffs r) - block_of (segOffs r))"
    using assms(2) own r(4) by (intro deinit_in_ok r) auto
  moreover have "(KObject, a) \<in> L - block_of (pageOffs r) - block_of (segOffs r)"
    using assms(2) own by (auto simp: block_of_def split: option.splits)
  ultimately show ?thesis using r(1) own by (simp add: patch_ref_deleter_def) blast
qed

interpretation ref: owned_objects "patch_ref_deleter heap" "ref_owns heap" "ref_ok heap"
  by unfold_locales (rule patch_ref_deleter_ok)

text \<open>
  A storage at \<open>a\<close> whose vector of references is well-formed, with references that are, and no two of
  these owners share a resource.
\<close>

definition storage_parts :: "(nat \<Rightarrow> patch_ref option) \<Rightarrow> nat \<Rightarrow> lookup_storage \<Rightarrow> ledger list" where
  "storage_parts heap a p = {(KObject, a)} # (case page p of None \<Rightarrow> {} | Some pg \<Rightarrow> {(KPage, pg)})
     # block_of (refs p) # map (ref_owns heap) (ev_list (refs p))"

definition storage_ok :: "(nat \<Rightarrow> patch_ref option) \<Rightarrow> nat \<Rightarrow> lookup_storage \<Rightarrow> bool" where
  "storage_ok heap a p \<longleftrightarrow> vec_ok (refs p) \<and> list_all (ref_ok heap) (ev_list (refs p)) \<and> apart (storage_parts heap a p)"

definition storage_owns :: "(nat \<Rightarrow> patch_ref option) \<Rightarrow> nat \<Rightarrow> lookup_storage \<Rightarrow> ledger" where
  "storage_owns heap a p = \<Union> (set (storage_parts heap a p))"

lemma storage_owns_parts:
  "storage_owns heap a p = {(KObject, a)} \<union> (case page p of None \<Rightarrow> {} | Some pg \<Rightarrow> {(KPage, pg)}) \<union>
    (block_of (refs p) \<union> (\<Union>a \<in> set (ev_list (refs p)). ref_owns heap a))"
  by (simp add: storage_owns_def storage_parts_def Un_assoc)

lemma storage_deleter_ok:
  assumes ok: "storage_ok heap a p" and own: "storage_owns heap a p \<subseteq> L"
  shows "lookup_storage_deleter heap a p L = Some (L - storage_owns heap a p)"
proof -
  let ?pg = "case page p of None \<Rightarrow> {} | Some pg \<Rightarrow> {(KPage, pg)}" and ?b = "block_of (refs p)"
    and ?R = "\<Union>a \<in> set (ev_list (refs p)). ref_owns heap a"
  have v: "vec_ok (refs p)" and r: "list_all (ref_ok heap) (ev_list (refs p))"
    using ok by (simp_all add: storage_ok_def)
  have sep: "apart ({(KObject, a)} # ?pg # ?b # map (ref_owns heap) (ev_list (refs p)))"
    using ok unfolding storage_ok_def storage_parts_def by blast
  then have ap: "apart (?b # map (ref_owns heap) (ev_list (refs p)))" by simp
  have d: "(KObject, a) \<notin> ?R" "?pg \<inter> (?b \<union> ?R) = {}" using sep by (simp_all add: list_all_iff Int_Un_distrib Int_UN_distrib)
  have o: "(KObject, a) \<notin> ?pg" "(KObject, a) \<notin> ?b" by (auto simp: block_of_def split: option.splits)
  have all: "storage_owns heap a p = {(KObject, a)} \<union> ?pg \<union> (?b \<union> ?R)" by (rule storage_owns_parts)
  have "(case page p of Some pg \<Rightarrow> release_res KPage pg L | None \<Rightarrow> Some L) = Some (L - ?pg)"
    using own unfolding all by (cases "page p") simp_all
  moreover have "vec_deinit (patch_ref_deleter heap) (refs p) (L - ?pg) = Some (L - ?pg - (?b \<union> ?R))"
    using own d(2) unfolding all by (intro ref.vec_deinit_ok [OF v r ap]) blast
  moreover have "(KObject, a) \<in> L - ?pg - (?b \<union> ?R)" using own d(1) o unfolding all by blast
  moreover have "L - ?pg - (?b \<union> ?R) - {(KObject, a)} = L - storage_owns heap a p" unfolding all by blast
  ultimately show ?thesis by (simp add: lookup_storage_deleter_def)
qed

text \<open>C18: Deleting a lookup storage gives back its page, the vectors of its references, the references, the
  vector that holds them and the storage itself, each exactly once, and nothing else; and
  \<open>LookupStorage::create\<close> either hands out a storage that deleting returns to where it began, or fails and leaves
  nothing behind.\<close>

theorem lookup_storage_releases_all:
  assumes "storage_ok heap a p" and "storage_owns heap a p \<subseteq> L"
    and "\<forall>k. (KObject, x) \<notin> M \<and> (KPage, k) \<notin> M"
  shows "lookup_storage_deleter heap a p L = Some (L - storage_owns heap a p) \<and>
    (case lookup_storage_create (Some x) pg M of
       Some (None, M') \<Rightarrow> pg = None \<and> M' = M
     | Some (Some (y, q), M') \<Rightarrow> y = x \<and> page q = pg \<and> pg \<noteq> None \<and> lookup_storage_deleter heap y q M' = Some M
     | None \<Rightarrow> False)"
proof -
  let ?q = "\<lparr>ls_mod = None, refs = ev_fresh {}, page = pg, pageOff = 0\<rparr>"
  have q: "storage_ok h x ?q" "storage_owns h x ?q = {(KObject, x)} \<union> (case pg of None \<Rightarrow> {} | Some k \<Rightarrow> {(KPage, k)})" for h
    by (auto simp: storage_ok_def storage_owns_def storage_parts_def split: option.split)
  have "lookup_storage_deleter h x ?q (obtain_res KPage pg (obtain_res KObject (Some x) M)) = Some M" for h
    using storage_deleter_ok [OF q(1), of h "obtain_res KPage pg (obtain_res KObject (Some x) M)"] q(2) [of h] assms(3)
    by (cases pg) (auto simp: obtain_res_def insert_Diff_if)
  then show ?thesis
    using storage_deleter_ok [OF assms(1,2)] by (cases pg) (auto simp: lookup_storage_create_def Let_def)
qed

text \<open>A storage with one reference, which has one page offset.\<close>

definition sample_heap :: "nat \<Rightarrow> patch_ref option" where
  "sample_heap = [20 \<mapsto> \<lparr>ref_i = 0,
     pageOffs = \<lparr>ptr = Some (31, [Some 64]), cnt = 1, rsvd = 1, held = {}, destroyed = []\<rparr>, segOffs = ev_fresh {}\<rparr>]"

definition sample_storage :: lookup_storage where
  "sample_storage = \<lparr>ls_mod = None, refs = \<lparr>ptr = Some (30, [Some 20]), cnt = 1, rsvd = 1, held = {}, destroyed = []\<rparr>,
     page = Some 7, pageOff = 0\<rparr>"

lemma sample_storage_ok:
  "storage_ok sample_heap 10 sample_storage \<and>
   storage_owns sample_heap 10 sample_storage = {(KObject, 10), (KPage, 7), (KMemory, 30), (KObject, 20), (KMemory, 31)}"
proof -
  have parts: "storage_parts sample_heap 10 sample_storage =
      [{(KObject, 10)}, {(KPage, 7)}, {(KMemory, 30)}, {(KObject, 20), (KMemory, 31)}]"
    by (auto simp: storage_parts_def sample_storage_def sample_heap_def block_of_def ref_owns_def ev_list_def
        ev_block_def ev_fresh_def)
  have "ref_ok sample_heap 20"
    using vec_ok_one [of 31 "64 :: u64"] by (simp add: ref_ok_def sample_heap_def)
  then have "storage_ok sample_heap 10 sample_storage"
    using vec_ok_one [of 30 "20 :: nat"] parts
    by (simp add: storage_ok_def sample_storage_def ev_list_def ev_block_def)
  moreover have "storage_owns sample_heap 10 sample_storage
      = {(KObject, 10), (KPage, 7), (KMemory, 30), (KObject, 20), (KMemory, 31)}"
    unfolding storage_owns_def parts by auto
  ultimately show ?thesis by blast
qed

theorem lookup_storage_releases_all_witness:
  "lookup_storage_deleter sample_heap 10 sample_storage
     {(KObject, 10), (KPage, 7), (KMemory, 30), (KObject, 20), (KMemory, 31), (KLock, 1)} = Some {(KLock, 1)}"
  using conjunct1 [OF lookup_storage_releases_all [where heap = sample_heap and a = 10 and p = sample_storage
      and x = 1 and M = "{}" and pg = None
      and L = "{(KObject, 10), (KPage, 7), (KMemory, 30), (KObject, 20), (KMemory, 31), (KLock, 1)}"]] sample_storage_ok
  by (simp add: insert_Diff_if)

section \<open>The vector of storages\<close>

text \<open>
  \<open>lookupStorage\<close> is a vector of storages that it owns: three levels of vectors. \<open>storages\<close> and \<open>heap\<close> hold the
  objects by address.
\<close>

definition storage_at_deleter :: "(nat \<Rightarrow> patch_ref option) \<Rightarrow> (nat \<Rightarrow> lookup_storage option) \<Rightarrow> nat \<Rightarrow> ledger \<Rightarrow> ledger option" where
  "storage_at_deleter heap storages a L = do { p \<leftarrow> storages a; lookup_storage_deleter heap a p L }"

definition lookupStorage_deinit ::
    "(nat \<Rightarrow> patch_ref option) \<Rightarrow> (nat \<Rightarrow> lookup_storage option) \<Rightarrow> nat evec \<Rightarrow> ledger \<Rightarrow> ledger option" where
  "lookupStorage_deinit heap storages v L = vec_deinit (storage_at_deleter heap storages) v L"

definition storage_at_owns :: "(nat \<Rightarrow> patch_ref option) \<Rightarrow> (nat \<Rightarrow> lookup_storage option) \<Rightarrow> nat \<Rightarrow> ledger" where
  "storage_at_owns heap storages a = (case storages a of None \<Rightarrow> {} | Some p \<Rightarrow> storage_owns heap a p)"

definition storage_at_ok :: "(nat \<Rightarrow> patch_ref option) \<Rightarrow> (nat \<Rightarrow> lookup_storage option) \<Rightarrow> nat \<Rightarrow> bool" where
  "storage_at_ok heap storages a = (case storages a of None \<Rightarrow> False | Some p \<Rightarrow> storage_ok heap a p)"

interpretation lookups: owned_objects "storage_at_deleter heap storages" "storage_at_owns heap storages" "storage_at_ok heap storages"
  by unfold_locales
    (auto simp: storage_at_deleter_def storage_at_owns_def storage_at_ok_def storage_deleter_ok split: option.splits)

text \<open>C17: \<open>deinit\<close> of the vector of lookup storages gives back everything below it, the pages, the references, their
  vectors and the vectors that hold them, each exactly once, and nothing else.\<close>

theorem lookupStorage_deinit_releases_all:
  assumes "vec_ok v" and "list_all (storage_at_ok heap storages) (ev_list v)"
    and "apart (block_of v # map (storage_at_owns heap storages) (ev_list v))"
    and "block_of v \<union> (\<Union>a \<in> set (ev_list v). storage_at_owns heap storages a) \<subseteq> L"
  shows "lookupStorage_deinit heap storages v L
    = Some (L - (block_of v \<union> (\<Union>a \<in> set (ev_list v). storage_at_owns heap storages a)))"
  unfolding lookupStorage_deinit_def using assms by (rule lookups.vec_deinit_ok)

definition sample_vector :: "nat evec" where
  "sample_vector = \<lparr>ptr = Some (40, [Some 10]), cnt = 1, rsvd = 1, held = {}, destroyed = []\<rparr>"

theorem lookupStorage_deinit_releases_all_witness:
  "lookupStorage_deinit sample_heap [10 \<mapsto> sample_storage] sample_vector
     {(KMemory, 40), (KObject, 10), (KPage, 7), (KMemory, 30), (KObject, 20), (KMemory, 31), (KLock, 1)} = Some {(KLock, 1)}"
proof -
  have v: "vec_ok sample_vector" "ev_list sample_vector = [10]" "block_of sample_vector = {(KMemory, 40)}"
    using vec_ok_one by (auto simp: sample_vector_def ev_list_def ev_block_def block_of_def)
  have s: "storage_at_owns sample_heap [10 \<mapsto> sample_storage] 10
      = {(KObject, 10), (KPage, 7), (KMemory, 30), (KObject, 20), (KMemory, 31)}"
    "storage_at_ok sample_heap [10 \<mapsto> sample_storage] 10"
    using sample_storage_ok by (simp_all add: storage_at_owns_def storage_at_ok_def)
  show ?thesis
    using lookupStorage_deinit_releases_all [OF v(1), of sample_heap "[10 \<mapsto> sample_storage]"
        "{(KMemory, 40), (KObject, 10), (KPage, 7), (KMemory, 30), (KObject, 20), (KMemory, 31), (KLock, 1)}"]
    unfolding v(2,3) by (simp add: s insert_Diff_if)
qed

end
