(* ===== verification/Class_State.thy ===== *)
theory Class_State
  imports User_Patcher Patcher Patch_Requests Thread_Local
begin

text \<open>
  The data members of Lilu's classes and what construction makes of them: \<open>KernelPatcher\<close>, \<open>UserPatcher\<close>, \<open>LiluAPI\<close>,
  \<open>NVStorage\<close>, \<open>EfiRuntimeServices\<close>, \<open>RTCStorage\<close> and \<open>Disassembler\<close>, with \<open>Page\<close> and
  \<open>PendingUser\<close>. Their functions are in the compiled kext, but the containers among the members are those of the
  other theories: the objects start in states from which every operation of these is defined. Pointers to
  functions and objects are addresses, None the null pointer.
\<close>

section \<open>Pages and pending entries\<close>

record page =
  p :: "nat option"

definition page_fresh :: page where
  "page_fresh = \<lparr>p = None\<rparr>"

text \<open>\<open>n\<close> is \<open>MAXPATHLEN\<close>.\<close>

record pending_user =
  path :: "u8 list"
  pathLen :: u32

definition pending_user_fresh :: "nat \<Rightarrow> pending_user" where
  "pending_user_fresh n = \<lparr>path = replicate n 0, pathLen = 0\<rparr>"

section \<open>KernelPatcher\<close>

definition KernelID :: size_t where "KernelID = 0"
definition KernelAny :: u32 where "KernelAny = 0"
definition INVALID :: size_t where "INVALID = 0"

text \<open>
  The members of the class in a build with \<open>LILU_KEXTPATCH_SUPPORT\<close>, which \<open>kern_config.hpp\<close> defines; without it the kext members
  (\<open>kextKmods\<close>, the three trampolines, \<open>khandlers\<close> and the two flags after it) are not there. \<open>orgKmodCreateInternal\<close> is on
  i386 only, and no initialiser sets the bytes of the union \<open>patch\<close>.
\<close>

record kernel_patcher =
  tempExecutableMemoryOff :: size_t
  activated :: bool
  kextKmods :: "nat option"
  orgOSKextUnload :: mach_addr
  orgOSKextSaveLoadedKextPanicList :: mach_addr
  orgKmodCreateInternal :: "mach_addr option"
  prelinkInfo :: "nat option"
  kinfos :: "nat evec"
  kpatches :: "nat evec"
  khandlers :: "nat evec"
  waitingForAlreadyLoadedKexts :: bool
  isKextUnloading :: bool
  code :: patcher_error
  patch :: "u8 list"

definition KernelPatcher_new :: "bool \<Rightarrow> u8 list \<Rightarrow> kernel_patcher" where
  "KernelPatcher_new i386 bytes = \<lparr>tempExecutableMemoryOff = 0, activated = False, kextKmods = None, orgOSKextUnload = 0,
     orgOSKextSaveLoadedKextPanicList = 0, orgKmodCreateInternal = (if i386 then Some 0 else None), prelinkInfo = None,
     kinfos = ev_fresh {}, kpatches = ev_fresh {}, khandlers = ev_fresh {}, waitingForAlreadyLoadedKexts = False,
     isKextUnloading = False, code = NoError, patch = bytes\<rparr>"

text \<open>The static buffer for executable code.\<close>

definition tempExecutableMemory :: "u8 list" where
  "tempExecutableMemory = replicate (unat TempExecutableMemorySize) 0"

section \<open>LiluAPI\<close>

text \<open>The five vectors of pairs and the two vectors of pointers that are not owned.\<close>

record lilu_api =
  access :: "nat option"
  currentRunMode :: u32
  apiRequestsOver :: bool
  patcherLoadedCallbacks :: "nat evec"
  kextLoadedCallbacks :: "nat evec"
  binaryLoadedCallbacks :: "nat evec"
  entitlementRequestedCallbacks :: "nat evec"
  storedKexts :: "nat evec"
  storedProcs :: "nat evec"
  storedBinaryMods :: "nat evec"
  orgCopyClientEntitlement :: "nat option"

definition LiluAPI_new :: lilu_api where
  "LiluAPI_new = \<lparr>access = None, currentRunMode = 0, apiRequestsOver = False, patcherLoadedCallbacks = ev_fresh {},
     kextLoadedCallbacks = ev_fresh {}, binaryLoadedCallbacks = ev_fresh {}, entitlementRequestedCallbacks = ev_fresh {},
     storedKexts = ev_fresh {}, storedProcs = ev_fresh {}, storedBinaryMods = ev_fresh {}, orgCopyClientEntitlement = None\<rparr>"

section \<open>UserPatcher\<close>

text \<open>
  The segment commands that \<open>injectRestrict\<close> adds to a process are aggregates; an initialiser is a number or the
  text of the name. The command number, the size of the structure and the base of the shared region come from
  the system's headers.
\<close>

datatype initialiser = Number nat | Text string

definition restrictSegment64 :: "nat \<Rightarrow> nat \<Rightarrow> nat \<Rightarrow> initialiser list" where
  "restrictSegment64 LC_SEGMENT_64 sz base = [Number LC_SEGMENT_64, Number sz, Text ''__RESTRICT'', Number base,
     Number 1, Number 0, Number 0, Number 0, Number 0, Number 0, Number 0]"

definition restrictSegment32 :: "nat \<Rightarrow> nat \<Rightarrow> nat \<Rightarrow> initialiser list" where
  "restrictSegment32 LC_SEGMENT sz base = [Number LC_SEGMENT, Number sz, Text ''__RESTRICT'', Number base,
     Number 1, Number 0, Number 0, Number 0, Number 0, Number 0, Number 0]"

record lookup_state =
  offs :: "u32 list"
  c :: "u64 evec list"

definition matchNum :: nat where "matchNum = 4"

definition lookup_fresh :: lookup_state where
  "lookup_fresh = \<lparr>offs = replicate 4 0, c = replicate matchNum (ev_fresh {})\<rparr>"

text \<open>The trampolines of hooked functions, what was requested, and the rest of the members.\<close>

record user_hooks =
  orgCodeSignValidatePageWrapper :: mach_addr
  orgCodeSignValidateRangeWrapper :: mach_addr
  orgVmSharedRegionMapFile :: mach_addr
  orgVmSharedRegionSlide :: mach_addr
  orgVmSharedRegionSlideMojave :: mach_addr
  orgCurrentMap :: "nat option"
  orgGetMapMin :: "nat option"
  orgGetTaskMap :: "nat option"
  orgVmMapSwitchProtect :: "nat option"
  orgVmMapCheckProtection :: "nat option"
  orgVmMapReadUser :: "nat option"
  orgVmMapWriteUser :: "nat option"
  orgTaskSetMainThreadQos :: mach_addr

record user_requests = user_hooks +
  storedSharedCacheSlide :: u32
  sharedCacheSlideStored :: bool
  patchDyldSharedCache :: bool
  kernel_patcher :: "nat option"
  pending :: "nat option tls"
  currentMinProcLength :: u32
  binaryMod :: "nat option"
  binaryModSize :: size_t
  procInfo :: "nat option"
  procInfoSize :: size_t
  userCallback :: "(nat option, nat option) ppair"

record user_patcher = user_requests +
  lookupStorage :: "nat evec"
  lookup_state :: lookup_state
  tmpBufferData :: "u8 list"
  listener :: "nat option"
  activated :: bool
  cookie :: "nat option"
  csFlagsOffset :: size_t

text \<open>\<open>page_size\<close> is \<open>PAGE_SIZE\<close>.\<close>

definition UserPatcher_new :: "nat \<Rightarrow> user_patcher" where
  "UserPatcher_new page_size = \<lparr>orgCodeSignValidatePageWrapper = 0, orgCodeSignValidateRangeWrapper = 0,
     orgVmSharedRegionMapFile = 0, orgVmSharedRegionSlide = 0, orgVmSharedRegionSlideMojave = 0, orgCurrentMap = None,
     orgGetMapMin = None, orgGetTaskMap = None, orgVmMapSwitchProtect = None, orgVmMapCheckProtection = None,
     orgVmMapReadUser = None, orgVmMapWriteUser = None, orgTaskSetMainThreadQos = 0,
     storedSharedCacheSlide = 0, sharedCacheSlideStored = False, patchDyldSharedCache = False, kernel_patcher = None,
     pending = tl_init None 32, currentMinProcLength = 0, binaryMod = None, binaryModSize = 0, procInfo = None,
     procInfoSize = 0, userCallback = \<lparr>first = None, second = None\<rparr>, lookupStorage = ev_fresh {}, lookup_state = lookup_fresh,
     tmpBufferData = replicate (page_size * 3) 0, listener = None, activated = False, cookie = None, csFlagsOffset = 0\<rparr>"

section \<open>Services\<close>

record nv_storage =
  dtEntry :: "nat option"

definition NVStorage_new :: nv_storage where
  "NVStorage_new = \<lparr>dtEntry = None\<rparr>"

record efi_runtime_services =
  accessLock :: "nat option"
  is32BitEFI :: bool
  efiRuntimeServices :: "nat option"

definition EfiRuntimeServices_new :: efi_runtime_services where
  "EfiRuntimeServices_new = \<lparr>accessLock = None, is32BitEFI = False, efiRuntimeServices = None\<rparr>"

record rtc_storage =
  rtcSrv :: "nat option"

definition RTCStorage_new :: rtc_storage where
  "RTCStorage_new = \<lparr>rtcSrv = None\<rparr>"

record disassembler =
  initialised :: bool
  handle :: size_t

definition MaxInstruction :: size_t where "MaxInstruction = 15"

definition Disassembler_new :: disassembler where
  "Disassembler_new = \<lparr>initialised = False, handle = 0\<rparr>"

section \<open>Containers at construction\<close>

definition kernel_vectors :: "kernel_patcher \<Rightarrow> nat evec list" where
  "kernel_vectors k = [kinfos k, kpatches k, khandlers k]"

definition api_vectors :: "lilu_api \<Rightarrow> nat evec list" where
  "api_vectors a = [patcherLoadedCallbacks a, kextLoadedCallbacks a, binaryLoadedCallbacks a, entitlementRequestedCallbacks a,
     storedKexts a, storedProcs a, storedBinaryMods a]"

text \<open>An empty vector that can be filled and torn down, whatever its deleter is, without anything being given back.\<close>

definition empty_vector :: "'a evec \<Rightarrow> bool" where
  "empty_vector v \<longleftrightarrow> vec_ok v \<and> ev_list v = [] \<and> ev_size v = 0 \<and> block_of v = {}"

lemma empty_vector_fresh [simp]: "empty_vector (ev_fresh {})"
  by (simp add: empty_vector_def) (simp add: ev_list_def ev_block_def ev_size_def ev_fresh_def)

lemma empty_vector_deinit:
  assumes "empty_vector v"
  shows "vec_deinit del v L = Some L"
proof -
  have v: "vec_ok v" "block_of v \<subseteq> L" using assms by (simp_all add: empty_vector_def)
  obtain v' where "ev_deinit (v\<lparr>held := L, destroyed := []\<rparr>) = Some v'" "held v' = L - block_of v" "destroyed v' = ev_list v"
    by (rule ev_deinit_shared [OF v])
  with deinit_in_ok [OF v] assms show ?thesis by (simp add: vec_deinit_def empty_vector_def)
qed

lemma tl_init_empty: "tl_map (tl_init dflt N) = Map.empty"
  by (simp add: fun_eq_iff tl_map_def tl_init_def)

text \<open>Construction establishes the invariants of the containers: every vector of a new \<open>KernelPatcher\<close>, \<open>LiluAPI\<close> and
  \<open>UserPatcher\<close> is empty and may be deinitialised at once, and the 32 slots for pending callbacks are free.\<close>

lemma new_objects_are_usable:
  "let k = KernelPatcher_new i386 bytes; u = UserPatcher_new page_size; vectors = lookupStorage u # kernel_vectors k @ api_vectors LiluAPI_new in
   list_all (\<lambda>v. empty_vector v \<and> vec_deinit del v L = Some L) vectors \<and>
   list_all (\<lambda>v. empty_vector v \<and> vec_deinit emptyDeleter v L = Some L) (c (lookup_state u)) \<and>
   tl_inv None 32 (pending u) \<and> threads (pending u) = replicate 32 None \<and> tl_map (pending u) = Map.empty"
proof -
  have "pending (UserPatcher_new page_size) = tl_init None 32" by (simp add: UserPatcher_new_def)
  then have pending: "tl_inv None 32 (pending (UserPatcher_new page_size))"
    "threads (pending (UserPatcher_new page_size)) = replicate 32 None" "tl_map (pending (UserPatcher_new page_size)) = Map.empty"
    using tl_inv_init [of None 32] by (simp_all add: tl_init_empty) (simp add: tl_init_def)
  have "list_all (\<lambda>v. empty_vector v \<and> vec_deinit emptyDeleter v L = Some L) (c (lookup_state (UserPatcher_new page_size)))"
    by (simp add: UserPatcher_new_def lookup_fresh_def list_all_iff empty_vector_deinit)
  then show ?thesis
    using pending by (simp add: Let_def KernelPatcher_new_def UserPatcher_new_def LiluAPI_new_def
      kernel_vectors_def api_vectors_def empty_vector_deinit)
qed

text \<open>A restricting segment names eleven members, of which the size of one byte hides the shared cache.\<close>

lemma restrict_segments:
  "length (restrictSegment64 lc sz base) = 11 \<and> restrictSegment32 lc sz base = restrictSegment64 lc sz base"
  by (simp add: restrictSegment64_def restrictSegment32_def)

end
