(* ===== verification/IOKit_Data.thy ===== *)
theory IOKit_Data
  imports C_Enum
begin

text \<open>
  The namespace \<open>WIOKit\<close> (\<open>kern_iokit.hpp\<close>): reading typed values out of the data objects of the I/O registry,
  and its tables of identifiers. The registry itself is a parameter.
\<close>

text \<open>The largest number of entries a search of the registry looks at.\<close>

definition bruteMax :: u64 where "bruteMax = 40000000"

section \<open>Typed data\<close>

text \<open>An object is data, with its bytes, or something else.\<close>

datatype os_object = OSData "u8 list" | OtherObject

text \<open>The value of \<open>sizeof(T)\<close> bytes in memory order, least significant first as on x86.\<close>

fun bytes_value :: "u8 list \<Rightarrow> 'w::len word" where
  "bytes_value [] = 0"
| "bytes_value (b # bs) = ucast b OR push_bit 8 (bytes_value bs)"

definition value_bytes :: "'w::len word \<Rightarrow> u8 list" where
  "value_bytes w = map (\<lambda>i. ucast (drop_bit (8 * i) w)) [0..<LENGTH('w) div 8]"

text \<open>
  The result is the returned flag and the new value of the reference parameter. \<open>sizeof(T)\<close> is the
  number of bytes of the type.
\<close>

definition getOSDataValue :: "os_object option \<Rightarrow> 'w::len word \<Rightarrow> bool \<times> 'w word" where
  "getOSDataValue obj v = (case obj of
     Some (OSData bytes) \<Rightarrow> if length bytes = LENGTH('w) div 8 then (True, bytes_value bytes) else (False, v)
   | Some OtherObject \<Rightarrow> (False, v)
   | None \<Rightarrow> (False, v))"

text \<open>Through a temporary of type \<open>AS\<close> (\<open>tmp\<close> is its uninitialised value).\<close>

definition getOSDataValue_as :: "'as::len word \<Rightarrow> os_object option \<Rightarrow> 'w::len word \<Rightarrow> bool \<times> 'w word" where
  "getOSDataValue_as tmp obj v =
     (let (ok, tmp) = getOSDataValue obj tmp in if ok then (True, ucast tmp) else (False, v))"

text \<open>From a registry entry or a dictionary, which map names to objects.\<close>

definition getOSDataValue_named :: "(string \<Rightarrow> os_object option) \<Rightarrow> string \<Rightarrow> 'w::len word \<Rightarrow> bool \<times> 'w word" where
  "getOSDataValue_named get name v = getOSDataValue (get name) v"

definition getOSDataValue_named_as ::
    "'as::len word \<Rightarrow> (string \<Rightarrow> os_object option) \<Rightarrow> string \<Rightarrow> 'w::len word \<Rightarrow> bool \<times> 'w word" where
  "getOSDataValue_named_as tmp get name v = getOSDataValue_as tmp (get name) v"

lemma bit_bytes_value:
  "bit (bytes_value bs :: 'w::len word) n \<longleftrightarrow> n < LENGTH('w) \<and> n < 8 * length bs \<and> bit (bs ! (n div 8)) (n mod 8)"
proof (induction bs arbitrary: n)
  case (Cons b bs)
  show ?case
  proof (cases "n < 8")
    case True
    then show ?thesis using Cons by (auto simp: bit_simps)
  next
    case False
    then have "n div 8 = Suc ((n - 8) div 8)" "n mod 8 = (n - 8) mod 8" by (simp_all add: div_if mod_if)
    with False Cons [of "n - 8"] show ?thesis
      by (auto simp: bit_simps dest: bit_imp_le_length)
  qed
qed simp

lemma bytes_value_bytes:
  assumes "8 dvd LENGTH('w)"
  shows "bytes_value (value_bytes (w :: 'w::len word)) = w"
proof (rule bit_word_eqI)
  fix n assume n: "n < LENGTH('w)"
  with assms have "n div 8 < LENGTH('w) div 8" by (auto elim!: dvdE)
  moreover have "8 * (n div 8) + n mod 8 = n" by simp
  ultimately show "bit (bytes_value (value_bytes w) :: 'w word) n = bit w n"
    using n assms by (auto simp: bit_bytes_value value_bytes_def bit_simps)
qed

lemma value_bytes_value:
  assumes "length bs = LENGTH('w) div 8" and "8 dvd LENGTH('w)"
  shows "value_bytes (bytes_value bs :: 'w::len word) = bs"
proof (rule nth_equalityI)
  show len: "length (value_bytes (bytes_value bs :: 'w word)) = length bs" using assms by (simp add: value_bytes_def)
  fix i assume "i < length (value_bytes (bytes_value bs :: 'w word))"
  then have i: "i < length bs" using len by simp
  have "bit (ucast (drop_bit (8 * i) (bytes_value bs :: 'w word)) :: u8) k = bit (bs ! i) k" if "k < 8" for k
    using that i assms by (auto simp: bit_simps bit_bytes_value elim!: dvdE)
  then have "ucast (drop_bit (8 * i) (bytes_value bs :: 'w word)) = bs ! i" by (intro bit_word_eqI) simp
  then show "value_bytes (bytes_value bs :: 'w word) ! i = bs ! i" using i assms by (simp add: value_bytes_def)
qed

text \<open>C29: For a type of whole bytes, a read succeeds exactly when the object is data of the size of the
  type. It then yields the one value whose bytes in memory are those of the object; otherwise the
  variable is left as it was. What was stored as a value reads back as that value.\<close>

theorem getOSDataValue_reads_bytes:
  fixes v w :: "'w::len word"
  assumes "8 dvd LENGTH('w)"
  shows "(case getOSDataValue obj v of
      (ok, u) \<Rightarrow> if ok then obj = Some (OSData (value_bytes u)) else u = v \<and> (\<forall>x :: 'w word. obj \<noteq> Some (OSData (value_bytes x)))) \<and>
    getOSDataValue (Some (OSData (value_bytes w))) v = (True, w)"
proof -
  have len: "length (value_bytes (x :: 'w word)) = LENGTH('w) div 8" for x by (simp add: value_bytes_def)
  show ?thesis
    using value_bytes_value [where 'w = 'w, OF _ assms] bytes_value_bytes [OF assms]
    by (auto simp: getOSDataValue_def len split: option.split os_object.split)
qed

theorem getOSDataValue_reads_bytes_witness:
  "getOSDataValue (Some (OSData (value_bytes (0x80860000 :: u32)))) (0 :: u32) = (True, 0x80860000)"
proof -
  have "8 dvd LENGTH(32)" by simp
  from conjunct2 [OF getOSDataValue_reads_bytes [OF this, of None 0 "0x80860000"]] show ?thesis .
qed

section \<open>Tables\<close>

definition ComputerModel :: "enumerator list" where
  "ComputerModel = [
    Init ''ComputerInvalid'' (Num 0), Init ''ComputerLaptop'' (Num 1), Init ''ComputerDesktop'' (Num 2),
    Init ''ComputerAny'' (BitOr (Const ''ComputerLaptop'') (Const ''ComputerDesktop''))]"

definition VendorID :: "enumerator list" where
  "VendorID = [
    Init ''ATIAMD'' (Num 4098), Init ''AMDZEN'' (Num 4130), Init ''NVIDIA'' (Num 4318),
    Init ''Intel'' (Num 32902), Init ''VMware'' (Num 5549), Init ''QEMU'' (Num 6966)]"

definition ClassCode :: "enumerator list" where
  "ClassCode = [
    Init ''VGAController'' (Num 196608), Init ''XGAController'' (Num 196864),
    Init ''Ex3DController'' (Num 197120), Init ''DisplayController'' (Num 229376),
    Init ''PCIBridge'' (Num 394240), Init ''HDAMmDevice'' (Num 262400), Init ''HDADevice'' (Num 262912),
    Init ''IMEI'' (Num 491520), Init ''PCISubclassMask'' (Num 16776960)]"

definition PCIRegister :: "enumerator list" where
  "PCIRegister = [
    Init ''kIOPCIConfigVendorID'' (Num 0), Init ''kIOPCIConfigDeviceID'' (Num 2),
    Init ''kIOPCIConfigCommand'' (Num 4), Init ''kIOPCIConfigStatus'' (Num 6),
    Init ''kIOPCIConfigRevisionID'' (Num 8), Init ''kIOPCIConfigClassCode'' (Num 9),
    Init ''kIOPCIConfigCacheLineSize'' (Num 12), Init ''kIOPCIConfigLatencyTimer'' (Num 13),
    Init ''kIOPCIConfigHeaderType'' (Num 14), Init ''kIOPCIConfigBIST'' (Num 15),
    Init ''kIOPCIConfigBaseAddress0'' (Num 16), Init ''kIOPCIConfigBaseAddress1'' (Num 20),
    Init ''kIOPCIConfigBaseAddress2'' (Num 24), Init ''kIOPCIConfigBaseAddress3'' (Num 28),
    Init ''kIOPCIConfigBaseAddress4'' (Num 32), Init ''kIOPCIConfigBaseAddress5'' (Num 36),
    Init ''kIOPCIConfigCardBusCISPtr'' (Num 40), Init ''kIOPCIConfigSubSystemVendorID'' (Num 44),
    Init ''kIOPCIConfigSubSystemID'' (Num 46), Init ''kIOPCIConfigExpansionROMBase'' (Num 48),
    Init ''kIOPCIConfigCapabilitiesPtr'' (Num 52), Init ''kIOPCIConfigInterruptLine'' (Num 60),
    Init ''kIOPCIConfigInterruptPin'' (Num 61), Init ''kIOPCIConfigMinimumGrant'' (Num 62),
    Init ''kIOPCIConfigMaximumLatency'' (Num 63), Init ''kIOPCIConfigGraphicsControl'' (Num 80)]"

definition PCIConfigOffset :: "enumerator list" where
  "PCIConfigOffset = [
    Init ''ConfigRead32'' (Num 266), Init ''ConfigWrite32'' (Num 267), Init ''ConfigRead16'' (Num 268),
    Init ''ConfigWrite16'' (Num 269), Init ''ConfigRead8'' (Num 270), Init ''ConfigWrite8'' (Num 271),
    Init ''GetBusNumber'' (Num 285), Init ''GetDeviceNumber'' (Num 286),
    Init ''GetFunctionNumber'' (Num 287)]"

lemma ComputerAny_value: "enum_value ComputerModel ''ComputerAny'' = Some 3"
  by (simp add: enum_value_def enum_consts_def ComputerModel_def or_int_unfold)

end
