(* ===== verification/Device_Info.thy ===== *)
theory Device_Info
  imports Cpu_Info IOKit_Data
begin

text \<open>
  The tables of \<open>DeviceInfo\<close> and \<open>BaseDeviceInfo\<close> (\<open>kern_devinfo.hpp\<close>): the names of the boot arguments and properties
  that configure devices, the platform identifiers of Intel graphics and the vendors. The functions that read
  them are declared only. The layouts of the structures are in \<open>Structures\<close>.
\<close>

section \<open>Configuration names\<close>

definition DefaultReportedLayoutId :: u32 where "DefaultReportedLayoutId = 7"

definition ReportedLayoutIdArg :: string where "ReportedLayoutIdArg = ''alcapplid''"
definition ReportedLayoutIdName :: string where "ReportedLayoutIdName = ''apple-layout-id''"

definition boot_args :: "(string \<times> string) list" where
  "boot_args = [
    (''ReportedFrameIdArg'', ''igfxframe''), (''ReportedVesaIdArg'', ''-igfxvesa''),
    (''RequestedExternalSwitchOffArg'', ''-wegnoegpu''), (''RequestedInternalSwitchOffArg'', ''-wegnoigpu''),
    (''RequestedGpuSwitchArg'', ''-wegswitchgpu'')]"

definition device_properties :: "(string \<times> string) list" where
  "device_properties = [
    (''ReportedFrameIdName'', ''AAPL,ig-platform-id''), (''ReportedFrameIdLegacyName'', ''AAPL,snb-platform-id''),
    (''RequestedExternalSwitchOffName'', ''disable-external-gpu''), (''RequestedGpuSwitchName'', ''switch-to-external-gpu''),
    (''RequestedGpuSwitchOffName'', ''disable-gpu''), (''RequestedGpuSwitchOffMinKernelName'', ''disable-gpu-min''),
    (''RequestedGpuSwitchOffMaxKernelName'', ''disable-gpu-max'')]"

section \<open>Platform identifiers\<close>

definition default_platform_ids :: "(string \<times> u32) list" where
  "default_platform_ids = [
    (''DefaultAppleSkylakePlatformId'', 0x19120000), (''DefaultAppleKabyLakePlatformId'', 0x59160000),
    (''DefaultAppleCoffeeLakePlatformId'', 0x3EA50000), (''DefaultAppleCannonLakePlatformId'', 0x5A520000),
    (''DefaultAppleIceLakeRealPlatformId'', 0x8A520000), (''DefaultAppleIceLakeSimulatorPlatformId'', 0xFF050000)]"

definition connector_less_platform_ids :: "(string \<times> u32) list" where
  "connector_less_platform_ids = [
    (''ConnectorLessSandyBridgePlatformId1'', 0x00030030), (''ConnectorLessSandyBridgePlatformId2'', 0x00050000),
    (''ConnectorLessIvyBridgePlatformId1'', 0x01620006), (''ConnectorLessIvyBridgePlatformId2'', 0x01620007),
    (''ConnectorLessHaswellPlatformId1'', 0x04120004), (''ConnectorLessHaswellPlatformId2'', 0x0412000B),
    (''ConnectorLessSkylakePlatformId1'', 0x19020001), (''ConnectorLessSkylakePlatformId2'', 0x19170001),
    (''ConnectorLessSkylakePlatformId3'', 0x19120001), (''ConnectorLessSkylakePlatformId4'', 0x19320001),
    (''ConnectorLessKabyLakePlatformId1'', 0x59180002), (''ConnectorLessKabyLakePlatformId2'', 0x59120003),
    (''ConnectorLessCoffeeLakePlatformId1'', 0x3E920003), (''ConnectorLessCoffeeLakePlatformId2'', 0x3E910003),
    (''ConnectorLessCoffeeLakePlatformId3'', 0x3E980003), (''ConnectorLessCoffeeLakePlatformId4'', 0x9BC80003),
    (''ConnectorLessCoffeeLakePlatformId5'', 0x9BC50003), (''ConnectorLessCoffeeLakePlatformId6'', 0x9BC40003)]"

definition DefaultVesaPlatformId :: u32 where "DefaultVesaPlatformId = 0xFFFFFFFF"

text \<open>Each identifier stands for one thing: the tables have no repetition and nothing in common, and the VESA one is in neither.\<close>

lemma platform_ids_apart:
  "distinct (DefaultVesaPlatformId # map snd default_platform_ids @ map snd connector_less_platform_ids) \<and>
   distinct (map fst (default_platform_ids @ connector_less_platform_ids))"
  by (simp add: default_platform_ids_def connector_less_platform_ids_def DefaultVesaPlatformId_def)

section \<open>Vendors\<close>

definition FirmwareVendor :: "enumerator list" where
  "FirmwareVendor = [Auto ''Unknown'', Auto ''Apple'', Auto ''VMware'', Auto ''EDKII'', Auto ''Parallels'', Auto ''AMI'',
    Auto ''Insyde'', Auto ''Phoenix'', Auto ''HP'']"

definition BootloaderVendor :: "enumerator list" where
  "BootloaderVendor = [Auto ''Unknown'', Auto ''Acidanthera'', Auto ''Clover'']"

text \<open>A structure that was never filled in names no vendor: the default of both is the value zero.\<close>

lemma vendors_start_unknown:
  "enum_value FirmwareVendor ''Unknown'' = Some 0 \<and> enum_value BootloaderVendor ''Unknown'' = Some 0 \<and>
   enum_value FirmwareVendor ''HP'' = Some 8 \<and> enum_value BootloaderVendor ''Clover'' = Some 2"
  by (simp add: FirmwareVendor_def BootloaderVendor_def enum_value_def enum_consts_def)

section \<open>Default state\<close>

record external_video =
  video :: "nat option"
  audio :: "nat option"
  vendor :: u32

definition external_video_fresh :: external_video where
  "external_video_fresh = \<lparr>video = None, audio = None, vendor = 0\<rparr>"

record device_info =
  audioBuiltinAnalog :: "nat option"
  audioBuiltinDigital :: "nat option"
  videoBuiltin :: "nat option"
  managementEngine :: "nat option"
  videoExternal :: "external_video list"
  reportedLayoutId :: u32
  reportedFramebufferId :: u32
  reportedFramebufferName :: "string option"
  reportedFramebufferIsConnectorLess :: bool
  firmwareVendor :: int
  requestedExternalSwitchOff :: bool
  requestedInternalSwitchOff :: bool
  requestedGpuSwitch :: bool

definition device_info_fresh :: device_info where
  "device_info_fresh = \<lparr>audioBuiltinAnalog = None, audioBuiltinDigital = None, videoBuiltin = None, managementEngine = None,
     videoExternal = [], reportedLayoutId = 0, reportedFramebufferId = 0, reportedFramebufferName = None,
     reportedFramebufferIsConnectorLess = False, firmwareVendor = 0, requestedExternalSwitchOff = False,
     requestedInternalSwitchOff = False, requestedGpuSwitch = False\<rparr>"

record base_device_info =
  boardIdentifier :: string
  modelIdentifier :: string
  modelType :: int
  base_firmwareVendor :: int
  bootloaderVendor :: int
  cpuVendor :: CpuVendor
  cpuGeneration :: CpuGeneration
  cpuFamily :: u32
  cpuModel :: u32
  cpuStepping :: u32
  cpuMaxLevel :: u32
  cpuMaxLevelExt :: u32
  cpuHasAvx2 :: bool

text \<open>
  The arrays of characters hold 48 zero characters; the enumerations start at the values their
  tables give \<open>ComputerAny\<close> and \<open>Unknown\<close>.
\<close>

definition base_device_info_fresh :: "base_device_info option" where
  "base_device_info_fresh = do {
     any \<leftarrow> enum_value ComputerModel ''ComputerAny'';
     firmware \<leftarrow> enum_value FirmwareVendor ''Unknown'';
     bootloader \<leftarrow> enum_value BootloaderVendor ''Unknown'';
     Some \<lparr>boardIdentifier = replicate 48 (char_of (0 :: nat)), modelIdentifier = replicate 48 (char_of (0 :: nat)),
       modelType = any, base_firmwareVendor = firmware, bootloaderVendor = bootloader, cpuVendor = VendorUnknown,
       cpuGeneration = GenerationUnknown, cpuFamily = 0, cpuModel = 0, cpuStepping = 0, cpuMaxLevel = 0,
       cpuMaxLevelExt = 0x80000000, cpuHasAvx2 = False\<rparr>
   }"

lemma base_device_info_fresh_defined:
  "\<exists>d. base_device_info_fresh = Some d \<and> length (boardIdentifier d) = 48 \<and> length (modelIdentifier d) = 48 \<and>
     base_firmwareVendor d = 0 \<and> bootloaderVendor d = 0 \<and> modelType d = 3"
  by (simp add: base_device_info_fresh_def enum_value_def enum_consts_def ComputerModel_def FirmwareVendor_def
      BootloaderVendor_def)

end
