(* ===== verification/Rtc_Storage.thy ===== *)
theory Rtc_Storage
  imports Lilu_Base
begin

text \<open>
  The inline code of class \<open>RTCStorage\<close> (\<open>kern_rtc.hpp\<close>): finding the RTC device in the I/O registry and the
  bounds of direct reads and writes. The registry and the low-level accesses are parameters.
\<close>

section \<open>Ports and addresses\<close>

definition RTC_BANK_SIZE :: u8 where
  "RTC_BANK_SIZE = 0x80"

definition APPLERTC_HASHED_ADDR :: u8 where "APPLERTC_HASHED_ADDR = 0x0E"
definition APPLERTC_CHECKSUM_ADDR1 :: u8 where "APPLERTC_CHECKSUM_ADDR1 = 0x58"
definition APPLERTC_CHECKSUM_ADDR2 :: u8 where "APPLERTC_CHECKSUM_ADDR2 = 0x59"

definition R_PCH_RTC_INDEX :: u8 where "R_PCH_RTC_INDEX = 0x70"
definition R_PCH_RTC_TARGET :: u8 where "R_PCH_RTC_TARGET = 0x71"
definition R_PCH_RTC_EXT_INDEX :: u8 where "R_PCH_RTC_EXT_INDEX = 0x72"
definition R_PCH_RTC_EXT_TARGET :: u8 where "R_PCH_RTC_EXT_TARGET = 0x73"

definition RTC_DATA_MASK :: u8 where "RTC_DATA_MASK = 0x7F"
definition RTC_NMI_MASK :: u8 where "RTC_NMI_MASK = 0x80"

definition rtc_time_offsets :: "u8 list" where
  "rtc_time_offsets = [0x00, 0x02, 0x04, 0x07, 0x08, 0x09]"

definition UserClientExternalMethodIndex :: size_t where "UserClientExternalMethodIndex = 0x129"

text \<open>
  The index register holds an address within a bank and the NMI bit, and nothing else; the clock and
  the addresses Apple uses are in the first bank, and the clock is before what the checksum covers.
\<close>

lemma rtc_registers:
  "RTC_DATA_MASK AND RTC_NMI_MASK = 0 \<and> RTC_DATA_MASK OR RTC_NMI_MASK = - 1 \<and> RTC_DATA_MASK = RTC_BANK_SIZE - 1 \<and>
   distinct (rtc_time_offsets @ [APPLERTC_HASHED_ADDR, APPLERTC_CHECKSUM_ADDR1, APPLERTC_CHECKSUM_ADDR2]) \<and>
   list_all (\<lambda>a. a < APPLERTC_HASHED_ADDR) rtc_time_offsets \<and>
   list_all (\<lambda>a. a < RTC_BANK_SIZE) [APPLERTC_HASHED_ADDR, APPLERTC_CHECKSUM_ADDR1, APPLERTC_CHECKSUM_ADDR2]"
  by (simp add: RTC_DATA_MASK_def RTC_NMI_MASK_def RTC_BANK_SIZE_def rtc_time_offsets_def APPLERTC_HASHED_ADDR_def
      APPLERTC_CHECKSUM_ADDR1_def APPLERTC_CHECKSUM_ADDR2_def)

section \<open>The device\<close>

text \<open>
  The registry: \<open>nameMatching\<close> allocates a matching dictionary; \<open>lookup\<close> finds the service for it. Since 10.6
  the service is returned retained and the dictionary stays with the caller; before, the
  dictionary is consumed and the service not retained. \<open>is_acpi\<close> says whether the dynamic cast succeeds.
\<close>

record registry =
  nameMatching :: "string \<Rightarrow> nat option"
  lookup :: "nat \<Rightarrow> nat option"
  is_acpi :: "nat \<Rightarrow> bool"

text \<open>\<open>before_10_6\<close> selects the branch of the preprocessor.\<close>

definition getRTCDevice :: "bool \<Rightarrow> registry \<Rightarrow> string \<Rightarrow> ledger \<Rightarrow> (nat option \<times> ledger) option" where
  "getRTCDevice before_10_6 reg name L = do {
     (rtcDev, L) \<leftarrow> (case nameMatching reg name of
        Some matching \<Rightarrow> (let L = obtain_res KMatching (Some matching) L; rtcDev = lookup reg matching in
          if before_10_6 then do {
            L \<leftarrow> release_res KMatching matching L;
            Some (rtcDev, obtain_res KService rtcDev L)
          } else do {
            L \<leftarrow> release_res KMatching matching (obtain_res KService rtcDev L);
            Some (rtcDev, L)
          })
      | None \<Rightarrow> Some (None, L));
     (case rtcDev of
        Some dev \<Rightarrow>
          if is_acpi reg dev then Some (Some dev, L)
          else do { L \<leftarrow> release_res KService dev L; Some (None, L) }
      | None \<Rightarrow> Some (None, L))
   }"

text \<open>
  \<open>size > RTC_BANK_SIZE*2 - off\<close> is computed in \<open>int\<close>. \<open>low\<close> is the low-level access to the
  device; the result says whether it took place.
\<close>

definition readDirect ::
    "bool \<Rightarrow> registry \<Rightarrow> (nat \<Rightarrow> u8 \<Rightarrow> u16 \<Rightarrow> bool \<Rightarrow> 'd \<Rightarrow> 'd) \<Rightarrow> u8 \<Rightarrow> u16 \<Rightarrow> bool \<Rightarrow> 'd \<times> ledger \<Rightarrow> (bool \<times> 'd \<times> ledger) option" where
  "readDirect before_10_6 reg low off sz introff st = (case st of (d, L) \<Rightarrow>
     if int (unat sz) > int (unat RTC_BANK_SIZE) * 2 - int (unat off) then Some (False, d, L)
     else do {
       (rtc, L) \<leftarrow> getRTCDevice before_10_6 reg ''PNP0B00'' L;
       (case rtc of
          Some dev \<Rightarrow> do {
            let d = low dev off sz introff d;
            L \<leftarrow> release_res KService dev L;
            Some (True, d, L)
          }
        | None \<Rightarrow> Some (False, d, L))
     })"

definition writeDirect ::
    "bool \<Rightarrow> registry \<Rightarrow> (nat \<Rightarrow> u8 \<Rightarrow> u16 \<Rightarrow> bool \<Rightarrow> bool \<Rightarrow> 'd \<Rightarrow> 'd) \<Rightarrow> u8 \<Rightarrow> u16 \<Rightarrow> bool \<Rightarrow> bool \<Rightarrow> 'd \<times> ledger
      \<Rightarrow> (bool \<times> 'd \<times> ledger) option" where
  "writeDirect before_10_6 reg low off sz updatecrc introff st = (case st of (d, L) \<Rightarrow>
     if int (unat sz) > int (unat RTC_BANK_SIZE) * 2 - int (unat off) then Some (False, d, L)
     else do {
       (rtc, L) \<leftarrow> getRTCDevice before_10_6 reg ''PNP0B00'' L;
       (case rtc of
          Some dev \<Rightarrow> do {
            let d = low dev off sz updatecrc introff d;
            L \<leftarrow> release_res KService dev L;
            Some (True, d, L)
          }
        | None \<Rightarrow> Some (False, d, L))
     })"

text \<open>
  What the registry hands out is not already in the caller's hands.
\<close>

definition registry_fresh :: "registry \<Rightarrow> string \<Rightarrow> ledger \<Rightarrow> bool" where
  "registry_fresh reg name L \<longleftrightarrow> (case nameMatching reg name of None \<Rightarrow> True
     | Some m \<Rightarrow> (KMatching, m) \<notin> L \<and> (case lookup reg m of None \<Rightarrow> True | Some d \<Rightarrow> (KService, d) \<notin> L))"

text \<open>The device that is found, if any.\<close>

definition rtc_found :: "registry \<Rightarrow> string \<Rightarrow> nat option" where
  "rtc_found reg name = (case nameMatching reg name of None \<Rightarrow> None
     | Some m \<Rightarrow> (case lookup reg m of Some d \<Rightarrow> if is_acpi reg d then Some d else None | None \<Rightarrow> None))"

lemma getRTCDevice_ok:
  "registry_fresh reg name L \<Longrightarrow>
   getRTCDevice old reg name L = Some (rtc_found reg name, obtain_res KService (rtc_found reg name) L)"
  by (auto simp: getRTCDevice_def registry_fresh_def rtc_found_def Let_def release_res_def obtain_res_def
      insert_Diff_if split: option.splits if_splits)

lemma rtc_found_fresh: "registry_fresh reg name L \<Longrightarrow> rtc_found reg name = Some d \<Longrightarrow> (KService, d) \<notin> L"
  by (auto simp: registry_fresh_def rtc_found_def split: option.splits if_splits)

lemma unat_RTC_BANK_SIZE: "unat RTC_BANK_SIZE = 128"
  by (simp add: RTC_BANK_SIZE_def)

text \<open>C26: A direct read or write succeeds exactly when the range lies within the 256 bytes of the two banks
  and an ACPI device is found, touches that device once and with that range only, and on no
  path does it keep or lose a reference to the device or to the matching dictionary.\<close>

theorem rtc_direct_access:
  assumes "registry_fresh reg ''PNP0B00'' L"
  shows "readDirect old reg rd off sz introff (d, L) =
      Some (case rtc_found reg ''PNP0B00'' of
          Some dev \<Rightarrow> if unat off + unat sz \<le> 256 then (True, rd dev off sz introff d, L) else (False, d, L)
        | None \<Rightarrow> (False, d, L)) \<and>
    writeDirect old reg wr off sz updatecrc introff (d, L) =
      Some (case rtc_found reg ''PNP0B00'' of
          Some dev \<Rightarrow> if unat off + unat sz \<le> 256 then (True, wr dev off sz updatecrc introff d, L) else (False, d, L)
        | None \<Rightarrow> (False, d, L))"
proof -
  have bound: "int (unat sz) > int (unat RTC_BANK_SIZE) * 2 - int (unat off) \<longleftrightarrow> \<not> unat off + unat sz \<le> 256"
    unfolding unat_RTC_BANK_SIZE by linarith
  show ?thesis
    unfolding readDirect_def writeDirect_def prod.case bound getRTCDevice_ok [OF assms]
    using rtc_found_fresh [OF assms] by (auto simp: release_res_def split: option.split)
qed

theorem rtc_direct_access_witness:
  "readDirect False \<lparr>nameMatching = (\<lambda>_. Some 1), lookup = (\<lambda>_. Some 2), is_acpi = (\<lambda>_. True)\<rparr>
     (\<lambda>dev off sz introff d. d @ [unat off]) 0x80 0x80 True ([], {}) = Some (True, [128], {}) \<and>
   readDirect False \<lparr>nameMatching = (\<lambda>_. Some 1), lookup = (\<lambda>_. Some 2), is_acpi = (\<lambda>_. True)\<rparr>
     (\<lambda>dev off sz introff d. d @ [unat off]) 0x81 0x80 True ([], {}) = Some (False, [], {})"
proof -
  let ?r = "\<lparr>nameMatching = (\<lambda>_. Some 1), lookup = (\<lambda>_. Some 2), is_acpi = (\<lambda>_. True)\<rparr> :: registry"
  have f: "registry_fresh ?r ''PNP0B00'' {}" "rtc_found ?r ''PNP0B00'' = Some 2"
    by (simp_all add: registry_fresh_def rtc_found_def)
  show ?thesis
    using conjunct1 [OF rtc_direct_access [OF f(1), where old = False and rd = "\<lambda>dev off sz introff d. d @ [unat off]"
      and d = "[]" and introff = True and sz = "0x80" and off = "0x80"]]
      conjunct1 [OF rtc_direct_access [OF f(1), where old = False and rd = "\<lambda>dev off sz introff d. d @ [unat off]"
      and d = "[]" and introff = True and sz = "0x80" and off = "0x81"]] f(2) by simp
qed

end
