(* ===== verification/Storage_Formats.thy ===== *)
theory Storage_Formats
  imports Lilu_Base
begin

text \<open>
  The inline code and the constants of the stored formats: \<open>Crypto\<close> (\<open>kern_crypto.hpp\<close>), \<open>Compression\<close>
  (\<open>kern_compression.hpp\<close>), \<open>NVStorage\<close> (\<open>kern_nvram.hpp\<close>) and the EFI error codes (\<open>kern_efi.hpp\<close>). The
  functions that encrypt, compress and store are declared there and implemented in the compiled kext.
\<close>

section \<open>Secure erasure\<close>

text \<open>Memory maps addresses to bytes; an access where nothing is mapped is undefined.\<close>

type_synonym memory = "mach_addr \<Rightarrow> u8 option"

definition store_byte :: "mach_addr \<Rightarrow> u8 \<Rightarrow> memory \<Rightarrow> memory option" where
  "store_byte a v m = (if m a = None then None else Some (m(a \<mapsto> v)))"

text \<open>\<open>while (len--)\<close> tests \<open>len\<close> before it decrements it.\<close>

function zeroMemory :: "size_t \<Rightarrow> mach_addr \<Rightarrow> memory \<Rightarrow> memory option" where
  "zeroMemory len vptr m = (if len = 0 then Some m
     else do { m \<leftarrow> store_byte vptr 0 m; zeroMemory (len - 1) (vptr + 1) m })"
  by auto
termination
  by (relation "measure (\<lambda>(len, _). unat len)") (simp_all add: unat_minus_1 word_neq_0_unat)

declare zeroMemory.simps [simp del]

definition region :: "mach_addr \<Rightarrow> nat \<Rightarrow> mach_addr set" where
  "region a n = (\<lambda>i. a + of_nat i) ` {..<n}"

lemma region_Suc: "region a (Suc n) = insert a (region (a + 1) n)"
proof -
  have "{..<Suc n} = insert 0 (Suc ` {..<n})" by (auto simp: image_iff less_Suc_eq_0_disj)
  then show ?thesis by (simp add: region_def image_image add.assoc add.commute [of 1])
qed

lemma region_0 [simp]: "region a 0 = {}"
  by (simp add: region_def)

lemma zeroMemory_run:
  "unat len = n \<Longrightarrow> zeroMemory len a m = (if region a n \<subseteq> dom m
     then Some (\<lambda>b. if b \<in> region a n then Some 0 else m b) else None)"
proof (induction n arbitrary: len a m)
  case 0
  then have "len = 0" by (simp add: word_eq_unat)
  then show ?case by (simp add: zeroMemory.simps)
next
  case (Suc n)
  then have "len \<noteq> 0" "unat (len - 1) = n" by (auto simp: unat_minus_1)
  then have "zeroMemory len a m = (if m a = None then None else zeroMemory (len - 1) (a + 1) (m(a \<mapsto> 0)))"
    by (subst zeroMemory.simps) (simp add: store_byte_def)
  moreover note Suc.IH [OF \<open>unat (len - 1) = n\<close>, of "a + 1" "m(a \<mapsto> 0)"]
  moreover have "dom (m(a \<mapsto> 0)) = dom m" if "m a \<noteq> None" using that by auto
  ultimately show ?case by (cases "m a") (auto simp: region_Suc fun_eq_iff simp del: dom_fun_upd fun_upd_apply, auto)
qed

text \<open>C32: \<open>zeroMemory\<close> ends for every length, writes zero to each of the \<open>len\<close> bytes from \<open>dst\<close> and to no other,
  and is undefined exactly when one of them is not mapped.\<close>

theorem zeroMemory_erases:
  "zeroMemory len dst m = (if region dst (unat len) \<subseteq> dom m
     then Some (\<lambda>a. if a \<in> region dst (unat len) then Some 0 else m a) else None)"
  by (rule zeroMemory_run) simp

text \<open>\<open>BlockSize\<close> is in \<open>Structures\<close>, with the layout of encrypted data.\<close>

definition MinDigestSize :: u32 where
  "MinDigestSize = 32"

section \<open>EFI errors\<close>

definition EFI_ERROR64 :: "u64 \<Rightarrow> u64" where
  "EFI_ERROR64 x = (x AND NOT (push_bit 31 1)) OR push_bit 63 1"

lemma EFI_ERROR64_load_error: "EFI_ERROR64 0x80000001 = 0x8000000000000001"
  by (simp add: EFI_ERROR64_def)

lemma bit_move_flag:
  "bit ((x AND NOT (push_bit j 1)) OR push_bit k 1 :: 'w::len word) n \<longleftrightarrow> n = k \<and> k < LENGTH('w) \<or> n \<noteq> j \<and> bit x n"
  using bit_imp_le_length [of x n] by (auto simp: bit_simps bit_1_iff)

lemma bit_EFI_ERROR64: "bit (EFI_ERROR64 x) n \<longleftrightarrow> n = 63 \<or> n \<noteq> 31 \<and> bit x n"
  unfolding EFI_ERROR64_def bit_move_flag by simp

text \<open>\<open>EFI_ERROR64\<close> moves the error bit of a 32-bit EFI error from bit 31 to bit 63 and keeps the code: it is
  undone by moving it back, so no two errors are confused, and the code of the static assertion comes out right.\<close>

theorem EFI_ERROR64_moves_error_bit:
  fixes x :: u32
  shows "(\<forall>n. bit (EFI_ERROR64 (ucast x)) n = (if n = 63 then True else n < 31 \<and> bit x n)) \<and>
    ((ucast (EFI_ERROR64 (ucast x)) OR push_bit 31 1 = x) = bit x 31) \<and>
    EFI_ERROR64 0x80000001 = 0x8000000000000001"
proof -
  have b: "bit (EFI_ERROR64 (ucast x)) n = (if n = 63 then True else n < 31 \<and> bit x n)" for n
    using bit_imp_le_length [of x n] by (auto simp: bit_EFI_ERROR64 bit_simps)
  have "bit (ucast (EFI_ERROR64 (ucast x)) OR push_bit 31 1 :: u32) n \<longleftrightarrow> n = 31 \<or> bit x n" for n
    using bit_imp_le_length [of x n] bit_move_flag [of "ucast (EFI_ERROR64 (ucast x)) :: u32" 32 31 n]
    by (auto simp: bit_simps b)
  then have "(ucast (EFI_ERROR64 (ucast x)) OR push_bit 31 1 = x) = bit x 31"
    by (metis bit_eq_iff)
  with b EFI_ERROR64_load_error show ?thesis by blast
qed

section \<open>Variables in NVRAM\<close>

datatype nvram_guid = NVRAM_GLOBAL_GUID | NVRAM_APPLE_BOOT_GUID | NVRAM_APPLE_VENDOR_GUID
  | NVRAM_APPLE_FILEVAULT_GUID | NVRAM_APPLE_PASSWORD_UI_GUID
  | LILU_VENDOR_GUID | LILU_READ_ONLY_GUID | LILU_WRITE_ONLY_GUID

fun guid_text :: "nvram_guid \<Rightarrow> string" where
  "guid_text NVRAM_GLOBAL_GUID = ''8BE4DF61-93CA-11D2-AA0D-00E098032B8C''"
| "guid_text NVRAM_APPLE_BOOT_GUID = ''7C436110-AB2A-4BBB-A880-FE41995C9F82''"
| "guid_text NVRAM_APPLE_VENDOR_GUID = ''4D1EDE05-38C7-4A6A-9CC6-4BCCA8B38C14''"
| "guid_text NVRAM_APPLE_FILEVAULT_GUID = ''8D63D4FE-BD3C-4AAD-881D-86FD974BC1DF''"
| "guid_text NVRAM_APPLE_PASSWORD_UI_GUID = ''9EBA2D25-BBE3-4AC2-A2C6-C87F44A1278C''"
| "guid_text LILU_VENDOR_GUID = ''4D1FDA02-38C7-4A6A-9CC6-4BCCA8B30102''"
| "guid_text LILU_READ_ONLY_GUID = ''E09B9297-7928-4440-9AAB-D1F8536FBF0A''"
| "guid_text LILU_WRITE_ONLY_GUID = ''F0B9AF8F-2222-4840-8A37-ECF7CC8C12E1''"

definition NVRAM_PREFIX :: "string \<Rightarrow> string \<Rightarrow> string" where
  "NVRAM_PREFIX x y = x @ '':'' @ y"

text \<open>Eight, four, four, four and twelve hexadecimal digits.\<close>

definition hex_digit :: "char \<Rightarrow> bool" where
  "hex_digit c \<longleftrightarrow> c \<in> set ''0123456789ABCDEF''"

definition guid_format :: "string \<Rightarrow> bool" where
  "guid_format s \<longleftrightarrow> length s = 36 \<and>
     list_all (\<lambda>i. if i \<in> {8, 13, 18, 23} then s ! i = CHR ''-'' else hex_digit (s ! i)) [0..<36]"

lemma upt_36: "[0..<36] = [0,1,2,3,4,5,6,7,8,9,10,11,12,13,14,15,16,17,18,19,20,21,22,23,24,25,26,27,28,29,30,31,32,33,34,35]"
  by (simp add: upt_conv_Cons)

lemma guid_text_format: "guid_format (guid_text g)"
  by (cases g) (simp_all add: guid_format_def upt_36 hex_digit_def)

lemma guid_text_inject: "guid_text g = guid_text h \<longleftrightarrow> g = h"
  by (cases g; cases h) simp_all

text \<open>The GUIDs are well-formed and a variable name prefixed with one of them can be read in one way only: two
  prefixed names are the same exactly when the GUIDs and the names are.\<close>

theorem NVRAM_PREFIX_unambiguous:
  "guid_format (guid_text g) \<and>
   (NVRAM_PREFIX (guid_text g) x = NVRAM_PREFIX (guid_text h) y) = (g = h \<and> x = y)"
proof -
  have "length (guid_text g) = length (guid_text h)"
    using guid_text_format [of g] guid_text_format [of h] by (simp add: guid_format_def)
  then show ?thesis using guid_text_format guid_text_inject by (auto simp: NVRAM_PREFIX_def)
qed

text \<open>\<open>NVStorage::Options\<close>, and the byte of the header that holds them.\<close>

datatype nv_option = OptRaw | OptCompressed | OptEncrypted | OptChecksum | OptSensitive

definition OptAuto :: u8 where
  "OptAuto = 0"

fun opt_value :: "nv_option \<Rightarrow> u8" where
  "opt_value OptRaw = 1"
| "opt_value OptCompressed = 2"
| "opt_value OptEncrypted = 4"
| "opt_value OptChecksum = 8"
| "opt_value OptSensitive = 16"

record nv_header =
  magic :: u16
  nv_version :: u8
  opts :: u8

definition nv_header_fresh :: nv_header where
  "nv_header_fresh = \<lparr>magic = 0xC717, nv_version = 1, opts = OptAuto\<rparr>"

text \<open>The options a header byte stands for, and the byte for a list of options.\<close>

definition has_option :: "u8 \<Rightarrow> nv_option \<Rightarrow> bool" where
  "has_option b p \<longleftrightarrow> b AND opt_value p \<noteq> 0"

definition opts_of :: "nv_option list \<Rightarrow> u8" where
  "opts_of ps = fold (\<lambda>p b. b OR opt_value p) ps OptAuto"

fun opt_index :: "nv_option \<Rightarrow> nat" where
  "opt_index OptRaw = 0" | "opt_index OptCompressed = 1" | "opt_index OptEncrypted = 2"
| "opt_index OptChecksum = 3" | "opt_index OptSensitive = 4"

lemma opt_value_exp: "opt_value p = 2 ^ opt_index p"
  by (cases p) simp_all

lemma opt_index_inject: "opt_index p = opt_index q \<longleftrightarrow> p = q" "opt_index p < 8"
  by (cases p; cases q; simp)+

lemma has_option_bit: "has_option b p \<longleftrightarrow> bit b (opt_index p)"
  by (simp add: has_option_def opt_value_exp and_exp_eq_0_iff_not_bit)

lemma has_option_fold: "has_option (fold (\<lambda>p b. b OR opt_value p) ps b) p \<longleftrightarrow> has_option b p \<or> p \<in> set ps"
proof (induction ps arbitrary: b)
  case (Cons q ps)
  have "bit (opt_value q) (opt_index p) \<longleftrightarrow> p = q"
    using opt_index_inject(1) [of q p] opt_index_inject(2) [of p] by (auto simp: opt_value_exp bit_exp_iff)
  with Cons show ?case by (auto simp: has_option_bit bit_or_iff)
qed simp

text \<open>Every combination of storage options fits the byte of the header and is read back from it: \<open>opts_of ps\<close>
  has exactly the options of \<open>ps\<close>, whatever their order, and a header made by default has none.\<close>

theorem nv_options_roundtrip:
  "(has_option (opts_of ps) p = (p \<in> set ps)) \<and> \<not> has_option (opts nv_header_fresh) p"
  by (simp add: opts_of_def has_option_fold nv_header_fresh_def) (simp add: has_option_bit OptAuto_def)

section \<open>Compression\<close>

definition CompressionMagic :: u32 where "CompressionMagic = 0x706D6F63"
definition ModeLZVN :: u32 where "ModeLZVN = 0x6E767A6C"
definition ModeLZSS :: u32 where "ModeLZSS = 0x73737A6C"
definition ModeZLIB :: u32 where "ModeZLIB = 0x9C787A6C"

text \<open>The characters in memory order: the last one of \<open>ModeZLIB\<close> is not a letter.\<close>

definition spelling :: "u32 \<Rightarrow> string" where
  "spelling w = map (\<lambda>i. char_of (unat (drop_bit (8 * i) w))) [0..<4]"

lemma magics_spell:
  "spelling CompressionMagic = ''comp'' \<and> spelling ModeLZVN = ''lzvn'' \<and> spelling ModeLZSS = ''lzss'' \<and>
   take 3 (spelling ModeZLIB) = ''lzx''"
  by (simp add: spelling_def CompressionMagic_def ModeLZVN_def ModeLZSS_def ModeZLIB_def upt_conv_Cons char_of_def
      bit_0)

end
