(* ===== verification/Kern_Time.thy ===== *)
theory Kern_Time
  imports Lilu_Base
begin

text \<open>
  The helpers of \<open>kern_time.hpp\<close>. The clocks of the kernel are parameters: \<open>now\<close> is the time since
  boot in nanoseconds, and the calendar time comes as seconds and nanoseconds.
\<close>

definition NSEC_PER_SEC :: u64 where
  "NSEC_PER_SEC = 1000000000"

definition getCurrentTimeNs :: "('abs \<Rightarrow> u64) \<Rightarrow> 'abs \<Rightarrow> u64" where
  "getCurrentTimeNs absolutetime_to_nanoseconds mach_absolute_time = absolutetime_to_nanoseconds mach_absolute_time"

definition getCalendarTimeNs :: "u32 \<times> u32 \<Rightarrow> u64" where
  "getCalendarTimeNs calendar = (case calendar of (sc, ns) \<Rightarrow> ucast sc * NSEC_PER_SEC + ucast ns)"

definition getTimeSinceNs :: "u64 \<Rightarrow> u64 \<Rightarrow> u64 \<Rightarrow> u64" where
  "getTimeSinceNs now start current =
     (let current = (if current = 0 then now else current) in if current > start then current - start else 0)"

definition getTimeLeftNs :: "u64 \<Rightarrow> u64 \<Rightarrow> u64 \<Rightarrow> u64 \<Rightarrow> u64" where
  "getTimeLeftNs now start timeout current =
     (let current = (if current = 0 then now else current) in
      if start + timeout > current then start + timeout - current else 0)"

definition convertNsToMs :: "u64 \<Rightarrow> u64" where "convertNsToMs t = t div 1000000"
definition convertNsToSc :: "u64 \<Rightarrow> u64" where "convertNsToSc t = t div 1000000000"
definition convertMsToSc :: "u64 \<Rightarrow> u64" where "convertMsToSc t = t div 1000"
definition convertMsToNs :: "u64 \<Rightarrow> u64" where "convertMsToNs t = t * 1000000"
definition convertScToNs :: "u64 \<Rightarrow> u64" where "convertScToNs t = t * 1000000000"
definition convertScToMs :: "u64 \<Rightarrow> u64" where "convertScToMs t = t * 1000"

lemma getTimeSinceNs_exact:
  "unat (getTimeSinceNs now start current) = unat (if current = 0 then now else current) - unat start"
  by (simp add: getTimeSinceNs_def Let_def word_less_unat unat_sub_if' word_le_nat_alt)

lemma unat_cut: "unat (if b > a then b - a else 0) = unat (b :: u64) - unat a"
  by (auto simp: word_less_unat unat_sub_if' word_le_nat_alt)

text \<open>As long as the deadline \<open>start + timeout\<close> fits in 64 bits, the time left is the distance to
  it, or 0 when it has passed; and then the time left and the time since the start add up to
  the timeout.\<close>

theorem getTimeLeftNs_exact:
  assumes "unat start + unat timeout < 2 ^ 64" and "c = (if current = 0 then now else current)"
  shows "unat (getTimeLeftNs now start timeout current) = unat start + unat timeout - unat c \<and>
    (if unat start \<le> unat c \<and> unat c \<le> unat start + unat timeout
     then unat (getTimeSinceNs now start current) + unat (getTimeLeftNs now start timeout current) = unat timeout
     else True)"
proof -
  have "unat (start + timeout) = unat start + unat timeout" using assms(1) by (intro unat_add_exact) simp
  then have "unat (getTimeLeftNs now start timeout current) = unat start + unat timeout - unat c"
    unfolding getTimeLeftNs_def Let_def assms(2) [symmetric] unat_cut by simp
  then show ?thesis using getTimeSinceNs_exact [of now start current] assms(2) by auto
qed

theorem getTimeLeftNs_exact_witness:
  "unat (getTimeLeftNs 5 100 50 120) = 30 \<and> unat (getTimeSinceNs 5 100 120) + unat (getTimeLeftNs 5 100 50 120) = 50"
proof -
  have "unat (100 :: u64) + unat (50 :: u64) < 2 ^ 64" by simp
  from getTimeLeftNs_exact [OF this, of 120 120 5] show ?thesis by simp
qed

text \<open>A timeout so large that the deadline does not fit counts as over at once.\<close>

lemma getTimeLeftNs_forever:
  assumes "start \<noteq> 0" and "start \<le> current"
  shows "getTimeLeftNs now start (- 1) current = 0"
proof -
  have "current \<noteq> 0" using assms by (auto simp: word_le_nat_alt unat_eq_0)
  moreover have "start - 1 < start" using assms(1) by (simp add: word_less_nat_alt unat_minus_1 unat_gt_0)
  moreover from this have "\<not> current < start - 1" using assms(2) by simp
  ultimately show ?thesis by (simp add: getTimeLeftNs_def Let_def)
qed

lemma convert_down: "unat (t :: u64) * k < 2 ^ 64 \<Longrightarrow> 0 < k \<Longrightarrow> unat (of_nat k :: u64) = k \<Longrightarrow> t * of_nat k div of_nat k = t"
  by (simp add: word_eq_unat unat_div_distrib unat_mult_exact)

lemma convert_roundtrips:
  "unat t * 1000000 < 2 ^ 64 \<Longrightarrow> convertNsToMs (convertMsToNs t) = t"
  "unat t * 1000000000 < 2 ^ 64 \<Longrightarrow> convertNsToSc (convertScToNs t) = t"
  "unat t * 1000 < 2 ^ 64 \<Longrightarrow> convertMsToSc (convertScToMs t) = t"
  using convert_down [of t 1000000] convert_down [of t 1000000000] convert_down [of t 1000]
  by (simp_all add: convertNsToMs_def convertMsToNs_def convertNsToSc_def convertScToNs_def convertMsToSc_def convertScToMs_def)

end
