(* ===== verification/Kext_Version.thy ===== *)
theory Kext_Version
  imports Lilu_Base
begin

text \<open>
  The version string every plugin carries (\<open>kern_version.hpp\<close>). \<open>DATE\<close> is the compiler's \<open>__DATE__\<close>, a
  string of the form "Mmm dd yyyy" whose day is padded with a space. Characters outside of the string are undefined.
\<close>

definition char_code :: "char \<Rightarrow> u32" where
  "char_code c = of_nat (of_char c)"

definition getBuildYear :: "string \<Rightarrow> nat \<Rightarrow> char option" where
  "getBuildYear DATE i = cell_get DATE (7 + i)"

text \<open>A multi-character constant: the first character is the most significant byte.\<close>

definition multichar :: "string \<Rightarrow> u32" where
  "multichar s = foldl (\<lambda>w c. push_bit 8 w OR char_code c) 0 s"

definition month_word :: "string \<Rightarrow> u32 option" where
  "month_word DATE = do {
     c0 \<leftarrow> cell_get DATE 0; c1 \<leftarrow> cell_get DATE 1; c2 \<leftarrow> cell_get DATE 2; c3 \<leftarrow> cell_get DATE 3;
     Some (char_code c0 OR push_bit 8 (char_code c1) OR push_bit 16 (char_code c2) OR push_bit 24 (char_code c3)) }"

text \<open>The two digits the switch selects one character of; the default is '0' for either.\<close>

definition month_text :: "u32 \<Rightarrow> string" where
  "month_text mon =
     (if mon = multichar '' naJ'' then ''01'' else if mon = multichar '' beF'' then ''02''
      else if mon = multichar '' raM'' then ''03'' else if mon = multichar '' rpA'' then ''04''
      else if mon = multichar '' yaM'' then ''05'' else if mon = multichar '' nuJ'' then ''06''
      else if mon = multichar '' luJ'' then ''07'' else if mon = multichar '' guA'' then ''08''
      else if mon = multichar '' peS'' then ''09'' else if mon = multichar '' tcO'' then ''10''
      else if mon = multichar '' voN'' then ''11'' else if mon = multichar '' ceD'' then ''12'' else ''00'')"

definition getBuildMonth :: "string \<Rightarrow> nat \<Rightarrow> char option" where
  "getBuildMonth DATE i = do { mon \<leftarrow> month_word DATE; cell_get (month_text mon) i }"

definition getBuildDay :: "string \<Rightarrow> nat \<Rightarrow> char option" where
  "getBuildDay DATE i = do {
     c \<leftarrow> cell_get DATE (4 + i);
     Some (if i = 0 \<and> c = CHR '' '' then CHR ''0'' else c) }"

text \<open>The characters of \<open>kextVersion\<close> before the terminating null.\<close>

definition kextVersion :: "bool \<Rightarrow> string \<Rightarrow> string \<Rightarrow> string option" where
  "kextVersion DEBUG MODULE_VERSION DATE = do {
     v0 \<leftarrow> cell_get MODULE_VERSION 0; v2 \<leftarrow> cell_get MODULE_VERSION 2; v4 \<leftarrow> cell_get MODULE_VERSION 4;
     y0 \<leftarrow> getBuildYear DATE 0; y1 \<leftarrow> getBuildYear DATE 1; y2 \<leftarrow> getBuildYear DATE 2; y3 \<leftarrow> getBuildYear DATE 3;
     m0 \<leftarrow> getBuildMonth DATE 0; m1 \<leftarrow> getBuildMonth DATE 1;
     d0 \<leftarrow> getBuildDay DATE 0; d1 \<leftarrow> getBuildDay DATE 1;
     Some ((if DEBUG then ''DBG-'' else ''REL-'') @ [v0, v2, v4] @ ''-'' @ [y0, y1, y2, y3] @ ''-'' @ [m0, m1] @ ''-'' @ [d0, d1])
   }"

text \<open>The dates a compiler may put in: month and day as numbers.\<close>

definition months :: "string list" where
  "months = [''Jan'', ''Feb'', ''Mar'', ''Apr'', ''May'', ''Jun'', ''Jul'', ''Aug'', ''Sep'', ''Oct'', ''Nov'', ''Dec'']"

definition digit_of :: "nat \<Rightarrow> char" where
  "digit_of n = char_of (48 + n)"

definition compiler_date :: "nat \<Rightarrow> nat \<Rightarrow> char \<Rightarrow> char \<Rightarrow> char \<Rightarrow> char \<Rightarrow> string" where
  "compiler_date m d y0 y1 y2 y3 = months ! (m - 1) @ '' '' @
     [if d < 10 then CHR '' '' else digit_of (d div 10), digit_of (d mod 10)] @ '' '' @ [y0, y1, y2, y3]"

lemma multichar_values:
  "multichar '' naJ'' = 544104778"
  "multichar '' beF'' = 543319366"
  "multichar '' raM'' = 544366925"
  "multichar '' rpA'' = 544370753"
  "multichar '' yaM'' = 544825677"
  "multichar '' nuJ'' = 544109898"
  "multichar '' luJ'' = 543978826"
  "multichar '' guA'' = 543651137"
  "multichar '' peS'' = 544236883"
  "multichar '' tcO'' = 544498511"
  "multichar '' voN'' = 544632654"
  "multichar '' ceD'' = 543384900"
  by (simp_all add: multichar_def char_code_def of_char_def)

lemma month_word_values:
  "month_word (''Jan'' @ CHR '' '' # r) = Some 544104778"
  "month_word (''Feb'' @ CHR '' '' # r) = Some 543319366"
  "month_word (''Mar'' @ CHR '' '' # r) = Some 544366925"
  "month_word (''Apr'' @ CHR '' '' # r) = Some 544370753"
  "month_word (''May'' @ CHR '' '' # r) = Some 544825677"
  "month_word (''Jun'' @ CHR '' '' # r) = Some 544109898"
  "month_word (''Jul'' @ CHR '' '' # r) = Some 543978826"
  "month_word (''Aug'' @ CHR '' '' # r) = Some 543651137"
  "month_word (''Sep'' @ CHR '' '' # r) = Some 544236883"
  "month_word (''Oct'' @ CHR '' '' # r) = Some 544498511"
  "month_word (''Nov'' @ CHR '' '' # r) = Some 544632654"
  "month_word (''Dec'' @ CHR '' '' # r) = Some 543384900"
  by (simp_all add: month_word_def char_code_def of_char_def cell_get_def)

lemma getBuildMonth_text:
  "month_word DATE = Some w \<Longrightarrow> month_text w = [x, y] \<Longrightarrow>
   getBuildMonth DATE 0 = Some x \<and> getBuildMonth DATE 1 = Some y"
  by (simp add: getBuildMonth_def cell_get_def)

lemma month_text_values:
  "map month_text [544104778, 543319366, 544366925, 544370753, 544825677,
     544109898, 543978826, 543651137, 544236883,
     544498511, 544632654, 543384900] =
   [''01'', ''02'', ''03'', ''04'', ''05'', ''06'', ''07'', ''08'', ''09'', ''10'', ''11'', ''12'']"
  by (simp add: month_text_def multichar_values)

lemma digit_of_values: "map digit_of [0, 1, 2, 3, 4, 5, 6, 7, 8, 9] = ''0123456789''"
  by (simp add: digit_of_def char_of_def bit_0)

lemma month_digits:
  assumes "1 \<le> m" and "m \<le> 12"
  obtains w where "month_word (months ! (m - 1) @ CHR '' '' # r) = Some w"
    "month_text w = [digit_of (m div 10), digit_of (m mod 10)]" "length (months ! (m - 1)) = 3"
proof -
  have "m = 1 \<or> m = 2 \<or> m = 3 \<or> m = 4 \<or> m = 5 \<or> m = 6 \<or> m = 7 \<or> m = 8 \<or> m = 9 \<or> m = 10 \<or> m = 11 \<or> m = 12"
    using assms by presburger
  then show ?thesis
    using that month_text_values digit_of_values month_word_values [of r]
    by (elim disjE) (simp_all add: months_def)
qed

lemma digit_of_nonblank: "n < 10 \<Longrightarrow> digit_of n \<noteq> CHR '' ''"
proof -
  assume "n < 10"
  then have "n = 0 \<or> n = 1 \<or> n = 2 \<or> n = 3 \<or> n = 4 \<or> n = 5 \<or> n = 6 \<or> n = 7 \<or> n = 8 \<or> n = 9" by presburger
  then show ?thesis using digit_of_values by (elim disjE) simp_all
qed

text \<open>C40: For every date the compiler may substitute, \<open>kextVersion\<close> names it as YYYY-MM-DD, with two-digit
  month and day, after the digits of the version.\<close>

theorem kextVersion_iso_date:
  assumes "1 \<le> m" and "m \<le> 12" and "1 \<le> d" and "d \<le> 31"
  shows "kextVersion DEBUG [v0, p0, v2, p2, v4] (compiler_date m d y0 y1 y2 y3) =
    Some ((if DEBUG then ''DBG-'' else ''REL-'') @ [v0, v2, v4] @ ''-'' @ [y0, y1, y2, y3] @ ''-'' @
      [digit_of (m div 10), digit_of (m mod 10)] @ ''-'' @ [digit_of (d div 10), digit_of (d mod 10)])"
proof -
  let ?d0 = "if d < 10 then CHR '' '' else digit_of (d div 10)"
  let ?r = "[?d0, digit_of (d mod 10), CHR '' '', y0, y1, y2, y3]"
  obtain w where w: "month_word (months ! (m - 1) @ CHR '' '' # ?r) = Some w"
    "month_text w = [digit_of (m div 10), digit_of (m mod 10)]" "length (months ! (m - 1)) = 3"
    by (rule month_digits [OF assms(1,2)])
  then obtain c0 c1 c2 where c: "months ! (m - 1) = [c0, c1, c2]"
    by (auto simp: numeral_3_eq_3 length_Suc_conv)
  have date: "compiler_date m d y0 y1 y2 y3 = c0 # c1 # c2 # CHR '' '' # ?r"
    unfolding compiler_date_def c by simp
  have "month_word (compiler_date m d y0 y1 y2 y3) = Some w" using w(1) unfolding date c by simp
  from getBuildMonth_text [OF this w(2)]
  have mon: "getBuildMonth (compiler_date m d y0 y1 y2 y3) 0 = Some (digit_of (m div 10))"
    "getBuildMonth (compiler_date m d y0 y1 y2 y3) 1 = Some (digit_of (m mod 10))" by simp_all
  have day: "getBuildDay (compiler_date m d y0 y1 y2 y3) 0 = Some (digit_of (d div 10))"
    using assms(3,4) digit_of_nonblank [of "d div 10"]
    using digit_of_values by (auto simp: getBuildDay_def date cell_get_def)
  have "getBuildDay (compiler_date m d y0 y1 y2 y3) 1 = Some (digit_of (d mod 10))"
    "getBuildYear (compiler_date m d y0 y1 y2 y3) 0 = Some y0" "getBuildYear (compiler_date m d y0 y1 y2 y3) 1 = Some y1"
    "getBuildYear (compiler_date m d y0 y1 y2 y3) 2 = Some y2" "getBuildYear (compiler_date m d y0 y1 y2 y3) 3 = Some y3"
    by (simp_all add: getBuildDay_def getBuildYear_def date cell_get_def)
  with mon day show ?thesis by (simp add: kextVersion_def cell_get_def)
qed

theorem kextVersion_iso_date_witness:
  "kextVersion False ''1.6.1'' ''Aug  3 2022'' = Some ''REL-161-2022-08-03''"
proof -
  have "compiler_date 8 3 CHR ''2'' CHR ''0'' CHR ''2'' CHR ''2'' = ''Aug  3 2022''"
    using digit_of_values by (simp add: compiler_date_def months_def)
  moreover have "digit_of 0 = CHR ''0''" "digit_of 8 = CHR ''8''" "digit_of 3 = CHR ''3''"
    using digit_of_values by simp_all
  ultimately show ?thesis
    using kextVersion_iso_date [of 8 3 False "CHR ''1''" "CHR ''.''" "CHR ''6''" "CHR ''.''" "CHR ''1''"
        "CHR ''2''" "CHR ''0''" "CHR ''2''" "CHR ''2''"] by simp
qed

end
