(* ===== verification/Capstone_X86.thy ===== *)
theory Capstone_X86
  imports C_Enum
begin

text \<open>
  The enumerations of \<open>capstone/x86.h\<close>, but for the instruction identifiers.
\<close>

section \<open>Registers, operands, conditions, prefixes and groups of x86\<close>

definition x86_reg :: "enumerator list" where
  "x86_reg = [
    Init ''X86_REG_INVALID'' (Num 0), Auto ''X86_REG_AH'', Auto ''X86_REG_AL'', Auto ''X86_REG_AX'',
    Auto ''X86_REG_BH'', Auto ''X86_REG_BL'', Auto ''X86_REG_BP'', Auto ''X86_REG_BPL'',
    Auto ''X86_REG_BX'', Auto ''X86_REG_CH'', Auto ''X86_REG_CL'', Auto ''X86_REG_CS'',
    Auto ''X86_REG_CX'', Auto ''X86_REG_DH'', Auto ''X86_REG_DI'', Auto ''X86_REG_DIL'',
    Auto ''X86_REG_DL'', Auto ''X86_REG_DS'', Auto ''X86_REG_DX'', Auto ''X86_REG_EAX'',
    Auto ''X86_REG_EBP'', Auto ''X86_REG_EBX'', Auto ''X86_REG_ECX'', Auto ''X86_REG_EDI'',
    Auto ''X86_REG_EDX'', Auto ''X86_REG_EFLAGS'', Auto ''X86_REG_EIP'', Auto ''X86_REG_EIZ'',
    Auto ''X86_REG_ES'', Auto ''X86_REG_ESI'', Auto ''X86_REG_ESP'', Auto ''X86_REG_FPSW'',
    Auto ''X86_REG_FS'', Auto ''X86_REG_GS'', Auto ''X86_REG_IP'', Auto ''X86_REG_RAX'',
    Auto ''X86_REG_RBP'', Auto ''X86_REG_RBX'', Auto ''X86_REG_RCX'', Auto ''X86_REG_RDI'',
    Auto ''X86_REG_RDX'', Auto ''X86_REG_RIP'', Auto ''X86_REG_RIZ'', Auto ''X86_REG_RSI'',
    Auto ''X86_REG_RSP'', Auto ''X86_REG_SI'', Auto ''X86_REG_SIL'', Auto ''X86_REG_SP'',
    Auto ''X86_REG_SPL'', Auto ''X86_REG_SS'', Auto ''X86_REG_CR0'', Auto ''X86_REG_CR1'',
    Auto ''X86_REG_CR2'', Auto ''X86_REG_CR3'', Auto ''X86_REG_CR4'', Auto ''X86_REG_CR5'',
    Auto ''X86_REG_CR6'', Auto ''X86_REG_CR7'', Auto ''X86_REG_CR8'', Auto ''X86_REG_CR9'',
    Auto ''X86_REG_CR10'', Auto ''X86_REG_CR11'', Auto ''X86_REG_CR12'', Auto ''X86_REG_CR13'',
    Auto ''X86_REG_CR14'', Auto ''X86_REG_CR15'', Auto ''X86_REG_DR0'', Auto ''X86_REG_DR1'',
    Auto ''X86_REG_DR2'', Auto ''X86_REG_DR3'', Auto ''X86_REG_DR4'', Auto ''X86_REG_DR5'',
    Auto ''X86_REG_DR6'', Auto ''X86_REG_DR7'', Auto ''X86_REG_FP0'', Auto ''X86_REG_FP1'',
    Auto ''X86_REG_FP2'', Auto ''X86_REG_FP3'', Auto ''X86_REG_FP4'', Auto ''X86_REG_FP5'',
    Auto ''X86_REG_FP6'', Auto ''X86_REG_FP7'', Auto ''X86_REG_K0'', Auto ''X86_REG_K1'',
    Auto ''X86_REG_K2'', Auto ''X86_REG_K3'', Auto ''X86_REG_K4'', Auto ''X86_REG_K5'',
    Auto ''X86_REG_K6'', Auto ''X86_REG_K7'', Auto ''X86_REG_MM0'', Auto ''X86_REG_MM1'',
    Auto ''X86_REG_MM2'', Auto ''X86_REG_MM3'', Auto ''X86_REG_MM4'', Auto ''X86_REG_MM5'',
    Auto ''X86_REG_MM6'', Auto ''X86_REG_MM7'', Auto ''X86_REG_R8'', Auto ''X86_REG_R9'',
    Auto ''X86_REG_R10'', Auto ''X86_REG_R11'', Auto ''X86_REG_R12'', Auto ''X86_REG_R13'',
    Auto ''X86_REG_R14'', Auto ''X86_REG_R15'', Auto ''X86_REG_ST0'', Auto ''X86_REG_ST1'',
    Auto ''X86_REG_ST2'', Auto ''X86_REG_ST3'', Auto ''X86_REG_ST4'', Auto ''X86_REG_ST5'',
    Auto ''X86_REG_ST6'', Auto ''X86_REG_ST7'', Auto ''X86_REG_XMM0'', Auto ''X86_REG_XMM1'',
    Auto ''X86_REG_XMM2'', Auto ''X86_REG_XMM3'', Auto ''X86_REG_XMM4'', Auto ''X86_REG_XMM5'',
    Auto ''X86_REG_XMM6'', Auto ''X86_REG_XMM7'', Auto ''X86_REG_XMM8'', Auto ''X86_REG_XMM9'',
    Auto ''X86_REG_XMM10'', Auto ''X86_REG_XMM11'', Auto ''X86_REG_XMM12'', Auto ''X86_REG_XMM13'',
    Auto ''X86_REG_XMM14'', Auto ''X86_REG_XMM15'', Auto ''X86_REG_XMM16'', Auto ''X86_REG_XMM17'',
    Auto ''X86_REG_XMM18'', Auto ''X86_REG_XMM19'', Auto ''X86_REG_XMM20'', Auto ''X86_REG_XMM21'',
    Auto ''X86_REG_XMM22'', Auto ''X86_REG_XMM23'', Auto ''X86_REG_XMM24'', Auto ''X86_REG_XMM25'',
    Auto ''X86_REG_XMM26'', Auto ''X86_REG_XMM27'', Auto ''X86_REG_XMM28'', Auto ''X86_REG_XMM29'',
    Auto ''X86_REG_XMM30'', Auto ''X86_REG_XMM31'', Auto ''X86_REG_YMM0'', Auto ''X86_REG_YMM1'',
    Auto ''X86_REG_YMM2'', Auto ''X86_REG_YMM3'', Auto ''X86_REG_YMM4'', Auto ''X86_REG_YMM5'',
    Auto ''X86_REG_YMM6'', Auto ''X86_REG_YMM7'', Auto ''X86_REG_YMM8'', Auto ''X86_REG_YMM9'',
    Auto ''X86_REG_YMM10'', Auto ''X86_REG_YMM11'', Auto ''X86_REG_YMM12'', Auto ''X86_REG_YMM13'',
    Auto ''X86_REG_YMM14'', Auto ''X86_REG_YMM15'', Auto ''X86_REG_YMM16'', Auto ''X86_REG_YMM17'',
    Auto ''X86_REG_YMM18'', Auto ''X86_REG_YMM19'', Auto ''X86_REG_YMM20'', Auto ''X86_REG_YMM21'',
    Auto ''X86_REG_YMM22'', Auto ''X86_REG_YMM23'', Auto ''X86_REG_YMM24'', Auto ''X86_REG_YMM25'',
    Auto ''X86_REG_YMM26'', Auto ''X86_REG_YMM27'', Auto ''X86_REG_YMM28'', Auto ''X86_REG_YMM29'',
    Auto ''X86_REG_YMM30'', Auto ''X86_REG_YMM31'', Auto ''X86_REG_ZMM0'', Auto ''X86_REG_ZMM1'',
    Auto ''X86_REG_ZMM2'', Auto ''X86_REG_ZMM3'', Auto ''X86_REG_ZMM4'', Auto ''X86_REG_ZMM5'',
    Auto ''X86_REG_ZMM6'', Auto ''X86_REG_ZMM7'', Auto ''X86_REG_ZMM8'', Auto ''X86_REG_ZMM9'',
    Auto ''X86_REG_ZMM10'', Auto ''X86_REG_ZMM11'', Auto ''X86_REG_ZMM12'', Auto ''X86_REG_ZMM13'',
    Auto ''X86_REG_ZMM14'', Auto ''X86_REG_ZMM15'', Auto ''X86_REG_ZMM16'', Auto ''X86_REG_ZMM17'',
    Auto ''X86_REG_ZMM18'', Auto ''X86_REG_ZMM19'', Auto ''X86_REG_ZMM20'', Auto ''X86_REG_ZMM21'',
    Auto ''X86_REG_ZMM22'', Auto ''X86_REG_ZMM23'', Auto ''X86_REG_ZMM24'', Auto ''X86_REG_ZMM25'',
    Auto ''X86_REG_ZMM26'', Auto ''X86_REG_ZMM27'', Auto ''X86_REG_ZMM28'', Auto ''X86_REG_ZMM29'',
    Auto ''X86_REG_ZMM30'', Auto ''X86_REG_ZMM31'', Auto ''X86_REG_R8B'', Auto ''X86_REG_R9B'',
    Auto ''X86_REG_R10B'', Auto ''X86_REG_R11B'', Auto ''X86_REG_R12B'', Auto ''X86_REG_R13B'',
    Auto ''X86_REG_R14B'', Auto ''X86_REG_R15B'', Auto ''X86_REG_R8D'', Auto ''X86_REG_R9D'',
    Auto ''X86_REG_R10D'', Auto ''X86_REG_R11D'', Auto ''X86_REG_R12D'', Auto ''X86_REG_R13D'',
    Auto ''X86_REG_R14D'', Auto ''X86_REG_R15D'', Auto ''X86_REG_R8W'', Auto ''X86_REG_R9W'',
    Auto ''X86_REG_R10W'', Auto ''X86_REG_R11W'', Auto ''X86_REG_R12W'', Auto ''X86_REG_R13W'',
    Auto ''X86_REG_R14W'', Auto ''X86_REG_R15W'', Auto ''X86_REG_ENDING'']"

definition x86_op_type :: "enumerator list" where
  "x86_op_type = [
    Init ''X86_OP_INVALID'' (Num 0), Auto ''X86_OP_REG'', Auto ''X86_OP_IMM'', Auto ''X86_OP_MEM'',
    Auto ''X86_OP_FP'']"

definition x86_avx_bcast :: "enumerator list" where
  "x86_avx_bcast = [
    Init ''X86_AVX_BCAST_INVALID'' (Num 0), Auto ''X86_AVX_BCAST_2'', Auto ''X86_AVX_BCAST_4'',
    Auto ''X86_AVX_BCAST_8'', Auto ''X86_AVX_BCAST_16'']"

definition x86_sse_cc :: "enumerator list" where
  "x86_sse_cc = [
    Init ''X86_SSE_CC_INVALID'' (Num 0), Auto ''X86_SSE_CC_EQ'', Auto ''X86_SSE_CC_LT'',
    Auto ''X86_SSE_CC_LE'', Auto ''X86_SSE_CC_UNORD'', Auto ''X86_SSE_CC_NEQ'', Auto ''X86_SSE_CC_NLT'',
    Auto ''X86_SSE_CC_NLE'', Auto ''X86_SSE_CC_ORD'', Auto ''X86_SSE_CC_EQ_UQ'',
    Auto ''X86_SSE_CC_NGE'', Auto ''X86_SSE_CC_NGT'', Auto ''X86_SSE_CC_FALSE'',
    Auto ''X86_SSE_CC_NEQ_OQ'', Auto ''X86_SSE_CC_GE'', Auto ''X86_SSE_CC_GT'', Auto ''X86_SSE_CC_TRUE'']"

definition x86_avx_cc :: "enumerator list" where
  "x86_avx_cc = [
    Init ''X86_AVX_CC_INVALID'' (Num 0), Auto ''X86_AVX_CC_EQ'', Auto ''X86_AVX_CC_LT'',
    Auto ''X86_AVX_CC_LE'', Auto ''X86_AVX_CC_UNORD'', Auto ''X86_AVX_CC_NEQ'', Auto ''X86_AVX_CC_NLT'',
    Auto ''X86_AVX_CC_NLE'', Auto ''X86_AVX_CC_ORD'', Auto ''X86_AVX_CC_EQ_UQ'',
    Auto ''X86_AVX_CC_NGE'', Auto ''X86_AVX_CC_NGT'', Auto ''X86_AVX_CC_FALSE'',
    Auto ''X86_AVX_CC_NEQ_OQ'', Auto ''X86_AVX_CC_GE'', Auto ''X86_AVX_CC_GT'',
    Auto ''X86_AVX_CC_TRUE'', Auto ''X86_AVX_CC_EQ_OS'', Auto ''X86_AVX_CC_LT_OQ'',
    Auto ''X86_AVX_CC_LE_OQ'', Auto ''X86_AVX_CC_UNORD_S'', Auto ''X86_AVX_CC_NEQ_US'',
    Auto ''X86_AVX_CC_NLT_UQ'', Auto ''X86_AVX_CC_NLE_UQ'', Auto ''X86_AVX_CC_ORD_S'',
    Auto ''X86_AVX_CC_EQ_US'', Auto ''X86_AVX_CC_NGE_UQ'', Auto ''X86_AVX_CC_NGT_UQ'',
    Auto ''X86_AVX_CC_FALSE_OS'', Auto ''X86_AVX_CC_NEQ_OS'', Auto ''X86_AVX_CC_GE_OQ'',
    Auto ''X86_AVX_CC_GT_OQ'', Auto ''X86_AVX_CC_TRUE_US'']"

definition x86_avx_rm :: "enumerator list" where
  "x86_avx_rm = [
    Init ''X86_AVX_RM_INVALID'' (Num 0), Auto ''X86_AVX_RM_RN'', Auto ''X86_AVX_RM_RD'',
    Auto ''X86_AVX_RM_RU'', Auto ''X86_AVX_RM_RZ'']"

definition x86_prefix :: "enumerator list" where
  "x86_prefix = [
    Init ''X86_PREFIX_LOCK'' (Num 240), Init ''X86_PREFIX_REP'' (Num 243),
    Init ''X86_PREFIX_REPNE'' (Num 242), Init ''X86_PREFIX_CS'' (Num 46),
    Init ''X86_PREFIX_SS'' (Num 54), Init ''X86_PREFIX_DS'' (Num 62), Init ''X86_PREFIX_ES'' (Num 38),
    Init ''X86_PREFIX_FS'' (Num 100), Init ''X86_PREFIX_GS'' (Num 101),
    Init ''X86_PREFIX_OPSIZE'' (Num 102), Init ''X86_PREFIX_ADDRSIZE'' (Num 103)]"

definition x86_insn_group :: "enumerator list" where
  "x86_insn_group = [
    Init ''X86_GRP_INVALID'' (Num 0), Auto ''X86_GRP_JUMP'', Auto ''X86_GRP_CALL'',
    Auto ''X86_GRP_RET'', Auto ''X86_GRP_INT'', Auto ''X86_GRP_IRET'', Init ''X86_GRP_VM'' (Num 128),
    Auto ''X86_GRP_3DNOW'', Auto ''X86_GRP_AES'', Auto ''X86_GRP_ADX'', Auto ''X86_GRP_AVX'',
    Auto ''X86_GRP_AVX2'', Auto ''X86_GRP_AVX512'', Auto ''X86_GRP_BMI'', Auto ''X86_GRP_BMI2'',
    Auto ''X86_GRP_CMOV'', Auto ''X86_GRP_F16C'', Auto ''X86_GRP_FMA'', Auto ''X86_GRP_FMA4'',
    Auto ''X86_GRP_FSGSBASE'', Auto ''X86_GRP_HLE'', Auto ''X86_GRP_MMX'', Auto ''X86_GRP_MODE32'',
    Auto ''X86_GRP_MODE64'', Auto ''X86_GRP_RTM'', Auto ''X86_GRP_SHA'', Auto ''X86_GRP_SSE1'',
    Auto ''X86_GRP_SSE2'', Auto ''X86_GRP_SSE3'', Auto ''X86_GRP_SSE41'', Auto ''X86_GRP_SSE42'',
    Auto ''X86_GRP_SSE4A'', Auto ''X86_GRP_SSSE3'', Auto ''X86_GRP_PCLMUL'', Auto ''X86_GRP_XOP'',
    Auto ''X86_GRP_CDI'', Auto ''X86_GRP_ERI'', Auto ''X86_GRP_TBM'', Auto ''X86_GRP_16BITMODE'',
    Auto ''X86_GRP_NOT64BITMODE'', Auto ''X86_GRP_SGX'', Auto ''X86_GRP_DQI'', Auto ''X86_GRP_BWI'',
    Auto ''X86_GRP_PFI'', Auto ''X86_GRP_VLX'', Auto ''X86_GRP_SMAP'', Auto ''X86_GRP_NOVLX'',
    Auto ''X86_GRP_ENDING'']"

end
