(* ===== verification/Hde.thy ===== *)
theory Hde
  imports Capstone_X86
begin

text \<open>
  The constants of the two Hacker Disassembler Engines (\<open>hde32.h\<close>, \<open>hde64.h\<close>): the flags a decoded instruction
  carries and the prefix bytes. Lilu compiles one of the headers, by architecture; the names are the same but
  some values are not. The decoders themselves are not in the repository; the structures they fill are in \<open>Structures\<close>.
\<close>

definition hde32_flags :: "(string \<times> u32) list" where
  "hde32_flags = [
    (''F_MODRM'', 0x00000001), (''F_SIB'', 0x00000002), (''F_IMM8'', 0x00000004), (''F_IMM16'', 0x00000008),
    (''F_IMM32'', 0x00000010), (''F_DISP8'', 0x00000020), (''F_DISP16'', 0x00000040), (''F_DISP32'', 0x00000080),
    (''F_RELATIVE'', 0x00000100), (''F_2IMM16'', 0x00000800), (''F_ERROR'', 0x00001000),
    (''F_ERROR_OPCODE'', 0x00002000), (''F_ERROR_LENGTH'', 0x00004000), (''F_ERROR_LOCK'', 0x00008000),
    (''F_ERROR_OPERAND'', 0x00010000), (''F_PREFIX_REPNZ'', 0x01000000), (''F_PREFIX_REPX'', 0x02000000),
    (''F_PREFIX_REP'', 0x03000000), (''F_PREFIX_66'', 0x04000000), (''F_PREFIX_67'', 0x08000000),
    (''F_PREFIX_LOCK'', 0x10000000), (''F_PREFIX_SEG'', 0x20000000), (''F_PREFIX_ANY'', 0x3f000000)]"

definition hde64_flags :: "(string \<times> u32) list" where
  "hde64_flags = [
    (''F_MODRM'', 0x00000001), (''F_SIB'', 0x00000002), (''F_IMM8'', 0x00000004), (''F_IMM16'', 0x00000008),
    (''F_IMM32'', 0x00000010), (''F_IMM64'', 0x00000020), (''F_DISP8'', 0x00000040), (''F_DISP16'', 0x00000080),
    (''F_DISP32'', 0x00000100), (''F_RELATIVE'', 0x00000200), (''F_ERROR'', 0x00001000),
    (''F_ERROR_OPCODE'', 0x00002000), (''F_ERROR_LENGTH'', 0x00004000), (''F_ERROR_LOCK'', 0x00008000),
    (''F_ERROR_OPERAND'', 0x00010000), (''F_PREFIX_REPNZ'', 0x01000000), (''F_PREFIX_REPX'', 0x02000000),
    (''F_PREFIX_REP'', 0x03000000), (''F_PREFIX_66'', 0x04000000), (''F_PREFIX_67'', 0x08000000),
    (''F_PREFIX_LOCK'', 0x10000000), (''F_PREFIX_SEG'', 0x20000000), (''F_PREFIX_REX'', 0x40000000),
    (''F_PREFIX_ANY'', 0x7f000000)]"

definition hde32_prefixes :: "(string \<times> u8) list" where
  "hde32_prefixes = [
    (''PREFIX_SEGMENT_CS'', 0x2e), (''PREFIX_SEGMENT_SS'', 0x36), (''PREFIX_SEGMENT_DS'', 0x3e),
    (''PREFIX_SEGMENT_ES'', 0x26), (''PREFIX_SEGMENT_FS'', 0x64), (''PREFIX_SEGMENT_GS'', 0x65),
    (''PREFIX_LOCK'', 0xf0), (''PREFIX_REPNZ'', 0xf2), (''PREFIX_REPX'', 0xf3),
    (''PREFIX_OPERAND_SIZE'', 0x66), (''PREFIX_ADDRESS_SIZE'', 0x67)]"

definition hde64_prefixes :: "(string \<times> u8) list" where
  "hde64_prefixes = [
    (''PREFIX_SEGMENT_CS'', 0x2e), (''PREFIX_SEGMENT_SS'', 0x36), (''PREFIX_SEGMENT_DS'', 0x3e),
    (''PREFIX_SEGMENT_ES'', 0x26), (''PREFIX_SEGMENT_FS'', 0x64), (''PREFIX_SEGMENT_GS'', 0x65),
    (''PREFIX_LOCK'', 0xf0), (''PREFIX_REPNZ'', 0xf2), (''PREFIX_REPX'', 0xf3),
    (''PREFIX_OPERAND_SIZE'', 0x66), (''PREFIX_ADDRESS_SIZE'', 0x67)]"

section \<open>Flags\<close>

definition combined :: "string \<Rightarrow> bool" where
  "combined n \<longleftrightarrow> n = ''F_PREFIX_REP'' \<or> n = ''F_PREFIX_ANY''"

definition is_prefix_flag :: "string \<Rightarrow> bool" where
  "is_prefix_flag n \<longleftrightarrow> take 9 n = ''F_PREFIX_'' \<and> \<not> combined n"

definition single_flags :: "(string \<times> u32) list \<Rightarrow> u32 list" where
  "single_flags fs = map snd (filter (\<lambda>(n, _). \<not> combined n) fs)"

text \<open>Flags that can be told apart in a word: each has one bit of its own.\<close>

definition separate :: "u32 list \<Rightarrow> bool" where
  "separate fs \<longleftrightarrow> distinct fs \<and> list_all (\<lambda>f. f \<noteq> 0 \<and> f AND (f - 1) = 0) fs"

definition or_all :: "u32 list \<Rightarrow> u32" where
  "or_all fs = fold (OR) fs 0"

definition prefix_flags :: "(string \<times> u32) list \<Rightarrow> u32 list" where
  "prefix_flags fs = map snd (filter (\<lambda>(n, _). is_prefix_flag n) fs)"

text \<open>In both headers every single flag has a bit of its own, \<open>F_PREFIX_REP\<close> is either repeat prefix and
  \<open>F_PREFIX_ANY\<close> is the union of all prefix flags (the 64-bit one with \<open>REX\<close>), and the two headers agree on every name
  they share except \<open>F_PREFIX_ANY\<close> and the displacements and the relative flag, which the 64-bit immediate moves by one bit.\<close>

theorem hde_flags_consistent:
  "separate (single_flags hde32_flags) \<and> separate (single_flags hde64_flags) \<and>
   map_of hde32_flags ''F_PREFIX_ANY'' = Some (or_all (prefix_flags hde32_flags)) \<and>
   map_of hde64_flags ''F_PREFIX_ANY'' = Some (or_all (prefix_flags hde64_flags) :: u32) \<and>
   map (\<lambda>fs. map_of fs ''F_PREFIX_REP'') [hde32_flags, hde64_flags]
     = map (\<lambda>fs. do { f \<leftarrow> map_of fs ''F_PREFIX_REPNZ''; g \<leftarrow> map_of fs ''F_PREFIX_REPX''; Some (f OR g) }) [hde32_flags, hde64_flags] \<and>
   map fst (filter (\<lambda>(n, f). map_of hde64_flags n \<noteq> None \<and> map_of hde64_flags n \<noteq> Some f) hde32_flags)
     = [''F_DISP8'', ''F_DISP16'', ''F_DISP32'', ''F_RELATIVE'', ''F_PREFIX_ANY''] \<and>
   list_all (\<lambda>n. map_of hde64_flags n = map_option (push_bit 1) (map_of hde32_flags n)) [''F_DISP8'', ''F_DISP16'', ''F_DISP32'', ''F_RELATIVE'']"
  by (intro conjI) (simp_all add: hde32_flags_def hde64_flags_def single_flags_def separate_def combined_def is_prefix_flag_def prefix_flags_def or_all_def)

section \<open>Prefix bytes\<close>

text \<open>The names Capstone gives to the same bytes.\<close>

definition capstone_prefix :: "(string \<times> string) list" where
  "capstone_prefix = [
    (''PREFIX_SEGMENT_CS'', ''X86_PREFIX_CS''), (''PREFIX_SEGMENT_SS'', ''X86_PREFIX_SS''), (''PREFIX_SEGMENT_DS'', ''X86_PREFIX_DS''),
    (''PREFIX_SEGMENT_ES'', ''X86_PREFIX_ES''), (''PREFIX_SEGMENT_FS'', ''X86_PREFIX_FS''), (''PREFIX_SEGMENT_GS'', ''X86_PREFIX_GS''),
    (''PREFIX_LOCK'', ''X86_PREFIX_LOCK''), (''PREFIX_REPNZ'', ''X86_PREFIX_REPNE''), (''PREFIX_REPX'', ''X86_PREFIX_REP''),
    (''PREFIX_OPERAND_SIZE'', ''X86_PREFIX_OPSIZE''), (''PREFIX_ADDRESS_SIZE'', ''X86_PREFIX_ADDRSIZE'')]"

text \<open>The three disassembler interfaces name the same prefix bytes: both engines give each prefix the byte that
  Capstone's \<open>x86_prefix\<close> gives its counterpart, and no two prefixes share a byte.\<close>

theorem prefix_bytes_agree:
  "hde32_prefixes = hde64_prefixes \<and> distinct (map snd hde32_prefixes) \<and>
   map (\<lambda>(n, b). Some (uint b)) hde32_prefixes
     = map (\<lambda>(n, _). do { c \<leftarrow> map_of capstone_prefix n; enum_value x86_prefix c }) hde32_prefixes"
  by (simp add: hde32_prefixes_def hde64_prefixes_def capstone_prefix_def x86_prefix_def enum_value_def enum_consts_def)

end
