(* ===== verification/Capstone_Arm.thy ===== *)
theory Capstone_Arm
  imports C_Enum
begin

text \<open>
  The enumerations of \<open>capstone/arm.h\<close> and \<open>capstone/arm64.h\<close>, but for the instruction identifiers.
\<close>

section \<open>ARM\<close>

definition arm_shifter :: "enumerator list" where
  "arm_shifter = [
    Init ''ARM_SFT_INVALID'' (Num 0), Auto ''ARM_SFT_ASR'', Auto ''ARM_SFT_LSL'', Auto ''ARM_SFT_LSR'',
    Auto ''ARM_SFT_ROR'', Auto ''ARM_SFT_RRX'', Auto ''ARM_SFT_ASR_REG'', Auto ''ARM_SFT_LSL_REG'',
    Auto ''ARM_SFT_LSR_REG'', Auto ''ARM_SFT_ROR_REG'', Auto ''ARM_SFT_RRX_REG'']"

definition arm_cc :: "enumerator list" where
  "arm_cc = [
    Init ''ARM_CC_INVALID'' (Num 0), Auto ''ARM_CC_EQ'', Auto ''ARM_CC_NE'', Auto ''ARM_CC_HS'',
    Auto ''ARM_CC_LO'', Auto ''ARM_CC_MI'', Auto ''ARM_CC_PL'', Auto ''ARM_CC_VS'', Auto ''ARM_CC_VC'',
    Auto ''ARM_CC_HI'', Auto ''ARM_CC_LS'', Auto ''ARM_CC_GE'', Auto ''ARM_CC_LT'', Auto ''ARM_CC_GT'',
    Auto ''ARM_CC_LE'', Auto ''ARM_CC_AL'']"

definition arm_sysreg :: "enumerator list" where
  "arm_sysreg = [
    Init ''ARM_SYSREG_INVALID'' (Num 0), Init ''ARM_SYSREG_SPSR_C'' (Num 1),
    Init ''ARM_SYSREG_SPSR_X'' (Num 2), Init ''ARM_SYSREG_SPSR_S'' (Num 4),
    Init ''ARM_SYSREG_SPSR_F'' (Num 8), Init ''ARM_SYSREG_CPSR_C'' (Num 16),
    Init ''ARM_SYSREG_CPSR_X'' (Num 32), Init ''ARM_SYSREG_CPSR_S'' (Num 64),
    Init ''ARM_SYSREG_CPSR_F'' (Num 128), Init ''ARM_SYSREG_APSR'' (Num 256),
    Auto ''ARM_SYSREG_APSR_G'', Auto ''ARM_SYSREG_APSR_NZCVQ'', Auto ''ARM_SYSREG_APSR_NZCVQG'',
    Auto ''ARM_SYSREG_IAPSR'', Auto ''ARM_SYSREG_IAPSR_G'', Auto ''ARM_SYSREG_IAPSR_NZCVQG'',
    Auto ''ARM_SYSREG_EAPSR'', Auto ''ARM_SYSREG_EAPSR_G'', Auto ''ARM_SYSREG_EAPSR_NZCVQG'',
    Auto ''ARM_SYSREG_XPSR'', Auto ''ARM_SYSREG_XPSR_G'', Auto ''ARM_SYSREG_XPSR_NZCVQG'',
    Auto ''ARM_SYSREG_IPSR'', Auto ''ARM_SYSREG_EPSR'', Auto ''ARM_SYSREG_IEPSR'',
    Auto ''ARM_SYSREG_MSP'', Auto ''ARM_SYSREG_PSP'', Auto ''ARM_SYSREG_PRIMASK'',
    Auto ''ARM_SYSREG_BASEPRI'', Auto ''ARM_SYSREG_BASEPRI_MAX'', Auto ''ARM_SYSREG_FAULTMASK'',
    Auto ''ARM_SYSREG_CONTROL'']"

definition arm_mem_barrier :: "enumerator list" where
  "arm_mem_barrier = [
    Init ''ARM_MB_INVALID'' (Num 0), Auto ''ARM_MB_RESERVED_0'', Auto ''ARM_MB_OSHLD'',
    Auto ''ARM_MB_OSHST'', Auto ''ARM_MB_OSH'', Auto ''ARM_MB_RESERVED_4'', Auto ''ARM_MB_NSHLD'',
    Auto ''ARM_MB_NSHST'', Auto ''ARM_MB_NSH'', Auto ''ARM_MB_RESERVED_8'', Auto ''ARM_MB_ISHLD'',
    Auto ''ARM_MB_ISHST'', Auto ''ARM_MB_ISH'', Auto ''ARM_MB_RESERVED_12'', Auto ''ARM_MB_LD'',
    Auto ''ARM_MB_ST'', Auto ''ARM_MB_SY'']"

definition arm_op_type :: "enumerator list" where
  "arm_op_type = [
    Init ''ARM_OP_INVALID'' (Num 0), Auto ''ARM_OP_REG'', Auto ''ARM_OP_IMM'', Auto ''ARM_OP_MEM'',
    Auto ''ARM_OP_FP'', Init ''ARM_OP_CIMM'' (Num 64), Auto ''ARM_OP_PIMM'', Auto ''ARM_OP_SETEND'',
    Auto ''ARM_OP_SYSREG'']"

definition arm_setend_type :: "enumerator list" where
  "arm_setend_type = [
    Init ''ARM_SETEND_INVALID'' (Num 0), Auto ''ARM_SETEND_BE'', Auto ''ARM_SETEND_LE'']"

definition arm_cpsmode_type :: "enumerator list" where
  "arm_cpsmode_type = [
    Init ''ARM_CPSMODE_INVALID'' (Num 0), Init ''ARM_CPSMODE_IE'' (Num 2),
    Init ''ARM_CPSMODE_ID'' (Num 3)]"

definition arm_cpsflag_type :: "enumerator list" where
  "arm_cpsflag_type = [
    Init ''ARM_CPSFLAG_INVALID'' (Num 0), Init ''ARM_CPSFLAG_F'' (Num 1),
    Init ''ARM_CPSFLAG_I'' (Num 2), Init ''ARM_CPSFLAG_A'' (Num 4), Init ''ARM_CPSFLAG_NONE'' (Num 16)]"

definition arm_vectordata_type :: "enumerator list" where
  "arm_vectordata_type = [
    Init ''ARM_VECTORDATA_INVALID'' (Num 0), Auto ''ARM_VECTORDATA_I8'', Auto ''ARM_VECTORDATA_I16'',
    Auto ''ARM_VECTORDATA_I32'', Auto ''ARM_VECTORDATA_I64'', Auto ''ARM_VECTORDATA_S8'',
    Auto ''ARM_VECTORDATA_S16'', Auto ''ARM_VECTORDATA_S32'', Auto ''ARM_VECTORDATA_S64'',
    Auto ''ARM_VECTORDATA_U8'', Auto ''ARM_VECTORDATA_U16'', Auto ''ARM_VECTORDATA_U32'',
    Auto ''ARM_VECTORDATA_U64'', Auto ''ARM_VECTORDATA_P8'', Auto ''ARM_VECTORDATA_F32'',
    Auto ''ARM_VECTORDATA_F64'', Auto ''ARM_VECTORDATA_F16F64'', Auto ''ARM_VECTORDATA_F64F16'',
    Auto ''ARM_VECTORDATA_F32F16'', Auto ''ARM_VECTORDATA_F16F32'', Auto ''ARM_VECTORDATA_F64F32'',
    Auto ''ARM_VECTORDATA_F32F64'', Auto ''ARM_VECTORDATA_S32F32'', Auto ''ARM_VECTORDATA_U32F32'',
    Auto ''ARM_VECTORDATA_F32S32'', Auto ''ARM_VECTORDATA_F32U32'', Auto ''ARM_VECTORDATA_F64S16'',
    Auto ''ARM_VECTORDATA_F32S16'', Auto ''ARM_VECTORDATA_F64S32'', Auto ''ARM_VECTORDATA_S16F64'',
    Auto ''ARM_VECTORDATA_S16F32'', Auto ''ARM_VECTORDATA_S32F64'', Auto ''ARM_VECTORDATA_U16F64'',
    Auto ''ARM_VECTORDATA_U16F32'', Auto ''ARM_VECTORDATA_U32F64'', Auto ''ARM_VECTORDATA_F64U16'',
    Auto ''ARM_VECTORDATA_F32U16'', Auto ''ARM_VECTORDATA_F64U32'']"

definition arm_reg :: "enumerator list" where
  "arm_reg = [
    Init ''ARM_REG_INVALID'' (Num 0), Auto ''ARM_REG_APSR'', Auto ''ARM_REG_APSR_NZCV'',
    Auto ''ARM_REG_CPSR'', Auto ''ARM_REG_FPEXC'', Auto ''ARM_REG_FPINST'', Auto ''ARM_REG_FPSCR'',
    Auto ''ARM_REG_FPSCR_NZCV'', Auto ''ARM_REG_FPSID'', Auto ''ARM_REG_ITSTATE'', Auto ''ARM_REG_LR'',
    Auto ''ARM_REG_PC'', Auto ''ARM_REG_SP'', Auto ''ARM_REG_SPSR'', Auto ''ARM_REG_D0'',
    Auto ''ARM_REG_D1'', Auto ''ARM_REG_D2'', Auto ''ARM_REG_D3'', Auto ''ARM_REG_D4'',
    Auto ''ARM_REG_D5'', Auto ''ARM_REG_D6'', Auto ''ARM_REG_D7'', Auto ''ARM_REG_D8'',
    Auto ''ARM_REG_D9'', Auto ''ARM_REG_D10'', Auto ''ARM_REG_D11'', Auto ''ARM_REG_D12'',
    Auto ''ARM_REG_D13'', Auto ''ARM_REG_D14'', Auto ''ARM_REG_D15'', Auto ''ARM_REG_D16'',
    Auto ''ARM_REG_D17'', Auto ''ARM_REG_D18'', Auto ''ARM_REG_D19'', Auto ''ARM_REG_D20'',
    Auto ''ARM_REG_D21'', Auto ''ARM_REG_D22'', Auto ''ARM_REG_D23'', Auto ''ARM_REG_D24'',
    Auto ''ARM_REG_D25'', Auto ''ARM_REG_D26'', Auto ''ARM_REG_D27'', Auto ''ARM_REG_D28'',
    Auto ''ARM_REG_D29'', Auto ''ARM_REG_D30'', Auto ''ARM_REG_D31'', Auto ''ARM_REG_FPINST2'',
    Auto ''ARM_REG_MVFR0'', Auto ''ARM_REG_MVFR1'', Auto ''ARM_REG_MVFR2'', Auto ''ARM_REG_Q0'',
    Auto ''ARM_REG_Q1'', Auto ''ARM_REG_Q2'', Auto ''ARM_REG_Q3'', Auto ''ARM_REG_Q4'',
    Auto ''ARM_REG_Q5'', Auto ''ARM_REG_Q6'', Auto ''ARM_REG_Q7'', Auto ''ARM_REG_Q8'',
    Auto ''ARM_REG_Q9'', Auto ''ARM_REG_Q10'', Auto ''ARM_REG_Q11'', Auto ''ARM_REG_Q12'',
    Auto ''ARM_REG_Q13'', Auto ''ARM_REG_Q14'', Auto ''ARM_REG_Q15'', Auto ''ARM_REG_R0'',
    Auto ''ARM_REG_R1'', Auto ''ARM_REG_R2'', Auto ''ARM_REG_R3'', Auto ''ARM_REG_R4'',
    Auto ''ARM_REG_R5'', Auto ''ARM_REG_R6'', Auto ''ARM_REG_R7'', Auto ''ARM_REG_R8'',
    Auto ''ARM_REG_R9'', Auto ''ARM_REG_R10'', Auto ''ARM_REG_R11'', Auto ''ARM_REG_R12'',
    Auto ''ARM_REG_S0'', Auto ''ARM_REG_S1'', Auto ''ARM_REG_S2'', Auto ''ARM_REG_S3'',
    Auto ''ARM_REG_S4'', Auto ''ARM_REG_S5'', Auto ''ARM_REG_S6'', Auto ''ARM_REG_S7'',
    Auto ''ARM_REG_S8'', Auto ''ARM_REG_S9'', Auto ''ARM_REG_S10'', Auto ''ARM_REG_S11'',
    Auto ''ARM_REG_S12'', Auto ''ARM_REG_S13'', Auto ''ARM_REG_S14'', Auto ''ARM_REG_S15'',
    Auto ''ARM_REG_S16'', Auto ''ARM_REG_S17'', Auto ''ARM_REG_S18'', Auto ''ARM_REG_S19'',
    Auto ''ARM_REG_S20'', Auto ''ARM_REG_S21'', Auto ''ARM_REG_S22'', Auto ''ARM_REG_S23'',
    Auto ''ARM_REG_S24'', Auto ''ARM_REG_S25'', Auto ''ARM_REG_S26'', Auto ''ARM_REG_S27'',
    Auto ''ARM_REG_S28'', Auto ''ARM_REG_S29'', Auto ''ARM_REG_S30'', Auto ''ARM_REG_S31'',
    Auto ''ARM_REG_ENDING'', Init ''ARM_REG_R13'' (Const ''ARM_REG_SP''),
    Init ''ARM_REG_R14'' (Const ''ARM_REG_LR''), Init ''ARM_REG_R15'' (Const ''ARM_REG_PC''),
    Init ''ARM_REG_SB'' (Const ''ARM_REG_R9''), Init ''ARM_REG_SL'' (Const ''ARM_REG_R10''),
    Init ''ARM_REG_FP'' (Const ''ARM_REG_R11''), Init ''ARM_REG_IP'' (Const ''ARM_REG_R12'')]"

definition arm_insn_group :: "enumerator list" where
  "arm_insn_group = [
    Init ''ARM_GRP_INVALID'' (Num 0), Auto ''ARM_GRP_JUMP'', Init ''ARM_GRP_CRYPTO'' (Num 128),
    Auto ''ARM_GRP_DATABARRIER'', Auto ''ARM_GRP_DIVIDE'', Auto ''ARM_GRP_FPARMV8'',
    Auto ''ARM_GRP_MULTPRO'', Auto ''ARM_GRP_NEON'', Auto ''ARM_GRP_T2EXTRACTPACK'',
    Auto ''ARM_GRP_THUMB2DSP'', Auto ''ARM_GRP_TRUSTZONE'', Auto ''ARM_GRP_V4T'', Auto ''ARM_GRP_V5T'',
    Auto ''ARM_GRP_V5TE'', Auto ''ARM_GRP_V6'', Auto ''ARM_GRP_V6T2'', Auto ''ARM_GRP_V7'',
    Auto ''ARM_GRP_V8'', Auto ''ARM_GRP_VFP2'', Auto ''ARM_GRP_VFP3'', Auto ''ARM_GRP_VFP4'',
    Auto ''ARM_GRP_ARM'', Auto ''ARM_GRP_MCLASS'', Auto ''ARM_GRP_NOTMCLASS'', Auto ''ARM_GRP_THUMB'',
    Auto ''ARM_GRP_THUMB1ONLY'', Auto ''ARM_GRP_THUMB2'', Auto ''ARM_GRP_PREV8'',
    Auto ''ARM_GRP_FPVMLX'', Auto ''ARM_GRP_MULOPS'', Auto ''ARM_GRP_CRC'', Auto ''ARM_GRP_DPVFP'',
    Auto ''ARM_GRP_V6M'', Auto ''ARM_GRP_ENDING'']"

section \<open>ARM64\<close>

definition arm64_shifter :: "enumerator list" where
  "arm64_shifter = [
    Init ''ARM64_SFT_INVALID'' (Num 0), Init ''ARM64_SFT_LSL'' (Num 1), Init ''ARM64_SFT_MSL'' (Num 2),
    Init ''ARM64_SFT_LSR'' (Num 3), Init ''ARM64_SFT_ASR'' (Num 4), Init ''ARM64_SFT_ROR'' (Num 5)]"

definition arm64_extender :: "enumerator list" where
  "arm64_extender = [
    Init ''ARM64_EXT_INVALID'' (Num 0), Init ''ARM64_EXT_UXTB'' (Num 1),
    Init ''ARM64_EXT_UXTH'' (Num 2), Init ''ARM64_EXT_UXTW'' (Num 3), Init ''ARM64_EXT_UXTX'' (Num 4),
    Init ''ARM64_EXT_SXTB'' (Num 5), Init ''ARM64_EXT_SXTH'' (Num 6), Init ''ARM64_EXT_SXTW'' (Num 7),
    Init ''ARM64_EXT_SXTX'' (Num 8)]"

definition arm64_cc :: "enumerator list" where
  "arm64_cc = [
    Init ''ARM64_CC_INVALID'' (Num 0), Init ''ARM64_CC_EQ'' (Num 1), Init ''ARM64_CC_NE'' (Num 2),
    Init ''ARM64_CC_HS'' (Num 3), Init ''ARM64_CC_LO'' (Num 4), Init ''ARM64_CC_MI'' (Num 5),
    Init ''ARM64_CC_PL'' (Num 6), Init ''ARM64_CC_VS'' (Num 7), Init ''ARM64_CC_VC'' (Num 8),
    Init ''ARM64_CC_HI'' (Num 9), Init ''ARM64_CC_LS'' (Num 10), Init ''ARM64_CC_GE'' (Num 11),
    Init ''ARM64_CC_LT'' (Num 12), Init ''ARM64_CC_GT'' (Num 13), Init ''ARM64_CC_LE'' (Num 14),
    Init ''ARM64_CC_AL'' (Num 15), Init ''ARM64_CC_NV'' (Num 16)]"

definition arm64_sysreg :: "enumerator list" where
  "arm64_sysreg = [
    Init ''ARM64_SYSREG_INVALID'' (Num 0), Init ''ARM64_SYSREG_MDCCSR_EL0'' (Num 38920),
    Init ''ARM64_SYSREG_DBGDTRRX_EL0'' (Num 38952), Init ''ARM64_SYSREG_MDRAR_EL1'' (Num 32896),
    Init ''ARM64_SYSREG_OSLSR_EL1'' (Num 32908), Init ''ARM64_SYSREG_DBGAUTHSTATUS_EL1'' (Num 33782),
    Init ''ARM64_SYSREG_PMCEID0_EL0'' (Num 56550), Init ''ARM64_SYSREG_PMCEID1_EL0'' (Num 56551),
    Init ''ARM64_SYSREG_MIDR_EL1'' (Num 49152), Init ''ARM64_SYSREG_CCSIDR_EL1'' (Num 51200),
    Init ''ARM64_SYSREG_CLIDR_EL1'' (Num 51201), Init ''ARM64_SYSREG_CTR_EL0'' (Num 55297),
    Init ''ARM64_SYSREG_MPIDR_EL1'' (Num 49157), Init ''ARM64_SYSREG_REVIDR_EL1'' (Num 49158),
    Init ''ARM64_SYSREG_AIDR_EL1'' (Num 51207), Init ''ARM64_SYSREG_DCZID_EL0'' (Num 55303),
    Init ''ARM64_SYSREG_ID_PFR0_EL1'' (Num 49160), Init ''ARM64_SYSREG_ID_PFR1_EL1'' (Num 49161),
    Init ''ARM64_SYSREG_ID_DFR0_EL1'' (Num 49162), Init ''ARM64_SYSREG_ID_AFR0_EL1'' (Num 49163),
    Init ''ARM64_SYSREG_ID_MMFR0_EL1'' (Num 49164), Init ''ARM64_SYSREG_ID_MMFR1_EL1'' (Num 49165),
    Init ''ARM64_SYSREG_ID_MMFR2_EL1'' (Num 49166), Init ''ARM64_SYSREG_ID_MMFR3_EL1'' (Num 49167),
    Init ''ARM64_SYSREG_ID_ISAR0_EL1'' (Num 49168), Init ''ARM64_SYSREG_ID_ISAR1_EL1'' (Num 49169),
    Init ''ARM64_SYSREG_ID_ISAR2_EL1'' (Num 49170), Init ''ARM64_SYSREG_ID_ISAR3_EL1'' (Num 49171),
    Init ''ARM64_SYSREG_ID_ISAR4_EL1'' (Num 49172), Init ''ARM64_SYSREG_ID_ISAR5_EL1'' (Num 49173),
    Init ''ARM64_SYSREG_ID_A64PFR0_EL1'' (Num 49184), Init ''ARM64_SYSREG_ID_A64PFR1_EL1'' (Num 49185),
    Init ''ARM64_SYSREG_ID_A64DFR0_EL1'' (Num 49192), Init ''ARM64_SYSREG_ID_A64DFR1_EL1'' (Num 49193),
    Init ''ARM64_SYSREG_ID_A64AFR0_EL1'' (Num 49196), Init ''ARM64_SYSREG_ID_A64AFR1_EL1'' (Num 49197),
    Init ''ARM64_SYSREG_ID_A64ISAR0_EL1'' (Num 49200),
    Init ''ARM64_SYSREG_ID_A64ISAR1_EL1'' (Num 49201),
    Init ''ARM64_SYSREG_ID_A64MMFR0_EL1'' (Num 49208),
    Init ''ARM64_SYSREG_ID_A64MMFR1_EL1'' (Num 49209), Init ''ARM64_SYSREG_MVFR0_EL1'' (Num 49176),
    Init ''ARM64_SYSREG_MVFR1_EL1'' (Num 49177), Init ''ARM64_SYSREG_MVFR2_EL1'' (Num 49178),
    Init ''ARM64_SYSREG_RVBAR_EL1'' (Num 50689), Init ''ARM64_SYSREG_RVBAR_EL2'' (Num 58881),
    Init ''ARM64_SYSREG_RVBAR_EL3'' (Num 62977), Init ''ARM64_SYSREG_ISR_EL1'' (Num 50696),
    Init ''ARM64_SYSREG_CNTPCT_EL0'' (Num 57089), Init ''ARM64_SYSREG_CNTVCT_EL0'' (Num 57090),
    Init ''ARM64_SYSREG_TRCSTATR'' (Num 34840), Init ''ARM64_SYSREG_TRCIDR8'' (Num 34822),
    Init ''ARM64_SYSREG_TRCIDR9'' (Num 34830), Init ''ARM64_SYSREG_TRCIDR10'' (Num 34838),
    Init ''ARM64_SYSREG_TRCIDR11'' (Num 34846), Init ''ARM64_SYSREG_TRCIDR12'' (Num 34854),
    Init ''ARM64_SYSREG_TRCIDR13'' (Num 34862), Init ''ARM64_SYSREG_TRCIDR0'' (Num 34887),
    Init ''ARM64_SYSREG_TRCIDR1'' (Num 34895), Init ''ARM64_SYSREG_TRCIDR2'' (Num 34903),
    Init ''ARM64_SYSREG_TRCIDR3'' (Num 34911), Init ''ARM64_SYSREG_TRCIDR4'' (Num 34919),
    Init ''ARM64_SYSREG_TRCIDR5'' (Num 34927), Init ''ARM64_SYSREG_TRCIDR6'' (Num 34935),
    Init ''ARM64_SYSREG_TRCIDR7'' (Num 34943), Init ''ARM64_SYSREG_TRCOSLSR'' (Num 34956),
    Init ''ARM64_SYSREG_TRCPDSR'' (Num 34988), Init ''ARM64_SYSREG_TRCDEVAFF0'' (Num 35798),
    Init ''ARM64_SYSREG_TRCDEVAFF1'' (Num 35806), Init ''ARM64_SYSREG_TRCLSR'' (Num 35822),
    Init ''ARM64_SYSREG_TRCAUTHSTATUS'' (Num 35830), Init ''ARM64_SYSREG_TRCDEVARCH'' (Num 35838),
    Init ''ARM64_SYSREG_TRCDEVID'' (Num 35735), Init ''ARM64_SYSREG_TRCDEVTYPE'' (Num 35743),
    Init ''ARM64_SYSREG_TRCPIDR4'' (Num 35751), Init ''ARM64_SYSREG_TRCPIDR5'' (Num 35759),
    Init ''ARM64_SYSREG_TRCPIDR6'' (Num 35767), Init ''ARM64_SYSREG_TRCPIDR7'' (Num 35775),
    Init ''ARM64_SYSREG_TRCPIDR0'' (Num 35783), Init ''ARM64_SYSREG_TRCPIDR1'' (Num 35791),
    Init ''ARM64_SYSREG_TRCPIDR2'' (Num 35799), Init ''ARM64_SYSREG_TRCPIDR3'' (Num 35807),
    Init ''ARM64_SYSREG_TRCCIDR0'' (Num 35815), Init ''ARM64_SYSREG_TRCCIDR1'' (Num 35823),
    Init ''ARM64_SYSREG_TRCCIDR2'' (Num 35831), Init ''ARM64_SYSREG_TRCCIDR3'' (Num 35839),
    Init ''ARM64_SYSREG_ICC_IAR1_EL1'' (Num 50784), Init ''ARM64_SYSREG_ICC_IAR0_EL1'' (Num 50752),
    Init ''ARM64_SYSREG_ICC_HPPIR1_EL1'' (Num 50786), Init ''ARM64_SYSREG_ICC_HPPIR0_EL1'' (Num 50754),
    Init ''ARM64_SYSREG_ICC_RPR_EL1'' (Num 50779), Init ''ARM64_SYSREG_ICH_VTR_EL2'' (Num 58969),
    Init ''ARM64_SYSREG_ICH_EISR_EL2'' (Num 58971), Init ''ARM64_SYSREG_ICH_ELSR_EL2'' (Num 58973)]"

definition arm64_msr_reg :: "enumerator list" where
  "arm64_msr_reg = [
    Init ''ARM64_SYSREG_DBGDTRTX_EL0'' (Num 38952), Init ''ARM64_SYSREG_OSLAR_EL1'' (Num 32900),
    Init ''ARM64_SYSREG_PMSWINC_EL0'' (Num 56548), Init ''ARM64_SYSREG_TRCOSLAR'' (Num 34948),
    Init ''ARM64_SYSREG_TRCLAR'' (Num 35814), Init ''ARM64_SYSREG_ICC_EOIR1_EL1'' (Num 50785),
    Init ''ARM64_SYSREG_ICC_EOIR0_EL1'' (Num 50753), Init ''ARM64_SYSREG_ICC_DIR_EL1'' (Num 50777),
    Init ''ARM64_SYSREG_ICC_SGI1R_EL1'' (Num 50781), Init ''ARM64_SYSREG_ICC_ASGI1R_EL1'' (Num 50782),
    Init ''ARM64_SYSREG_ICC_SGI0R_EL1'' (Num 50783)]"

definition arm64_pstate :: "enumerator list" where
  "arm64_pstate = [
    Init ''ARM64_PSTATE_INVALID'' (Num 0), Init ''ARM64_PSTATE_SPSEL'' (Num 5),
    Init ''ARM64_PSTATE_DAIFSET'' (Num 30), Init ''ARM64_PSTATE_DAIFCLR'' (Num 31)]"

definition arm64_vas :: "enumerator list" where
  "arm64_vas = [
    Init ''ARM64_VAS_INVALID'' (Num 0), Auto ''ARM64_VAS_8B'', Auto ''ARM64_VAS_16B'',
    Auto ''ARM64_VAS_4H'', Auto ''ARM64_VAS_8H'', Auto ''ARM64_VAS_2S'', Auto ''ARM64_VAS_4S'',
    Auto ''ARM64_VAS_1D'', Auto ''ARM64_VAS_2D'', Auto ''ARM64_VAS_1Q'']"

definition arm64_vess :: "enumerator list" where
  "arm64_vess = [
    Init ''ARM64_VESS_INVALID'' (Num 0), Auto ''ARM64_VESS_B'', Auto ''ARM64_VESS_H'',
    Auto ''ARM64_VESS_S'', Auto ''ARM64_VESS_D'']"

definition arm64_barrier_op :: "enumerator list" where
  "arm64_barrier_op = [
    Init ''ARM64_BARRIER_INVALID'' (Num 0), Init ''ARM64_BARRIER_OSHLD'' (Num 1),
    Init ''ARM64_BARRIER_OSHST'' (Num 2), Init ''ARM64_BARRIER_OSH'' (Num 3),
    Init ''ARM64_BARRIER_NSHLD'' (Num 5), Init ''ARM64_BARRIER_NSHST'' (Num 6),
    Init ''ARM64_BARRIER_NSH'' (Num 7), Init ''ARM64_BARRIER_ISHLD'' (Num 9),
    Init ''ARM64_BARRIER_ISHST'' (Num 10), Init ''ARM64_BARRIER_ISH'' (Num 11),
    Init ''ARM64_BARRIER_LD'' (Num 13), Init ''ARM64_BARRIER_ST'' (Num 14),
    Init ''ARM64_BARRIER_SY'' (Num 15)]"

definition arm64_op_type :: "enumerator list" where
  "arm64_op_type = [
    Init ''ARM64_OP_INVALID'' (Num 0), Auto ''ARM64_OP_REG'', Auto ''ARM64_OP_IMM'',
    Auto ''ARM64_OP_MEM'', Auto ''ARM64_OP_FP'', Init ''ARM64_OP_CIMM'' (Num 64),
    Auto ''ARM64_OP_REG_MRS'', Auto ''ARM64_OP_REG_MSR'', Auto ''ARM64_OP_PSTATE'',
    Auto ''ARM64_OP_SYS'', Auto ''ARM64_OP_PREFETCH'', Auto ''ARM64_OP_BARRIER'']"

definition arm64_tlbi_op :: "enumerator list" where
  "arm64_tlbi_op = [
    Init ''ARM64_TLBI_INVALID'' (Num 0), Auto ''ARM64_TLBI_VMALLE1IS'', Auto ''ARM64_TLBI_VAE1IS'',
    Auto ''ARM64_TLBI_ASIDE1IS'', Auto ''ARM64_TLBI_VAAE1IS'', Auto ''ARM64_TLBI_VALE1IS'',
    Auto ''ARM64_TLBI_VAALE1IS'', Auto ''ARM64_TLBI_ALLE2IS'', Auto ''ARM64_TLBI_VAE2IS'',
    Auto ''ARM64_TLBI_ALLE1IS'', Auto ''ARM64_TLBI_VALE2IS'', Auto ''ARM64_TLBI_VMALLS12E1IS'',
    Auto ''ARM64_TLBI_ALLE3IS'', Auto ''ARM64_TLBI_VAE3IS'', Auto ''ARM64_TLBI_VALE3IS'',
    Auto ''ARM64_TLBI_IPAS2E1IS'', Auto ''ARM64_TLBI_IPAS2LE1IS'', Auto ''ARM64_TLBI_IPAS2E1'',
    Auto ''ARM64_TLBI_IPAS2LE1'', Auto ''ARM64_TLBI_VMALLE1'', Auto ''ARM64_TLBI_VAE1'',
    Auto ''ARM64_TLBI_ASIDE1'', Auto ''ARM64_TLBI_VAAE1'', Auto ''ARM64_TLBI_VALE1'',
    Auto ''ARM64_TLBI_VAALE1'', Auto ''ARM64_TLBI_ALLE2'', Auto ''ARM64_TLBI_VAE2'',
    Auto ''ARM64_TLBI_ALLE1'', Auto ''ARM64_TLBI_VALE2'', Auto ''ARM64_TLBI_VMALLS12E1'',
    Auto ''ARM64_TLBI_ALLE3'', Auto ''ARM64_TLBI_VAE3'', Auto ''ARM64_TLBI_VALE3'']"

definition arm64_at_op :: "enumerator list" where
  "arm64_at_op = [
    Auto ''ARM64_AT_S1E1R'', Auto ''ARM64_AT_S1E1W'', Auto ''ARM64_AT_S1E0R'', Auto ''ARM64_AT_S1E0W'',
    Auto ''ARM64_AT_S1E2R'', Auto ''ARM64_AT_S1E2W'', Auto ''ARM64_AT_S12E1R'',
    Auto ''ARM64_AT_S12E1W'', Auto ''ARM64_AT_S12E0R'', Auto ''ARM64_AT_S12E0W'',
    Auto ''ARM64_AT_S1E3R'', Auto ''ARM64_AT_S1E3W'']"

definition arm64_dc_op :: "enumerator list" where
  "arm64_dc_op = [
    Init ''ARM64_DC_INVALID'' (Num 0), Auto ''ARM64_DC_ZVA'', Auto ''ARM64_DC_IVAC'',
    Auto ''ARM64_DC_ISW'', Auto ''ARM64_DC_CVAC'', Auto ''ARM64_DC_CSW'', Auto ''ARM64_DC_CVAU'',
    Auto ''ARM64_DC_CIVAC'', Auto ''ARM64_DC_CISW'']"

definition arm64_ic_op :: "enumerator list" where
  "arm64_ic_op = [
    Init ''ARM64_IC_INVALID'' (Num 0), Auto ''ARM64_IC_IALLUIS'', Auto ''ARM64_IC_IALLU'',
    Auto ''ARM64_IC_IVAU'']"

definition arm64_prefetch_op :: "enumerator list" where
  "arm64_prefetch_op = [
    Init ''ARM64_PRFM_INVALID'' (Num 0), Init ''ARM64_PRFM_PLDL1KEEP'' (Add (Num 0) (Num 1)),
    Init ''ARM64_PRFM_PLDL1STRM'' (Add (Num 1) (Num 1)),
    Init ''ARM64_PRFM_PLDL2KEEP'' (Add (Num 2) (Num 1)),
    Init ''ARM64_PRFM_PLDL2STRM'' (Add (Num 3) (Num 1)),
    Init ''ARM64_PRFM_PLDL3KEEP'' (Add (Num 4) (Num 1)),
    Init ''ARM64_PRFM_PLDL3STRM'' (Add (Num 5) (Num 1)),
    Init ''ARM64_PRFM_PLIL1KEEP'' (Add (Num 8) (Num 1)),
    Init ''ARM64_PRFM_PLIL1STRM'' (Add (Num 9) (Num 1)),
    Init ''ARM64_PRFM_PLIL2KEEP'' (Add (Num 10) (Num 1)),
    Init ''ARM64_PRFM_PLIL2STRM'' (Add (Num 11) (Num 1)),
    Init ''ARM64_PRFM_PLIL3KEEP'' (Add (Num 12) (Num 1)),
    Init ''ARM64_PRFM_PLIL3STRM'' (Add (Num 13) (Num 1)),
    Init ''ARM64_PRFM_PSTL1KEEP'' (Add (Num 16) (Num 1)),
    Init ''ARM64_PRFM_PSTL1STRM'' (Add (Num 17) (Num 1)),
    Init ''ARM64_PRFM_PSTL2KEEP'' (Add (Num 18) (Num 1)),
    Init ''ARM64_PRFM_PSTL2STRM'' (Add (Num 19) (Num 1)),
    Init ''ARM64_PRFM_PSTL3KEEP'' (Add (Num 20) (Num 1)),
    Init ''ARM64_PRFM_PSTL3STRM'' (Add (Num 21) (Num 1))]"

definition arm64_reg_1 :: "enumerator list" where
  "arm64_reg_1 = [
    Init ''ARM64_REG_INVALID'' (Num 0), Auto ''ARM64_REG_X29'', Auto ''ARM64_REG_X30'',
    Auto ''ARM64_REG_NZCV'', Auto ''ARM64_REG_SP'', Auto ''ARM64_REG_WSP'', Auto ''ARM64_REG_WZR'',
    Auto ''ARM64_REG_XZR'', Auto ''ARM64_REG_B0'', Auto ''ARM64_REG_B1'', Auto ''ARM64_REG_B2'',
    Auto ''ARM64_REG_B3'', Auto ''ARM64_REG_B4'', Auto ''ARM64_REG_B5'', Auto ''ARM64_REG_B6'',
    Auto ''ARM64_REG_B7'', Auto ''ARM64_REG_B8'', Auto ''ARM64_REG_B9'', Auto ''ARM64_REG_B10'',
    Auto ''ARM64_REG_B11'', Auto ''ARM64_REG_B12'', Auto ''ARM64_REG_B13'', Auto ''ARM64_REG_B14'',
    Auto ''ARM64_REG_B15'', Auto ''ARM64_REG_B16'', Auto ''ARM64_REG_B17'', Auto ''ARM64_REG_B18'',
    Auto ''ARM64_REG_B19'', Auto ''ARM64_REG_B20'', Auto ''ARM64_REG_B21'', Auto ''ARM64_REG_B22'',
    Auto ''ARM64_REG_B23'', Auto ''ARM64_REG_B24'', Auto ''ARM64_REG_B25'', Auto ''ARM64_REG_B26'',
    Auto ''ARM64_REG_B27'', Auto ''ARM64_REG_B28'', Auto ''ARM64_REG_B29'', Auto ''ARM64_REG_B30'',
    Auto ''ARM64_REG_B31'', Auto ''ARM64_REG_D0'', Auto ''ARM64_REG_D1'', Auto ''ARM64_REG_D2'',
    Auto ''ARM64_REG_D3'', Auto ''ARM64_REG_D4'', Auto ''ARM64_REG_D5'', Auto ''ARM64_REG_D6'',
    Auto ''ARM64_REG_D7'', Auto ''ARM64_REG_D8'', Auto ''ARM64_REG_D9'', Auto ''ARM64_REG_D10'',
    Auto ''ARM64_REG_D11'', Auto ''ARM64_REG_D12'', Auto ''ARM64_REG_D13'', Auto ''ARM64_REG_D14'',
    Auto ''ARM64_REG_D15'', Auto ''ARM64_REG_D16'', Auto ''ARM64_REG_D17'', Auto ''ARM64_REG_D18'',
    Auto ''ARM64_REG_D19'', Auto ''ARM64_REG_D20'', Auto ''ARM64_REG_D21'', Auto ''ARM64_REG_D22'',
    Auto ''ARM64_REG_D23'', Auto ''ARM64_REG_D24'', Auto ''ARM64_REG_D25'', Auto ''ARM64_REG_D26'',
    Auto ''ARM64_REG_D27'', Auto ''ARM64_REG_D28'', Auto ''ARM64_REG_D29'', Auto ''ARM64_REG_D30'',
    Auto ''ARM64_REG_D31'', Auto ''ARM64_REG_H0'', Auto ''ARM64_REG_H1'', Auto ''ARM64_REG_H2'',
    Auto ''ARM64_REG_H3'', Auto ''ARM64_REG_H4'', Auto ''ARM64_REG_H5'', Auto ''ARM64_REG_H6'',
    Auto ''ARM64_REG_H7'', Auto ''ARM64_REG_H8'', Auto ''ARM64_REG_H9'', Auto ''ARM64_REG_H10'',
    Auto ''ARM64_REG_H11'', Auto ''ARM64_REG_H12'', Auto ''ARM64_REG_H13'', Auto ''ARM64_REG_H14'',
    Auto ''ARM64_REG_H15'', Auto ''ARM64_REG_H16'', Auto ''ARM64_REG_H17'', Auto ''ARM64_REG_H18'',
    Auto ''ARM64_REG_H19'', Auto ''ARM64_REG_H20'', Auto ''ARM64_REG_H21'', Auto ''ARM64_REG_H22'',
    Auto ''ARM64_REG_H23'', Auto ''ARM64_REG_H24'', Auto ''ARM64_REG_H25'', Auto ''ARM64_REG_H26'',
    Auto ''ARM64_REG_H27'', Auto ''ARM64_REG_H28'', Auto ''ARM64_REG_H29'', Auto ''ARM64_REG_H30'',
    Auto ''ARM64_REG_H31'', Auto ''ARM64_REG_Q0'', Auto ''ARM64_REG_Q1'', Auto ''ARM64_REG_Q2'',
    Auto ''ARM64_REG_Q3'', Auto ''ARM64_REG_Q4'', Auto ''ARM64_REG_Q5'', Auto ''ARM64_REG_Q6'',
    Auto ''ARM64_REG_Q7'', Auto ''ARM64_REG_Q8'', Auto ''ARM64_REG_Q9'', Auto ''ARM64_REG_Q10'',
    Auto ''ARM64_REG_Q11'', Auto ''ARM64_REG_Q12'', Auto ''ARM64_REG_Q13'', Auto ''ARM64_REG_Q14'',
    Auto ''ARM64_REG_Q15'', Auto ''ARM64_REG_Q16'', Auto ''ARM64_REG_Q17'', Auto ''ARM64_REG_Q18'',
    Auto ''ARM64_REG_Q19'', Auto ''ARM64_REG_Q20'', Auto ''ARM64_REG_Q21'', Auto ''ARM64_REG_Q22'',
    Auto ''ARM64_REG_Q23'', Auto ''ARM64_REG_Q24'', Auto ''ARM64_REG_Q25'', Auto ''ARM64_REG_Q26'',
    Auto ''ARM64_REG_Q27'', Auto ''ARM64_REG_Q28'', Auto ''ARM64_REG_Q29'', Auto ''ARM64_REG_Q30'',
    Auto ''ARM64_REG_Q31'', Auto ''ARM64_REG_S0'', Auto ''ARM64_REG_S1'', Auto ''ARM64_REG_S2'',
    Auto ''ARM64_REG_S3'', Auto ''ARM64_REG_S4'', Auto ''ARM64_REG_S5'', Auto ''ARM64_REG_S6'',
    Auto ''ARM64_REG_S7'', Auto ''ARM64_REG_S8'', Auto ''ARM64_REG_S9'', Auto ''ARM64_REG_S10'',
    Auto ''ARM64_REG_S11'']"

definition arm64_reg_2 :: "enumerator list" where
  "arm64_reg_2 = [
    Auto ''ARM64_REG_S12'', Auto ''ARM64_REG_S13'', Auto ''ARM64_REG_S14'', Auto ''ARM64_REG_S15'',
    Auto ''ARM64_REG_S16'', Auto ''ARM64_REG_S17'', Auto ''ARM64_REG_S18'', Auto ''ARM64_REG_S19'',
    Auto ''ARM64_REG_S20'', Auto ''ARM64_REG_S21'', Auto ''ARM64_REG_S22'', Auto ''ARM64_REG_S23'',
    Auto ''ARM64_REG_S24'', Auto ''ARM64_REG_S25'', Auto ''ARM64_REG_S26'', Auto ''ARM64_REG_S27'',
    Auto ''ARM64_REG_S28'', Auto ''ARM64_REG_S29'', Auto ''ARM64_REG_S30'', Auto ''ARM64_REG_S31'',
    Auto ''ARM64_REG_W0'', Auto ''ARM64_REG_W1'', Auto ''ARM64_REG_W2'', Auto ''ARM64_REG_W3'',
    Auto ''ARM64_REG_W4'', Auto ''ARM64_REG_W5'', Auto ''ARM64_REG_W6'', Auto ''ARM64_REG_W7'',
    Auto ''ARM64_REG_W8'', Auto ''ARM64_REG_W9'', Auto ''ARM64_REG_W10'', Auto ''ARM64_REG_W11'',
    Auto ''ARM64_REG_W12'', Auto ''ARM64_REG_W13'', Auto ''ARM64_REG_W14'', Auto ''ARM64_REG_W15'',
    Auto ''ARM64_REG_W16'', Auto ''ARM64_REG_W17'', Auto ''ARM64_REG_W18'', Auto ''ARM64_REG_W19'',
    Auto ''ARM64_REG_W20'', Auto ''ARM64_REG_W21'', Auto ''ARM64_REG_W22'', Auto ''ARM64_REG_W23'',
    Auto ''ARM64_REG_W24'', Auto ''ARM64_REG_W25'', Auto ''ARM64_REG_W26'', Auto ''ARM64_REG_W27'',
    Auto ''ARM64_REG_W28'', Auto ''ARM64_REG_W29'', Auto ''ARM64_REG_W30'', Auto ''ARM64_REG_X0'',
    Auto ''ARM64_REG_X1'', Auto ''ARM64_REG_X2'', Auto ''ARM64_REG_X3'', Auto ''ARM64_REG_X4'',
    Auto ''ARM64_REG_X5'', Auto ''ARM64_REG_X6'', Auto ''ARM64_REG_X7'', Auto ''ARM64_REG_X8'',
    Auto ''ARM64_REG_X9'', Auto ''ARM64_REG_X10'', Auto ''ARM64_REG_X11'', Auto ''ARM64_REG_X12'',
    Auto ''ARM64_REG_X13'', Auto ''ARM64_REG_X14'', Auto ''ARM64_REG_X15'', Auto ''ARM64_REG_X16'',
    Auto ''ARM64_REG_X17'', Auto ''ARM64_REG_X18'', Auto ''ARM64_REG_X19'', Auto ''ARM64_REG_X20'',
    Auto ''ARM64_REG_X21'', Auto ''ARM64_REG_X22'', Auto ''ARM64_REG_X23'', Auto ''ARM64_REG_X24'',
    Auto ''ARM64_REG_X25'', Auto ''ARM64_REG_X26'', Auto ''ARM64_REG_X27'', Auto ''ARM64_REG_X28'',
    Auto ''ARM64_REG_V0'', Auto ''ARM64_REG_V1'', Auto ''ARM64_REG_V2'', Auto ''ARM64_REG_V3'',
    Auto ''ARM64_REG_V4'', Auto ''ARM64_REG_V5'', Auto ''ARM64_REG_V6'', Auto ''ARM64_REG_V7'',
    Auto ''ARM64_REG_V8'', Auto ''ARM64_REG_V9'', Auto ''ARM64_REG_V10'', Auto ''ARM64_REG_V11'',
    Auto ''ARM64_REG_V12'', Auto ''ARM64_REG_V13'', Auto ''ARM64_REG_V14'', Auto ''ARM64_REG_V15'',
    Auto ''ARM64_REG_V16'', Auto ''ARM64_REG_V17'', Auto ''ARM64_REG_V18'', Auto ''ARM64_REG_V19'',
    Auto ''ARM64_REG_V20'', Auto ''ARM64_REG_V21'', Auto ''ARM64_REG_V22'', Auto ''ARM64_REG_V23'',
    Auto ''ARM64_REG_V24'', Auto ''ARM64_REG_V25'', Auto ''ARM64_REG_V26'', Auto ''ARM64_REG_V27'',
    Auto ''ARM64_REG_V28'', Auto ''ARM64_REG_V29'', Auto ''ARM64_REG_V30'', Auto ''ARM64_REG_V31'',
    Auto ''ARM64_REG_ENDING'', Init ''ARM64_REG_IP0'' (Const ''ARM64_REG_X16''),
    Init ''ARM64_REG_IP1'' (Const ''ARM64_REG_X17''), Init ''ARM64_REG_FP'' (Const ''ARM64_REG_X29''),
    Init ''ARM64_REG_LR'' (Const ''ARM64_REG_X30'')]"

definition arm64_reg :: "enumerator list" where
  "arm64_reg = arm64_reg_1 @ arm64_reg_2"

definition arm64_insn_group :: "enumerator list" where
  "arm64_insn_group = [
    Init ''ARM64_GRP_INVALID'' (Num 0), Auto ''ARM64_GRP_JUMP'', Init ''ARM64_GRP_CRYPTO'' (Num 128),
    Auto ''ARM64_GRP_FPARMV8'', Auto ''ARM64_GRP_NEON'', Auto ''ARM64_GRP_CRC'',
    Auto ''ARM64_GRP_ENDING'']"

end
