(* ===== verification/Capstone_Others.thy ===== *)
theory Capstone_Others
  imports C_Enum
begin

text \<open>
  The enumerations of the headers of the other architectures of capstone, but for the instruction
  identifiers.
\<close>

section \<open>MIPS\<close>

definition mips_op_type :: "enumerator list" where
  "mips_op_type = [
    Init ''MIPS_OP_INVALID'' (Num 0), Auto ''MIPS_OP_REG'', Auto ''MIPS_OP_IMM'', Auto ''MIPS_OP_MEM'']"

definition mips_reg_1 :: "enumerator list" where
  "mips_reg_1 = [
    Init ''MIPS_REG_INVALID'' (Num 0), Auto ''MIPS_REG_0'', Auto ''MIPS_REG_1'', Auto ''MIPS_REG_2'',
    Auto ''MIPS_REG_3'', Auto ''MIPS_REG_4'', Auto ''MIPS_REG_5'', Auto ''MIPS_REG_6'',
    Auto ''MIPS_REG_7'', Auto ''MIPS_REG_8'', Auto ''MIPS_REG_9'', Auto ''MIPS_REG_10'',
    Auto ''MIPS_REG_11'', Auto ''MIPS_REG_12'', Auto ''MIPS_REG_13'', Auto ''MIPS_REG_14'',
    Auto ''MIPS_REG_15'', Auto ''MIPS_REG_16'', Auto ''MIPS_REG_17'', Auto ''MIPS_REG_18'',
    Auto ''MIPS_REG_19'', Auto ''MIPS_REG_20'', Auto ''MIPS_REG_21'', Auto ''MIPS_REG_22'',
    Auto ''MIPS_REG_23'', Auto ''MIPS_REG_24'', Auto ''MIPS_REG_25'', Auto ''MIPS_REG_26'',
    Auto ''MIPS_REG_27'', Auto ''MIPS_REG_28'', Auto ''MIPS_REG_29'', Auto ''MIPS_REG_30'',
    Auto ''MIPS_REG_31'', Auto ''MIPS_REG_DSPCCOND'', Auto ''MIPS_REG_DSPCARRY'',
    Auto ''MIPS_REG_DSPEFI'', Auto ''MIPS_REG_DSPOUTFLAG'', Auto ''MIPS_REG_DSPOUTFLAG16_19'',
    Auto ''MIPS_REG_DSPOUTFLAG20'', Auto ''MIPS_REG_DSPOUTFLAG21'', Auto ''MIPS_REG_DSPOUTFLAG22'',
    Auto ''MIPS_REG_DSPOUTFLAG23'', Auto ''MIPS_REG_DSPPOS'', Auto ''MIPS_REG_DSPSCOUNT'',
    Auto ''MIPS_REG_AC0'', Auto ''MIPS_REG_AC1'', Auto ''MIPS_REG_AC2'', Auto ''MIPS_REG_AC3'',
    Auto ''MIPS_REG_CC0'', Auto ''MIPS_REG_CC1'', Auto ''MIPS_REG_CC2'', Auto ''MIPS_REG_CC3'',
    Auto ''MIPS_REG_CC4'', Auto ''MIPS_REG_CC5'', Auto ''MIPS_REG_CC6'', Auto ''MIPS_REG_CC7'',
    Auto ''MIPS_REG_F0'', Auto ''MIPS_REG_F1'', Auto ''MIPS_REG_F2'', Auto ''MIPS_REG_F3'',
    Auto ''MIPS_REG_F4'', Auto ''MIPS_REG_F5'', Auto ''MIPS_REG_F6'', Auto ''MIPS_REG_F7'',
    Auto ''MIPS_REG_F8'', Auto ''MIPS_REG_F9'', Auto ''MIPS_REG_F10'', Auto ''MIPS_REG_F11'',
    Auto ''MIPS_REG_F12'', Auto ''MIPS_REG_F13'', Auto ''MIPS_REG_F14'', Auto ''MIPS_REG_F15'',
    Auto ''MIPS_REG_F16'', Auto ''MIPS_REG_F17'', Auto ''MIPS_REG_F18'', Auto ''MIPS_REG_F19'',
    Auto ''MIPS_REG_F20'', Auto ''MIPS_REG_F21'', Auto ''MIPS_REG_F22'', Auto ''MIPS_REG_F23'',
    Auto ''MIPS_REG_F24'', Auto ''MIPS_REG_F25'', Auto ''MIPS_REG_F26'', Auto ''MIPS_REG_F27'',
    Auto ''MIPS_REG_F28'', Auto ''MIPS_REG_F29'', Auto ''MIPS_REG_F30'', Auto ''MIPS_REG_F31'',
    Auto ''MIPS_REG_FCC0'', Auto ''MIPS_REG_FCC1'', Auto ''MIPS_REG_FCC2'', Auto ''MIPS_REG_FCC3'',
    Auto ''MIPS_REG_FCC4'', Auto ''MIPS_REG_FCC5'', Auto ''MIPS_REG_FCC6'', Auto ''MIPS_REG_FCC7'',
    Auto ''MIPS_REG_W0'', Auto ''MIPS_REG_W1'', Auto ''MIPS_REG_W2'', Auto ''MIPS_REG_W3'',
    Auto ''MIPS_REG_W4'', Auto ''MIPS_REG_W5'', Auto ''MIPS_REG_W6'', Auto ''MIPS_REG_W7'',
    Auto ''MIPS_REG_W8'', Auto ''MIPS_REG_W9'', Auto ''MIPS_REG_W10'', Auto ''MIPS_REG_W11'',
    Auto ''MIPS_REG_W12'', Auto ''MIPS_REG_W13'', Auto ''MIPS_REG_W14'', Auto ''MIPS_REG_W15'',
    Auto ''MIPS_REG_W16'', Auto ''MIPS_REG_W17'', Auto ''MIPS_REG_W18'', Auto ''MIPS_REG_W19'',
    Auto ''MIPS_REG_W20'', Auto ''MIPS_REG_W21'', Auto ''MIPS_REG_W22'', Auto ''MIPS_REG_W23'',
    Auto ''MIPS_REG_W24'', Auto ''MIPS_REG_W25'', Auto ''MIPS_REG_W26'', Auto ''MIPS_REG_W27'',
    Auto ''MIPS_REG_W28'', Auto ''MIPS_REG_W29'', Auto ''MIPS_REG_W30'', Auto ''MIPS_REG_W31'',
    Auto ''MIPS_REG_HI'', Auto ''MIPS_REG_LO'', Auto ''MIPS_REG_P0'', Auto ''MIPS_REG_P1'',
    Auto ''MIPS_REG_P2'', Auto ''MIPS_REG_MPL0'']"

definition mips_reg_2 :: "enumerator list" where
  "mips_reg_2 = [
    Auto ''MIPS_REG_MPL1'', Auto ''MIPS_REG_MPL2'', Auto ''MIPS_REG_ENDING'',
    Init ''MIPS_REG_ZERO'' (Const ''MIPS_REG_0''), Init ''MIPS_REG_AT'' (Const ''MIPS_REG_1''),
    Init ''MIPS_REG_V0'' (Const ''MIPS_REG_2''), Init ''MIPS_REG_V1'' (Const ''MIPS_REG_3''),
    Init ''MIPS_REG_A0'' (Const ''MIPS_REG_4''), Init ''MIPS_REG_A1'' (Const ''MIPS_REG_5''),
    Init ''MIPS_REG_A2'' (Const ''MIPS_REG_6''), Init ''MIPS_REG_A3'' (Const ''MIPS_REG_7''),
    Init ''MIPS_REG_T0'' (Const ''MIPS_REG_8''), Init ''MIPS_REG_T1'' (Const ''MIPS_REG_9''),
    Init ''MIPS_REG_T2'' (Const ''MIPS_REG_10''), Init ''MIPS_REG_T3'' (Const ''MIPS_REG_11''),
    Init ''MIPS_REG_T4'' (Const ''MIPS_REG_12''), Init ''MIPS_REG_T5'' (Const ''MIPS_REG_13''),
    Init ''MIPS_REG_T6'' (Const ''MIPS_REG_14''), Init ''MIPS_REG_T7'' (Const ''MIPS_REG_15''),
    Init ''MIPS_REG_S0'' (Const ''MIPS_REG_16''), Init ''MIPS_REG_S1'' (Const ''MIPS_REG_17''),
    Init ''MIPS_REG_S2'' (Const ''MIPS_REG_18''), Init ''MIPS_REG_S3'' (Const ''MIPS_REG_19''),
    Init ''MIPS_REG_S4'' (Const ''MIPS_REG_20''), Init ''MIPS_REG_S5'' (Const ''MIPS_REG_21''),
    Init ''MIPS_REG_S6'' (Const ''MIPS_REG_22''), Init ''MIPS_REG_S7'' (Const ''MIPS_REG_23''),
    Init ''MIPS_REG_T8'' (Const ''MIPS_REG_24''), Init ''MIPS_REG_T9'' (Const ''MIPS_REG_25''),
    Init ''MIPS_REG_K0'' (Const ''MIPS_REG_26''), Init ''MIPS_REG_K1'' (Const ''MIPS_REG_27''),
    Init ''MIPS_REG_GP'' (Const ''MIPS_REG_28''), Init ''MIPS_REG_SP'' (Const ''MIPS_REG_29''),
    Init ''MIPS_REG_FP'' (Const ''MIPS_REG_30''), Init ''MIPS_REG_S8'' (Const ''MIPS_REG_30''),
    Init ''MIPS_REG_RA'' (Const ''MIPS_REG_31''), Init ''MIPS_REG_HI0'' (Const ''MIPS_REG_AC0''),
    Init ''MIPS_REG_HI1'' (Const ''MIPS_REG_AC1''), Init ''MIPS_REG_HI2'' (Const ''MIPS_REG_AC2''),
    Init ''MIPS_REG_HI3'' (Const ''MIPS_REG_AC3''), Init ''MIPS_REG_LO0'' (Const ''MIPS_REG_HI0''),
    Init ''MIPS_REG_LO1'' (Const ''MIPS_REG_HI1''), Init ''MIPS_REG_LO2'' (Const ''MIPS_REG_HI2''),
    Init ''MIPS_REG_LO3'' (Const ''MIPS_REG_HI3'')]"

definition mips_reg :: "enumerator list" where
  "mips_reg = mips_reg_1 @ mips_reg_2"

definition mips_insn_group :: "enumerator list" where
  "mips_insn_group = [
    Init ''MIPS_GRP_INVALID'' (Num 0), Auto ''MIPS_GRP_JUMP'', Init ''MIPS_GRP_BITCOUNT'' (Num 128),
    Auto ''MIPS_GRP_DSP'', Auto ''MIPS_GRP_DSPR2'', Auto ''MIPS_GRP_FPIDX'', Auto ''MIPS_GRP_MSA'',
    Auto ''MIPS_GRP_MIPS32R2'', Auto ''MIPS_GRP_MIPS64'', Auto ''MIPS_GRP_MIPS64R2'',
    Auto ''MIPS_GRP_SEINREG'', Auto ''MIPS_GRP_STDENC'', Auto ''MIPS_GRP_SWAP'',
    Auto ''MIPS_GRP_MICROMIPS'', Auto ''MIPS_GRP_MIPS16MODE'', Auto ''MIPS_GRP_FP64BIT'',
    Auto ''MIPS_GRP_NONANSFPMATH'', Auto ''MIPS_GRP_NOTFP64BIT'', Auto ''MIPS_GRP_NOTINMICROMIPS'',
    Auto ''MIPS_GRP_NOTNACL'', Auto ''MIPS_GRP_NOTMIPS32R6'', Auto ''MIPS_GRP_NOTMIPS64R6'',
    Auto ''MIPS_GRP_CNMIPS'', Auto ''MIPS_GRP_MIPS32'', Auto ''MIPS_GRP_MIPS32R6'',
    Auto ''MIPS_GRP_MIPS64R6'', Auto ''MIPS_GRP_MIPS2'', Auto ''MIPS_GRP_MIPS3'',
    Auto ''MIPS_GRP_MIPS3_32'', Auto ''MIPS_GRP_MIPS3_32R2'', Auto ''MIPS_GRP_MIPS4_32'',
    Auto ''MIPS_GRP_MIPS4_32R2'', Auto ''MIPS_GRP_MIPS5_32R2'', Auto ''MIPS_GRP_GP32BIT'',
    Auto ''MIPS_GRP_GP64BIT'', Auto ''MIPS_GRP_ENDING'']"

section \<open>PowerPC\<close>

definition ppc_bc :: "enumerator list" where
  "ppc_bc = [
    Init ''PPC_BC_INVALID'' (Num 0), Init ''PPC_BC_LT'' (BitOr (Shl (Num 0) 5) (Num 12)),
    Init ''PPC_BC_LE'' (BitOr (Shl (Num 1) 5) (Num 4)),
    Init ''PPC_BC_EQ'' (BitOr (Shl (Num 2) 5) (Num 12)),
    Init ''PPC_BC_GE'' (BitOr (Shl (Num 0) 5) (Num 4)),
    Init ''PPC_BC_GT'' (BitOr (Shl (Num 1) 5) (Num 12)),
    Init ''PPC_BC_NE'' (BitOr (Shl (Num 2) 5) (Num 4)),
    Init ''PPC_BC_UN'' (BitOr (Shl (Num 3) 5) (Num 12)),
    Init ''PPC_BC_NU'' (BitOr (Shl (Num 3) 5) (Num 4)),
    Init ''PPC_BC_SO'' (BitOr (Shl (Num 4) 5) (Num 12)),
    Init ''PPC_BC_NS'' (BitOr (Shl (Num 4) 5) (Num 4))]"

definition ppc_bh :: "enumerator list" where
  "ppc_bh = [
    Init ''PPC_BH_INVALID'' (Num 0), Auto ''PPC_BH_PLUS'', Auto ''PPC_BH_MINUS'']"

definition ppc_reg_1 :: "enumerator list" where
  "ppc_reg_1 = [
    Init ''PPC_REG_INVALID'' (Num 0), Auto ''PPC_REG_CARRY'', Auto ''PPC_REG_CC'', Auto ''PPC_REG_CR0'',
    Auto ''PPC_REG_CR1'', Auto ''PPC_REG_CR2'', Auto ''PPC_REG_CR3'', Auto ''PPC_REG_CR4'',
    Auto ''PPC_REG_CR5'', Auto ''PPC_REG_CR6'', Auto ''PPC_REG_CR7'', Auto ''PPC_REG_CTR'',
    Auto ''PPC_REG_F0'', Auto ''PPC_REG_F1'', Auto ''PPC_REG_F2'', Auto ''PPC_REG_F3'',
    Auto ''PPC_REG_F4'', Auto ''PPC_REG_F5'', Auto ''PPC_REG_F6'', Auto ''PPC_REG_F7'',
    Auto ''PPC_REG_F8'', Auto ''PPC_REG_F9'', Auto ''PPC_REG_F10'', Auto ''PPC_REG_F11'',
    Auto ''PPC_REG_F12'', Auto ''PPC_REG_F13'', Auto ''PPC_REG_F14'', Auto ''PPC_REG_F15'',
    Auto ''PPC_REG_F16'', Auto ''PPC_REG_F17'', Auto ''PPC_REG_F18'', Auto ''PPC_REG_F19'',
    Auto ''PPC_REG_F20'', Auto ''PPC_REG_F21'', Auto ''PPC_REG_F22'', Auto ''PPC_REG_F23'',
    Auto ''PPC_REG_F24'', Auto ''PPC_REG_F25'', Auto ''PPC_REG_F26'', Auto ''PPC_REG_F27'',
    Auto ''PPC_REG_F28'', Auto ''PPC_REG_F29'', Auto ''PPC_REG_F30'', Auto ''PPC_REG_F31'',
    Auto ''PPC_REG_LR'', Auto ''PPC_REG_R0'', Auto ''PPC_REG_R1'', Auto ''PPC_REG_R2'',
    Auto ''PPC_REG_R3'', Auto ''PPC_REG_R4'', Auto ''PPC_REG_R5'', Auto ''PPC_REG_R6'',
    Auto ''PPC_REG_R7'', Auto ''PPC_REG_R8'', Auto ''PPC_REG_R9'', Auto ''PPC_REG_R10'',
    Auto ''PPC_REG_R11'', Auto ''PPC_REG_R12'', Auto ''PPC_REG_R13'', Auto ''PPC_REG_R14'',
    Auto ''PPC_REG_R15'', Auto ''PPC_REG_R16'', Auto ''PPC_REG_R17'', Auto ''PPC_REG_R18'',
    Auto ''PPC_REG_R19'', Auto ''PPC_REG_R20'', Auto ''PPC_REG_R21'', Auto ''PPC_REG_R22'',
    Auto ''PPC_REG_R23'', Auto ''PPC_REG_R24'', Auto ''PPC_REG_R25'', Auto ''PPC_REG_R26'',
    Auto ''PPC_REG_R27'', Auto ''PPC_REG_R28'', Auto ''PPC_REG_R29'', Auto ''PPC_REG_R30'',
    Auto ''PPC_REG_R31'', Auto ''PPC_REG_V0'', Auto ''PPC_REG_V1'', Auto ''PPC_REG_V2'',
    Auto ''PPC_REG_V3'', Auto ''PPC_REG_V4'', Auto ''PPC_REG_V5'', Auto ''PPC_REG_V6'',
    Auto ''PPC_REG_V7'', Auto ''PPC_REG_V8'', Auto ''PPC_REG_V9'', Auto ''PPC_REG_V10'',
    Auto ''PPC_REG_V11'', Auto ''PPC_REG_V12'', Auto ''PPC_REG_V13'', Auto ''PPC_REG_V14'',
    Auto ''PPC_REG_V15'', Auto ''PPC_REG_V16'', Auto ''PPC_REG_V17'', Auto ''PPC_REG_V18'',
    Auto ''PPC_REG_V19'', Auto ''PPC_REG_V20'', Auto ''PPC_REG_V21'', Auto ''PPC_REG_V22'',
    Auto ''PPC_REG_V23'', Auto ''PPC_REG_V24'', Auto ''PPC_REG_V25'', Auto ''PPC_REG_V26'',
    Auto ''PPC_REG_V27'', Auto ''PPC_REG_V28'', Auto ''PPC_REG_V29'', Auto ''PPC_REG_V30'',
    Auto ''PPC_REG_V31'', Auto ''PPC_REG_VRSAVE'', Auto ''PPC_REG_VS0'', Auto ''PPC_REG_VS1'',
    Auto ''PPC_REG_VS2'', Auto ''PPC_REG_VS3'', Auto ''PPC_REG_VS4'', Auto ''PPC_REG_VS5'',
    Auto ''PPC_REG_VS6'', Auto ''PPC_REG_VS7'', Auto ''PPC_REG_VS8'', Auto ''PPC_REG_VS9'',
    Auto ''PPC_REG_VS10'', Auto ''PPC_REG_VS11'', Auto ''PPC_REG_VS12'', Auto ''PPC_REG_VS13'',
    Auto ''PPC_REG_VS14'', Auto ''PPC_REG_VS15'', Auto ''PPC_REG_VS16'', Auto ''PPC_REG_VS17'',
    Auto ''PPC_REG_VS18'', Auto ''PPC_REG_VS19'', Auto ''PPC_REG_VS20'', Auto ''PPC_REG_VS21'',
    Auto ''PPC_REG_VS22'', Auto ''PPC_REG_VS23'', Auto ''PPC_REG_VS24'', Auto ''PPC_REG_VS25'',
    Auto ''PPC_REG_VS26'', Auto ''PPC_REG_VS27'', Auto ''PPC_REG_VS28'', Auto ''PPC_REG_VS29'',
    Auto ''PPC_REG_VS30'', Auto ''PPC_REG_VS31'', Auto ''PPC_REG_VS32'', Auto ''PPC_REG_VS33'',
    Auto ''PPC_REG_VS34'', Auto ''PPC_REG_VS35'', Auto ''PPC_REG_VS36'', Auto ''PPC_REG_VS37'']"

definition ppc_reg_2 :: "enumerator list" where
  "ppc_reg_2 = [
    Auto ''PPC_REG_VS38'', Auto ''PPC_REG_VS39'', Auto ''PPC_REG_VS40'', Auto ''PPC_REG_VS41'',
    Auto ''PPC_REG_VS42'', Auto ''PPC_REG_VS43'', Auto ''PPC_REG_VS44'', Auto ''PPC_REG_VS45'',
    Auto ''PPC_REG_VS46'', Auto ''PPC_REG_VS47'', Auto ''PPC_REG_VS48'', Auto ''PPC_REG_VS49'',
    Auto ''PPC_REG_VS50'', Auto ''PPC_REG_VS51'', Auto ''PPC_REG_VS52'', Auto ''PPC_REG_VS53'',
    Auto ''PPC_REG_VS54'', Auto ''PPC_REG_VS55'', Auto ''PPC_REG_VS56'', Auto ''PPC_REG_VS57'',
    Auto ''PPC_REG_VS58'', Auto ''PPC_REG_VS59'', Auto ''PPC_REG_VS60'', Auto ''PPC_REG_VS61'',
    Auto ''PPC_REG_VS62'', Auto ''PPC_REG_VS63'', Auto ''PPC_REG_RM'', Auto ''PPC_REG_CTR8'',
    Auto ''PPC_REG_LR8'', Auto ''PPC_REG_CR1EQ'', Auto ''PPC_REG_ENDING'']"

definition ppc_reg :: "enumerator list" where
  "ppc_reg = ppc_reg_1 @ ppc_reg_2"

definition ppc_op_type :: "enumerator list" where
  "ppc_op_type = [
    Init ''PPC_OP_INVALID'' (Num 0), Auto ''PPC_OP_REG'', Auto ''PPC_OP_IMM'', Auto ''PPC_OP_MEM'',
    Init ''PPC_OP_CRX'' (Num 64)]"

definition ppc_insn_group :: "enumerator list" where
  "ppc_insn_group = [
    Init ''PPC_GRP_INVALID'' (Num 0), Auto ''PPC_GRP_JUMP'', Init ''PPC_GRP_ALTIVEC'' (Num 128),
    Auto ''PPC_GRP_MODE32'', Auto ''PPC_GRP_MODE64'', Auto ''PPC_GRP_BOOKE'', Auto ''PPC_GRP_NOTBOOKE'',
    Auto ''PPC_GRP_SPE'', Auto ''PPC_GRP_VSX'', Auto ''PPC_GRP_E500'', Auto ''PPC_GRP_PPC4XX'',
    Auto ''PPC_GRP_PPC6XX'', Auto ''PPC_GRP_ENDING'']"

section \<open>SPARC\<close>

definition sparc_cc :: "enumerator list" where
  "sparc_cc = [
    Init ''SPARC_CC_INVALID'' (Num 0), Init ''SPARC_CC_ICC_A'' (Add (Num 8) (Num 256)),
    Init ''SPARC_CC_ICC_N'' (Add (Num 0) (Num 256)), Init ''SPARC_CC_ICC_NE'' (Add (Num 9) (Num 256)),
    Init ''SPARC_CC_ICC_E'' (Add (Num 1) (Num 256)), Init ''SPARC_CC_ICC_G'' (Add (Num 10) (Num 256)),
    Init ''SPARC_CC_ICC_LE'' (Add (Num 2) (Num 256)), Init ''SPARC_CC_ICC_GE'' (Add (Num 11) (Num 256)),
    Init ''SPARC_CC_ICC_L'' (Add (Num 3) (Num 256)), Init ''SPARC_CC_ICC_GU'' (Add (Num 12) (Num 256)),
    Init ''SPARC_CC_ICC_LEU'' (Add (Num 4) (Num 256)),
    Init ''SPARC_CC_ICC_CC'' (Add (Num 13) (Num 256)), Init ''SPARC_CC_ICC_CS'' (Add (Num 5) (Num 256)),
    Init ''SPARC_CC_ICC_POS'' (Add (Num 14) (Num 256)),
    Init ''SPARC_CC_ICC_NEG'' (Add (Num 6) (Num 256)),
    Init ''SPARC_CC_ICC_VC'' (Add (Num 15) (Num 256)), Init ''SPARC_CC_ICC_VS'' (Add (Num 7) (Num 256)),
    Init ''SPARC_CC_FCC_A'' (Add (Add (Num 8) (Num 16)) (Num 256)),
    Init ''SPARC_CC_FCC_N'' (Add (Add (Num 0) (Num 16)) (Num 256)),
    Init ''SPARC_CC_FCC_U'' (Add (Add (Num 7) (Num 16)) (Num 256)),
    Init ''SPARC_CC_FCC_G'' (Add (Add (Num 6) (Num 16)) (Num 256)),
    Init ''SPARC_CC_FCC_UG'' (Add (Add (Num 5) (Num 16)) (Num 256)),
    Init ''SPARC_CC_FCC_L'' (Add (Add (Num 4) (Num 16)) (Num 256)),
    Init ''SPARC_CC_FCC_UL'' (Add (Add (Num 3) (Num 16)) (Num 256)),
    Init ''SPARC_CC_FCC_LG'' (Add (Add (Num 2) (Num 16)) (Num 256)),
    Init ''SPARC_CC_FCC_NE'' (Add (Add (Num 1) (Num 16)) (Num 256)),
    Init ''SPARC_CC_FCC_E'' (Add (Add (Num 9) (Num 16)) (Num 256)),
    Init ''SPARC_CC_FCC_UE'' (Add (Add (Num 10) (Num 16)) (Num 256)),
    Init ''SPARC_CC_FCC_GE'' (Add (Add (Num 11) (Num 16)) (Num 256)),
    Init ''SPARC_CC_FCC_UGE'' (Add (Add (Num 12) (Num 16)) (Num 256)),
    Init ''SPARC_CC_FCC_LE'' (Add (Add (Num 13) (Num 16)) (Num 256)),
    Init ''SPARC_CC_FCC_ULE'' (Add (Add (Num 14) (Num 16)) (Num 256)),
    Init ''SPARC_CC_FCC_O'' (Add (Add (Num 15) (Num 16)) (Num 256))]"

definition sparc_hint :: "enumerator list" where
  "sparc_hint = [
    Init ''SPARC_HINT_INVALID'' (Num 0), Init ''SPARC_HINT_A'' (Shl (Num 1) 0),
    Init ''SPARC_HINT_PT'' (Shl (Num 1) 1), Init ''SPARC_HINT_PN'' (Shl (Num 1) 2)]"

definition sparc_op_type :: "enumerator list" where
  "sparc_op_type = [
    Init ''SPARC_OP_INVALID'' (Num 0), Auto ''SPARC_OP_REG'', Auto ''SPARC_OP_IMM'',
    Auto ''SPARC_OP_MEM'']"

definition sparc_reg :: "enumerator list" where
  "sparc_reg = [
    Init ''SPARC_REG_INVALID'' (Num 0), Auto ''SPARC_REG_F0'', Auto ''SPARC_REG_F1'',
    Auto ''SPARC_REG_F2'', Auto ''SPARC_REG_F3'', Auto ''SPARC_REG_F4'', Auto ''SPARC_REG_F5'',
    Auto ''SPARC_REG_F6'', Auto ''SPARC_REG_F7'', Auto ''SPARC_REG_F8'', Auto ''SPARC_REG_F9'',
    Auto ''SPARC_REG_F10'', Auto ''SPARC_REG_F11'', Auto ''SPARC_REG_F12'', Auto ''SPARC_REG_F13'',
    Auto ''SPARC_REG_F14'', Auto ''SPARC_REG_F15'', Auto ''SPARC_REG_F16'', Auto ''SPARC_REG_F17'',
    Auto ''SPARC_REG_F18'', Auto ''SPARC_REG_F19'', Auto ''SPARC_REG_F20'', Auto ''SPARC_REG_F21'',
    Auto ''SPARC_REG_F22'', Auto ''SPARC_REG_F23'', Auto ''SPARC_REG_F24'', Auto ''SPARC_REG_F25'',
    Auto ''SPARC_REG_F26'', Auto ''SPARC_REG_F27'', Auto ''SPARC_REG_F28'', Auto ''SPARC_REG_F29'',
    Auto ''SPARC_REG_F30'', Auto ''SPARC_REG_F31'', Auto ''SPARC_REG_F32'', Auto ''SPARC_REG_F34'',
    Auto ''SPARC_REG_F36'', Auto ''SPARC_REG_F38'', Auto ''SPARC_REG_F40'', Auto ''SPARC_REG_F42'',
    Auto ''SPARC_REG_F44'', Auto ''SPARC_REG_F46'', Auto ''SPARC_REG_F48'', Auto ''SPARC_REG_F50'',
    Auto ''SPARC_REG_F52'', Auto ''SPARC_REG_F54'', Auto ''SPARC_REG_F56'', Auto ''SPARC_REG_F58'',
    Auto ''SPARC_REG_F60'', Auto ''SPARC_REG_F62'', Auto ''SPARC_REG_FCC0'', Auto ''SPARC_REG_FCC1'',
    Auto ''SPARC_REG_FCC2'', Auto ''SPARC_REG_FCC3'', Auto ''SPARC_REG_FP'', Auto ''SPARC_REG_G0'',
    Auto ''SPARC_REG_G1'', Auto ''SPARC_REG_G2'', Auto ''SPARC_REG_G3'', Auto ''SPARC_REG_G4'',
    Auto ''SPARC_REG_G5'', Auto ''SPARC_REG_G6'', Auto ''SPARC_REG_G7'', Auto ''SPARC_REG_I0'',
    Auto ''SPARC_REG_I1'', Auto ''SPARC_REG_I2'', Auto ''SPARC_REG_I3'', Auto ''SPARC_REG_I4'',
    Auto ''SPARC_REG_I5'', Auto ''SPARC_REG_I7'', Auto ''SPARC_REG_ICC'', Auto ''SPARC_REG_L0'',
    Auto ''SPARC_REG_L1'', Auto ''SPARC_REG_L2'', Auto ''SPARC_REG_L3'', Auto ''SPARC_REG_L4'',
    Auto ''SPARC_REG_L5'', Auto ''SPARC_REG_L6'', Auto ''SPARC_REG_L7'', Auto ''SPARC_REG_O0'',
    Auto ''SPARC_REG_O1'', Auto ''SPARC_REG_O2'', Auto ''SPARC_REG_O3'', Auto ''SPARC_REG_O4'',
    Auto ''SPARC_REG_O5'', Auto ''SPARC_REG_O7'', Auto ''SPARC_REG_SP'', Auto ''SPARC_REG_Y'',
    Auto ''SPARC_REG_XCC'', Auto ''SPARC_REG_ENDING'', Init ''SPARC_REG_O6'' (Const ''SPARC_REG_SP''),
    Init ''SPARC_REG_I6'' (Const ''SPARC_REG_FP'')]"

definition sparc_insn_group :: "enumerator list" where
  "sparc_insn_group = [
    Init ''SPARC_GRP_INVALID'' (Num 0), Auto ''SPARC_GRP_JUMP'', Init ''SPARC_GRP_HARDQUAD'' (Num 128),
    Auto ''SPARC_GRP_V9'', Auto ''SPARC_GRP_VIS'', Auto ''SPARC_GRP_VIS2'', Auto ''SPARC_GRP_VIS3'',
    Auto ''SPARC_GRP_32BIT'', Auto ''SPARC_GRP_64BIT'', Auto ''SPARC_GRP_ENDING'']"

section \<open>SystemZ\<close>

definition sysz_cc :: "enumerator list" where
  "sysz_cc = [
    Init ''SYSZ_CC_INVALID'' (Num 0), Auto ''SYSZ_CC_O'', Auto ''SYSZ_CC_H'', Auto ''SYSZ_CC_NLE'',
    Auto ''SYSZ_CC_L'', Auto ''SYSZ_CC_NHE'', Auto ''SYSZ_CC_LH'', Auto ''SYSZ_CC_NE'',
    Auto ''SYSZ_CC_E'', Auto ''SYSZ_CC_NLH'', Auto ''SYSZ_CC_HE'', Auto ''SYSZ_CC_NL'',
    Auto ''SYSZ_CC_LE'', Auto ''SYSZ_CC_NH'', Auto ''SYSZ_CC_NO'']"

definition sysz_op_type :: "enumerator list" where
  "sysz_op_type = [
    Init ''SYSZ_OP_INVALID'' (Num 0), Auto ''SYSZ_OP_REG'', Auto ''SYSZ_OP_IMM'', Auto ''SYSZ_OP_MEM'',
    Init ''SYSZ_OP_ACREG'' (Num 64)]"

definition sysz_reg :: "enumerator list" where
  "sysz_reg = [
    Init ''SYSZ_REG_INVALID'' (Num 0), Auto ''SYSZ_REG_0'', Auto ''SYSZ_REG_1'', Auto ''SYSZ_REG_2'',
    Auto ''SYSZ_REG_3'', Auto ''SYSZ_REG_4'', Auto ''SYSZ_REG_5'', Auto ''SYSZ_REG_6'',
    Auto ''SYSZ_REG_7'', Auto ''SYSZ_REG_8'', Auto ''SYSZ_REG_9'', Auto ''SYSZ_REG_10'',
    Auto ''SYSZ_REG_11'', Auto ''SYSZ_REG_12'', Auto ''SYSZ_REG_13'', Auto ''SYSZ_REG_14'',
    Auto ''SYSZ_REG_15'', Auto ''SYSZ_REG_CC'', Auto ''SYSZ_REG_F0'', Auto ''SYSZ_REG_F1'',
    Auto ''SYSZ_REG_F2'', Auto ''SYSZ_REG_F3'', Auto ''SYSZ_REG_F4'', Auto ''SYSZ_REG_F5'',
    Auto ''SYSZ_REG_F6'', Auto ''SYSZ_REG_F7'', Auto ''SYSZ_REG_F8'', Auto ''SYSZ_REG_F9'',
    Auto ''SYSZ_REG_F10'', Auto ''SYSZ_REG_F11'', Auto ''SYSZ_REG_F12'', Auto ''SYSZ_REG_F13'',
    Auto ''SYSZ_REG_F14'', Auto ''SYSZ_REG_F15'', Auto ''SYSZ_REG_R0L'', Auto ''SYSZ_REG_ENDING'']"

definition sysz_insn_group :: "enumerator list" where
  "sysz_insn_group = [
    Init ''SYSZ_GRP_INVALID'' (Num 0), Auto ''SYSZ_GRP_JUMP'', Init ''SYSZ_GRP_DISTINCTOPS'' (Num 128),
    Auto ''SYSZ_GRP_FPEXTENSION'', Auto ''SYSZ_GRP_HIGHWORD'', Auto ''SYSZ_GRP_INTERLOCKEDACCESS1'',
    Auto ''SYSZ_GRP_LOADSTOREONCOND'', Auto ''SYSZ_GRP_ENDING'']"

section \<open>XCore\<close>

definition xcore_op_type :: "enumerator list" where
  "xcore_op_type = [
    Init ''XCORE_OP_INVALID'' (Num 0), Auto ''XCORE_OP_REG'', Auto ''XCORE_OP_IMM'',
    Auto ''XCORE_OP_MEM'']"

definition xcore_reg :: "enumerator list" where
  "xcore_reg = [
    Init ''XCORE_REG_INVALID'' (Num 0), Auto ''XCORE_REG_CP'', Auto ''XCORE_REG_DP'',
    Auto ''XCORE_REG_LR'', Auto ''XCORE_REG_SP'', Auto ''XCORE_REG_R0'', Auto ''XCORE_REG_R1'',
    Auto ''XCORE_REG_R2'', Auto ''XCORE_REG_R3'', Auto ''XCORE_REG_R4'', Auto ''XCORE_REG_R5'',
    Auto ''XCORE_REG_R6'', Auto ''XCORE_REG_R7'', Auto ''XCORE_REG_R8'', Auto ''XCORE_REG_R9'',
    Auto ''XCORE_REG_R10'', Auto ''XCORE_REG_R11'', Auto ''XCORE_REG_PC'', Auto ''XCORE_REG_SCP'',
    Auto ''XCORE_REG_SSR'', Auto ''XCORE_REG_ET'', Auto ''XCORE_REG_ED'', Auto ''XCORE_REG_SED'',
    Auto ''XCORE_REG_KEP'', Auto ''XCORE_REG_KSP'', Auto ''XCORE_REG_ID'', Auto ''XCORE_REG_ENDING'']"

definition xcore_insn_group :: "enumerator list" where
  "xcore_insn_group = [
    Init ''XCORE_GRP_INVALID'' (Num 0), Auto ''XCORE_GRP_JUMP'', Auto ''XCORE_GRP_ENDING'']"

end
