(* ===== verification/Capstone_Api.thy ===== *)
theory Capstone_Api
  imports C_Enum
begin

text \<open>
  The enumerations of \<open>capstone/capstone.h\<close>: architectures, modes, options, common operand types and
  groups, and errors.
\<close>

section \<open>The interface of the disassembler\<close>

definition cs_arch :: "enumerator list" where
  "cs_arch = [
    Init ''CS_ARCH_ARM'' (Num 0), Auto ''CS_ARCH_ARM64'', Auto ''CS_ARCH_MIPS'', Auto ''CS_ARCH_X86'',
    Auto ''CS_ARCH_PPC'', Auto ''CS_ARCH_SPARC'', Auto ''CS_ARCH_SYSZ'', Auto ''CS_ARCH_XCORE'',
    Auto ''CS_ARCH_MAX'', Init ''CS_ARCH_ALL'' (Num 65535)]"

text \<open>The versions, and the two queries of \<open>cs_support\<close> that lie above every architecture.\<close>

definition CS_API_MAJOR :: nat where "CS_API_MAJOR = 3"
definition CS_API_MINOR :: nat where "CS_API_MINOR = 0"
definition CS_VERSION_MAJOR :: nat where "CS_VERSION_MAJOR = CS_API_MAJOR"
definition CS_VERSION_MINOR :: nat where "CS_VERSION_MINOR = CS_API_MINOR"
definition CS_VERSION_EXTRA :: nat where "CS_VERSION_EXTRA = 5"

definition CS_SUPPORT_DIET :: "int option" where
  "CS_SUPPORT_DIET = map_option (\<lambda>n. n + 1) (enum_value cs_arch ''CS_ARCH_ALL'')"

definition CS_SUPPORT_X86_REDUCE :: "int option" where
  "CS_SUPPORT_X86_REDUCE = map_option (\<lambda>n. n + 2) (enum_value cs_arch ''CS_ARCH_ALL'')"

lemma support_queries_apart:
  "list_all (\<lambda>e. enum_value cs_arch (enum_name e) \<notin> {CS_SUPPORT_DIET, CS_SUPPORT_X86_REDUCE}) cs_arch \<and>
   CS_SUPPORT_DIET = Some 65536 \<and> CS_SUPPORT_X86_REDUCE = Some 65537"
  by (simp add: CS_SUPPORT_DIET_def CS_SUPPORT_X86_REDUCE_def enum_value_def enum_consts_def cs_arch_def)

definition cs_mode :: "enumerator list" where
  "cs_mode = [
    Init ''CS_MODE_LITTLE_ENDIAN'' (Num 0), Init ''CS_MODE_ARM'' (Num 0),
    Init ''CS_MODE_16'' (Shl (Num 1) 1), Init ''CS_MODE_32'' (Shl (Num 1) 2),
    Init ''CS_MODE_64'' (Shl (Num 1) 3), Init ''CS_MODE_THUMB'' (Shl (Num 1) 4),
    Init ''CS_MODE_MCLASS'' (Shl (Num 1) 5), Init ''CS_MODE_V8'' (Shl (Num 1) 6),
    Init ''CS_MODE_MICRO'' (Shl (Num 1) 4), Init ''CS_MODE_MIPS3'' (Shl (Num 1) 5),
    Init ''CS_MODE_MIPS32R6'' (Shl (Num 1) 6), Init ''CS_MODE_MIPSGP64'' (Shl (Num 1) 7),
    Init ''CS_MODE_V9'' (Shl (Num 1) 4), Init ''CS_MODE_BIG_ENDIAN'' (Shl (Num 1) 31),
    Init ''CS_MODE_MIPS32'' (Const ''CS_MODE_32''), Init ''CS_MODE_MIPS64'' (Const ''CS_MODE_64'')]"

definition cs_opt_type :: "enumerator list" where
  "cs_opt_type = [
    Init ''CS_OPT_INVALID'' (Num 0), Auto ''CS_OPT_SYNTAX'', Auto ''CS_OPT_DETAIL'',
    Auto ''CS_OPT_MODE'', Auto ''CS_OPT_MEM'', Auto ''CS_OPT_SKIPDATA'', Auto ''CS_OPT_SKIPDATA_SETUP'']"

definition cs_opt_value :: "enumerator list" where
  "cs_opt_value = [
    Init ''CS_OPT_OFF'' (Num 0), Init ''CS_OPT_ON'' (Num 3), Init ''CS_OPT_SYNTAX_DEFAULT'' (Num 0),
    Auto ''CS_OPT_SYNTAX_INTEL'', Auto ''CS_OPT_SYNTAX_ATT'', Auto ''CS_OPT_SYNTAX_NOREGNAME'']"

definition cs_op_type :: "enumerator list" where
  "cs_op_type = [
    Init ''CS_OP_INVALID'' (Num 0), Auto ''CS_OP_REG'', Auto ''CS_OP_IMM'', Auto ''CS_OP_MEM'',
    Auto ''CS_OP_FP'']"

definition cs_group_type :: "enumerator list" where
  "cs_group_type = [
    Init ''CS_GRP_INVALID'' (Num 0), Auto ''CS_GRP_JUMP'', Auto ''CS_GRP_CALL'', Auto ''CS_GRP_RET'',
    Auto ''CS_GRP_INT'', Auto ''CS_GRP_IRET'']"

definition cs_err :: "enumerator list" where
  "cs_err = [
    Init ''CS_ERR_OK'' (Num 0), Auto ''CS_ERR_MEM'', Auto ''CS_ERR_ARCH'', Auto ''CS_ERR_HANDLE'',
    Auto ''CS_ERR_CSH'', Auto ''CS_ERR_MODE'', Auto ''CS_ERR_OPTION'', Auto ''CS_ERR_DETAIL'',
    Auto ''CS_ERR_MEMSETUP'', Auto ''CS_ERR_VERSION'', Auto ''CS_ERR_DIET'', Auto ''CS_ERR_SKIPDATA'',
    Auto ''CS_ERR_X86_ATT'', Auto ''CS_ERR_X86_INTEL'']"

end
