(* ===== verification/Capstone_X86_Insn.thy ===== *)
theory Capstone_X86_Insn
  imports C_Enum
begin

text \<open>
  The instruction identifiers \<open>x86_insn\<close> of \<open>capstone/x86.h\<close>, in pieces of at most 150 lines.
\<close>

section \<open>Instruction identifiers of x86\<close>

definition x86_insn_1 :: "enumerator list" where
  "x86_insn_1 = [
    Init ''X86_INS_INVALID'' (Num 0), Auto ''X86_INS_AAA'', Auto ''X86_INS_AAD'', Auto ''X86_INS_AAM'',
    Auto ''X86_INS_AAS'', Auto ''X86_INS_FABS'', Auto ''X86_INS_ADC'', Auto ''X86_INS_ADCX'',
    Auto ''X86_INS_ADD'', Auto ''X86_INS_ADDPD'', Auto ''X86_INS_ADDPS'', Auto ''X86_INS_ADDSD'',
    Auto ''X86_INS_ADDSS'', Auto ''X86_INS_ADDSUBPD'', Auto ''X86_INS_ADDSUBPS'', Auto ''X86_INS_FADD'',
    Auto ''X86_INS_FIADD'', Auto ''X86_INS_FADDP'', Auto ''X86_INS_ADOX'', Auto ''X86_INS_AESDECLAST'',
    Auto ''X86_INS_AESDEC'', Auto ''X86_INS_AESENCLAST'', Auto ''X86_INS_AESENC'',
    Auto ''X86_INS_AESIMC'', Auto ''X86_INS_AESKEYGENASSIST'', Auto ''X86_INS_AND'',
    Auto ''X86_INS_ANDN'', Auto ''X86_INS_ANDNPD'', Auto ''X86_INS_ANDNPS'', Auto ''X86_INS_ANDPD'',
    Auto ''X86_INS_ANDPS'', Auto ''X86_INS_ARPL'', Auto ''X86_INS_BEXTR'', Auto ''X86_INS_BLCFILL'',
    Auto ''X86_INS_BLCI'', Auto ''X86_INS_BLCIC'', Auto ''X86_INS_BLCMSK'', Auto ''X86_INS_BLCS'',
    Auto ''X86_INS_BLENDPD'', Auto ''X86_INS_BLENDPS'', Auto ''X86_INS_BLENDVPD'',
    Auto ''X86_INS_BLENDVPS'', Auto ''X86_INS_BLSFILL'', Auto ''X86_INS_BLSI'', Auto ''X86_INS_BLSIC'',
    Auto ''X86_INS_BLSMSK'', Auto ''X86_INS_BLSR'', Auto ''X86_INS_BOUND'', Auto ''X86_INS_BSF'',
    Auto ''X86_INS_BSR'', Auto ''X86_INS_BSWAP'', Auto ''X86_INS_BT'', Auto ''X86_INS_BTC'',
    Auto ''X86_INS_BTR'', Auto ''X86_INS_BTS'', Auto ''X86_INS_BZHI'', Auto ''X86_INS_CALL'',
    Auto ''X86_INS_CBW'', Auto ''X86_INS_CDQ'', Auto ''X86_INS_CDQE'', Auto ''X86_INS_FCHS'',
    Auto ''X86_INS_CLAC'', Auto ''X86_INS_CLC'', Auto ''X86_INS_CLD'', Auto ''X86_INS_CLFLUSH'',
    Auto ''X86_INS_CLGI'', Auto ''X86_INS_CLI'', Auto ''X86_INS_CLTS'', Auto ''X86_INS_CMC'',
    Auto ''X86_INS_CMOVA'', Auto ''X86_INS_CMOVAE'', Auto ''X86_INS_CMOVB'', Auto ''X86_INS_CMOVBE'',
    Auto ''X86_INS_FCMOVBE'', Auto ''X86_INS_FCMOVB'', Auto ''X86_INS_CMOVE'', Auto ''X86_INS_FCMOVE'',
    Auto ''X86_INS_CMOVG'', Auto ''X86_INS_CMOVGE'', Auto ''X86_INS_CMOVL'', Auto ''X86_INS_CMOVLE'',
    Auto ''X86_INS_FCMOVNBE'', Auto ''X86_INS_FCMOVNB'', Auto ''X86_INS_CMOVNE'',
    Auto ''X86_INS_FCMOVNE'', Auto ''X86_INS_CMOVNO'', Auto ''X86_INS_CMOVNP'',
    Auto ''X86_INS_FCMOVNU'', Auto ''X86_INS_CMOVNS'', Auto ''X86_INS_CMOVO'', Auto ''X86_INS_CMOVP'',
    Auto ''X86_INS_FCMOVU'', Auto ''X86_INS_CMOVS'', Auto ''X86_INS_CMP'', Auto ''X86_INS_CMPPD'',
    Auto ''X86_INS_CMPPS'', Auto ''X86_INS_CMPSB'', Auto ''X86_INS_CMPSD'', Auto ''X86_INS_CMPSQ'',
    Auto ''X86_INS_CMPSS'', Auto ''X86_INS_CMPSW'', Auto ''X86_INS_CMPXCHG16B'',
    Auto ''X86_INS_CMPXCHG'', Auto ''X86_INS_CMPXCHG8B'', Auto ''X86_INS_COMISD'',
    Auto ''X86_INS_COMISS'', Auto ''X86_INS_FCOMP'', Auto ''X86_INS_FCOMPI'', Auto ''X86_INS_FCOMI'',
    Auto ''X86_INS_FCOM'', Auto ''X86_INS_FCOS'', Auto ''X86_INS_CPUID'', Auto ''X86_INS_CQO'',
    Auto ''X86_INS_CRC32'', Auto ''X86_INS_CVTDQ2PD'', Auto ''X86_INS_CVTDQ2PS'',
    Auto ''X86_INS_CVTPD2DQ'', Auto ''X86_INS_CVTPD2PS'', Auto ''X86_INS_CVTPS2DQ'',
    Auto ''X86_INS_CVTPS2PD'', Auto ''X86_INS_CVTSD2SI'', Auto ''X86_INS_CVTSD2SS'',
    Auto ''X86_INS_CVTSI2SD'', Auto ''X86_INS_CVTSI2SS'', Auto ''X86_INS_CVTSS2SD'',
    Auto ''X86_INS_CVTSS2SI'', Auto ''X86_INS_CVTTPD2DQ'', Auto ''X86_INS_CVTTPS2DQ'',
    Auto ''X86_INS_CVTTSD2SI'', Auto ''X86_INS_CVTTSS2SI'', Auto ''X86_INS_CWD'', Auto ''X86_INS_CWDE'',
    Auto ''X86_INS_DAA'', Auto ''X86_INS_DAS'', Auto ''X86_INS_DATA16'', Auto ''X86_INS_DEC'',
    Auto ''X86_INS_DIV'', Auto ''X86_INS_DIVPD'', Auto ''X86_INS_DIVPS'', Auto ''X86_INS_FDIVR'',
    Auto ''X86_INS_FIDIVR'', Auto ''X86_INS_FDIVRP'', Auto ''X86_INS_DIVSD'', Auto ''X86_INS_DIVSS'',
    Auto ''X86_INS_FDIV'', Auto ''X86_INS_FIDIV'', Auto ''X86_INS_FDIVP'', Auto ''X86_INS_DPPD'']"

definition x86_insn_2 :: "enumerator list" where
  "x86_insn_2 = [
    Auto ''X86_INS_DPPS'', Auto ''X86_INS_RET'', Auto ''X86_INS_ENCLS'', Auto ''X86_INS_ENCLU'',
    Auto ''X86_INS_ENTER'', Auto ''X86_INS_EXTRACTPS'', Auto ''X86_INS_EXTRQ'', Auto ''X86_INS_F2XM1'',
    Auto ''X86_INS_LCALL'', Auto ''X86_INS_LJMP'', Auto ''X86_INS_FBLD'', Auto ''X86_INS_FBSTP'',
    Auto ''X86_INS_FCOMPP'', Auto ''X86_INS_FDECSTP'', Auto ''X86_INS_FEMMS'', Auto ''X86_INS_FFREE'',
    Auto ''X86_INS_FICOM'', Auto ''X86_INS_FICOMP'', Auto ''X86_INS_FINCSTP'', Auto ''X86_INS_FLDCW'',
    Auto ''X86_INS_FLDENV'', Auto ''X86_INS_FLDL2E'', Auto ''X86_INS_FLDL2T'', Auto ''X86_INS_FLDLG2'',
    Auto ''X86_INS_FLDLN2'', Auto ''X86_INS_FLDPI'', Auto ''X86_INS_FNCLEX'', Auto ''X86_INS_FNINIT'',
    Auto ''X86_INS_FNOP'', Auto ''X86_INS_FNSTCW'', Auto ''X86_INS_FNSTSW'', Auto ''X86_INS_FPATAN'',
    Auto ''X86_INS_FPREM'', Auto ''X86_INS_FPREM1'', Auto ''X86_INS_FPTAN'', Auto ''X86_INS_FRNDINT'',
    Auto ''X86_INS_FRSTOR'', Auto ''X86_INS_FNSAVE'', Auto ''X86_INS_FSCALE'', Auto ''X86_INS_FSETPM'',
    Auto ''X86_INS_FSINCOS'', Auto ''X86_INS_FNSTENV'', Auto ''X86_INS_FXAM'', Auto ''X86_INS_FXRSTOR'',
    Auto ''X86_INS_FXRSTOR64'', Auto ''X86_INS_FXSAVE'', Auto ''X86_INS_FXSAVE64'',
    Auto ''X86_INS_FXTRACT'', Auto ''X86_INS_FYL2X'', Auto ''X86_INS_FYL2XP1'', Auto ''X86_INS_MOVAPD'',
    Auto ''X86_INS_MOVAPS'', Auto ''X86_INS_ORPD'', Auto ''X86_INS_ORPS'', Auto ''X86_INS_VMOVAPD'',
    Auto ''X86_INS_VMOVAPS'', Auto ''X86_INS_XORPD'', Auto ''X86_INS_XORPS'', Auto ''X86_INS_GETSEC'',
    Auto ''X86_INS_HADDPD'', Auto ''X86_INS_HADDPS'', Auto ''X86_INS_HLT'', Auto ''X86_INS_HSUBPD'',
    Auto ''X86_INS_HSUBPS'', Auto ''X86_INS_IDIV'', Auto ''X86_INS_FILD'', Auto ''X86_INS_IMUL'',
    Auto ''X86_INS_IN'', Auto ''X86_INS_INC'', Auto ''X86_INS_INSB'', Auto ''X86_INS_INSERTPS'',
    Auto ''X86_INS_INSERTQ'', Auto ''X86_INS_INSD'', Auto ''X86_INS_INSW'', Auto ''X86_INS_INT'',
    Auto ''X86_INS_INT1'', Auto ''X86_INS_INT3'', Auto ''X86_INS_INTO'', Auto ''X86_INS_INVD'',
    Auto ''X86_INS_INVEPT'', Auto ''X86_INS_INVLPG'', Auto ''X86_INS_INVLPGA'',
    Auto ''X86_INS_INVPCID'', Auto ''X86_INS_INVVPID'', Auto ''X86_INS_IRET'', Auto ''X86_INS_IRETD'',
    Auto ''X86_INS_IRETQ'', Auto ''X86_INS_FISTTP'', Auto ''X86_INS_FIST'', Auto ''X86_INS_FISTP'',
    Auto ''X86_INS_UCOMISD'', Auto ''X86_INS_UCOMISS'', Auto ''X86_INS_VCMP'', Auto ''X86_INS_VCOMISD'',
    Auto ''X86_INS_VCOMISS'', Auto ''X86_INS_VCVTSD2SS'', Auto ''X86_INS_VCVTSI2SD'',
    Auto ''X86_INS_VCVTSI2SS'', Auto ''X86_INS_VCVTSS2SD'', Auto ''X86_INS_VCVTTSD2SI'',
    Auto ''X86_INS_VCVTTSD2USI'', Auto ''X86_INS_VCVTTSS2SI'', Auto ''X86_INS_VCVTTSS2USI'',
    Auto ''X86_INS_VCVTUSI2SD'', Auto ''X86_INS_VCVTUSI2SS'', Auto ''X86_INS_VUCOMISD'',
    Auto ''X86_INS_VUCOMISS'', Auto ''X86_INS_JAE'', Auto ''X86_INS_JA'', Auto ''X86_INS_JBE'',
    Auto ''X86_INS_JB'', Auto ''X86_INS_JCXZ'', Auto ''X86_INS_JECXZ'', Auto ''X86_INS_JE'',
    Auto ''X86_INS_JGE'', Auto ''X86_INS_JG'', Auto ''X86_INS_JLE'', Auto ''X86_INS_JL'',
    Auto ''X86_INS_JMP'', Auto ''X86_INS_JNE'', Auto ''X86_INS_JNO'', Auto ''X86_INS_JNP'',
    Auto ''X86_INS_JNS'', Auto ''X86_INS_JO'', Auto ''X86_INS_JP'', Auto ''X86_INS_JRCXZ'',
    Auto ''X86_INS_JS'', Auto ''X86_INS_KANDB'', Auto ''X86_INS_KANDD'', Auto ''X86_INS_KANDNB'',
    Auto ''X86_INS_KANDND'', Auto ''X86_INS_KANDNQ'', Auto ''X86_INS_KANDNW'', Auto ''X86_INS_KANDQ'',
    Auto ''X86_INS_KANDW'', Auto ''X86_INS_KMOVB'', Auto ''X86_INS_KMOVD'', Auto ''X86_INS_KMOVQ'',
    Auto ''X86_INS_KMOVW'', Auto ''X86_INS_KNOTB'', Auto ''X86_INS_KNOTD'', Auto ''X86_INS_KNOTQ'',
    Auto ''X86_INS_KNOTW'', Auto ''X86_INS_KORB'', Auto ''X86_INS_KORD'', Auto ''X86_INS_KORQ'',
    Auto ''X86_INS_KORTESTW'', Auto ''X86_INS_KORW'', Auto ''X86_INS_KSHIFTLW'',
    Auto ''X86_INS_KSHIFTRW'']"

definition x86_insn_3 :: "enumerator list" where
  "x86_insn_3 = [
    Auto ''X86_INS_KUNPCKBW'', Auto ''X86_INS_KXNORB'', Auto ''X86_INS_KXNORD'',
    Auto ''X86_INS_KXNORQ'', Auto ''X86_INS_KXNORW'', Auto ''X86_INS_KXORB'', Auto ''X86_INS_KXORD'',
    Auto ''X86_INS_KXORQ'', Auto ''X86_INS_KXORW'', Auto ''X86_INS_LAHF'', Auto ''X86_INS_LAR'',
    Auto ''X86_INS_LDDQU'', Auto ''X86_INS_LDMXCSR'', Auto ''X86_INS_LDS'', Auto ''X86_INS_FLDZ'',
    Auto ''X86_INS_FLD1'', Auto ''X86_INS_FLD'', Auto ''X86_INS_LEA'', Auto ''X86_INS_LEAVE'',
    Auto ''X86_INS_LES'', Auto ''X86_INS_LFENCE'', Auto ''X86_INS_LFS'', Auto ''X86_INS_LGDT'',
    Auto ''X86_INS_LGS'', Auto ''X86_INS_LIDT'', Auto ''X86_INS_LLDT'', Auto ''X86_INS_LMSW'',
    Auto ''X86_INS_OR'', Auto ''X86_INS_SUB'', Auto ''X86_INS_XOR'', Auto ''X86_INS_LODSB'',
    Auto ''X86_INS_LODSD'', Auto ''X86_INS_LODSQ'', Auto ''X86_INS_LODSW'', Auto ''X86_INS_LOOP'',
    Auto ''X86_INS_LOOPE'', Auto ''X86_INS_LOOPNE'', Auto ''X86_INS_RETF'', Auto ''X86_INS_RETFQ'',
    Auto ''X86_INS_LSL'', Auto ''X86_INS_LSS'', Auto ''X86_INS_LTR'', Auto ''X86_INS_XADD'',
    Auto ''X86_INS_LZCNT'', Auto ''X86_INS_MASKMOVDQU'', Auto ''X86_INS_MAXPD'', Auto ''X86_INS_MAXPS'',
    Auto ''X86_INS_MAXSD'', Auto ''X86_INS_MAXSS'', Auto ''X86_INS_MFENCE'', Auto ''X86_INS_MINPD'',
    Auto ''X86_INS_MINPS'', Auto ''X86_INS_MINSD'', Auto ''X86_INS_MINSS'', Auto ''X86_INS_CVTPD2PI'',
    Auto ''X86_INS_CVTPI2PD'', Auto ''X86_INS_CVTPI2PS'', Auto ''X86_INS_CVTPS2PI'',
    Auto ''X86_INS_CVTTPD2PI'', Auto ''X86_INS_CVTTPS2PI'', Auto ''X86_INS_EMMS'',
    Auto ''X86_INS_MASKMOVQ'', Auto ''X86_INS_MOVD'', Auto ''X86_INS_MOVDQ2Q'', Auto ''X86_INS_MOVNTQ'',
    Auto ''X86_INS_MOVQ2DQ'', Auto ''X86_INS_MOVQ'', Auto ''X86_INS_PABSB'', Auto ''X86_INS_PABSD'',
    Auto ''X86_INS_PABSW'', Auto ''X86_INS_PACKSSDW'', Auto ''X86_INS_PACKSSWB'',
    Auto ''X86_INS_PACKUSWB'', Auto ''X86_INS_PADDB'', Auto ''X86_INS_PADDD'', Auto ''X86_INS_PADDQ'',
    Auto ''X86_INS_PADDSB'', Auto ''X86_INS_PADDSW'', Auto ''X86_INS_PADDUSB'',
    Auto ''X86_INS_PADDUSW'', Auto ''X86_INS_PADDW'', Auto ''X86_INS_PALIGNR'', Auto ''X86_INS_PANDN'',
    Auto ''X86_INS_PAND'', Auto ''X86_INS_PAVGB'', Auto ''X86_INS_PAVGW'', Auto ''X86_INS_PCMPEQB'',
    Auto ''X86_INS_PCMPEQD'', Auto ''X86_INS_PCMPEQW'', Auto ''X86_INS_PCMPGTB'',
    Auto ''X86_INS_PCMPGTD'', Auto ''X86_INS_PCMPGTW'', Auto ''X86_INS_PEXTRW'',
    Auto ''X86_INS_PHADDSW'', Auto ''X86_INS_PHADDW'', Auto ''X86_INS_PHADDD'', Auto ''X86_INS_PHSUBD'',
    Auto ''X86_INS_PHSUBSW'', Auto ''X86_INS_PHSUBW'', Auto ''X86_INS_PINSRW'',
    Auto ''X86_INS_PMADDUBSW'', Auto ''X86_INS_PMADDWD'', Auto ''X86_INS_PMAXSW'',
    Auto ''X86_INS_PMAXUB'', Auto ''X86_INS_PMINSW'', Auto ''X86_INS_PMINUB'',
    Auto ''X86_INS_PMOVMSKB'', Auto ''X86_INS_PMULHRSW'', Auto ''X86_INS_PMULHUW'',
    Auto ''X86_INS_PMULHW'', Auto ''X86_INS_PMULLW'', Auto ''X86_INS_PMULUDQ'', Auto ''X86_INS_POR'',
    Auto ''X86_INS_PSADBW'', Auto ''X86_INS_PSHUFB'', Auto ''X86_INS_PSHUFW'', Auto ''X86_INS_PSIGNB'',
    Auto ''X86_INS_PSIGND'', Auto ''X86_INS_PSIGNW'', Auto ''X86_INS_PSLLD'', Auto ''X86_INS_PSLLQ'',
    Auto ''X86_INS_PSLLW'', Auto ''X86_INS_PSRAD'', Auto ''X86_INS_PSRAW'', Auto ''X86_INS_PSRLD'',
    Auto ''X86_INS_PSRLQ'', Auto ''X86_INS_PSRLW'', Auto ''X86_INS_PSUBB'', Auto ''X86_INS_PSUBD'',
    Auto ''X86_INS_PSUBQ'', Auto ''X86_INS_PSUBSB'', Auto ''X86_INS_PSUBSW'', Auto ''X86_INS_PSUBUSB'',
    Auto ''X86_INS_PSUBUSW'', Auto ''X86_INS_PSUBW'', Auto ''X86_INS_PUNPCKHBW'',
    Auto ''X86_INS_PUNPCKHDQ'', Auto ''X86_INS_PUNPCKHWD'', Auto ''X86_INS_PUNPCKLBW'',
    Auto ''X86_INS_PUNPCKLDQ'', Auto ''X86_INS_PUNPCKLWD'', Auto ''X86_INS_PXOR'',
    Auto ''X86_INS_MONITOR'', Auto ''X86_INS_MONTMUL'', Auto ''X86_INS_MOV'', Auto ''X86_INS_MOVABS'',
    Auto ''X86_INS_MOVBE'', Auto ''X86_INS_MOVDDUP'', Auto ''X86_INS_MOVDQA'', Auto ''X86_INS_MOVDQU'']"

definition x86_insn_4 :: "enumerator list" where
  "x86_insn_4 = [
    Auto ''X86_INS_MOVHLPS'', Auto ''X86_INS_MOVHPD'', Auto ''X86_INS_MOVHPS'',
    Auto ''X86_INS_MOVLHPS'', Auto ''X86_INS_MOVLPD'', Auto ''X86_INS_MOVLPS'',
    Auto ''X86_INS_MOVMSKPD'', Auto ''X86_INS_MOVMSKPS'', Auto ''X86_INS_MOVNTDQA'',
    Auto ''X86_INS_MOVNTDQ'', Auto ''X86_INS_MOVNTI'', Auto ''X86_INS_MOVNTPD'',
    Auto ''X86_INS_MOVNTPS'', Auto ''X86_INS_MOVNTSD'', Auto ''X86_INS_MOVNTSS'',
    Auto ''X86_INS_MOVSB'', Auto ''X86_INS_MOVSD'', Auto ''X86_INS_MOVSHDUP'',
    Auto ''X86_INS_MOVSLDUP'', Auto ''X86_INS_MOVSQ'', Auto ''X86_INS_MOVSS'', Auto ''X86_INS_MOVSW'',
    Auto ''X86_INS_MOVSX'', Auto ''X86_INS_MOVSXD'', Auto ''X86_INS_MOVUPD'', Auto ''X86_INS_MOVUPS'',
    Auto ''X86_INS_MOVZX'', Auto ''X86_INS_MPSADBW'', Auto ''X86_INS_MUL'', Auto ''X86_INS_MULPD'',
    Auto ''X86_INS_MULPS'', Auto ''X86_INS_MULSD'', Auto ''X86_INS_MULSS'', Auto ''X86_INS_MULX'',
    Auto ''X86_INS_FMUL'', Auto ''X86_INS_FIMUL'', Auto ''X86_INS_FMULP'', Auto ''X86_INS_MWAIT'',
    Auto ''X86_INS_NEG'', Auto ''X86_INS_NOP'', Auto ''X86_INS_NOT'', Auto ''X86_INS_OUT'',
    Auto ''X86_INS_OUTSB'', Auto ''X86_INS_OUTSD'', Auto ''X86_INS_OUTSW'', Auto ''X86_INS_PACKUSDW'',
    Auto ''X86_INS_PAUSE'', Auto ''X86_INS_PAVGUSB'', Auto ''X86_INS_PBLENDVB'',
    Auto ''X86_INS_PBLENDW'', Auto ''X86_INS_PCLMULQDQ'', Auto ''X86_INS_PCMPEQQ'',
    Auto ''X86_INS_PCMPESTRI'', Auto ''X86_INS_PCMPESTRM'', Auto ''X86_INS_PCMPGTQ'',
    Auto ''X86_INS_PCMPISTRI'', Auto ''X86_INS_PCMPISTRM'', Auto ''X86_INS_PDEP'',
    Auto ''X86_INS_PEXT'', Auto ''X86_INS_PEXTRB'', Auto ''X86_INS_PEXTRD'', Auto ''X86_INS_PEXTRQ'',
    Auto ''X86_INS_PF2ID'', Auto ''X86_INS_PF2IW'', Auto ''X86_INS_PFACC'', Auto ''X86_INS_PFADD'',
    Auto ''X86_INS_PFCMPEQ'', Auto ''X86_INS_PFCMPGE'', Auto ''X86_INS_PFCMPGT'',
    Auto ''X86_INS_PFMAX'', Auto ''X86_INS_PFMIN'', Auto ''X86_INS_PFMUL'', Auto ''X86_INS_PFNACC'',
    Auto ''X86_INS_PFPNACC'', Auto ''X86_INS_PFRCPIT1'', Auto ''X86_INS_PFRCPIT2'',
    Auto ''X86_INS_PFRCP'', Auto ''X86_INS_PFRSQIT1'', Auto ''X86_INS_PFRSQRT'',
    Auto ''X86_INS_PFSUBR'', Auto ''X86_INS_PFSUB'', Auto ''X86_INS_PHMINPOSUW'',
    Auto ''X86_INS_PI2FD'', Auto ''X86_INS_PI2FW'', Auto ''X86_INS_PINSRB'', Auto ''X86_INS_PINSRD'',
    Auto ''X86_INS_PINSRQ'', Auto ''X86_INS_PMAXSB'', Auto ''X86_INS_PMAXSD'', Auto ''X86_INS_PMAXUD'',
    Auto ''X86_INS_PMAXUW'', Auto ''X86_INS_PMINSB'', Auto ''X86_INS_PMINSD'', Auto ''X86_INS_PMINUD'',
    Auto ''X86_INS_PMINUW'', Auto ''X86_INS_PMOVSXBD'', Auto ''X86_INS_PMOVSXBQ'',
    Auto ''X86_INS_PMOVSXBW'', Auto ''X86_INS_PMOVSXDQ'', Auto ''X86_INS_PMOVSXWD'',
    Auto ''X86_INS_PMOVSXWQ'', Auto ''X86_INS_PMOVZXBD'', Auto ''X86_INS_PMOVZXBQ'',
    Auto ''X86_INS_PMOVZXBW'', Auto ''X86_INS_PMOVZXDQ'', Auto ''X86_INS_PMOVZXWD'',
    Auto ''X86_INS_PMOVZXWQ'', Auto ''X86_INS_PMULDQ'', Auto ''X86_INS_PMULHRW'',
    Auto ''X86_INS_PMULLD'', Auto ''X86_INS_POP'', Auto ''X86_INS_POPAW'', Auto ''X86_INS_POPAL'',
    Auto ''X86_INS_POPCNT'', Auto ''X86_INS_POPF'', Auto ''X86_INS_POPFD'', Auto ''X86_INS_POPFQ'',
    Auto ''X86_INS_PREFETCH'', Auto ''X86_INS_PREFETCHNTA'', Auto ''X86_INS_PREFETCHT0'',
    Auto ''X86_INS_PREFETCHT1'', Auto ''X86_INS_PREFETCHT2'', Auto ''X86_INS_PREFETCHW'',
    Auto ''X86_INS_PSHUFD'', Auto ''X86_INS_PSHUFHW'', Auto ''X86_INS_PSHUFLW'',
    Auto ''X86_INS_PSLLDQ'', Auto ''X86_INS_PSRLDQ'', Auto ''X86_INS_PSWAPD'', Auto ''X86_INS_PTEST'',
    Auto ''X86_INS_PUNPCKHQDQ'', Auto ''X86_INS_PUNPCKLQDQ'', Auto ''X86_INS_PUSH'',
    Auto ''X86_INS_PUSHAW'', Auto ''X86_INS_PUSHAL'', Auto ''X86_INS_PUSHF'', Auto ''X86_INS_PUSHFD'',
    Auto ''X86_INS_PUSHFQ'', Auto ''X86_INS_RCL'', Auto ''X86_INS_RCPPS'', Auto ''X86_INS_RCPSS'',
    Auto ''X86_INS_RCR'', Auto ''X86_INS_RDFSBASE'', Auto ''X86_INS_RDGSBASE'', Auto ''X86_INS_RDMSR'',
    Auto ''X86_INS_RDPMC'', Auto ''X86_INS_RDRAND'', Auto ''X86_INS_RDSEED'', Auto ''X86_INS_RDTSC'',
    Auto ''X86_INS_RDTSCP'']"

definition x86_insn_5 :: "enumerator list" where
  "x86_insn_5 = [
    Auto ''X86_INS_ROL'', Auto ''X86_INS_ROR'', Auto ''X86_INS_RORX'', Auto ''X86_INS_ROUNDPD'',
    Auto ''X86_INS_ROUNDPS'', Auto ''X86_INS_ROUNDSD'', Auto ''X86_INS_ROUNDSS'', Auto ''X86_INS_RSM'',
    Auto ''X86_INS_RSQRTPS'', Auto ''X86_INS_RSQRTSS'', Auto ''X86_INS_SAHF'', Auto ''X86_INS_SAL'',
    Auto ''X86_INS_SALC'', Auto ''X86_INS_SAR'', Auto ''X86_INS_SARX'', Auto ''X86_INS_SBB'',
    Auto ''X86_INS_SCASB'', Auto ''X86_INS_SCASD'', Auto ''X86_INS_SCASQ'', Auto ''X86_INS_SCASW'',
    Auto ''X86_INS_SETAE'', Auto ''X86_INS_SETA'', Auto ''X86_INS_SETBE'', Auto ''X86_INS_SETB'',
    Auto ''X86_INS_SETE'', Auto ''X86_INS_SETGE'', Auto ''X86_INS_SETG'', Auto ''X86_INS_SETLE'',
    Auto ''X86_INS_SETL'', Auto ''X86_INS_SETNE'', Auto ''X86_INS_SETNO'', Auto ''X86_INS_SETNP'',
    Auto ''X86_INS_SETNS'', Auto ''X86_INS_SETO'', Auto ''X86_INS_SETP'', Auto ''X86_INS_SETS'',
    Auto ''X86_INS_SFENCE'', Auto ''X86_INS_SGDT'', Auto ''X86_INS_SHA1MSG1'',
    Auto ''X86_INS_SHA1MSG2'', Auto ''X86_INS_SHA1NEXTE'', Auto ''X86_INS_SHA1RNDS4'',
    Auto ''X86_INS_SHA256MSG1'', Auto ''X86_INS_SHA256MSG2'', Auto ''X86_INS_SHA256RNDS2'',
    Auto ''X86_INS_SHL'', Auto ''X86_INS_SHLD'', Auto ''X86_INS_SHLX'', Auto ''X86_INS_SHR'',
    Auto ''X86_INS_SHRD'', Auto ''X86_INS_SHRX'', Auto ''X86_INS_SHUFPD'', Auto ''X86_INS_SHUFPS'',
    Auto ''X86_INS_SIDT'', Auto ''X86_INS_FSIN'', Auto ''X86_INS_SKINIT'', Auto ''X86_INS_SLDT'',
    Auto ''X86_INS_SMSW'', Auto ''X86_INS_SQRTPD'', Auto ''X86_INS_SQRTPS'', Auto ''X86_INS_SQRTSD'',
    Auto ''X86_INS_SQRTSS'', Auto ''X86_INS_FSQRT'', Auto ''X86_INS_STAC'', Auto ''X86_INS_STC'',
    Auto ''X86_INS_STD'', Auto ''X86_INS_STGI'', Auto ''X86_INS_STI'', Auto ''X86_INS_STMXCSR'',
    Auto ''X86_INS_STOSB'', Auto ''X86_INS_STOSD'', Auto ''X86_INS_STOSQ'', Auto ''X86_INS_STOSW'',
    Auto ''X86_INS_STR'', Auto ''X86_INS_FST'', Auto ''X86_INS_FSTP'', Auto ''X86_INS_FSTPNCE'',
    Auto ''X86_INS_SUBPD'', Auto ''X86_INS_SUBPS'', Auto ''X86_INS_FSUBR'', Auto ''X86_INS_FISUBR'',
    Auto ''X86_INS_FSUBRP'', Auto ''X86_INS_SUBSD'', Auto ''X86_INS_SUBSS'', Auto ''X86_INS_FSUB'',
    Auto ''X86_INS_FISUB'', Auto ''X86_INS_FSUBP'', Auto ''X86_INS_SWAPGS'', Auto ''X86_INS_SYSCALL'',
    Auto ''X86_INS_SYSENTER'', Auto ''X86_INS_SYSEXIT'', Auto ''X86_INS_SYSRET'',
    Auto ''X86_INS_T1MSKC'', Auto ''X86_INS_TEST'', Auto ''X86_INS_UD2'', Auto ''X86_INS_FTST'',
    Auto ''X86_INS_TZCNT'', Auto ''X86_INS_TZMSK'', Auto ''X86_INS_FUCOMPI'', Auto ''X86_INS_FUCOMI'',
    Auto ''X86_INS_FUCOMPP'', Auto ''X86_INS_FUCOMP'', Auto ''X86_INS_FUCOM'', Auto ''X86_INS_UD2B'',
    Auto ''X86_INS_UNPCKHPD'', Auto ''X86_INS_UNPCKHPS'', Auto ''X86_INS_UNPCKLPD'',
    Auto ''X86_INS_UNPCKLPS'', Auto ''X86_INS_VADDPD'', Auto ''X86_INS_VADDPS'',
    Auto ''X86_INS_VADDSD'', Auto ''X86_INS_VADDSS'', Auto ''X86_INS_VADDSUBPD'',
    Auto ''X86_INS_VADDSUBPS'', Auto ''X86_INS_VAESDECLAST'', Auto ''X86_INS_VAESDEC'',
    Auto ''X86_INS_VAESENCLAST'', Auto ''X86_INS_VAESENC'', Auto ''X86_INS_VAESIMC'',
    Auto ''X86_INS_VAESKEYGENASSIST'', Auto ''X86_INS_VALIGND'', Auto ''X86_INS_VALIGNQ'',
    Auto ''X86_INS_VANDNPD'', Auto ''X86_INS_VANDNPS'', Auto ''X86_INS_VANDPD'',
    Auto ''X86_INS_VANDPS'', Auto ''X86_INS_VBLENDMPD'', Auto ''X86_INS_VBLENDMPS'',
    Auto ''X86_INS_VBLENDPD'', Auto ''X86_INS_VBLENDPS'', Auto ''X86_INS_VBLENDVPD'',
    Auto ''X86_INS_VBLENDVPS'', Auto ''X86_INS_VBROADCASTF128'', Auto ''X86_INS_VBROADCASTI128'',
    Auto ''X86_INS_VBROADCASTI32X4'', Auto ''X86_INS_VBROADCASTI64X4'', Auto ''X86_INS_VBROADCASTSD'',
    Auto ''X86_INS_VBROADCASTSS'', Auto ''X86_INS_VCMPPD'', Auto ''X86_INS_VCMPPS'',
    Auto ''X86_INS_VCMPSD'', Auto ''X86_INS_VCMPSS'', Auto ''X86_INS_VCVTDQ2PD'',
    Auto ''X86_INS_VCVTDQ2PS'', Auto ''X86_INS_VCVTPD2DQX'', Auto ''X86_INS_VCVTPD2DQ'',
    Auto ''X86_INS_VCVTPD2PSX'', Auto ''X86_INS_VCVTPD2PS'', Auto ''X86_INS_VCVTPD2UDQ'',
    Auto ''X86_INS_VCVTPH2PS'']"

definition x86_insn_6 :: "enumerator list" where
  "x86_insn_6 = [
    Auto ''X86_INS_VCVTPS2DQ'', Auto ''X86_INS_VCVTPS2PD'', Auto ''X86_INS_VCVTPS2PH'',
    Auto ''X86_INS_VCVTPS2UDQ'', Auto ''X86_INS_VCVTSD2SI'', Auto ''X86_INS_VCVTSD2USI'',
    Auto ''X86_INS_VCVTSS2SI'', Auto ''X86_INS_VCVTSS2USI'', Auto ''X86_INS_VCVTTPD2DQX'',
    Auto ''X86_INS_VCVTTPD2DQ'', Auto ''X86_INS_VCVTTPD2UDQ'', Auto ''X86_INS_VCVTTPS2DQ'',
    Auto ''X86_INS_VCVTTPS2UDQ'', Auto ''X86_INS_VCVTUDQ2PD'', Auto ''X86_INS_VCVTUDQ2PS'',
    Auto ''X86_INS_VDIVPD'', Auto ''X86_INS_VDIVPS'', Auto ''X86_INS_VDIVSD'', Auto ''X86_INS_VDIVSS'',
    Auto ''X86_INS_VDPPD'', Auto ''X86_INS_VDPPS'', Auto ''X86_INS_VERR'', Auto ''X86_INS_VERW'',
    Auto ''X86_INS_VEXTRACTF128'', Auto ''X86_INS_VEXTRACTF32X4'', Auto ''X86_INS_VEXTRACTF64X4'',
    Auto ''X86_INS_VEXTRACTI128'', Auto ''X86_INS_VEXTRACTI32X4'', Auto ''X86_INS_VEXTRACTI64X4'',
    Auto ''X86_INS_VEXTRACTPS'', Auto ''X86_INS_VFMADD132PD'', Auto ''X86_INS_VFMADD132PS'',
    Auto ''X86_INS_VFMADD213PD'', Auto ''X86_INS_VFMADD213PS'', Auto ''X86_INS_VFMADDPD'',
    Auto ''X86_INS_VFMADD231PD'', Auto ''X86_INS_VFMADDPS'', Auto ''X86_INS_VFMADD231PS'',
    Auto ''X86_INS_VFMADDSD'', Auto ''X86_INS_VFMADD213SD'', Auto ''X86_INS_VFMADD132SD'',
    Auto ''X86_INS_VFMADD231SD'', Auto ''X86_INS_VFMADDSS'', Auto ''X86_INS_VFMADD213SS'',
    Auto ''X86_INS_VFMADD132SS'', Auto ''X86_INS_VFMADD231SS'', Auto ''X86_INS_VFMADDSUB132PD'',
    Auto ''X86_INS_VFMADDSUB132PS'', Auto ''X86_INS_VFMADDSUB213PD'', Auto ''X86_INS_VFMADDSUB213PS'',
    Auto ''X86_INS_VFMADDSUBPD'', Auto ''X86_INS_VFMADDSUB231PD'', Auto ''X86_INS_VFMADDSUBPS'',
    Auto ''X86_INS_VFMADDSUB231PS'', Auto ''X86_INS_VFMSUB132PD'', Auto ''X86_INS_VFMSUB132PS'',
    Auto ''X86_INS_VFMSUB213PD'', Auto ''X86_INS_VFMSUB213PS'', Auto ''X86_INS_VFMSUBADD132PD'',
    Auto ''X86_INS_VFMSUBADD132PS'', Auto ''X86_INS_VFMSUBADD213PD'', Auto ''X86_INS_VFMSUBADD213PS'',
    Auto ''X86_INS_VFMSUBADDPD'', Auto ''X86_INS_VFMSUBADD231PD'', Auto ''X86_INS_VFMSUBADDPS'',
    Auto ''X86_INS_VFMSUBADD231PS'', Auto ''X86_INS_VFMSUBPD'', Auto ''X86_INS_VFMSUB231PD'',
    Auto ''X86_INS_VFMSUBPS'', Auto ''X86_INS_VFMSUB231PS'', Auto ''X86_INS_VFMSUBSD'',
    Auto ''X86_INS_VFMSUB213SD'', Auto ''X86_INS_VFMSUB132SD'', Auto ''X86_INS_VFMSUB231SD'',
    Auto ''X86_INS_VFMSUBSS'', Auto ''X86_INS_VFMSUB213SS'', Auto ''X86_INS_VFMSUB132SS'',
    Auto ''X86_INS_VFMSUB231SS'', Auto ''X86_INS_VFNMADD132PD'', Auto ''X86_INS_VFNMADD132PS'',
    Auto ''X86_INS_VFNMADD213PD'', Auto ''X86_INS_VFNMADD213PS'', Auto ''X86_INS_VFNMADDPD'',
    Auto ''X86_INS_VFNMADD231PD'', Auto ''X86_INS_VFNMADDPS'', Auto ''X86_INS_VFNMADD231PS'',
    Auto ''X86_INS_VFNMADDSD'', Auto ''X86_INS_VFNMADD213SD'', Auto ''X86_INS_VFNMADD132SD'',
    Auto ''X86_INS_VFNMADD231SD'', Auto ''X86_INS_VFNMADDSS'', Auto ''X86_INS_VFNMADD213SS'',
    Auto ''X86_INS_VFNMADD132SS'', Auto ''X86_INS_VFNMADD231SS'', Auto ''X86_INS_VFNMSUB132PD'',
    Auto ''X86_INS_VFNMSUB132PS'', Auto ''X86_INS_VFNMSUB213PD'', Auto ''X86_INS_VFNMSUB213PS'',
    Auto ''X86_INS_VFNMSUBPD'', Auto ''X86_INS_VFNMSUB231PD'', Auto ''X86_INS_VFNMSUBPS'',
    Auto ''X86_INS_VFNMSUB231PS'', Auto ''X86_INS_VFNMSUBSD'', Auto ''X86_INS_VFNMSUB213SD'',
    Auto ''X86_INS_VFNMSUB132SD'', Auto ''X86_INS_VFNMSUB231SD'', Auto ''X86_INS_VFNMSUBSS'',
    Auto ''X86_INS_VFNMSUB213SS'', Auto ''X86_INS_VFNMSUB132SS'', Auto ''X86_INS_VFNMSUB231SS'',
    Auto ''X86_INS_VFRCZPD'', Auto ''X86_INS_VFRCZPS'', Auto ''X86_INS_VFRCZSD'',
    Auto ''X86_INS_VFRCZSS'', Auto ''X86_INS_VORPD'', Auto ''X86_INS_VORPS'', Auto ''X86_INS_VXORPD'',
    Auto ''X86_INS_VXORPS'', Auto ''X86_INS_VGATHERDPD'', Auto ''X86_INS_VGATHERDPS'',
    Auto ''X86_INS_VGATHERPF0DPD'', Auto ''X86_INS_VGATHERPF0DPS'', Auto ''X86_INS_VGATHERPF0QPD'',
    Auto ''X86_INS_VGATHERPF0QPS'', Auto ''X86_INS_VGATHERPF1DPD'', Auto ''X86_INS_VGATHERPF1DPS'',
    Auto ''X86_INS_VGATHERPF1QPD'', Auto ''X86_INS_VGATHERPF1QPS'', Auto ''X86_INS_VGATHERQPD'',
    Auto ''X86_INS_VGATHERQPS'', Auto ''X86_INS_VHADDPD'', Auto ''X86_INS_VHADDPS'',
    Auto ''X86_INS_VHSUBPD'', Auto ''X86_INS_VHSUBPS'', Auto ''X86_INS_VINSERTF128'',
    Auto ''X86_INS_VINSERTF32X4'', Auto ''X86_INS_VINSERTF64X4'', Auto ''X86_INS_VINSERTI128'',
    Auto ''X86_INS_VINSERTI32X4'', Auto ''X86_INS_VINSERTI64X4'', Auto ''X86_INS_VINSERTPS'',
    Auto ''X86_INS_VLDDQU'', Auto ''X86_INS_VLDMXCSR'', Auto ''X86_INS_VMASKMOVDQU'',
    Auto ''X86_INS_VMASKMOVPD'', Auto ''X86_INS_VMASKMOVPS'', Auto ''X86_INS_VMAXPD'',
    Auto ''X86_INS_VMAXPS'', Auto ''X86_INS_VMAXSD'', Auto ''X86_INS_VMAXSS'']"

definition x86_insn_7 :: "enumerator list" where
  "x86_insn_7 = [
    Auto ''X86_INS_VMCALL'', Auto ''X86_INS_VMCLEAR'', Auto ''X86_INS_VMFUNC'', Auto ''X86_INS_VMINPD'',
    Auto ''X86_INS_VMINPS'', Auto ''X86_INS_VMINSD'', Auto ''X86_INS_VMINSS'',
    Auto ''X86_INS_VMLAUNCH'', Auto ''X86_INS_VMLOAD'', Auto ''X86_INS_VMMCALL'',
    Auto ''X86_INS_VMOVQ'', Auto ''X86_INS_VMOVDDUP'', Auto ''X86_INS_VMOVD'',
    Auto ''X86_INS_VMOVDQA32'', Auto ''X86_INS_VMOVDQA64'', Auto ''X86_INS_VMOVDQA'',
    Auto ''X86_INS_VMOVDQU16'', Auto ''X86_INS_VMOVDQU32'', Auto ''X86_INS_VMOVDQU64'',
    Auto ''X86_INS_VMOVDQU8'', Auto ''X86_INS_VMOVDQU'', Auto ''X86_INS_VMOVHLPS'',
    Auto ''X86_INS_VMOVHPD'', Auto ''X86_INS_VMOVHPS'', Auto ''X86_INS_VMOVLHPS'',
    Auto ''X86_INS_VMOVLPD'', Auto ''X86_INS_VMOVLPS'', Auto ''X86_INS_VMOVMSKPD'',
    Auto ''X86_INS_VMOVMSKPS'', Auto ''X86_INS_VMOVNTDQA'', Auto ''X86_INS_VMOVNTDQ'',
    Auto ''X86_INS_VMOVNTPD'', Auto ''X86_INS_VMOVNTPS'', Auto ''X86_INS_VMOVSD'',
    Auto ''X86_INS_VMOVSHDUP'', Auto ''X86_INS_VMOVSLDUP'', Auto ''X86_INS_VMOVSS'',
    Auto ''X86_INS_VMOVUPD'', Auto ''X86_INS_VMOVUPS'', Auto ''X86_INS_VMPSADBW'',
    Auto ''X86_INS_VMPTRLD'', Auto ''X86_INS_VMPTRST'', Auto ''X86_INS_VMREAD'',
    Auto ''X86_INS_VMRESUME'', Auto ''X86_INS_VMRUN'', Auto ''X86_INS_VMSAVE'', Auto ''X86_INS_VMULPD'',
    Auto ''X86_INS_VMULPS'', Auto ''X86_INS_VMULSD'', Auto ''X86_INS_VMULSS'', Auto ''X86_INS_VMWRITE'',
    Auto ''X86_INS_VMXOFF'', Auto ''X86_INS_VMXON'', Auto ''X86_INS_VPABSB'', Auto ''X86_INS_VPABSD'',
    Auto ''X86_INS_VPABSQ'', Auto ''X86_INS_VPABSW'', Auto ''X86_INS_VPACKSSDW'',
    Auto ''X86_INS_VPACKSSWB'', Auto ''X86_INS_VPACKUSDW'', Auto ''X86_INS_VPACKUSWB'',
    Auto ''X86_INS_VPADDB'', Auto ''X86_INS_VPADDD'', Auto ''X86_INS_VPADDQ'', Auto ''X86_INS_VPADDSB'',
    Auto ''X86_INS_VPADDSW'', Auto ''X86_INS_VPADDUSB'', Auto ''X86_INS_VPADDUSW'',
    Auto ''X86_INS_VPADDW'', Auto ''X86_INS_VPALIGNR'', Auto ''X86_INS_VPANDD'',
    Auto ''X86_INS_VPANDND'', Auto ''X86_INS_VPANDNQ'', Auto ''X86_INS_VPANDN'',
    Auto ''X86_INS_VPANDQ'', Auto ''X86_INS_VPAND'', Auto ''X86_INS_VPAVGB'', Auto ''X86_INS_VPAVGW'',
    Auto ''X86_INS_VPBLENDD'', Auto ''X86_INS_VPBLENDMD'', Auto ''X86_INS_VPBLENDMQ'',
    Auto ''X86_INS_VPBLENDVB'', Auto ''X86_INS_VPBLENDW'', Auto ''X86_INS_VPBROADCASTB'',
    Auto ''X86_INS_VPBROADCASTD'', Auto ''X86_INS_VPBROADCASTMB2Q'', Auto ''X86_INS_VPBROADCASTMW2D'',
    Auto ''X86_INS_VPBROADCASTQ'', Auto ''X86_INS_VPBROADCASTW'', Auto ''X86_INS_VPCLMULQDQ'',
    Auto ''X86_INS_VPCMOV'', Auto ''X86_INS_VPCMP'', Auto ''X86_INS_VPCMPD'', Auto ''X86_INS_VPCMPEQB'',
    Auto ''X86_INS_VPCMPEQD'', Auto ''X86_INS_VPCMPEQQ'', Auto ''X86_INS_VPCMPEQW'',
    Auto ''X86_INS_VPCMPESTRI'', Auto ''X86_INS_VPCMPESTRM'', Auto ''X86_INS_VPCMPGTB'',
    Auto ''X86_INS_VPCMPGTD'', Auto ''X86_INS_VPCMPGTQ'', Auto ''X86_INS_VPCMPGTW'',
    Auto ''X86_INS_VPCMPISTRI'', Auto ''X86_INS_VPCMPISTRM'', Auto ''X86_INS_VPCMPQ'',
    Auto ''X86_INS_VPCMPUD'', Auto ''X86_INS_VPCMPUQ'', Auto ''X86_INS_VPCOMB'',
    Auto ''X86_INS_VPCOMD'', Auto ''X86_INS_VPCOMQ'', Auto ''X86_INS_VPCOMUB'',
    Auto ''X86_INS_VPCOMUD'', Auto ''X86_INS_VPCOMUQ'', Auto ''X86_INS_VPCOMUW'',
    Auto ''X86_INS_VPCOMW'', Auto ''X86_INS_VPCONFLICTD'', Auto ''X86_INS_VPCONFLICTQ'',
    Auto ''X86_INS_VPERM2F128'', Auto ''X86_INS_VPERM2I128'', Auto ''X86_INS_VPERMD'',
    Auto ''X86_INS_VPERMI2D'', Auto ''X86_INS_VPERMI2PD'', Auto ''X86_INS_VPERMI2PS'',
    Auto ''X86_INS_VPERMI2Q'', Auto ''X86_INS_VPERMIL2PD'', Auto ''X86_INS_VPERMIL2PS'',
    Auto ''X86_INS_VPERMILPD'', Auto ''X86_INS_VPERMILPS'', Auto ''X86_INS_VPERMPD'',
    Auto ''X86_INS_VPERMPS'', Auto ''X86_INS_VPERMQ'', Auto ''X86_INS_VPERMT2D'',
    Auto ''X86_INS_VPERMT2PD'', Auto ''X86_INS_VPERMT2PS'', Auto ''X86_INS_VPERMT2Q'',
    Auto ''X86_INS_VPEXTRB'', Auto ''X86_INS_VPEXTRD'', Auto ''X86_INS_VPEXTRQ'',
    Auto ''X86_INS_VPEXTRW'', Auto ''X86_INS_VPGATHERDD'', Auto ''X86_INS_VPGATHERDQ'',
    Auto ''X86_INS_VPGATHERQD'', Auto ''X86_INS_VPGATHERQQ'', Auto ''X86_INS_VPHADDBD'',
    Auto ''X86_INS_VPHADDBQ'', Auto ''X86_INS_VPHADDBW'', Auto ''X86_INS_VPHADDDQ'',
    Auto ''X86_INS_VPHADDD'', Auto ''X86_INS_VPHADDSW'']"

definition x86_insn_8 :: "enumerator list" where
  "x86_insn_8 = [
    Auto ''X86_INS_VPHADDUBD'', Auto ''X86_INS_VPHADDUBQ'', Auto ''X86_INS_VPHADDUBW'',
    Auto ''X86_INS_VPHADDUDQ'', Auto ''X86_INS_VPHADDUWD'', Auto ''X86_INS_VPHADDUWQ'',
    Auto ''X86_INS_VPHADDWD'', Auto ''X86_INS_VPHADDWQ'', Auto ''X86_INS_VPHADDW'',
    Auto ''X86_INS_VPHMINPOSUW'', Auto ''X86_INS_VPHSUBBW'', Auto ''X86_INS_VPHSUBDQ'',
    Auto ''X86_INS_VPHSUBD'', Auto ''X86_INS_VPHSUBSW'', Auto ''X86_INS_VPHSUBWD'',
    Auto ''X86_INS_VPHSUBW'', Auto ''X86_INS_VPINSRB'', Auto ''X86_INS_VPINSRD'',
    Auto ''X86_INS_VPINSRQ'', Auto ''X86_INS_VPINSRW'', Auto ''X86_INS_VPLZCNTD'',
    Auto ''X86_INS_VPLZCNTQ'', Auto ''X86_INS_VPMACSDD'', Auto ''X86_INS_VPMACSDQH'',
    Auto ''X86_INS_VPMACSDQL'', Auto ''X86_INS_VPMACSSDD'', Auto ''X86_INS_VPMACSSDQH'',
    Auto ''X86_INS_VPMACSSDQL'', Auto ''X86_INS_VPMACSSWD'', Auto ''X86_INS_VPMACSSWW'',
    Auto ''X86_INS_VPMACSWD'', Auto ''X86_INS_VPMACSWW'', Auto ''X86_INS_VPMADCSSWD'',
    Auto ''X86_INS_VPMADCSWD'', Auto ''X86_INS_VPMADDUBSW'', Auto ''X86_INS_VPMADDWD'',
    Auto ''X86_INS_VPMASKMOVD'', Auto ''X86_INS_VPMASKMOVQ'', Auto ''X86_INS_VPMAXSB'',
    Auto ''X86_INS_VPMAXSD'', Auto ''X86_INS_VPMAXSQ'', Auto ''X86_INS_VPMAXSW'',
    Auto ''X86_INS_VPMAXUB'', Auto ''X86_INS_VPMAXUD'', Auto ''X86_INS_VPMAXUQ'',
    Auto ''X86_INS_VPMAXUW'', Auto ''X86_INS_VPMINSB'', Auto ''X86_INS_VPMINSD'',
    Auto ''X86_INS_VPMINSQ'', Auto ''X86_INS_VPMINSW'', Auto ''X86_INS_VPMINUB'',
    Auto ''X86_INS_VPMINUD'', Auto ''X86_INS_VPMINUQ'', Auto ''X86_INS_VPMINUW'',
    Auto ''X86_INS_VPMOVDB'', Auto ''X86_INS_VPMOVDW'', Auto ''X86_INS_VPMOVMSKB'',
    Auto ''X86_INS_VPMOVQB'', Auto ''X86_INS_VPMOVQD'', Auto ''X86_INS_VPMOVQW'',
    Auto ''X86_INS_VPMOVSDB'', Auto ''X86_INS_VPMOVSDW'', Auto ''X86_INS_VPMOVSQB'',
    Auto ''X86_INS_VPMOVSQD'', Auto ''X86_INS_VPMOVSQW'', Auto ''X86_INS_VPMOVSXBD'',
    Auto ''X86_INS_VPMOVSXBQ'', Auto ''X86_INS_VPMOVSXBW'', Auto ''X86_INS_VPMOVSXDQ'',
    Auto ''X86_INS_VPMOVSXWD'', Auto ''X86_INS_VPMOVSXWQ'', Auto ''X86_INS_VPMOVUSDB'',
    Auto ''X86_INS_VPMOVUSDW'', Auto ''X86_INS_VPMOVUSQB'', Auto ''X86_INS_VPMOVUSQD'',
    Auto ''X86_INS_VPMOVUSQW'', Auto ''X86_INS_VPMOVZXBD'', Auto ''X86_INS_VPMOVZXBQ'',
    Auto ''X86_INS_VPMOVZXBW'', Auto ''X86_INS_VPMOVZXDQ'', Auto ''X86_INS_VPMOVZXWD'',
    Auto ''X86_INS_VPMOVZXWQ'', Auto ''X86_INS_VPMULDQ'', Auto ''X86_INS_VPMULHRSW'',
    Auto ''X86_INS_VPMULHUW'', Auto ''X86_INS_VPMULHW'', Auto ''X86_INS_VPMULLD'',
    Auto ''X86_INS_VPMULLW'', Auto ''X86_INS_VPMULUDQ'', Auto ''X86_INS_VPORD'', Auto ''X86_INS_VPORQ'',
    Auto ''X86_INS_VPOR'', Auto ''X86_INS_VPPERM'', Auto ''X86_INS_VPROTB'', Auto ''X86_INS_VPROTD'',
    Auto ''X86_INS_VPROTQ'', Auto ''X86_INS_VPROTW'', Auto ''X86_INS_VPSADBW'',
    Auto ''X86_INS_VPSCATTERDD'', Auto ''X86_INS_VPSCATTERDQ'', Auto ''X86_INS_VPSCATTERQD'',
    Auto ''X86_INS_VPSCATTERQQ'', Auto ''X86_INS_VPSHAB'', Auto ''X86_INS_VPSHAD'',
    Auto ''X86_INS_VPSHAQ'', Auto ''X86_INS_VPSHAW'', Auto ''X86_INS_VPSHLB'', Auto ''X86_INS_VPSHLD'',
    Auto ''X86_INS_VPSHLQ'', Auto ''X86_INS_VPSHLW'', Auto ''X86_INS_VPSHUFB'',
    Auto ''X86_INS_VPSHUFD'', Auto ''X86_INS_VPSHUFHW'', Auto ''X86_INS_VPSHUFLW'',
    Auto ''X86_INS_VPSIGNB'', Auto ''X86_INS_VPSIGND'', Auto ''X86_INS_VPSIGNW'',
    Auto ''X86_INS_VPSLLDQ'', Auto ''X86_INS_VPSLLD'', Auto ''X86_INS_VPSLLQ'',
    Auto ''X86_INS_VPSLLVD'', Auto ''X86_INS_VPSLLVQ'', Auto ''X86_INS_VPSLLW'',
    Auto ''X86_INS_VPSRAD'', Auto ''X86_INS_VPSRAQ'', Auto ''X86_INS_VPSRAVD'',
    Auto ''X86_INS_VPSRAVQ'', Auto ''X86_INS_VPSRAW'', Auto ''X86_INS_VPSRLDQ'',
    Auto ''X86_INS_VPSRLD'', Auto ''X86_INS_VPSRLQ'', Auto ''X86_INS_VPSRLVD'',
    Auto ''X86_INS_VPSRLVQ'', Auto ''X86_INS_VPSRLW'', Auto ''X86_INS_VPSUBB'', Auto ''X86_INS_VPSUBD'',
    Auto ''X86_INS_VPSUBQ'', Auto ''X86_INS_VPSUBSB'', Auto ''X86_INS_VPSUBSW'',
    Auto ''X86_INS_VPSUBUSB'', Auto ''X86_INS_VPSUBUSW'', Auto ''X86_INS_VPSUBW'',
    Auto ''X86_INS_VPTESTMD'', Auto ''X86_INS_VPTESTMQ'', Auto ''X86_INS_VPTESTNMD'',
    Auto ''X86_INS_VPTESTNMQ'', Auto ''X86_INS_VPTEST'', Auto ''X86_INS_VPUNPCKHBW'',
    Auto ''X86_INS_VPUNPCKHDQ'', Auto ''X86_INS_VPUNPCKHQDQ'']"

definition x86_insn_9 :: "enumerator list" where
  "x86_insn_9 = [
    Auto ''X86_INS_VPUNPCKHWD'', Auto ''X86_INS_VPUNPCKLBW'', Auto ''X86_INS_VPUNPCKLDQ'',
    Auto ''X86_INS_VPUNPCKLQDQ'', Auto ''X86_INS_VPUNPCKLWD'', Auto ''X86_INS_VPXORD'',
    Auto ''X86_INS_VPXORQ'', Auto ''X86_INS_VPXOR'', Auto ''X86_INS_VRCP14PD'',
    Auto ''X86_INS_VRCP14PS'', Auto ''X86_INS_VRCP14SD'', Auto ''X86_INS_VRCP14SS'',
    Auto ''X86_INS_VRCP28PD'', Auto ''X86_INS_VRCP28PS'', Auto ''X86_INS_VRCP28SD'',
    Auto ''X86_INS_VRCP28SS'', Auto ''X86_INS_VRCPPS'', Auto ''X86_INS_VRCPSS'',
    Auto ''X86_INS_VRNDSCALEPD'', Auto ''X86_INS_VRNDSCALEPS'', Auto ''X86_INS_VRNDSCALESD'',
    Auto ''X86_INS_VRNDSCALESS'', Auto ''X86_INS_VROUNDPD'', Auto ''X86_INS_VROUNDPS'',
    Auto ''X86_INS_VROUNDSD'', Auto ''X86_INS_VROUNDSS'', Auto ''X86_INS_VRSQRT14PD'',
    Auto ''X86_INS_VRSQRT14PS'', Auto ''X86_INS_VRSQRT14SD'', Auto ''X86_INS_VRSQRT14SS'',
    Auto ''X86_INS_VRSQRT28PD'', Auto ''X86_INS_VRSQRT28PS'', Auto ''X86_INS_VRSQRT28SD'',
    Auto ''X86_INS_VRSQRT28SS'', Auto ''X86_INS_VRSQRTPS'', Auto ''X86_INS_VRSQRTSS'',
    Auto ''X86_INS_VSCATTERDPD'', Auto ''X86_INS_VSCATTERDPS'', Auto ''X86_INS_VSCATTERPF0DPD'',
    Auto ''X86_INS_VSCATTERPF0DPS'', Auto ''X86_INS_VSCATTERPF0QPD'', Auto ''X86_INS_VSCATTERPF0QPS'',
    Auto ''X86_INS_VSCATTERPF1DPD'', Auto ''X86_INS_VSCATTERPF1DPS'', Auto ''X86_INS_VSCATTERPF1QPD'',
    Auto ''X86_INS_VSCATTERPF1QPS'', Auto ''X86_INS_VSCATTERQPD'', Auto ''X86_INS_VSCATTERQPS'',
    Auto ''X86_INS_VSHUFPD'', Auto ''X86_INS_VSHUFPS'', Auto ''X86_INS_VSQRTPD'',
    Auto ''X86_INS_VSQRTPS'', Auto ''X86_INS_VSQRTSD'', Auto ''X86_INS_VSQRTSS'',
    Auto ''X86_INS_VSTMXCSR'', Auto ''X86_INS_VSUBPD'', Auto ''X86_INS_VSUBPS'',
    Auto ''X86_INS_VSUBSD'', Auto ''X86_INS_VSUBSS'', Auto ''X86_INS_VTESTPD'',
    Auto ''X86_INS_VTESTPS'', Auto ''X86_INS_VUNPCKHPD'', Auto ''X86_INS_VUNPCKHPS'',
    Auto ''X86_INS_VUNPCKLPD'', Auto ''X86_INS_VUNPCKLPS'', Auto ''X86_INS_VZEROALL'',
    Auto ''X86_INS_VZEROUPPER'', Auto ''X86_INS_WAIT'', Auto ''X86_INS_WBINVD'',
    Auto ''X86_INS_WRFSBASE'', Auto ''X86_INS_WRGSBASE'', Auto ''X86_INS_WRMSR'',
    Auto ''X86_INS_XABORT'', Auto ''X86_INS_XACQUIRE'', Auto ''X86_INS_XBEGIN'', Auto ''X86_INS_XCHG'',
    Auto ''X86_INS_FXCH'', Auto ''X86_INS_XCRYPTCBC'', Auto ''X86_INS_XCRYPTCFB'',
    Auto ''X86_INS_XCRYPTCTR'', Auto ''X86_INS_XCRYPTECB'', Auto ''X86_INS_XCRYPTOFB'',
    Auto ''X86_INS_XEND'', Auto ''X86_INS_XGETBV'', Auto ''X86_INS_XLATB'', Auto ''X86_INS_XRELEASE'',
    Auto ''X86_INS_XRSTOR'', Auto ''X86_INS_XRSTOR64'', Auto ''X86_INS_XSAVE'',
    Auto ''X86_INS_XSAVE64'', Auto ''X86_INS_XSAVEOPT'', Auto ''X86_INS_XSAVEOPT64'',
    Auto ''X86_INS_XSETBV'', Auto ''X86_INS_XSHA1'', Auto ''X86_INS_XSHA256'', Auto ''X86_INS_XSTORE'',
    Auto ''X86_INS_XTEST'', Auto ''X86_INS_ENDING'']"

definition x86_insn :: "enumerator list" where
  "x86_insn = x86_insn_1 @ x86_insn_2 @ x86_insn_3 @ x86_insn_4 @ x86_insn_5 @ x86_insn_6 @ x86_insn_7 @ x86_insn_8 @ x86_insn_9"

end
