(* ===== verification/Capstone_Arm_Insn.thy ===== *)
theory Capstone_Arm_Insn
  imports C_Enum
begin

text \<open>
  The instruction identifiers of \<open>capstone/arm.h\<close> and \<open>capstone/arm64.h\<close>, in pieces of at most 150
  lines.
\<close>

section \<open>ARM\<close>

definition arm_insn_1 :: "enumerator list" where
  "arm_insn_1 = [
    Init ''ARM_INS_INVALID'' (Num 0), Auto ''ARM_INS_ADC'', Auto ''ARM_INS_ADD'', Auto ''ARM_INS_ADR'',
    Auto ''ARM_INS_AESD'', Auto ''ARM_INS_AESE'', Auto ''ARM_INS_AESIMC'', Auto ''ARM_INS_AESMC'',
    Auto ''ARM_INS_AND'', Auto ''ARM_INS_BFC'', Auto ''ARM_INS_BFI'', Auto ''ARM_INS_BIC'',
    Auto ''ARM_INS_BKPT'', Auto ''ARM_INS_BL'', Auto ''ARM_INS_BLX'', Auto ''ARM_INS_BX'',
    Auto ''ARM_INS_BXJ'', Auto ''ARM_INS_B'', Auto ''ARM_INS_CDP'', Auto ''ARM_INS_CDP2'',
    Auto ''ARM_INS_CLREX'', Auto ''ARM_INS_CLZ'', Auto ''ARM_INS_CMN'', Auto ''ARM_INS_CMP'',
    Auto ''ARM_INS_CPS'', Auto ''ARM_INS_CRC32B'', Auto ''ARM_INS_CRC32CB'', Auto ''ARM_INS_CRC32CH'',
    Auto ''ARM_INS_CRC32CW'', Auto ''ARM_INS_CRC32H'', Auto ''ARM_INS_CRC32W'', Auto ''ARM_INS_DBG'',
    Auto ''ARM_INS_DMB'', Auto ''ARM_INS_DSB'', Auto ''ARM_INS_EOR'', Auto ''ARM_INS_VMOV'',
    Auto ''ARM_INS_FLDMDBX'', Auto ''ARM_INS_FLDMIAX'', Auto ''ARM_INS_VMRS'', Auto ''ARM_INS_FSTMDBX'',
    Auto ''ARM_INS_FSTMIAX'', Auto ''ARM_INS_HINT'', Auto ''ARM_INS_HLT'', Auto ''ARM_INS_ISB'',
    Auto ''ARM_INS_LDA'', Auto ''ARM_INS_LDAB'', Auto ''ARM_INS_LDAEX'', Auto ''ARM_INS_LDAEXB'',
    Auto ''ARM_INS_LDAEXD'', Auto ''ARM_INS_LDAEXH'', Auto ''ARM_INS_LDAH'', Auto ''ARM_INS_LDC2L'',
    Auto ''ARM_INS_LDC2'', Auto ''ARM_INS_LDCL'', Auto ''ARM_INS_LDC'', Auto ''ARM_INS_LDMDA'',
    Auto ''ARM_INS_LDMDB'', Auto ''ARM_INS_LDM'', Auto ''ARM_INS_LDMIB'', Auto ''ARM_INS_LDRBT'',
    Auto ''ARM_INS_LDRB'', Auto ''ARM_INS_LDRD'', Auto ''ARM_INS_LDREX'', Auto ''ARM_INS_LDREXB'',
    Auto ''ARM_INS_LDREXD'', Auto ''ARM_INS_LDREXH'', Auto ''ARM_INS_LDRH'', Auto ''ARM_INS_LDRHT'',
    Auto ''ARM_INS_LDRSB'', Auto ''ARM_INS_LDRSBT'', Auto ''ARM_INS_LDRSH'', Auto ''ARM_INS_LDRSHT'',
    Auto ''ARM_INS_LDRT'', Auto ''ARM_INS_LDR'', Auto ''ARM_INS_MCR'', Auto ''ARM_INS_MCR2'',
    Auto ''ARM_INS_MCRR'', Auto ''ARM_INS_MCRR2'', Auto ''ARM_INS_MLA'', Auto ''ARM_INS_MLS'',
    Auto ''ARM_INS_MOV'', Auto ''ARM_INS_MOVT'', Auto ''ARM_INS_MOVW'', Auto ''ARM_INS_MRC'',
    Auto ''ARM_INS_MRC2'', Auto ''ARM_INS_MRRC'', Auto ''ARM_INS_MRRC2'', Auto ''ARM_INS_MRS'',
    Auto ''ARM_INS_MSR'', Auto ''ARM_INS_MUL'', Auto ''ARM_INS_MVN'', Auto ''ARM_INS_ORR'',
    Auto ''ARM_INS_PKHBT'', Auto ''ARM_INS_PKHTB'', Auto ''ARM_INS_PLDW'', Auto ''ARM_INS_PLD'',
    Auto ''ARM_INS_PLI'', Auto ''ARM_INS_QADD'', Auto ''ARM_INS_QADD16'', Auto ''ARM_INS_QADD8'',
    Auto ''ARM_INS_QASX'', Auto ''ARM_INS_QDADD'', Auto ''ARM_INS_QDSUB'', Auto ''ARM_INS_QSAX'',
    Auto ''ARM_INS_QSUB'', Auto ''ARM_INS_QSUB16'', Auto ''ARM_INS_QSUB8'', Auto ''ARM_INS_RBIT'',
    Auto ''ARM_INS_REV'', Auto ''ARM_INS_REV16'', Auto ''ARM_INS_REVSH'', Auto ''ARM_INS_RFEDA'',
    Auto ''ARM_INS_RFEDB'', Auto ''ARM_INS_RFEIA'', Auto ''ARM_INS_RFEIB'', Auto ''ARM_INS_RSB'',
    Auto ''ARM_INS_RSC'', Auto ''ARM_INS_SADD16'', Auto ''ARM_INS_SADD8'', Auto ''ARM_INS_SASX'',
    Auto ''ARM_INS_SBC'', Auto ''ARM_INS_SBFX'', Auto ''ARM_INS_SDIV'', Auto ''ARM_INS_SEL'',
    Auto ''ARM_INS_SETEND'', Auto ''ARM_INS_SHA1C'', Auto ''ARM_INS_SHA1H'', Auto ''ARM_INS_SHA1M'',
    Auto ''ARM_INS_SHA1P'', Auto ''ARM_INS_SHA1SU0'', Auto ''ARM_INS_SHA1SU1'',
    Auto ''ARM_INS_SHA256H'', Auto ''ARM_INS_SHA256H2'', Auto ''ARM_INS_SHA256SU0'',
    Auto ''ARM_INS_SHA256SU1'', Auto ''ARM_INS_SHADD16'', Auto ''ARM_INS_SHADD8'',
    Auto ''ARM_INS_SHASX'', Auto ''ARM_INS_SHSAX'', Auto ''ARM_INS_SHSUB16'', Auto ''ARM_INS_SHSUB8'',
    Auto ''ARM_INS_SMC'', Auto ''ARM_INS_SMLABB'', Auto ''ARM_INS_SMLABT'', Auto ''ARM_INS_SMLAD'',
    Auto ''ARM_INS_SMLADX'', Auto ''ARM_INS_SMLAL'', Auto ''ARM_INS_SMLALBB'']"

definition arm_insn_2 :: "enumerator list" where
  "arm_insn_2 = [
    Auto ''ARM_INS_SMLALBT'', Auto ''ARM_INS_SMLALD'', Auto ''ARM_INS_SMLALDX'',
    Auto ''ARM_INS_SMLALTB'', Auto ''ARM_INS_SMLALTT'', Auto ''ARM_INS_SMLATB'',
    Auto ''ARM_INS_SMLATT'', Auto ''ARM_INS_SMLAWB'', Auto ''ARM_INS_SMLAWT'', Auto ''ARM_INS_SMLSD'',
    Auto ''ARM_INS_SMLSDX'', Auto ''ARM_INS_SMLSLD'', Auto ''ARM_INS_SMLSLDX'', Auto ''ARM_INS_SMMLA'',
    Auto ''ARM_INS_SMMLAR'', Auto ''ARM_INS_SMMLS'', Auto ''ARM_INS_SMMLSR'', Auto ''ARM_INS_SMMUL'',
    Auto ''ARM_INS_SMMULR'', Auto ''ARM_INS_SMUAD'', Auto ''ARM_INS_SMUADX'', Auto ''ARM_INS_SMULBB'',
    Auto ''ARM_INS_SMULBT'', Auto ''ARM_INS_SMULL'', Auto ''ARM_INS_SMULTB'', Auto ''ARM_INS_SMULTT'',
    Auto ''ARM_INS_SMULWB'', Auto ''ARM_INS_SMULWT'', Auto ''ARM_INS_SMUSD'', Auto ''ARM_INS_SMUSDX'',
    Auto ''ARM_INS_SRSDA'', Auto ''ARM_INS_SRSDB'', Auto ''ARM_INS_SRSIA'', Auto ''ARM_INS_SRSIB'',
    Auto ''ARM_INS_SSAT'', Auto ''ARM_INS_SSAT16'', Auto ''ARM_INS_SSAX'', Auto ''ARM_INS_SSUB16'',
    Auto ''ARM_INS_SSUB8'', Auto ''ARM_INS_STC2L'', Auto ''ARM_INS_STC2'', Auto ''ARM_INS_STCL'',
    Auto ''ARM_INS_STC'', Auto ''ARM_INS_STL'', Auto ''ARM_INS_STLB'', Auto ''ARM_INS_STLEX'',
    Auto ''ARM_INS_STLEXB'', Auto ''ARM_INS_STLEXD'', Auto ''ARM_INS_STLEXH'', Auto ''ARM_INS_STLH'',
    Auto ''ARM_INS_STMDA'', Auto ''ARM_INS_STMDB'', Auto ''ARM_INS_STM'', Auto ''ARM_INS_STMIB'',
    Auto ''ARM_INS_STRBT'', Auto ''ARM_INS_STRB'', Auto ''ARM_INS_STRD'', Auto ''ARM_INS_STREX'',
    Auto ''ARM_INS_STREXB'', Auto ''ARM_INS_STREXD'', Auto ''ARM_INS_STREXH'', Auto ''ARM_INS_STRH'',
    Auto ''ARM_INS_STRHT'', Auto ''ARM_INS_STRT'', Auto ''ARM_INS_STR'', Auto ''ARM_INS_SUB'',
    Auto ''ARM_INS_SVC'', Auto ''ARM_INS_SWP'', Auto ''ARM_INS_SWPB'', Auto ''ARM_INS_SXTAB'',
    Auto ''ARM_INS_SXTAB16'', Auto ''ARM_INS_SXTAH'', Auto ''ARM_INS_SXTB'', Auto ''ARM_INS_SXTB16'',
    Auto ''ARM_INS_SXTH'', Auto ''ARM_INS_TEQ'', Auto ''ARM_INS_TRAP'', Auto ''ARM_INS_TST'',
    Auto ''ARM_INS_UADD16'', Auto ''ARM_INS_UADD8'', Auto ''ARM_INS_UASX'', Auto ''ARM_INS_UBFX'',
    Auto ''ARM_INS_UDF'', Auto ''ARM_INS_UDIV'', Auto ''ARM_INS_UHADD16'', Auto ''ARM_INS_UHADD8'',
    Auto ''ARM_INS_UHASX'', Auto ''ARM_INS_UHSAX'', Auto ''ARM_INS_UHSUB16'', Auto ''ARM_INS_UHSUB8'',
    Auto ''ARM_INS_UMAAL'', Auto ''ARM_INS_UMLAL'', Auto ''ARM_INS_UMULL'', Auto ''ARM_INS_UQADD16'',
    Auto ''ARM_INS_UQADD8'', Auto ''ARM_INS_UQASX'', Auto ''ARM_INS_UQSAX'', Auto ''ARM_INS_UQSUB16'',
    Auto ''ARM_INS_UQSUB8'', Auto ''ARM_INS_USAD8'', Auto ''ARM_INS_USADA8'', Auto ''ARM_INS_USAT'',
    Auto ''ARM_INS_USAT16'', Auto ''ARM_INS_USAX'', Auto ''ARM_INS_USUB16'', Auto ''ARM_INS_USUB8'',
    Auto ''ARM_INS_UXTAB'', Auto ''ARM_INS_UXTAB16'', Auto ''ARM_INS_UXTAH'', Auto ''ARM_INS_UXTB'',
    Auto ''ARM_INS_UXTB16'', Auto ''ARM_INS_UXTH'', Auto ''ARM_INS_VABAL'', Auto ''ARM_INS_VABA'',
    Auto ''ARM_INS_VABDL'', Auto ''ARM_INS_VABD'', Auto ''ARM_INS_VABS'', Auto ''ARM_INS_VACGE'',
    Auto ''ARM_INS_VACGT'', Auto ''ARM_INS_VADD'', Auto ''ARM_INS_VADDHN'', Auto ''ARM_INS_VADDL'',
    Auto ''ARM_INS_VADDW'', Auto ''ARM_INS_VAND'', Auto ''ARM_INS_VBIC'', Auto ''ARM_INS_VBIF'',
    Auto ''ARM_INS_VBIT'', Auto ''ARM_INS_VBSL'', Auto ''ARM_INS_VCEQ'', Auto ''ARM_INS_VCGE'',
    Auto ''ARM_INS_VCGT'', Auto ''ARM_INS_VCLE'', Auto ''ARM_INS_VCLS'', Auto ''ARM_INS_VCLT'',
    Auto ''ARM_INS_VCLZ'', Auto ''ARM_INS_VCMP'', Auto ''ARM_INS_VCMPE'', Auto ''ARM_INS_VCNT'',
    Auto ''ARM_INS_VCVTA'', Auto ''ARM_INS_VCVTB'', Auto ''ARM_INS_VCVT'', Auto ''ARM_INS_VCVTM'',
    Auto ''ARM_INS_VCVTN'', Auto ''ARM_INS_VCVTP'', Auto ''ARM_INS_VCVTT'', Auto ''ARM_INS_VDIV'',
    Auto ''ARM_INS_VDUP'', Auto ''ARM_INS_VEOR'', Auto ''ARM_INS_VEXT'', Auto ''ARM_INS_VFMA'']"

definition arm_insn_3 :: "enumerator list" where
  "arm_insn_3 = [
    Auto ''ARM_INS_VFMS'', Auto ''ARM_INS_VFNMA'', Auto ''ARM_INS_VFNMS'', Auto ''ARM_INS_VHADD'',
    Auto ''ARM_INS_VHSUB'', Auto ''ARM_INS_VLD1'', Auto ''ARM_INS_VLD2'', Auto ''ARM_INS_VLD3'',
    Auto ''ARM_INS_VLD4'', Auto ''ARM_INS_VLDMDB'', Auto ''ARM_INS_VLDMIA'', Auto ''ARM_INS_VLDR'',
    Auto ''ARM_INS_VMAXNM'', Auto ''ARM_INS_VMAX'', Auto ''ARM_INS_VMINNM'', Auto ''ARM_INS_VMIN'',
    Auto ''ARM_INS_VMLA'', Auto ''ARM_INS_VMLAL'', Auto ''ARM_INS_VMLS'', Auto ''ARM_INS_VMLSL'',
    Auto ''ARM_INS_VMOVL'', Auto ''ARM_INS_VMOVN'', Auto ''ARM_INS_VMSR'', Auto ''ARM_INS_VMUL'',
    Auto ''ARM_INS_VMULL'', Auto ''ARM_INS_VMVN'', Auto ''ARM_INS_VNEG'', Auto ''ARM_INS_VNMLA'',
    Auto ''ARM_INS_VNMLS'', Auto ''ARM_INS_VNMUL'', Auto ''ARM_INS_VORN'', Auto ''ARM_INS_VORR'',
    Auto ''ARM_INS_VPADAL'', Auto ''ARM_INS_VPADDL'', Auto ''ARM_INS_VPADD'', Auto ''ARM_INS_VPMAX'',
    Auto ''ARM_INS_VPMIN'', Auto ''ARM_INS_VQABS'', Auto ''ARM_INS_VQADD'', Auto ''ARM_INS_VQDMLAL'',
    Auto ''ARM_INS_VQDMLSL'', Auto ''ARM_INS_VQDMULH'', Auto ''ARM_INS_VQDMULL'',
    Auto ''ARM_INS_VQMOVUN'', Auto ''ARM_INS_VQMOVN'', Auto ''ARM_INS_VQNEG'',
    Auto ''ARM_INS_VQRDMULH'', Auto ''ARM_INS_VQRSHL'', Auto ''ARM_INS_VQRSHRN'',
    Auto ''ARM_INS_VQRSHRUN'', Auto ''ARM_INS_VQSHL'', Auto ''ARM_INS_VQSHLU'', Auto ''ARM_INS_VQSHRN'',
    Auto ''ARM_INS_VQSHRUN'', Auto ''ARM_INS_VQSUB'', Auto ''ARM_INS_VRADDHN'', Auto ''ARM_INS_VRECPE'',
    Auto ''ARM_INS_VRECPS'', Auto ''ARM_INS_VREV16'', Auto ''ARM_INS_VREV32'', Auto ''ARM_INS_VREV64'',
    Auto ''ARM_INS_VRHADD'', Auto ''ARM_INS_VRINTA'', Auto ''ARM_INS_VRINTM'', Auto ''ARM_INS_VRINTN'',
    Auto ''ARM_INS_VRINTP'', Auto ''ARM_INS_VRINTR'', Auto ''ARM_INS_VRINTX'', Auto ''ARM_INS_VRINTZ'',
    Auto ''ARM_INS_VRSHL'', Auto ''ARM_INS_VRSHRN'', Auto ''ARM_INS_VRSHR'', Auto ''ARM_INS_VRSQRTE'',
    Auto ''ARM_INS_VRSQRTS'', Auto ''ARM_INS_VRSRA'', Auto ''ARM_INS_VRSUBHN'', Auto ''ARM_INS_VSELEQ'',
    Auto ''ARM_INS_VSELGE'', Auto ''ARM_INS_VSELGT'', Auto ''ARM_INS_VSELVS'', Auto ''ARM_INS_VSHLL'',
    Auto ''ARM_INS_VSHL'', Auto ''ARM_INS_VSHRN'', Auto ''ARM_INS_VSHR'', Auto ''ARM_INS_VSLI'',
    Auto ''ARM_INS_VSQRT'', Auto ''ARM_INS_VSRA'', Auto ''ARM_INS_VSRI'', Auto ''ARM_INS_VST1'',
    Auto ''ARM_INS_VST2'', Auto ''ARM_INS_VST3'', Auto ''ARM_INS_VST4'', Auto ''ARM_INS_VSTMDB'',
    Auto ''ARM_INS_VSTMIA'', Auto ''ARM_INS_VSTR'', Auto ''ARM_INS_VSUB'', Auto ''ARM_INS_VSUBHN'',
    Auto ''ARM_INS_VSUBL'', Auto ''ARM_INS_VSUBW'', Auto ''ARM_INS_VSWP'', Auto ''ARM_INS_VTBL'',
    Auto ''ARM_INS_VTBX'', Auto ''ARM_INS_VCVTR'', Auto ''ARM_INS_VTRN'', Auto ''ARM_INS_VTST'',
    Auto ''ARM_INS_VUZP'', Auto ''ARM_INS_VZIP'', Auto ''ARM_INS_ADDW'', Auto ''ARM_INS_ASR'',
    Auto ''ARM_INS_DCPS1'', Auto ''ARM_INS_DCPS2'', Auto ''ARM_INS_DCPS3'', Auto ''ARM_INS_IT'',
    Auto ''ARM_INS_LSL'', Auto ''ARM_INS_LSR'', Auto ''ARM_INS_ASRS'', Auto ''ARM_INS_LSRS'',
    Auto ''ARM_INS_ORN'', Auto ''ARM_INS_ROR'', Auto ''ARM_INS_RRX'', Auto ''ARM_INS_SUBS'',
    Auto ''ARM_INS_SUBW'', Auto ''ARM_INS_TBB'', Auto ''ARM_INS_TBH'', Auto ''ARM_INS_CBNZ'',
    Auto ''ARM_INS_CBZ'', Auto ''ARM_INS_MOVS'', Auto ''ARM_INS_POP'', Auto ''ARM_INS_PUSH'',
    Auto ''ARM_INS_NOP'', Auto ''ARM_INS_YIELD'', Auto ''ARM_INS_WFE'', Auto ''ARM_INS_WFI'',
    Auto ''ARM_INS_SEV'', Auto ''ARM_INS_SEVL'', Auto ''ARM_INS_VPUSH'', Auto ''ARM_INS_VPOP'',
    Auto ''ARM_INS_ENDING'']"

definition arm_insn :: "enumerator list" where
  "arm_insn = arm_insn_1 @ arm_insn_2 @ arm_insn_3"

section \<open>ARM64\<close>

definition arm64_insn_1 :: "enumerator list" where
  "arm64_insn_1 = [
    Init ''ARM64_INS_INVALID'' (Num 0), Auto ''ARM64_INS_ABS'', Auto ''ARM64_INS_ADC'',
    Auto ''ARM64_INS_ADDHN'', Auto ''ARM64_INS_ADDHN2'', Auto ''ARM64_INS_ADDP'',
    Auto ''ARM64_INS_ADD'', Auto ''ARM64_INS_ADDV'', Auto ''ARM64_INS_ADR'', Auto ''ARM64_INS_ADRP'',
    Auto ''ARM64_INS_AESD'', Auto ''ARM64_INS_AESE'', Auto ''ARM64_INS_AESIMC'',
    Auto ''ARM64_INS_AESMC'', Auto ''ARM64_INS_AND'', Auto ''ARM64_INS_ASR'', Auto ''ARM64_INS_B'',
    Auto ''ARM64_INS_BFM'', Auto ''ARM64_INS_BIC'', Auto ''ARM64_INS_BIF'', Auto ''ARM64_INS_BIT'',
    Auto ''ARM64_INS_BL'', Auto ''ARM64_INS_BLR'', Auto ''ARM64_INS_BR'', Auto ''ARM64_INS_BRK'',
    Auto ''ARM64_INS_BSL'', Auto ''ARM64_INS_CBNZ'', Auto ''ARM64_INS_CBZ'', Auto ''ARM64_INS_CCMN'',
    Auto ''ARM64_INS_CCMP'', Auto ''ARM64_INS_CLREX'', Auto ''ARM64_INS_CLS'', Auto ''ARM64_INS_CLZ'',
    Auto ''ARM64_INS_CMEQ'', Auto ''ARM64_INS_CMGE'', Auto ''ARM64_INS_CMGT'', Auto ''ARM64_INS_CMHI'',
    Auto ''ARM64_INS_CMHS'', Auto ''ARM64_INS_CMLE'', Auto ''ARM64_INS_CMLT'', Auto ''ARM64_INS_CMTST'',
    Auto ''ARM64_INS_CNT'', Auto ''ARM64_INS_MOV'', Auto ''ARM64_INS_CRC32B'',
    Auto ''ARM64_INS_CRC32CB'', Auto ''ARM64_INS_CRC32CH'', Auto ''ARM64_INS_CRC32CW'',
    Auto ''ARM64_INS_CRC32CX'', Auto ''ARM64_INS_CRC32H'', Auto ''ARM64_INS_CRC32W'',
    Auto ''ARM64_INS_CRC32X'', Auto ''ARM64_INS_CSEL'', Auto ''ARM64_INS_CSINC'',
    Auto ''ARM64_INS_CSINV'', Auto ''ARM64_INS_CSNEG'', Auto ''ARM64_INS_DCPS1'',
    Auto ''ARM64_INS_DCPS2'', Auto ''ARM64_INS_DCPS3'', Auto ''ARM64_INS_DMB'', Auto ''ARM64_INS_DRPS'',
    Auto ''ARM64_INS_DSB'', Auto ''ARM64_INS_DUP'', Auto ''ARM64_INS_EON'', Auto ''ARM64_INS_EOR'',
    Auto ''ARM64_INS_ERET'', Auto ''ARM64_INS_EXTR'', Auto ''ARM64_INS_EXT'', Auto ''ARM64_INS_FABD'',
    Auto ''ARM64_INS_FABS'', Auto ''ARM64_INS_FACGE'', Auto ''ARM64_INS_FACGT'',
    Auto ''ARM64_INS_FADD'', Auto ''ARM64_INS_FADDP'', Auto ''ARM64_INS_FCCMP'',
    Auto ''ARM64_INS_FCCMPE'', Auto ''ARM64_INS_FCMEQ'', Auto ''ARM64_INS_FCMGE'',
    Auto ''ARM64_INS_FCMGT'', Auto ''ARM64_INS_FCMLE'', Auto ''ARM64_INS_FCMLT'',
    Auto ''ARM64_INS_FCMP'', Auto ''ARM64_INS_FCMPE'', Auto ''ARM64_INS_FCSEL'',
    Auto ''ARM64_INS_FCVTAS'', Auto ''ARM64_INS_FCVTAU'', Auto ''ARM64_INS_FCVT'',
    Auto ''ARM64_INS_FCVTL'', Auto ''ARM64_INS_FCVTL2'', Auto ''ARM64_INS_FCVTMS'',
    Auto ''ARM64_INS_FCVTMU'', Auto ''ARM64_INS_FCVTNS'', Auto ''ARM64_INS_FCVTNU'',
    Auto ''ARM64_INS_FCVTN'', Auto ''ARM64_INS_FCVTN2'', Auto ''ARM64_INS_FCVTPS'',
    Auto ''ARM64_INS_FCVTPU'', Auto ''ARM64_INS_FCVTXN'', Auto ''ARM64_INS_FCVTXN2'',
    Auto ''ARM64_INS_FCVTZS'', Auto ''ARM64_INS_FCVTZU'', Auto ''ARM64_INS_FDIV'',
    Auto ''ARM64_INS_FMADD'', Auto ''ARM64_INS_FMAX'', Auto ''ARM64_INS_FMAXNM'',
    Auto ''ARM64_INS_FMAXNMP'', Auto ''ARM64_INS_FMAXNMV'', Auto ''ARM64_INS_FMAXP'',
    Auto ''ARM64_INS_FMAXV'', Auto ''ARM64_INS_FMIN'', Auto ''ARM64_INS_FMINNM'',
    Auto ''ARM64_INS_FMINNMP'', Auto ''ARM64_INS_FMINNMV'', Auto ''ARM64_INS_FMINP'',
    Auto ''ARM64_INS_FMINV'', Auto ''ARM64_INS_FMLA'', Auto ''ARM64_INS_FMLS'', Auto ''ARM64_INS_FMOV'',
    Auto ''ARM64_INS_FMSUB'', Auto ''ARM64_INS_FMUL'', Auto ''ARM64_INS_FMULX'',
    Auto ''ARM64_INS_FNEG'', Auto ''ARM64_INS_FNMADD'', Auto ''ARM64_INS_FNMSUB'',
    Auto ''ARM64_INS_FNMUL'', Auto ''ARM64_INS_FRECPE'', Auto ''ARM64_INS_FRECPS'',
    Auto ''ARM64_INS_FRECPX'', Auto ''ARM64_INS_FRINTA'', Auto ''ARM64_INS_FRINTI'',
    Auto ''ARM64_INS_FRINTM'', Auto ''ARM64_INS_FRINTN'', Auto ''ARM64_INS_FRINTP'',
    Auto ''ARM64_INS_FRINTX'', Auto ''ARM64_INS_FRINTZ'', Auto ''ARM64_INS_FRSQRTE'',
    Auto ''ARM64_INS_FRSQRTS'', Auto ''ARM64_INS_FSQRT'', Auto ''ARM64_INS_FSUB'',
    Auto ''ARM64_INS_HINT'', Auto ''ARM64_INS_HLT'', Auto ''ARM64_INS_HVC'', Auto ''ARM64_INS_INS'',
    Auto ''ARM64_INS_ISB'', Auto ''ARM64_INS_LD1'', Auto ''ARM64_INS_LD1R'', Auto ''ARM64_INS_LD2R'',
    Auto ''ARM64_INS_LD2'']"

definition arm64_insn_2 :: "enumerator list" where
  "arm64_insn_2 = [
    Auto ''ARM64_INS_LD3R'', Auto ''ARM64_INS_LD3'', Auto ''ARM64_INS_LD4'', Auto ''ARM64_INS_LD4R'',
    Auto ''ARM64_INS_LDARB'', Auto ''ARM64_INS_LDARH'', Auto ''ARM64_INS_LDAR'',
    Auto ''ARM64_INS_LDAXP'', Auto ''ARM64_INS_LDAXRB'', Auto ''ARM64_INS_LDAXRH'',
    Auto ''ARM64_INS_LDAXR'', Auto ''ARM64_INS_LDNP'', Auto ''ARM64_INS_LDP'', Auto ''ARM64_INS_LDPSW'',
    Auto ''ARM64_INS_LDRB'', Auto ''ARM64_INS_LDR'', Auto ''ARM64_INS_LDRH'', Auto ''ARM64_INS_LDRSB'',
    Auto ''ARM64_INS_LDRSH'', Auto ''ARM64_INS_LDRSW'', Auto ''ARM64_INS_LDTRB'',
    Auto ''ARM64_INS_LDTRH'', Auto ''ARM64_INS_LDTRSB'', Auto ''ARM64_INS_LDTRSH'',
    Auto ''ARM64_INS_LDTRSW'', Auto ''ARM64_INS_LDTR'', Auto ''ARM64_INS_LDURB'',
    Auto ''ARM64_INS_LDUR'', Auto ''ARM64_INS_LDURH'', Auto ''ARM64_INS_LDURSB'',
    Auto ''ARM64_INS_LDURSH'', Auto ''ARM64_INS_LDURSW'', Auto ''ARM64_INS_LDXP'',
    Auto ''ARM64_INS_LDXRB'', Auto ''ARM64_INS_LDXRH'', Auto ''ARM64_INS_LDXR'', Auto ''ARM64_INS_LSL'',
    Auto ''ARM64_INS_LSR'', Auto ''ARM64_INS_MADD'', Auto ''ARM64_INS_MLA'', Auto ''ARM64_INS_MLS'',
    Auto ''ARM64_INS_MOVI'', Auto ''ARM64_INS_MOVK'', Auto ''ARM64_INS_MOVN'', Auto ''ARM64_INS_MOVZ'',
    Auto ''ARM64_INS_MRS'', Auto ''ARM64_INS_MSR'', Auto ''ARM64_INS_MSUB'', Auto ''ARM64_INS_MUL'',
    Auto ''ARM64_INS_MVNI'', Auto ''ARM64_INS_NEG'', Auto ''ARM64_INS_NOT'', Auto ''ARM64_INS_ORN'',
    Auto ''ARM64_INS_ORR'', Auto ''ARM64_INS_PMULL2'', Auto ''ARM64_INS_PMULL'',
    Auto ''ARM64_INS_PMUL'', Auto ''ARM64_INS_PRFM'', Auto ''ARM64_INS_PRFUM'',
    Auto ''ARM64_INS_RADDHN'', Auto ''ARM64_INS_RADDHN2'', Auto ''ARM64_INS_RBIT'',
    Auto ''ARM64_INS_RET'', Auto ''ARM64_INS_REV16'', Auto ''ARM64_INS_REV32'',
    Auto ''ARM64_INS_REV64'', Auto ''ARM64_INS_REV'', Auto ''ARM64_INS_ROR'', Auto ''ARM64_INS_RSHRN2'',
    Auto ''ARM64_INS_RSHRN'', Auto ''ARM64_INS_RSUBHN'', Auto ''ARM64_INS_RSUBHN2'',
    Auto ''ARM64_INS_SABAL2'', Auto ''ARM64_INS_SABAL'', Auto ''ARM64_INS_SABA'',
    Auto ''ARM64_INS_SABDL2'', Auto ''ARM64_INS_SABDL'', Auto ''ARM64_INS_SABD'',
    Auto ''ARM64_INS_SADALP'', Auto ''ARM64_INS_SADDLP'', Auto ''ARM64_INS_SADDLV'',
    Auto ''ARM64_INS_SADDL2'', Auto ''ARM64_INS_SADDL'', Auto ''ARM64_INS_SADDW2'',
    Auto ''ARM64_INS_SADDW'', Auto ''ARM64_INS_SBC'', Auto ''ARM64_INS_SBFM'', Auto ''ARM64_INS_SCVTF'',
    Auto ''ARM64_INS_SDIV'', Auto ''ARM64_INS_SHA1C'', Auto ''ARM64_INS_SHA1H'',
    Auto ''ARM64_INS_SHA1M'', Auto ''ARM64_INS_SHA1P'', Auto ''ARM64_INS_SHA1SU0'',
    Auto ''ARM64_INS_SHA1SU1'', Auto ''ARM64_INS_SHA256H2'', Auto ''ARM64_INS_SHA256H'',
    Auto ''ARM64_INS_SHA256SU0'', Auto ''ARM64_INS_SHA256SU1'', Auto ''ARM64_INS_SHADD'',
    Auto ''ARM64_INS_SHLL2'', Auto ''ARM64_INS_SHLL'', Auto ''ARM64_INS_SHL'', Auto ''ARM64_INS_SHRN2'',
    Auto ''ARM64_INS_SHRN'', Auto ''ARM64_INS_SHSUB'', Auto ''ARM64_INS_SLI'',
    Auto ''ARM64_INS_SMADDL'', Auto ''ARM64_INS_SMAXP'', Auto ''ARM64_INS_SMAXV'',
    Auto ''ARM64_INS_SMAX'', Auto ''ARM64_INS_SMC'', Auto ''ARM64_INS_SMINP'', Auto ''ARM64_INS_SMINV'',
    Auto ''ARM64_INS_SMIN'', Auto ''ARM64_INS_SMLAL2'', Auto ''ARM64_INS_SMLAL'',
    Auto ''ARM64_INS_SMLSL2'', Auto ''ARM64_INS_SMLSL'', Auto ''ARM64_INS_SMOV'',
    Auto ''ARM64_INS_SMSUBL'', Auto ''ARM64_INS_SMULH'', Auto ''ARM64_INS_SMULL2'',
    Auto ''ARM64_INS_SMULL'', Auto ''ARM64_INS_SQABS'', Auto ''ARM64_INS_SQADD'',
    Auto ''ARM64_INS_SQDMLAL'', Auto ''ARM64_INS_SQDMLAL2'', Auto ''ARM64_INS_SQDMLSL'',
    Auto ''ARM64_INS_SQDMLSL2'', Auto ''ARM64_INS_SQDMULH'', Auto ''ARM64_INS_SQDMULL'',
    Auto ''ARM64_INS_SQDMULL2'', Auto ''ARM64_INS_SQNEG'', Auto ''ARM64_INS_SQRDMULH'',
    Auto ''ARM64_INS_SQRSHL'', Auto ''ARM64_INS_SQRSHRN'', Auto ''ARM64_INS_SQRSHRN2'',
    Auto ''ARM64_INS_SQRSHRUN'', Auto ''ARM64_INS_SQRSHRUN2'', Auto ''ARM64_INS_SQSHLU'',
    Auto ''ARM64_INS_SQSHL'', Auto ''ARM64_INS_SQSHRN'', Auto ''ARM64_INS_SQSHRN2'',
    Auto ''ARM64_INS_SQSHRUN'', Auto ''ARM64_INS_SQSHRUN2'', Auto ''ARM64_INS_SQSUB'']"

definition arm64_insn_3 :: "enumerator list" where
  "arm64_insn_3 = [
    Auto ''ARM64_INS_SQXTN2'', Auto ''ARM64_INS_SQXTN'', Auto ''ARM64_INS_SQXTUN2'',
    Auto ''ARM64_INS_SQXTUN'', Auto ''ARM64_INS_SRHADD'', Auto ''ARM64_INS_SRI'',
    Auto ''ARM64_INS_SRSHL'', Auto ''ARM64_INS_SRSHR'', Auto ''ARM64_INS_SRSRA'',
    Auto ''ARM64_INS_SSHLL2'', Auto ''ARM64_INS_SSHLL'', Auto ''ARM64_INS_SSHL'',
    Auto ''ARM64_INS_SSHR'', Auto ''ARM64_INS_SSRA'', Auto ''ARM64_INS_SSUBL2'',
    Auto ''ARM64_INS_SSUBL'', Auto ''ARM64_INS_SSUBW2'', Auto ''ARM64_INS_SSUBW'',
    Auto ''ARM64_INS_ST1'', Auto ''ARM64_INS_ST2'', Auto ''ARM64_INS_ST3'', Auto ''ARM64_INS_ST4'',
    Auto ''ARM64_INS_STLRB'', Auto ''ARM64_INS_STLRH'', Auto ''ARM64_INS_STLR'',
    Auto ''ARM64_INS_STLXP'', Auto ''ARM64_INS_STLXRB'', Auto ''ARM64_INS_STLXRH'',
    Auto ''ARM64_INS_STLXR'', Auto ''ARM64_INS_STNP'', Auto ''ARM64_INS_STP'', Auto ''ARM64_INS_STRB'',
    Auto ''ARM64_INS_STR'', Auto ''ARM64_INS_STRH'', Auto ''ARM64_INS_STTRB'', Auto ''ARM64_INS_STTRH'',
    Auto ''ARM64_INS_STTR'', Auto ''ARM64_INS_STURB'', Auto ''ARM64_INS_STUR'',
    Auto ''ARM64_INS_STURH'', Auto ''ARM64_INS_STXP'', Auto ''ARM64_INS_STXRB'',
    Auto ''ARM64_INS_STXRH'', Auto ''ARM64_INS_STXR'', Auto ''ARM64_INS_SUBHN'',
    Auto ''ARM64_INS_SUBHN2'', Auto ''ARM64_INS_SUB'', Auto ''ARM64_INS_SUQADD'',
    Auto ''ARM64_INS_SVC'', Auto ''ARM64_INS_SYSL'', Auto ''ARM64_INS_SYS'', Auto ''ARM64_INS_TBL'',
    Auto ''ARM64_INS_TBNZ'', Auto ''ARM64_INS_TBX'', Auto ''ARM64_INS_TBZ'', Auto ''ARM64_INS_TRN1'',
    Auto ''ARM64_INS_TRN2'', Auto ''ARM64_INS_UABAL2'', Auto ''ARM64_INS_UABAL'',
    Auto ''ARM64_INS_UABA'', Auto ''ARM64_INS_UABDL2'', Auto ''ARM64_INS_UABDL'',
    Auto ''ARM64_INS_UABD'', Auto ''ARM64_INS_UADALP'', Auto ''ARM64_INS_UADDLP'',
    Auto ''ARM64_INS_UADDLV'', Auto ''ARM64_INS_UADDL2'', Auto ''ARM64_INS_UADDL'',
    Auto ''ARM64_INS_UADDW2'', Auto ''ARM64_INS_UADDW'', Auto ''ARM64_INS_UBFM'',
    Auto ''ARM64_INS_UCVTF'', Auto ''ARM64_INS_UDIV'', Auto ''ARM64_INS_UHADD'',
    Auto ''ARM64_INS_UHSUB'', Auto ''ARM64_INS_UMADDL'', Auto ''ARM64_INS_UMAXP'',
    Auto ''ARM64_INS_UMAXV'', Auto ''ARM64_INS_UMAX'', Auto ''ARM64_INS_UMINP'',
    Auto ''ARM64_INS_UMINV'', Auto ''ARM64_INS_UMIN'', Auto ''ARM64_INS_UMLAL2'',
    Auto ''ARM64_INS_UMLAL'', Auto ''ARM64_INS_UMLSL2'', Auto ''ARM64_INS_UMLSL'',
    Auto ''ARM64_INS_UMOV'', Auto ''ARM64_INS_UMSUBL'', Auto ''ARM64_INS_UMULH'',
    Auto ''ARM64_INS_UMULL2'', Auto ''ARM64_INS_UMULL'', Auto ''ARM64_INS_UQADD'',
    Auto ''ARM64_INS_UQRSHL'', Auto ''ARM64_INS_UQRSHRN'', Auto ''ARM64_INS_UQRSHRN2'',
    Auto ''ARM64_INS_UQSHL'', Auto ''ARM64_INS_UQSHRN'', Auto ''ARM64_INS_UQSHRN2'',
    Auto ''ARM64_INS_UQSUB'', Auto ''ARM64_INS_UQXTN2'', Auto ''ARM64_INS_UQXTN'',
    Auto ''ARM64_INS_URECPE'', Auto ''ARM64_INS_URHADD'', Auto ''ARM64_INS_URSHL'',
    Auto ''ARM64_INS_URSHR'', Auto ''ARM64_INS_URSQRTE'', Auto ''ARM64_INS_URSRA'',
    Auto ''ARM64_INS_USHLL2'', Auto ''ARM64_INS_USHLL'', Auto ''ARM64_INS_USHL'',
    Auto ''ARM64_INS_USHR'', Auto ''ARM64_INS_USQADD'', Auto ''ARM64_INS_USRA'',
    Auto ''ARM64_INS_USUBL2'', Auto ''ARM64_INS_USUBL'', Auto ''ARM64_INS_USUBW2'',
    Auto ''ARM64_INS_USUBW'', Auto ''ARM64_INS_UZP1'', Auto ''ARM64_INS_UZP2'', Auto ''ARM64_INS_XTN2'',
    Auto ''ARM64_INS_XTN'', Auto ''ARM64_INS_ZIP1'', Auto ''ARM64_INS_ZIP2'', Auto ''ARM64_INS_MNEG'',
    Auto ''ARM64_INS_UMNEGL'', Auto ''ARM64_INS_SMNEGL'', Auto ''ARM64_INS_NOP'',
    Auto ''ARM64_INS_YIELD'', Auto ''ARM64_INS_WFE'', Auto ''ARM64_INS_WFI'', Auto ''ARM64_INS_SEV'',
    Auto ''ARM64_INS_SEVL'', Auto ''ARM64_INS_NGC'', Auto ''ARM64_INS_SBFIZ'', Auto ''ARM64_INS_UBFIZ'',
    Auto ''ARM64_INS_SBFX'', Auto ''ARM64_INS_UBFX'', Auto ''ARM64_INS_BFI'', Auto ''ARM64_INS_BFXIL'',
    Auto ''ARM64_INS_CMN'', Auto ''ARM64_INS_MVN'', Auto ''ARM64_INS_TST'', Auto ''ARM64_INS_CSET'',
    Auto ''ARM64_INS_CINC'', Auto ''ARM64_INS_CSETM'', Auto ''ARM64_INS_CINV'', Auto ''ARM64_INS_CNEG'',
    Auto ''ARM64_INS_SXTB'']"

definition arm64_insn_4 :: "enumerator list" where
  "arm64_insn_4 = [
    Auto ''ARM64_INS_SXTH'', Auto ''ARM64_INS_SXTW'', Auto ''ARM64_INS_CMP'', Auto ''ARM64_INS_UXTB'',
    Auto ''ARM64_INS_UXTH'', Auto ''ARM64_INS_UXTW'', Auto ''ARM64_INS_IC'', Auto ''ARM64_INS_DC'',
    Auto ''ARM64_INS_AT'', Auto ''ARM64_INS_TLBI'', Auto ''ARM64_INS_ENDING'']"

definition arm64_insn :: "enumerator list" where
  "arm64_insn = arm64_insn_1 @ arm64_insn_2 @ arm64_insn_3 @ arm64_insn_4"

end
