(* ===== verification/Capstone_Mips_Ppc_Insn.thy ===== *)
theory Capstone_Mips_Ppc_Insn
  imports C_Enum
begin

text \<open>
  The instruction identifiers of \<open>capstone/mips.h\<close> and \<open>capstone/ppc.h\<close>, in pieces of at most 150 lines.
\<close>

section \<open>MIPS\<close>

definition mips_insn_1 :: "enumerator list" where
  "mips_insn_1 = [
    Init ''MIPS_INS_INVALID'' (Num 0), Auto ''MIPS_INS_ABSQ_S'', Auto ''MIPS_INS_ADD'',
    Auto ''MIPS_INS_ADDIUPC'', Auto ''MIPS_INS_ADDQH'', Auto ''MIPS_INS_ADDQH_R'',
    Auto ''MIPS_INS_ADDQ'', Auto ''MIPS_INS_ADDQ_S'', Auto ''MIPS_INS_ADDSC'', Auto ''MIPS_INS_ADDS_A'',
    Auto ''MIPS_INS_ADDS_S'', Auto ''MIPS_INS_ADDS_U'', Auto ''MIPS_INS_ADDUH'',
    Auto ''MIPS_INS_ADDUH_R'', Auto ''MIPS_INS_ADDU'', Auto ''MIPS_INS_ADDU_S'',
    Auto ''MIPS_INS_ADDVI'', Auto ''MIPS_INS_ADDV'', Auto ''MIPS_INS_ADDWC'', Auto ''MIPS_INS_ADD_A'',
    Auto ''MIPS_INS_ADDI'', Auto ''MIPS_INS_ADDIU'', Auto ''MIPS_INS_ALIGN'', Auto ''MIPS_INS_ALUIPC'',
    Auto ''MIPS_INS_AND'', Auto ''MIPS_INS_ANDI'', Auto ''MIPS_INS_APPEND'', Auto ''MIPS_INS_ASUB_S'',
    Auto ''MIPS_INS_ASUB_U'', Auto ''MIPS_INS_AUI'', Auto ''MIPS_INS_AUIPC'', Auto ''MIPS_INS_AVER_S'',
    Auto ''MIPS_INS_AVER_U'', Auto ''MIPS_INS_AVE_S'', Auto ''MIPS_INS_AVE_U'', Auto ''MIPS_INS_BADDU'',
    Auto ''MIPS_INS_BAL'', Auto ''MIPS_INS_BALC'', Auto ''MIPS_INS_BALIGN'', Auto ''MIPS_INS_BC'',
    Auto ''MIPS_INS_BC0F'', Auto ''MIPS_INS_BC0FL'', Auto ''MIPS_INS_BC0T'', Auto ''MIPS_INS_BC0TL'',
    Auto ''MIPS_INS_BC1EQZ'', Auto ''MIPS_INS_BC1F'', Auto ''MIPS_INS_BC1FL'', Auto ''MIPS_INS_BC1NEZ'',
    Auto ''MIPS_INS_BC1T'', Auto ''MIPS_INS_BC1TL'', Auto ''MIPS_INS_BC2EQZ'', Auto ''MIPS_INS_BC2F'',
    Auto ''MIPS_INS_BC2FL'', Auto ''MIPS_INS_BC2NEZ'', Auto ''MIPS_INS_BC2T'', Auto ''MIPS_INS_BC2TL'',
    Auto ''MIPS_INS_BC3F'', Auto ''MIPS_INS_BC3FL'', Auto ''MIPS_INS_BC3T'', Auto ''MIPS_INS_BC3TL'',
    Auto ''MIPS_INS_BCLRI'', Auto ''MIPS_INS_BCLR'', Auto ''MIPS_INS_BEQ'', Auto ''MIPS_INS_BEQC'',
    Auto ''MIPS_INS_BEQL'', Auto ''MIPS_INS_BEQZALC'', Auto ''MIPS_INS_BEQZC'', Auto ''MIPS_INS_BGEC'',
    Auto ''MIPS_INS_BGEUC'', Auto ''MIPS_INS_BGEZ'', Auto ''MIPS_INS_BGEZAL'',
    Auto ''MIPS_INS_BGEZALC'', Auto ''MIPS_INS_BGEZALL'', Auto ''MIPS_INS_BGEZALS'',
    Auto ''MIPS_INS_BGEZC'', Auto ''MIPS_INS_BGEZL'', Auto ''MIPS_INS_BGTZ'', Auto ''MIPS_INS_BGTZALC'',
    Auto ''MIPS_INS_BGTZC'', Auto ''MIPS_INS_BGTZL'', Auto ''MIPS_INS_BINSLI'', Auto ''MIPS_INS_BINSL'',
    Auto ''MIPS_INS_BINSRI'', Auto ''MIPS_INS_BINSR'', Auto ''MIPS_INS_BITREV'',
    Auto ''MIPS_INS_BITSWAP'', Auto ''MIPS_INS_BLEZ'', Auto ''MIPS_INS_BLEZALC'',
    Auto ''MIPS_INS_BLEZC'', Auto ''MIPS_INS_BLEZL'', Auto ''MIPS_INS_BLTC'', Auto ''MIPS_INS_BLTUC'',
    Auto ''MIPS_INS_BLTZ'', Auto ''MIPS_INS_BLTZAL'', Auto ''MIPS_INS_BLTZALC'',
    Auto ''MIPS_INS_BLTZALL'', Auto ''MIPS_INS_BLTZALS'', Auto ''MIPS_INS_BLTZC'',
    Auto ''MIPS_INS_BLTZL'', Auto ''MIPS_INS_BMNZI'', Auto ''MIPS_INS_BMNZ'', Auto ''MIPS_INS_BMZI'',
    Auto ''MIPS_INS_BMZ'', Auto ''MIPS_INS_BNE'', Auto ''MIPS_INS_BNEC'', Auto ''MIPS_INS_BNEGI'',
    Auto ''MIPS_INS_BNEG'', Auto ''MIPS_INS_BNEL'', Auto ''MIPS_INS_BNEZALC'', Auto ''MIPS_INS_BNEZC'',
    Auto ''MIPS_INS_BNVC'', Auto ''MIPS_INS_BNZ'', Auto ''MIPS_INS_BOVC'', Auto ''MIPS_INS_BPOSGE32'',
    Auto ''MIPS_INS_BREAK'', Auto ''MIPS_INS_BSELI'', Auto ''MIPS_INS_BSEL'', Auto ''MIPS_INS_BSETI'',
    Auto ''MIPS_INS_BSET'', Auto ''MIPS_INS_BZ'', Auto ''MIPS_INS_BEQZ'', Auto ''MIPS_INS_B'',
    Auto ''MIPS_INS_BNEZ'', Auto ''MIPS_INS_BTEQZ'', Auto ''MIPS_INS_BTNEZ'', Auto ''MIPS_INS_CACHE'',
    Auto ''MIPS_INS_CEIL'', Auto ''MIPS_INS_CEQI'', Auto ''MIPS_INS_CEQ'', Auto ''MIPS_INS_CFC1'',
    Auto ''MIPS_INS_CFCMSA'', Auto ''MIPS_INS_CINS'', Auto ''MIPS_INS_CINS32'', Auto ''MIPS_INS_CLASS'',
    Auto ''MIPS_INS_CLEI_S'', Auto ''MIPS_INS_CLEI_U'', Auto ''MIPS_INS_CLE_S'',
    Auto ''MIPS_INS_CLE_U'', Auto ''MIPS_INS_CLO'', Auto ''MIPS_INS_CLTI_S'', Auto ''MIPS_INS_CLTI_U'',
    Auto ''MIPS_INS_CLT_S'', Auto ''MIPS_INS_CLT_U'', Auto ''MIPS_INS_CLZ'', Auto ''MIPS_INS_CMPGDU'',
    Auto ''MIPS_INS_CMPGU'', Auto ''MIPS_INS_CMPU'', Auto ''MIPS_INS_CMP'']"

definition mips_insn_2 :: "enumerator list" where
  "mips_insn_2 = [
    Auto ''MIPS_INS_COPY_S'', Auto ''MIPS_INS_COPY_U'', Auto ''MIPS_INS_CTC1'',
    Auto ''MIPS_INS_CTCMSA'', Auto ''MIPS_INS_CVT'', Auto ''MIPS_INS_C'', Auto ''MIPS_INS_CMPI'',
    Auto ''MIPS_INS_DADD'', Auto ''MIPS_INS_DADDI'', Auto ''MIPS_INS_DADDIU'', Auto ''MIPS_INS_DADDU'',
    Auto ''MIPS_INS_DAHI'', Auto ''MIPS_INS_DALIGN'', Auto ''MIPS_INS_DATI'', Auto ''MIPS_INS_DAUI'',
    Auto ''MIPS_INS_DBITSWAP'', Auto ''MIPS_INS_DCLO'', Auto ''MIPS_INS_DCLZ'', Auto ''MIPS_INS_DDIV'',
    Auto ''MIPS_INS_DDIVU'', Auto ''MIPS_INS_DERET'', Auto ''MIPS_INS_DEXT'', Auto ''MIPS_INS_DEXTM'',
    Auto ''MIPS_INS_DEXTU'', Auto ''MIPS_INS_DI'', Auto ''MIPS_INS_DINS'', Auto ''MIPS_INS_DINSM'',
    Auto ''MIPS_INS_DINSU'', Auto ''MIPS_INS_DIV'', Auto ''MIPS_INS_DIVU'', Auto ''MIPS_INS_DIV_S'',
    Auto ''MIPS_INS_DIV_U'', Auto ''MIPS_INS_DLSA'', Auto ''MIPS_INS_DMFC0'', Auto ''MIPS_INS_DMFC1'',
    Auto ''MIPS_INS_DMFC2'', Auto ''MIPS_INS_DMOD'', Auto ''MIPS_INS_DMODU'', Auto ''MIPS_INS_DMTC0'',
    Auto ''MIPS_INS_DMTC1'', Auto ''MIPS_INS_DMTC2'', Auto ''MIPS_INS_DMUH'', Auto ''MIPS_INS_DMUHU'',
    Auto ''MIPS_INS_DMUL'', Auto ''MIPS_INS_DMULT'', Auto ''MIPS_INS_DMULTU'', Auto ''MIPS_INS_DMULU'',
    Auto ''MIPS_INS_DOTP_S'', Auto ''MIPS_INS_DOTP_U'', Auto ''MIPS_INS_DPADD_S'',
    Auto ''MIPS_INS_DPADD_U'', Auto ''MIPS_INS_DPAQX_SA'', Auto ''MIPS_INS_DPAQX_S'',
    Auto ''MIPS_INS_DPAQ_SA'', Auto ''MIPS_INS_DPAQ_S'', Auto ''MIPS_INS_DPAU'', Auto ''MIPS_INS_DPAX'',
    Auto ''MIPS_INS_DPA'', Auto ''MIPS_INS_DPOP'', Auto ''MIPS_INS_DPSQX_SA'',
    Auto ''MIPS_INS_DPSQX_S'', Auto ''MIPS_INS_DPSQ_SA'', Auto ''MIPS_INS_DPSQ_S'',
    Auto ''MIPS_INS_DPSUB_S'', Auto ''MIPS_INS_DPSUB_U'', Auto ''MIPS_INS_DPSU'',
    Auto ''MIPS_INS_DPSX'', Auto ''MIPS_INS_DPS'', Auto ''MIPS_INS_DROTR'', Auto ''MIPS_INS_DROTR32'',
    Auto ''MIPS_INS_DROTRV'', Auto ''MIPS_INS_DSBH'', Auto ''MIPS_INS_DSHD'', Auto ''MIPS_INS_DSLL'',
    Auto ''MIPS_INS_DSLL32'', Auto ''MIPS_INS_DSLLV'', Auto ''MIPS_INS_DSRA'', Auto ''MIPS_INS_DSRA32'',
    Auto ''MIPS_INS_DSRAV'', Auto ''MIPS_INS_DSRL'', Auto ''MIPS_INS_DSRL32'', Auto ''MIPS_INS_DSRLV'',
    Auto ''MIPS_INS_DSUB'', Auto ''MIPS_INS_DSUBU'', Auto ''MIPS_INS_EHB'', Auto ''MIPS_INS_EI'',
    Auto ''MIPS_INS_ERET'', Auto ''MIPS_INS_EXT'', Auto ''MIPS_INS_EXTP'', Auto ''MIPS_INS_EXTPDP'',
    Auto ''MIPS_INS_EXTPDPV'', Auto ''MIPS_INS_EXTPV'', Auto ''MIPS_INS_EXTRV_RS'',
    Auto ''MIPS_INS_EXTRV_R'', Auto ''MIPS_INS_EXTRV_S'', Auto ''MIPS_INS_EXTRV'',
    Auto ''MIPS_INS_EXTR_RS'', Auto ''MIPS_INS_EXTR_R'', Auto ''MIPS_INS_EXTR_S'',
    Auto ''MIPS_INS_EXTR'', Auto ''MIPS_INS_EXTS'', Auto ''MIPS_INS_EXTS32'', Auto ''MIPS_INS_ABS'',
    Auto ''MIPS_INS_FADD'', Auto ''MIPS_INS_FCAF'', Auto ''MIPS_INS_FCEQ'', Auto ''MIPS_INS_FCLASS'',
    Auto ''MIPS_INS_FCLE'', Auto ''MIPS_INS_FCLT'', Auto ''MIPS_INS_FCNE'', Auto ''MIPS_INS_FCOR'',
    Auto ''MIPS_INS_FCUEQ'', Auto ''MIPS_INS_FCULE'', Auto ''MIPS_INS_FCULT'', Auto ''MIPS_INS_FCUNE'',
    Auto ''MIPS_INS_FCUN'', Auto ''MIPS_INS_FDIV'', Auto ''MIPS_INS_FEXDO'', Auto ''MIPS_INS_FEXP2'',
    Auto ''MIPS_INS_FEXUPL'', Auto ''MIPS_INS_FEXUPR'', Auto ''MIPS_INS_FFINT_S'',
    Auto ''MIPS_INS_FFINT_U'', Auto ''MIPS_INS_FFQL'', Auto ''MIPS_INS_FFQR'', Auto ''MIPS_INS_FILL'',
    Auto ''MIPS_INS_FLOG2'', Auto ''MIPS_INS_FLOOR'', Auto ''MIPS_INS_FMADD'', Auto ''MIPS_INS_FMAX_A'',
    Auto ''MIPS_INS_FMAX'', Auto ''MIPS_INS_FMIN_A'', Auto ''MIPS_INS_FMIN'', Auto ''MIPS_INS_MOV'',
    Auto ''MIPS_INS_FMSUB'', Auto ''MIPS_INS_FMUL'', Auto ''MIPS_INS_MUL'', Auto ''MIPS_INS_NEG'',
    Auto ''MIPS_INS_FRCP'', Auto ''MIPS_INS_FRINT'', Auto ''MIPS_INS_FRSQRT'', Auto ''MIPS_INS_FSAF'',
    Auto ''MIPS_INS_FSEQ'', Auto ''MIPS_INS_FSLE'', Auto ''MIPS_INS_FSLT'', Auto ''MIPS_INS_FSNE'',
    Auto ''MIPS_INS_FSOR'', Auto ''MIPS_INS_FSQRT'', Auto ''MIPS_INS_SQRT'', Auto ''MIPS_INS_FSUB'']"

definition mips_insn_3 :: "enumerator list" where
  "mips_insn_3 = [
    Auto ''MIPS_INS_SUB'', Auto ''MIPS_INS_FSUEQ'', Auto ''MIPS_INS_FSULE'', Auto ''MIPS_INS_FSULT'',
    Auto ''MIPS_INS_FSUNE'', Auto ''MIPS_INS_FSUN'', Auto ''MIPS_INS_FTINT_S'',
    Auto ''MIPS_INS_FTINT_U'', Auto ''MIPS_INS_FTQ'', Auto ''MIPS_INS_FTRUNC_S'',
    Auto ''MIPS_INS_FTRUNC_U'', Auto ''MIPS_INS_HADD_S'', Auto ''MIPS_INS_HADD_U'',
    Auto ''MIPS_INS_HSUB_S'', Auto ''MIPS_INS_HSUB_U'', Auto ''MIPS_INS_ILVEV'', Auto ''MIPS_INS_ILVL'',
    Auto ''MIPS_INS_ILVOD'', Auto ''MIPS_INS_ILVR'', Auto ''MIPS_INS_INS'', Auto ''MIPS_INS_INSERT'',
    Auto ''MIPS_INS_INSV'', Auto ''MIPS_INS_INSVE'', Auto ''MIPS_INS_J'', Auto ''MIPS_INS_JAL'',
    Auto ''MIPS_INS_JALR'', Auto ''MIPS_INS_JALRS'', Auto ''MIPS_INS_JALS'', Auto ''MIPS_INS_JALX'',
    Auto ''MIPS_INS_JIALC'', Auto ''MIPS_INS_JIC'', Auto ''MIPS_INS_JR'', Auto ''MIPS_INS_JRADDIUSP'',
    Auto ''MIPS_INS_JRC'', Auto ''MIPS_INS_JALRC'', Auto ''MIPS_INS_LB'', Auto ''MIPS_INS_LBUX'',
    Auto ''MIPS_INS_LBU'', Auto ''MIPS_INS_LD'', Auto ''MIPS_INS_LDC1'', Auto ''MIPS_INS_LDC2'',
    Auto ''MIPS_INS_LDC3'', Auto ''MIPS_INS_LDI'', Auto ''MIPS_INS_LDL'', Auto ''MIPS_INS_LDPC'',
    Auto ''MIPS_INS_LDR'', Auto ''MIPS_INS_LDXC1'', Auto ''MIPS_INS_LH'', Auto ''MIPS_INS_LHX'',
    Auto ''MIPS_INS_LHU'', Auto ''MIPS_INS_LL'', Auto ''MIPS_INS_LLD'', Auto ''MIPS_INS_LSA'',
    Auto ''MIPS_INS_LUXC1'', Auto ''MIPS_INS_LUI'', Auto ''MIPS_INS_LW'', Auto ''MIPS_INS_LWC1'',
    Auto ''MIPS_INS_LWC2'', Auto ''MIPS_INS_LWC3'', Auto ''MIPS_INS_LWL'', Auto ''MIPS_INS_LWPC'',
    Auto ''MIPS_INS_LWR'', Auto ''MIPS_INS_LWUPC'', Auto ''MIPS_INS_LWU'', Auto ''MIPS_INS_LWX'',
    Auto ''MIPS_INS_LWXC1'', Auto ''MIPS_INS_LI'', Auto ''MIPS_INS_MADD'', Auto ''MIPS_INS_MADDF'',
    Auto ''MIPS_INS_MADDR_Q'', Auto ''MIPS_INS_MADDU'', Auto ''MIPS_INS_MADDV'',
    Auto ''MIPS_INS_MADD_Q'', Auto ''MIPS_INS_MAQ_SA'', Auto ''MIPS_INS_MAQ_S'', Auto ''MIPS_INS_MAXA'',
    Auto ''MIPS_INS_MAXI_S'', Auto ''MIPS_INS_MAXI_U'', Auto ''MIPS_INS_MAX_A'', Auto ''MIPS_INS_MAX'',
    Auto ''MIPS_INS_MAX_S'', Auto ''MIPS_INS_MAX_U'', Auto ''MIPS_INS_MFC0'', Auto ''MIPS_INS_MFC1'',
    Auto ''MIPS_INS_MFC2'', Auto ''MIPS_INS_MFHC1'', Auto ''MIPS_INS_MFHI'', Auto ''MIPS_INS_MFLO'',
    Auto ''MIPS_INS_MINA'', Auto ''MIPS_INS_MINI_S'', Auto ''MIPS_INS_MINI_U'', Auto ''MIPS_INS_MIN_A'',
    Auto ''MIPS_INS_MIN'', Auto ''MIPS_INS_MIN_S'', Auto ''MIPS_INS_MIN_U'', Auto ''MIPS_INS_MOD'',
    Auto ''MIPS_INS_MODSUB'', Auto ''MIPS_INS_MODU'', Auto ''MIPS_INS_MOD_S'', Auto ''MIPS_INS_MOD_U'',
    Auto ''MIPS_INS_MOVE'', Auto ''MIPS_INS_MOVF'', Auto ''MIPS_INS_MOVN'', Auto ''MIPS_INS_MOVT'',
    Auto ''MIPS_INS_MOVZ'', Auto ''MIPS_INS_MSUB'', Auto ''MIPS_INS_MSUBF'', Auto ''MIPS_INS_MSUBR_Q'',
    Auto ''MIPS_INS_MSUBU'', Auto ''MIPS_INS_MSUBV'', Auto ''MIPS_INS_MSUB_Q'', Auto ''MIPS_INS_MTC0'',
    Auto ''MIPS_INS_MTC1'', Auto ''MIPS_INS_MTC2'', Auto ''MIPS_INS_MTHC1'', Auto ''MIPS_INS_MTHI'',
    Auto ''MIPS_INS_MTHLIP'', Auto ''MIPS_INS_MTLO'', Auto ''MIPS_INS_MTM0'', Auto ''MIPS_INS_MTM1'',
    Auto ''MIPS_INS_MTM2'', Auto ''MIPS_INS_MTP0'', Auto ''MIPS_INS_MTP1'', Auto ''MIPS_INS_MTP2'',
    Auto ''MIPS_INS_MUH'', Auto ''MIPS_INS_MUHU'', Auto ''MIPS_INS_MULEQ_S'', Auto ''MIPS_INS_MULEU_S'',
    Auto ''MIPS_INS_MULQ_RS'', Auto ''MIPS_INS_MULQ_S'', Auto ''MIPS_INS_MULR_Q'',
    Auto ''MIPS_INS_MULSAQ_S'', Auto ''MIPS_INS_MULSA'', Auto ''MIPS_INS_MULT'',
    Auto ''MIPS_INS_MULTU'', Auto ''MIPS_INS_MULU'', Auto ''MIPS_INS_MULV'', Auto ''MIPS_INS_MUL_Q'',
    Auto ''MIPS_INS_MUL_S'', Auto ''MIPS_INS_NLOC'', Auto ''MIPS_INS_NLZC'', Auto ''MIPS_INS_NMADD'',
    Auto ''MIPS_INS_NMSUB'', Auto ''MIPS_INS_NOR'', Auto ''MIPS_INS_NORI'', Auto ''MIPS_INS_NOT'',
    Auto ''MIPS_INS_OR'', Auto ''MIPS_INS_ORI'', Auto ''MIPS_INS_PACKRL'', Auto ''MIPS_INS_PAUSE'']"

definition mips_insn_4 :: "enumerator list" where
  "mips_insn_4 = [
    Auto ''MIPS_INS_PCKEV'', Auto ''MIPS_INS_PCKOD'', Auto ''MIPS_INS_PCNT'', Auto ''MIPS_INS_PICK'',
    Auto ''MIPS_INS_POP'', Auto ''MIPS_INS_PRECEQU'', Auto ''MIPS_INS_PRECEQ'',
    Auto ''MIPS_INS_PRECEU'', Auto ''MIPS_INS_PRECRQU_S'', Auto ''MIPS_INS_PRECRQ'',
    Auto ''MIPS_INS_PRECRQ_RS'', Auto ''MIPS_INS_PRECR'', Auto ''MIPS_INS_PRECR_SRA'',
    Auto ''MIPS_INS_PRECR_SRA_R'', Auto ''MIPS_INS_PREF'', Auto ''MIPS_INS_PREPEND'',
    Auto ''MIPS_INS_RADDU'', Auto ''MIPS_INS_RDDSP'', Auto ''MIPS_INS_RDHWR'', Auto ''MIPS_INS_REPLV'',
    Auto ''MIPS_INS_REPL'', Auto ''MIPS_INS_RINT'', Auto ''MIPS_INS_ROTR'', Auto ''MIPS_INS_ROTRV'',
    Auto ''MIPS_INS_ROUND'', Auto ''MIPS_INS_SAT_S'', Auto ''MIPS_INS_SAT_U'', Auto ''MIPS_INS_SB'',
    Auto ''MIPS_INS_SC'', Auto ''MIPS_INS_SCD'', Auto ''MIPS_INS_SD'', Auto ''MIPS_INS_SDBBP'',
    Auto ''MIPS_INS_SDC1'', Auto ''MIPS_INS_SDC2'', Auto ''MIPS_INS_SDC3'', Auto ''MIPS_INS_SDL'',
    Auto ''MIPS_INS_SDR'', Auto ''MIPS_INS_SDXC1'', Auto ''MIPS_INS_SEB'', Auto ''MIPS_INS_SEH'',
    Auto ''MIPS_INS_SELEQZ'', Auto ''MIPS_INS_SELNEZ'', Auto ''MIPS_INS_SEL'', Auto ''MIPS_INS_SEQ'',
    Auto ''MIPS_INS_SEQI'', Auto ''MIPS_INS_SH'', Auto ''MIPS_INS_SHF'', Auto ''MIPS_INS_SHILO'',
    Auto ''MIPS_INS_SHILOV'', Auto ''MIPS_INS_SHLLV'', Auto ''MIPS_INS_SHLLV_S'',
    Auto ''MIPS_INS_SHLL'', Auto ''MIPS_INS_SHLL_S'', Auto ''MIPS_INS_SHRAV'',
    Auto ''MIPS_INS_SHRAV_R'', Auto ''MIPS_INS_SHRA'', Auto ''MIPS_INS_SHRA_R'',
    Auto ''MIPS_INS_SHRLV'', Auto ''MIPS_INS_SHRL'', Auto ''MIPS_INS_SLDI'', Auto ''MIPS_INS_SLD'',
    Auto ''MIPS_INS_SLL'', Auto ''MIPS_INS_SLLI'', Auto ''MIPS_INS_SLLV'', Auto ''MIPS_INS_SLT'',
    Auto ''MIPS_INS_SLTI'', Auto ''MIPS_INS_SLTIU'', Auto ''MIPS_INS_SLTU'', Auto ''MIPS_INS_SNE'',
    Auto ''MIPS_INS_SNEI'', Auto ''MIPS_INS_SPLATI'', Auto ''MIPS_INS_SPLAT'', Auto ''MIPS_INS_SRA'',
    Auto ''MIPS_INS_SRAI'', Auto ''MIPS_INS_SRARI'', Auto ''MIPS_INS_SRAR'', Auto ''MIPS_INS_SRAV'',
    Auto ''MIPS_INS_SRL'', Auto ''MIPS_INS_SRLI'', Auto ''MIPS_INS_SRLRI'', Auto ''MIPS_INS_SRLR'',
    Auto ''MIPS_INS_SRLV'', Auto ''MIPS_INS_SSNOP'', Auto ''MIPS_INS_ST'', Auto ''MIPS_INS_SUBQH'',
    Auto ''MIPS_INS_SUBQH_R'', Auto ''MIPS_INS_SUBQ'', Auto ''MIPS_INS_SUBQ_S'',
    Auto ''MIPS_INS_SUBSUS_U'', Auto ''MIPS_INS_SUBSUU_S'', Auto ''MIPS_INS_SUBS_S'',
    Auto ''MIPS_INS_SUBS_U'', Auto ''MIPS_INS_SUBUH'', Auto ''MIPS_INS_SUBUH_R'',
    Auto ''MIPS_INS_SUBU'', Auto ''MIPS_INS_SUBU_S'', Auto ''MIPS_INS_SUBVI'', Auto ''MIPS_INS_SUBV'',
    Auto ''MIPS_INS_SUXC1'', Auto ''MIPS_INS_SW'', Auto ''MIPS_INS_SWC1'', Auto ''MIPS_INS_SWC2'',
    Auto ''MIPS_INS_SWC3'', Auto ''MIPS_INS_SWL'', Auto ''MIPS_INS_SWR'', Auto ''MIPS_INS_SWXC1'',
    Auto ''MIPS_INS_SYNC'', Auto ''MIPS_INS_SYSCALL'', Auto ''MIPS_INS_TEQ'', Auto ''MIPS_INS_TEQI'',
    Auto ''MIPS_INS_TGE'', Auto ''MIPS_INS_TGEI'', Auto ''MIPS_INS_TGEIU'', Auto ''MIPS_INS_TGEU'',
    Auto ''MIPS_INS_TLBP'', Auto ''MIPS_INS_TLBR'', Auto ''MIPS_INS_TLBWI'', Auto ''MIPS_INS_TLBWR'',
    Auto ''MIPS_INS_TLT'', Auto ''MIPS_INS_TLTI'', Auto ''MIPS_INS_TLTIU'', Auto ''MIPS_INS_TLTU'',
    Auto ''MIPS_INS_TNE'', Auto ''MIPS_INS_TNEI'', Auto ''MIPS_INS_TRUNC'', Auto ''MIPS_INS_V3MULU'',
    Auto ''MIPS_INS_VMM0'', Auto ''MIPS_INS_VMULU'', Auto ''MIPS_INS_VSHF'', Auto ''MIPS_INS_WAIT'',
    Auto ''MIPS_INS_WRDSP'', Auto ''MIPS_INS_WSBH'', Auto ''MIPS_INS_XOR'', Auto ''MIPS_INS_XORI'',
    Auto ''MIPS_INS_NOP'', Auto ''MIPS_INS_NEGU'', Auto ''MIPS_INS_JALR_HB'', Auto ''MIPS_INS_JR_HB'',
    Auto ''MIPS_INS_ENDING'']"

definition mips_insn :: "enumerator list" where
  "mips_insn = mips_insn_1 @ mips_insn_2 @ mips_insn_3 @ mips_insn_4"

section \<open>PowerPC\<close>

definition ppc_insn_1 :: "enumerator list" where
  "ppc_insn_1 = [
    Init ''PPC_INS_INVALID'' (Num 0), Auto ''PPC_INS_ADD'', Auto ''PPC_INS_ADDC'',
    Auto ''PPC_INS_ADDE'', Auto ''PPC_INS_ADDI'', Auto ''PPC_INS_ADDIC'', Auto ''PPC_INS_ADDIS'',
    Auto ''PPC_INS_ADDME'', Auto ''PPC_INS_ADDZE'', Auto ''PPC_INS_AND'', Auto ''PPC_INS_ANDC'',
    Auto ''PPC_INS_ANDIS'', Auto ''PPC_INS_ANDI'', Auto ''PPC_INS_B'', Auto ''PPC_INS_BA'',
    Auto ''PPC_INS_BC'', Auto ''PPC_INS_BCCTR'', Auto ''PPC_INS_BCCTRL'', Auto ''PPC_INS_BCL'',
    Auto ''PPC_INS_BCLR'', Auto ''PPC_INS_BCLRL'', Auto ''PPC_INS_BCTR'', Auto ''PPC_INS_BCTRL'',
    Auto ''PPC_INS_BDNZ'', Auto ''PPC_INS_BDNZA'', Auto ''PPC_INS_BDNZL'', Auto ''PPC_INS_BDNZLA'',
    Auto ''PPC_INS_BDNZLR'', Auto ''PPC_INS_BDNZLRL'', Auto ''PPC_INS_BDZ'', Auto ''PPC_INS_BDZA'',
    Auto ''PPC_INS_BDZL'', Auto ''PPC_INS_BDZLA'', Auto ''PPC_INS_BDZLR'', Auto ''PPC_INS_BDZLRL'',
    Auto ''PPC_INS_BL'', Auto ''PPC_INS_BLA'', Auto ''PPC_INS_BLR'', Auto ''PPC_INS_BLRL'',
    Auto ''PPC_INS_BRINC'', Auto ''PPC_INS_CMPD'', Auto ''PPC_INS_CMPDI'', Auto ''PPC_INS_CMPLD'',
    Auto ''PPC_INS_CMPLDI'', Auto ''PPC_INS_CMPLW'', Auto ''PPC_INS_CMPLWI'', Auto ''PPC_INS_CMPW'',
    Auto ''PPC_INS_CMPWI'', Auto ''PPC_INS_CNTLZD'', Auto ''PPC_INS_CNTLZW'', Auto ''PPC_INS_CREQV'',
    Auto ''PPC_INS_CRXOR'', Auto ''PPC_INS_CRAND'', Auto ''PPC_INS_CRANDC'', Auto ''PPC_INS_CRNAND'',
    Auto ''PPC_INS_CRNOR'', Auto ''PPC_INS_CROR'', Auto ''PPC_INS_CRORC'', Auto ''PPC_INS_DCBA'',
    Auto ''PPC_INS_DCBF'', Auto ''PPC_INS_DCBI'', Auto ''PPC_INS_DCBST'', Auto ''PPC_INS_DCBT'',
    Auto ''PPC_INS_DCBTST'', Auto ''PPC_INS_DCBZ'', Auto ''PPC_INS_DCBZL'', Auto ''PPC_INS_DCCCI'',
    Auto ''PPC_INS_DIVD'', Auto ''PPC_INS_DIVDU'', Auto ''PPC_INS_DIVW'', Auto ''PPC_INS_DIVWU'',
    Auto ''PPC_INS_DSS'', Auto ''PPC_INS_DSSALL'', Auto ''PPC_INS_DST'', Auto ''PPC_INS_DSTST'',
    Auto ''PPC_INS_DSTSTT'', Auto ''PPC_INS_DSTT'', Auto ''PPC_INS_EIEIO'', Auto ''PPC_INS_EQV'',
    Auto ''PPC_INS_EVABS'', Auto ''PPC_INS_EVADDIW'', Auto ''PPC_INS_EVADDSMIAAW'',
    Auto ''PPC_INS_EVADDSSIAAW'', Auto ''PPC_INS_EVADDUMIAAW'', Auto ''PPC_INS_EVADDUSIAAW'',
    Auto ''PPC_INS_EVADDW'', Auto ''PPC_INS_EVAND'', Auto ''PPC_INS_EVANDC'', Auto ''PPC_INS_EVCMPEQ'',
    Auto ''PPC_INS_EVCMPGTS'', Auto ''PPC_INS_EVCMPGTU'', Auto ''PPC_INS_EVCMPLTS'',
    Auto ''PPC_INS_EVCMPLTU'', Auto ''PPC_INS_EVCNTLSW'', Auto ''PPC_INS_EVCNTLZW'',
    Auto ''PPC_INS_EVDIVWS'', Auto ''PPC_INS_EVDIVWU'', Auto ''PPC_INS_EVEQV'',
    Auto ''PPC_INS_EVEXTSB'', Auto ''PPC_INS_EVEXTSH'', Auto ''PPC_INS_EVLDD'', Auto ''PPC_INS_EVLDDX'',
    Auto ''PPC_INS_EVLDH'', Auto ''PPC_INS_EVLDHX'', Auto ''PPC_INS_EVLDW'', Auto ''PPC_INS_EVLDWX'',
    Auto ''PPC_INS_EVLHHESPLAT'', Auto ''PPC_INS_EVLHHESPLATX'', Auto ''PPC_INS_EVLHHOSSPLAT'',
    Auto ''PPC_INS_EVLHHOSSPLATX'', Auto ''PPC_INS_EVLHHOUSPLAT'', Auto ''PPC_INS_EVLHHOUSPLATX'',
    Auto ''PPC_INS_EVLWHE'', Auto ''PPC_INS_EVLWHEX'', Auto ''PPC_INS_EVLWHOS'',
    Auto ''PPC_INS_EVLWHOSX'', Auto ''PPC_INS_EVLWHOU'', Auto ''PPC_INS_EVLWHOUX'',
    Auto ''PPC_INS_EVLWHSPLAT'', Auto ''PPC_INS_EVLWHSPLATX'', Auto ''PPC_INS_EVLWWSPLAT'',
    Auto ''PPC_INS_EVLWWSPLATX'', Auto ''PPC_INS_EVMERGEHI'', Auto ''PPC_INS_EVMERGEHILO'',
    Auto ''PPC_INS_EVMERGELO'', Auto ''PPC_INS_EVMERGELOHI'', Auto ''PPC_INS_EVMHEGSMFAA'',
    Auto ''PPC_INS_EVMHEGSMFAN'', Auto ''PPC_INS_EVMHEGSMIAA'', Auto ''PPC_INS_EVMHEGSMIAN'',
    Auto ''PPC_INS_EVMHEGUMIAA'', Auto ''PPC_INS_EVMHEGUMIAN'', Auto ''PPC_INS_EVMHESMF'',
    Auto ''PPC_INS_EVMHESMFA'', Auto ''PPC_INS_EVMHESMFAAW'', Auto ''PPC_INS_EVMHESMFANW'',
    Auto ''PPC_INS_EVMHESMI'', Auto ''PPC_INS_EVMHESMIA'', Auto ''PPC_INS_EVMHESMIAAW'',
    Auto ''PPC_INS_EVMHESMIANW'', Auto ''PPC_INS_EVMHESSF'', Auto ''PPC_INS_EVMHESSFA'',
    Auto ''PPC_INS_EVMHESSFAAW'', Auto ''PPC_INS_EVMHESSFANW'', Auto ''PPC_INS_EVMHESSIAAW'',
    Auto ''PPC_INS_EVMHESSIANW'', Auto ''PPC_INS_EVMHEUMI'', Auto ''PPC_INS_EVMHEUMIA'']"

definition ppc_insn_2 :: "enumerator list" where
  "ppc_insn_2 = [
    Auto ''PPC_INS_EVMHEUMIAAW'', Auto ''PPC_INS_EVMHEUMIANW'', Auto ''PPC_INS_EVMHEUSIAAW'',
    Auto ''PPC_INS_EVMHEUSIANW'', Auto ''PPC_INS_EVMHOGSMFAA'', Auto ''PPC_INS_EVMHOGSMFAN'',
    Auto ''PPC_INS_EVMHOGSMIAA'', Auto ''PPC_INS_EVMHOGSMIAN'', Auto ''PPC_INS_EVMHOGUMIAA'',
    Auto ''PPC_INS_EVMHOGUMIAN'', Auto ''PPC_INS_EVMHOSMF'', Auto ''PPC_INS_EVMHOSMFA'',
    Auto ''PPC_INS_EVMHOSMFAAW'', Auto ''PPC_INS_EVMHOSMFANW'', Auto ''PPC_INS_EVMHOSMI'',
    Auto ''PPC_INS_EVMHOSMIA'', Auto ''PPC_INS_EVMHOSMIAAW'', Auto ''PPC_INS_EVMHOSMIANW'',
    Auto ''PPC_INS_EVMHOSSF'', Auto ''PPC_INS_EVMHOSSFA'', Auto ''PPC_INS_EVMHOSSFAAW'',
    Auto ''PPC_INS_EVMHOSSFANW'', Auto ''PPC_INS_EVMHOSSIAAW'', Auto ''PPC_INS_EVMHOSSIANW'',
    Auto ''PPC_INS_EVMHOUMI'', Auto ''PPC_INS_EVMHOUMIA'', Auto ''PPC_INS_EVMHOUMIAAW'',
    Auto ''PPC_INS_EVMHOUMIANW'', Auto ''PPC_INS_EVMHOUSIAAW'', Auto ''PPC_INS_EVMHOUSIANW'',
    Auto ''PPC_INS_EVMRA'', Auto ''PPC_INS_EVMWHSMF'', Auto ''PPC_INS_EVMWHSMFA'',
    Auto ''PPC_INS_EVMWHSMI'', Auto ''PPC_INS_EVMWHSMIA'', Auto ''PPC_INS_EVMWHSSF'',
    Auto ''PPC_INS_EVMWHSSFA'', Auto ''PPC_INS_EVMWHUMI'', Auto ''PPC_INS_EVMWHUMIA'',
    Auto ''PPC_INS_EVMWLSMIAAW'', Auto ''PPC_INS_EVMWLSMIANW'', Auto ''PPC_INS_EVMWLSSIAAW'',
    Auto ''PPC_INS_EVMWLSSIANW'', Auto ''PPC_INS_EVMWLUMI'', Auto ''PPC_INS_EVMWLUMIA'',
    Auto ''PPC_INS_EVMWLUMIAAW'', Auto ''PPC_INS_EVMWLUMIANW'', Auto ''PPC_INS_EVMWLUSIAAW'',
    Auto ''PPC_INS_EVMWLUSIANW'', Auto ''PPC_INS_EVMWSMF'', Auto ''PPC_INS_EVMWSMFA'',
    Auto ''PPC_INS_EVMWSMFAA'', Auto ''PPC_INS_EVMWSMFAN'', Auto ''PPC_INS_EVMWSMI'',
    Auto ''PPC_INS_EVMWSMIA'', Auto ''PPC_INS_EVMWSMIAA'', Auto ''PPC_INS_EVMWSMIAN'',
    Auto ''PPC_INS_EVMWSSF'', Auto ''PPC_INS_EVMWSSFA'', Auto ''PPC_INS_EVMWSSFAA'',
    Auto ''PPC_INS_EVMWSSFAN'', Auto ''PPC_INS_EVMWUMI'', Auto ''PPC_INS_EVMWUMIA'',
    Auto ''PPC_INS_EVMWUMIAA'', Auto ''PPC_INS_EVMWUMIAN'', Auto ''PPC_INS_EVNAND'',
    Auto ''PPC_INS_EVNEG'', Auto ''PPC_INS_EVNOR'', Auto ''PPC_INS_EVOR'', Auto ''PPC_INS_EVORC'',
    Auto ''PPC_INS_EVRLW'', Auto ''PPC_INS_EVRLWI'', Auto ''PPC_INS_EVRNDW'', Auto ''PPC_INS_EVSLW'',
    Auto ''PPC_INS_EVSLWI'', Auto ''PPC_INS_EVSPLATFI'', Auto ''PPC_INS_EVSPLATI'',
    Auto ''PPC_INS_EVSRWIS'', Auto ''PPC_INS_EVSRWIU'', Auto ''PPC_INS_EVSRWS'',
    Auto ''PPC_INS_EVSRWU'', Auto ''PPC_INS_EVSTDD'', Auto ''PPC_INS_EVSTDDX'', Auto ''PPC_INS_EVSTDH'',
    Auto ''PPC_INS_EVSTDHX'', Auto ''PPC_INS_EVSTDW'', Auto ''PPC_INS_EVSTDWX'',
    Auto ''PPC_INS_EVSTWHE'', Auto ''PPC_INS_EVSTWHEX'', Auto ''PPC_INS_EVSTWHO'',
    Auto ''PPC_INS_EVSTWHOX'', Auto ''PPC_INS_EVSTWWE'', Auto ''PPC_INS_EVSTWWEX'',
    Auto ''PPC_INS_EVSTWWO'', Auto ''PPC_INS_EVSTWWOX'', Auto ''PPC_INS_EVSUBFSMIAAW'',
    Auto ''PPC_INS_EVSUBFSSIAAW'', Auto ''PPC_INS_EVSUBFUMIAAW'', Auto ''PPC_INS_EVSUBFUSIAAW'',
    Auto ''PPC_INS_EVSUBFW'', Auto ''PPC_INS_EVSUBIFW'', Auto ''PPC_INS_EVXOR'', Auto ''PPC_INS_EXTSB'',
    Auto ''PPC_INS_EXTSH'', Auto ''PPC_INS_EXTSW'', Auto ''PPC_INS_FABS'', Auto ''PPC_INS_FADD'',
    Auto ''PPC_INS_FADDS'', Auto ''PPC_INS_FCFID'', Auto ''PPC_INS_FCFIDS'', Auto ''PPC_INS_FCFIDU'',
    Auto ''PPC_INS_FCFIDUS'', Auto ''PPC_INS_FCMPU'', Auto ''PPC_INS_FCPSGN'', Auto ''PPC_INS_FCTID'',
    Auto ''PPC_INS_FCTIDUZ'', Auto ''PPC_INS_FCTIDZ'', Auto ''PPC_INS_FCTIW'', Auto ''PPC_INS_FCTIWUZ'',
    Auto ''PPC_INS_FCTIWZ'', Auto ''PPC_INS_FDIV'', Auto ''PPC_INS_FDIVS'', Auto ''PPC_INS_FMADD'',
    Auto ''PPC_INS_FMADDS'', Auto ''PPC_INS_FMR'', Auto ''PPC_INS_FMSUB'', Auto ''PPC_INS_FMSUBS'',
    Auto ''PPC_INS_FMUL'', Auto ''PPC_INS_FMULS'', Auto ''PPC_INS_FNABS'', Auto ''PPC_INS_FNEG'',
    Auto ''PPC_INS_FNMADD'', Auto ''PPC_INS_FNMADDS'', Auto ''PPC_INS_FNMSUB'',
    Auto ''PPC_INS_FNMSUBS'', Auto ''PPC_INS_FRE'', Auto ''PPC_INS_FRES'', Auto ''PPC_INS_FRIM'',
    Auto ''PPC_INS_FRIN'', Auto ''PPC_INS_FRIP'', Auto ''PPC_INS_FRIZ'', Auto ''PPC_INS_FRSP'',
    Auto ''PPC_INS_FRSQRTE'', Auto ''PPC_INS_FRSQRTES'', Auto ''PPC_INS_FSEL'', Auto ''PPC_INS_FSQRT'',
    Auto ''PPC_INS_FSQRTS'', Auto ''PPC_INS_FSUB'', Auto ''PPC_INS_FSUBS'', Auto ''PPC_INS_ICBI'']"

definition ppc_insn_3 :: "enumerator list" where
  "ppc_insn_3 = [
    Auto ''PPC_INS_ICCCI'', Auto ''PPC_INS_ISEL'', Auto ''PPC_INS_ISYNC'', Auto ''PPC_INS_LA'',
    Auto ''PPC_INS_LBZ'', Auto ''PPC_INS_LBZU'', Auto ''PPC_INS_LBZUX'', Auto ''PPC_INS_LBZX'',
    Auto ''PPC_INS_LD'', Auto ''PPC_INS_LDARX'', Auto ''PPC_INS_LDBRX'', Auto ''PPC_INS_LDU'',
    Auto ''PPC_INS_LDUX'', Auto ''PPC_INS_LDX'', Auto ''PPC_INS_LFD'', Auto ''PPC_INS_LFDU'',
    Auto ''PPC_INS_LFDUX'', Auto ''PPC_INS_LFDX'', Auto ''PPC_INS_LFIWAX'', Auto ''PPC_INS_LFIWZX'',
    Auto ''PPC_INS_LFS'', Auto ''PPC_INS_LFSU'', Auto ''PPC_INS_LFSUX'', Auto ''PPC_INS_LFSX'',
    Auto ''PPC_INS_LHA'', Auto ''PPC_INS_LHAU'', Auto ''PPC_INS_LHAUX'', Auto ''PPC_INS_LHAX'',
    Auto ''PPC_INS_LHBRX'', Auto ''PPC_INS_LHZ'', Auto ''PPC_INS_LHZU'', Auto ''PPC_INS_LHZUX'',
    Auto ''PPC_INS_LHZX'', Auto ''PPC_INS_LI'', Auto ''PPC_INS_LIS'', Auto ''PPC_INS_LMW'',
    Auto ''PPC_INS_LSWI'', Auto ''PPC_INS_LVEBX'', Auto ''PPC_INS_LVEHX'', Auto ''PPC_INS_LVEWX'',
    Auto ''PPC_INS_LVSL'', Auto ''PPC_INS_LVSR'', Auto ''PPC_INS_LVX'', Auto ''PPC_INS_LVXL'',
    Auto ''PPC_INS_LWA'', Auto ''PPC_INS_LWARX'', Auto ''PPC_INS_LWAUX'', Auto ''PPC_INS_LWAX'',
    Auto ''PPC_INS_LWBRX'', Auto ''PPC_INS_LWZ'', Auto ''PPC_INS_LWZU'', Auto ''PPC_INS_LWZUX'',
    Auto ''PPC_INS_LWZX'', Auto ''PPC_INS_LXSDX'', Auto ''PPC_INS_LXVD2X'', Auto ''PPC_INS_LXVDSX'',
    Auto ''PPC_INS_LXVW4X'', Auto ''PPC_INS_MBAR'', Auto ''PPC_INS_MCRF'', Auto ''PPC_INS_MFCR'',
    Auto ''PPC_INS_MFCTR'', Auto ''PPC_INS_MFDCR'', Auto ''PPC_INS_MFFS'', Auto ''PPC_INS_MFLR'',
    Auto ''PPC_INS_MFMSR'', Auto ''PPC_INS_MFOCRF'', Auto ''PPC_INS_MFSPR'', Auto ''PPC_INS_MFSR'',
    Auto ''PPC_INS_MFSRIN'', Auto ''PPC_INS_MFTB'', Auto ''PPC_INS_MFVSCR'', Auto ''PPC_INS_MSYNC'',
    Auto ''PPC_INS_MTCRF'', Auto ''PPC_INS_MTCTR'', Auto ''PPC_INS_MTDCR'', Auto ''PPC_INS_MTFSB0'',
    Auto ''PPC_INS_MTFSB1'', Auto ''PPC_INS_MTFSF'', Auto ''PPC_INS_MTLR'', Auto ''PPC_INS_MTMSR'',
    Auto ''PPC_INS_MTMSRD'', Auto ''PPC_INS_MTOCRF'', Auto ''PPC_INS_MTSPR'', Auto ''PPC_INS_MTSR'',
    Auto ''PPC_INS_MTSRIN'', Auto ''PPC_INS_MTVSCR'', Auto ''PPC_INS_MULHD'', Auto ''PPC_INS_MULHDU'',
    Auto ''PPC_INS_MULHW'', Auto ''PPC_INS_MULHWU'', Auto ''PPC_INS_MULLD'', Auto ''PPC_INS_MULLI'',
    Auto ''PPC_INS_MULLW'', Auto ''PPC_INS_NAND'', Auto ''PPC_INS_NEG'', Auto ''PPC_INS_NOP'',
    Auto ''PPC_INS_ORI'', Auto ''PPC_INS_NOR'', Auto ''PPC_INS_OR'', Auto ''PPC_INS_ORC'',
    Auto ''PPC_INS_ORIS'', Auto ''PPC_INS_POPCNTD'', Auto ''PPC_INS_POPCNTW'', Auto ''PPC_INS_RFCI'',
    Auto ''PPC_INS_RFDI'', Auto ''PPC_INS_RFI'', Auto ''PPC_INS_RFID'', Auto ''PPC_INS_RFMCI'',
    Auto ''PPC_INS_RLDCL'', Auto ''PPC_INS_RLDCR'', Auto ''PPC_INS_RLDIC'', Auto ''PPC_INS_RLDICL'',
    Auto ''PPC_INS_RLDICR'', Auto ''PPC_INS_RLDIMI'', Auto ''PPC_INS_RLWIMI'', Auto ''PPC_INS_RLWINM'',
    Auto ''PPC_INS_RLWNM'', Auto ''PPC_INS_SC'', Auto ''PPC_INS_SLBIA'', Auto ''PPC_INS_SLBIE'',
    Auto ''PPC_INS_SLBMFEE'', Auto ''PPC_INS_SLBMTE'', Auto ''PPC_INS_SLD'', Auto ''PPC_INS_SLW'',
    Auto ''PPC_INS_SRAD'', Auto ''PPC_INS_SRADI'', Auto ''PPC_INS_SRAW'', Auto ''PPC_INS_SRAWI'',
    Auto ''PPC_INS_SRD'', Auto ''PPC_INS_SRW'', Auto ''PPC_INS_STB'', Auto ''PPC_INS_STBU'',
    Auto ''PPC_INS_STBUX'', Auto ''PPC_INS_STBX'', Auto ''PPC_INS_STD'', Auto ''PPC_INS_STDBRX'',
    Auto ''PPC_INS_STDCX'', Auto ''PPC_INS_STDU'', Auto ''PPC_INS_STDUX'', Auto ''PPC_INS_STDX'',
    Auto ''PPC_INS_STFD'', Auto ''PPC_INS_STFDU'', Auto ''PPC_INS_STFDUX'', Auto ''PPC_INS_STFDX'',
    Auto ''PPC_INS_STFIWX'', Auto ''PPC_INS_STFS'', Auto ''PPC_INS_STFSU'', Auto ''PPC_INS_STFSUX'',
    Auto ''PPC_INS_STFSX'', Auto ''PPC_INS_STH'']"

definition ppc_insn_4 :: "enumerator list" where
  "ppc_insn_4 = [
    Auto ''PPC_INS_STHBRX'', Auto ''PPC_INS_STHU'', Auto ''PPC_INS_STHUX'', Auto ''PPC_INS_STHX'',
    Auto ''PPC_INS_STMW'', Auto ''PPC_INS_STSWI'', Auto ''PPC_INS_STVEBX'', Auto ''PPC_INS_STVEHX'',
    Auto ''PPC_INS_STVEWX'', Auto ''PPC_INS_STVX'', Auto ''PPC_INS_STVXL'', Auto ''PPC_INS_STW'',
    Auto ''PPC_INS_STWBRX'', Auto ''PPC_INS_STWCX'', Auto ''PPC_INS_STWU'', Auto ''PPC_INS_STWUX'',
    Auto ''PPC_INS_STWX'', Auto ''PPC_INS_STXSDX'', Auto ''PPC_INS_STXVD2X'', Auto ''PPC_INS_STXVW4X'',
    Auto ''PPC_INS_SUBF'', Auto ''PPC_INS_SUBFC'', Auto ''PPC_INS_SUBFE'', Auto ''PPC_INS_SUBFIC'',
    Auto ''PPC_INS_SUBFME'', Auto ''PPC_INS_SUBFZE'', Auto ''PPC_INS_SYNC'', Auto ''PPC_INS_TD'',
    Auto ''PPC_INS_TDI'', Auto ''PPC_INS_TLBIA'', Auto ''PPC_INS_TLBIE'', Auto ''PPC_INS_TLBIEL'',
    Auto ''PPC_INS_TLBIVAX'', Auto ''PPC_INS_TLBLD'', Auto ''PPC_INS_TLBLI'', Auto ''PPC_INS_TLBRE'',
    Auto ''PPC_INS_TLBSX'', Auto ''PPC_INS_TLBSYNC'', Auto ''PPC_INS_TLBWE'', Auto ''PPC_INS_TRAP'',
    Auto ''PPC_INS_TW'', Auto ''PPC_INS_TWI'', Auto ''PPC_INS_VADDCUW'', Auto ''PPC_INS_VADDFP'',
    Auto ''PPC_INS_VADDSBS'', Auto ''PPC_INS_VADDSHS'', Auto ''PPC_INS_VADDSWS'',
    Auto ''PPC_INS_VADDUBM'', Auto ''PPC_INS_VADDUBS'', Auto ''PPC_INS_VADDUHM'',
    Auto ''PPC_INS_VADDUHS'', Auto ''PPC_INS_VADDUWM'', Auto ''PPC_INS_VADDUWS'', Auto ''PPC_INS_VAND'',
    Auto ''PPC_INS_VANDC'', Auto ''PPC_INS_VAVGSB'', Auto ''PPC_INS_VAVGSH'', Auto ''PPC_INS_VAVGSW'',
    Auto ''PPC_INS_VAVGUB'', Auto ''PPC_INS_VAVGUH'', Auto ''PPC_INS_VAVGUW'', Auto ''PPC_INS_VCFSX'',
    Auto ''PPC_INS_VCFUX'', Auto ''PPC_INS_VCMPBFP'', Auto ''PPC_INS_VCMPEQFP'',
    Auto ''PPC_INS_VCMPEQUB'', Auto ''PPC_INS_VCMPEQUH'', Auto ''PPC_INS_VCMPEQUW'',
    Auto ''PPC_INS_VCMPGEFP'', Auto ''PPC_INS_VCMPGTFP'', Auto ''PPC_INS_VCMPGTSB'',
    Auto ''PPC_INS_VCMPGTSH'', Auto ''PPC_INS_VCMPGTSW'', Auto ''PPC_INS_VCMPGTUB'',
    Auto ''PPC_INS_VCMPGTUH'', Auto ''PPC_INS_VCMPGTUW'', Auto ''PPC_INS_VCTSXS'',
    Auto ''PPC_INS_VCTUXS'', Auto ''PPC_INS_VEXPTEFP'', Auto ''PPC_INS_VLOGEFP'',
    Auto ''PPC_INS_VMADDFP'', Auto ''PPC_INS_VMAXFP'', Auto ''PPC_INS_VMAXSB'', Auto ''PPC_INS_VMAXSH'',
    Auto ''PPC_INS_VMAXSW'', Auto ''PPC_INS_VMAXUB'', Auto ''PPC_INS_VMAXUH'', Auto ''PPC_INS_VMAXUW'',
    Auto ''PPC_INS_VMHADDSHS'', Auto ''PPC_INS_VMHRADDSHS'', Auto ''PPC_INS_VMINFP'',
    Auto ''PPC_INS_VMINSB'', Auto ''PPC_INS_VMINSH'', Auto ''PPC_INS_VMINSW'', Auto ''PPC_INS_VMINUB'',
    Auto ''PPC_INS_VMINUH'', Auto ''PPC_INS_VMINUW'', Auto ''PPC_INS_VMLADDUHM'',
    Auto ''PPC_INS_VMRGHB'', Auto ''PPC_INS_VMRGHH'', Auto ''PPC_INS_VMRGHW'', Auto ''PPC_INS_VMRGLB'',
    Auto ''PPC_INS_VMRGLH'', Auto ''PPC_INS_VMRGLW'', Auto ''PPC_INS_VMSUMMBM'',
    Auto ''PPC_INS_VMSUMSHM'', Auto ''PPC_INS_VMSUMSHS'', Auto ''PPC_INS_VMSUMUBM'',
    Auto ''PPC_INS_VMSUMUHM'', Auto ''PPC_INS_VMSUMUHS'', Auto ''PPC_INS_VMULESB'',
    Auto ''PPC_INS_VMULESH'', Auto ''PPC_INS_VMULEUB'', Auto ''PPC_INS_VMULEUH'',
    Auto ''PPC_INS_VMULOSB'', Auto ''PPC_INS_VMULOSH'', Auto ''PPC_INS_VMULOUB'',
    Auto ''PPC_INS_VMULOUH'', Auto ''PPC_INS_VNMSUBFP'', Auto ''PPC_INS_VNOR'', Auto ''PPC_INS_VOR'',
    Auto ''PPC_INS_VPERM'', Auto ''PPC_INS_VPKPX'', Auto ''PPC_INS_VPKSHSS'', Auto ''PPC_INS_VPKSHUS'',
    Auto ''PPC_INS_VPKSWSS'', Auto ''PPC_INS_VPKSWUS'', Auto ''PPC_INS_VPKUHUM'',
    Auto ''PPC_INS_VPKUHUS'', Auto ''PPC_INS_VPKUWUM'', Auto ''PPC_INS_VPKUWUS'',
    Auto ''PPC_INS_VREFP'', Auto ''PPC_INS_VRFIM'', Auto ''PPC_INS_VRFIN'', Auto ''PPC_INS_VRFIP'',
    Auto ''PPC_INS_VRFIZ'', Auto ''PPC_INS_VRLB'', Auto ''PPC_INS_VRLH'', Auto ''PPC_INS_VRLW'',
    Auto ''PPC_INS_VRSQRTEFP'', Auto ''PPC_INS_VSEL'', Auto ''PPC_INS_VSL'', Auto ''PPC_INS_VSLB'',
    Auto ''PPC_INS_VSLDOI'', Auto ''PPC_INS_VSLH'', Auto ''PPC_INS_VSLO'', Auto ''PPC_INS_VSLW'',
    Auto ''PPC_INS_VSPLTB'', Auto ''PPC_INS_VSPLTH'', Auto ''PPC_INS_VSPLTISB'']"

definition ppc_insn_5 :: "enumerator list" where
  "ppc_insn_5 = [
    Auto ''PPC_INS_VSPLTISH'', Auto ''PPC_INS_VSPLTISW'', Auto ''PPC_INS_VSPLTW'', Auto ''PPC_INS_VSR'',
    Auto ''PPC_INS_VSRAB'', Auto ''PPC_INS_VSRAH'', Auto ''PPC_INS_VSRAW'', Auto ''PPC_INS_VSRB'',
    Auto ''PPC_INS_VSRH'', Auto ''PPC_INS_VSRO'', Auto ''PPC_INS_VSRW'', Auto ''PPC_INS_VSUBCUW'',
    Auto ''PPC_INS_VSUBFP'', Auto ''PPC_INS_VSUBSBS'', Auto ''PPC_INS_VSUBSHS'',
    Auto ''PPC_INS_VSUBSWS'', Auto ''PPC_INS_VSUBUBM'', Auto ''PPC_INS_VSUBUBS'',
    Auto ''PPC_INS_VSUBUHM'', Auto ''PPC_INS_VSUBUHS'', Auto ''PPC_INS_VSUBUWM'',
    Auto ''PPC_INS_VSUBUWS'', Auto ''PPC_INS_VSUM2SWS'', Auto ''PPC_INS_VSUM4SBS'',
    Auto ''PPC_INS_VSUM4SHS'', Auto ''PPC_INS_VSUM4UBS'', Auto ''PPC_INS_VSUMSWS'',
    Auto ''PPC_INS_VUPKHPX'', Auto ''PPC_INS_VUPKHSB'', Auto ''PPC_INS_VUPKHSH'',
    Auto ''PPC_INS_VUPKLPX'', Auto ''PPC_INS_VUPKLSB'', Auto ''PPC_INS_VUPKLSH'', Auto ''PPC_INS_VXOR'',
    Auto ''PPC_INS_WAIT'', Auto ''PPC_INS_WRTEE'', Auto ''PPC_INS_WRTEEI'', Auto ''PPC_INS_XOR'',
    Auto ''PPC_INS_XORI'', Auto ''PPC_INS_XORIS'', Auto ''PPC_INS_XSABSDP'', Auto ''PPC_INS_XSADDDP'',
    Auto ''PPC_INS_XSCMPODP'', Auto ''PPC_INS_XSCMPUDP'', Auto ''PPC_INS_XSCPSGNDP'',
    Auto ''PPC_INS_XSCVDPSP'', Auto ''PPC_INS_XSCVDPSXDS'', Auto ''PPC_INS_XSCVDPSXWS'',
    Auto ''PPC_INS_XSCVDPUXDS'', Auto ''PPC_INS_XSCVDPUXWS'', Auto ''PPC_INS_XSCVSPDP'',
    Auto ''PPC_INS_XSCVSXDDP'', Auto ''PPC_INS_XSCVUXDDP'', Auto ''PPC_INS_XSDIVDP'',
    Auto ''PPC_INS_XSMADDADP'', Auto ''PPC_INS_XSMADDMDP'', Auto ''PPC_INS_XSMAXDP'',
    Auto ''PPC_INS_XSMINDP'', Auto ''PPC_INS_XSMSUBADP'', Auto ''PPC_INS_XSMSUBMDP'',
    Auto ''PPC_INS_XSMULDP'', Auto ''PPC_INS_XSNABSDP'', Auto ''PPC_INS_XSNEGDP'',
    Auto ''PPC_INS_XSNMADDADP'', Auto ''PPC_INS_XSNMADDMDP'', Auto ''PPC_INS_XSNMSUBADP'',
    Auto ''PPC_INS_XSNMSUBMDP'', Auto ''PPC_INS_XSRDPI'', Auto ''PPC_INS_XSRDPIC'',
    Auto ''PPC_INS_XSRDPIM'', Auto ''PPC_INS_XSRDPIP'', Auto ''PPC_INS_XSRDPIZ'',
    Auto ''PPC_INS_XSREDP'', Auto ''PPC_INS_XSRSQRTEDP'', Auto ''PPC_INS_XSSQRTDP'',
    Auto ''PPC_INS_XSSUBDP'', Auto ''PPC_INS_XSTDIVDP'', Auto ''PPC_INS_XSTSQRTDP'',
    Auto ''PPC_INS_XVABSDP'', Auto ''PPC_INS_XVABSSP'', Auto ''PPC_INS_XVADDDP'',
    Auto ''PPC_INS_XVADDSP'', Auto ''PPC_INS_XVCMPEQDP'', Auto ''PPC_INS_XVCMPEQSP'',
    Auto ''PPC_INS_XVCMPGEDP'', Auto ''PPC_INS_XVCMPGESP'', Auto ''PPC_INS_XVCMPGTDP'',
    Auto ''PPC_INS_XVCMPGTSP'', Auto ''PPC_INS_XVCPSGNDP'', Auto ''PPC_INS_XVCPSGNSP'',
    Auto ''PPC_INS_XVCVDPSP'', Auto ''PPC_INS_XVCVDPSXDS'', Auto ''PPC_INS_XVCVDPSXWS'',
    Auto ''PPC_INS_XVCVDPUXDS'', Auto ''PPC_INS_XVCVDPUXWS'', Auto ''PPC_INS_XVCVSPDP'',
    Auto ''PPC_INS_XVCVSPSXDS'', Auto ''PPC_INS_XVCVSPSXWS'', Auto ''PPC_INS_XVCVSPUXDS'',
    Auto ''PPC_INS_XVCVSPUXWS'', Auto ''PPC_INS_XVCVSXDDP'', Auto ''PPC_INS_XVCVSXDSP'',
    Auto ''PPC_INS_XVCVSXWDP'', Auto ''PPC_INS_XVCVSXWSP'', Auto ''PPC_INS_XVCVUXDDP'',
    Auto ''PPC_INS_XVCVUXDSP'', Auto ''PPC_INS_XVCVUXWDP'', Auto ''PPC_INS_XVCVUXWSP'',
    Auto ''PPC_INS_XVDIVDP'', Auto ''PPC_INS_XVDIVSP'', Auto ''PPC_INS_XVMADDADP'',
    Auto ''PPC_INS_XVMADDASP'', Auto ''PPC_INS_XVMADDMDP'', Auto ''PPC_INS_XVMADDMSP'',
    Auto ''PPC_INS_XVMAXDP'', Auto ''PPC_INS_XVMAXSP'', Auto ''PPC_INS_XVMINDP'',
    Auto ''PPC_INS_XVMINSP'', Auto ''PPC_INS_XVMSUBADP'', Auto ''PPC_INS_XVMSUBASP'',
    Auto ''PPC_INS_XVMSUBMDP'', Auto ''PPC_INS_XVMSUBMSP'', Auto ''PPC_INS_XVMULDP'',
    Auto ''PPC_INS_XVMULSP'', Auto ''PPC_INS_XVNABSDP'', Auto ''PPC_INS_XVNABSSP'',
    Auto ''PPC_INS_XVNEGDP'', Auto ''PPC_INS_XVNEGSP'', Auto ''PPC_INS_XVNMADDADP'',
    Auto ''PPC_INS_XVNMADDASP'', Auto ''PPC_INS_XVNMADDMDP'', Auto ''PPC_INS_XVNMADDMSP'',
    Auto ''PPC_INS_XVNMSUBADP'', Auto ''PPC_INS_XVNMSUBASP'', Auto ''PPC_INS_XVNMSUBMDP'',
    Auto ''PPC_INS_XVNMSUBMSP'', Auto ''PPC_INS_XVRDPI'', Auto ''PPC_INS_XVRDPIC'',
    Auto ''PPC_INS_XVRDPIM'', Auto ''PPC_INS_XVRDPIP'', Auto ''PPC_INS_XVRDPIZ'',
    Auto ''PPC_INS_XVREDP'', Auto ''PPC_INS_XVRESP'', Auto ''PPC_INS_XVRSPI'', Auto ''PPC_INS_XVRSPIC'',
    Auto ''PPC_INS_XVRSPIM'', Auto ''PPC_INS_XVRSPIP'', Auto ''PPC_INS_XVRSPIZ'',
    Auto ''PPC_INS_XVRSQRTEDP'', Auto ''PPC_INS_XVRSQRTESP'']"

definition ppc_insn_6 :: "enumerator list" where
  "ppc_insn_6 = [
    Auto ''PPC_INS_XVSQRTDP'', Auto ''PPC_INS_XVSQRTSP'', Auto ''PPC_INS_XVSUBDP'',
    Auto ''PPC_INS_XVSUBSP'', Auto ''PPC_INS_XVTDIVDP'', Auto ''PPC_INS_XVTDIVSP'',
    Auto ''PPC_INS_XVTSQRTDP'', Auto ''PPC_INS_XVTSQRTSP'', Auto ''PPC_INS_XXLAND'',
    Auto ''PPC_INS_XXLANDC'', Auto ''PPC_INS_XXLNOR'', Auto ''PPC_INS_XXLOR'', Auto ''PPC_INS_XXLXOR'',
    Auto ''PPC_INS_XXMRGHW'', Auto ''PPC_INS_XXMRGLW'', Auto ''PPC_INS_XXPERMDI'',
    Auto ''PPC_INS_XXSEL'', Auto ''PPC_INS_XXSLDWI'', Auto ''PPC_INS_XXSPLTW'', Auto ''PPC_INS_BCA'',
    Auto ''PPC_INS_BCLA'', Auto ''PPC_INS_SLWI'', Auto ''PPC_INS_SRWI'', Auto ''PPC_INS_SLDI'',
    Auto ''PPC_INS_BTA'', Auto ''PPC_INS_CRSET'', Auto ''PPC_INS_CRNOT'', Auto ''PPC_INS_CRMOVE'',
    Auto ''PPC_INS_CRCLR'', Auto ''PPC_INS_MFBR0'', Auto ''PPC_INS_MFBR1'', Auto ''PPC_INS_MFBR2'',
    Auto ''PPC_INS_MFBR3'', Auto ''PPC_INS_MFBR4'', Auto ''PPC_INS_MFBR5'', Auto ''PPC_INS_MFBR6'',
    Auto ''PPC_INS_MFBR7'', Auto ''PPC_INS_MFXER'', Auto ''PPC_INS_MFRTCU'', Auto ''PPC_INS_MFRTCL'',
    Auto ''PPC_INS_MFDSCR'', Auto ''PPC_INS_MFDSISR'', Auto ''PPC_INS_MFDAR'', Auto ''PPC_INS_MFSRR2'',
    Auto ''PPC_INS_MFSRR3'', Auto ''PPC_INS_MFCFAR'', Auto ''PPC_INS_MFAMR'', Auto ''PPC_INS_MFPID'',
    Auto ''PPC_INS_MFTBLO'', Auto ''PPC_INS_MFTBHI'', Auto ''PPC_INS_MFDBATU'',
    Auto ''PPC_INS_MFDBATL'', Auto ''PPC_INS_MFIBATU'', Auto ''PPC_INS_MFIBATL'',
    Auto ''PPC_INS_MFDCCR'', Auto ''PPC_INS_MFICCR'', Auto ''PPC_INS_MFDEAR'', Auto ''PPC_INS_MFESR'',
    Auto ''PPC_INS_MFSPEFSCR'', Auto ''PPC_INS_MFTCR'', Auto ''PPC_INS_MFASR'', Auto ''PPC_INS_MFPVR'',
    Auto ''PPC_INS_MFTBU'', Auto ''PPC_INS_MTCR'', Auto ''PPC_INS_MTBR0'', Auto ''PPC_INS_MTBR1'',
    Auto ''PPC_INS_MTBR2'', Auto ''PPC_INS_MTBR3'', Auto ''PPC_INS_MTBR4'', Auto ''PPC_INS_MTBR5'',
    Auto ''PPC_INS_MTBR6'', Auto ''PPC_INS_MTBR7'', Auto ''PPC_INS_MTXER'', Auto ''PPC_INS_MTDSCR'',
    Auto ''PPC_INS_MTDSISR'', Auto ''PPC_INS_MTDAR'', Auto ''PPC_INS_MTSRR2'', Auto ''PPC_INS_MTSRR3'',
    Auto ''PPC_INS_MTCFAR'', Auto ''PPC_INS_MTAMR'', Auto ''PPC_INS_MTPID'', Auto ''PPC_INS_MTTBL'',
    Auto ''PPC_INS_MTTBU'', Auto ''PPC_INS_MTTBLO'', Auto ''PPC_INS_MTTBHI'', Auto ''PPC_INS_MTDBATU'',
    Auto ''PPC_INS_MTDBATL'', Auto ''PPC_INS_MTIBATU'', Auto ''PPC_INS_MTIBATL'',
    Auto ''PPC_INS_MTDCCR'', Auto ''PPC_INS_MTICCR'', Auto ''PPC_INS_MTDEAR'', Auto ''PPC_INS_MTESR'',
    Auto ''PPC_INS_MTSPEFSCR'', Auto ''PPC_INS_MTTCR'', Auto ''PPC_INS_NOT'', Auto ''PPC_INS_MR'',
    Auto ''PPC_INS_ROTLD'', Auto ''PPC_INS_ROTLDI'', Auto ''PPC_INS_CLRLDI'', Auto ''PPC_INS_ROTLWI'',
    Auto ''PPC_INS_CLRLWI'', Auto ''PPC_INS_ROTLW'', Auto ''PPC_INS_SUB'', Auto ''PPC_INS_SUBC'',
    Auto ''PPC_INS_LWSYNC'', Auto ''PPC_INS_PTESYNC'', Auto ''PPC_INS_TDLT'', Auto ''PPC_INS_TDEQ'',
    Auto ''PPC_INS_TDGT'', Auto ''PPC_INS_TDNE'', Auto ''PPC_INS_TDLLT'', Auto ''PPC_INS_TDLGT'',
    Auto ''PPC_INS_TDU'', Auto ''PPC_INS_TDLTI'', Auto ''PPC_INS_TDEQI'', Auto ''PPC_INS_TDGTI'',
    Auto ''PPC_INS_TDNEI'', Auto ''PPC_INS_TDLLTI'', Auto ''PPC_INS_TDLGTI'', Auto ''PPC_INS_TDUI'',
    Auto ''PPC_INS_TLBREHI'', Auto ''PPC_INS_TLBRELO'', Auto ''PPC_INS_TLBWEHI'',
    Auto ''PPC_INS_TLBWELO'', Auto ''PPC_INS_TWLT'', Auto ''PPC_INS_TWEQ'', Auto ''PPC_INS_TWGT'',
    Auto ''PPC_INS_TWNE'', Auto ''PPC_INS_TWLLT'', Auto ''PPC_INS_TWLGT'', Auto ''PPC_INS_TWU'',
    Auto ''PPC_INS_TWLTI'', Auto ''PPC_INS_TWEQI'', Auto ''PPC_INS_TWGTI'', Auto ''PPC_INS_TWNEI'',
    Auto ''PPC_INS_TWLLTI'', Auto ''PPC_INS_TWLGTI'', Auto ''PPC_INS_TWUI'', Auto ''PPC_INS_WAITRSV'',
    Auto ''PPC_INS_WAITIMPL'', Auto ''PPC_INS_XNOP'', Auto ''PPC_INS_XVMOVDP'',
    Auto ''PPC_INS_XVMOVSP'', Auto ''PPC_INS_XXSPLTD'', Auto ''PPC_INS_XXMRGHD'',
    Auto ''PPC_INS_XXMRGLD'']"

definition ppc_insn_7 :: "enumerator list" where
  "ppc_insn_7 = [
    Auto ''PPC_INS_XXSWAPD'', Auto ''PPC_INS_BT'', Auto ''PPC_INS_BF'', Auto ''PPC_INS_BDNZT'',
    Auto ''PPC_INS_BDNZF'', Auto ''PPC_INS_BDZF'', Auto ''PPC_INS_BDZT'', Auto ''PPC_INS_BFA'',
    Auto ''PPC_INS_BDNZTA'', Auto ''PPC_INS_BDNZFA'', Auto ''PPC_INS_BDZTA'', Auto ''PPC_INS_BDZFA'',
    Auto ''PPC_INS_BTCTR'', Auto ''PPC_INS_BFCTR'', Auto ''PPC_INS_BTCTRL'', Auto ''PPC_INS_BFCTRL'',
    Auto ''PPC_INS_BTL'', Auto ''PPC_INS_BFL'', Auto ''PPC_INS_BDNZTL'', Auto ''PPC_INS_BDNZFL'',
    Auto ''PPC_INS_BDZTL'', Auto ''PPC_INS_BDZFL'', Auto ''PPC_INS_BTLA'', Auto ''PPC_INS_BFLA'',
    Auto ''PPC_INS_BDNZTLA'', Auto ''PPC_INS_BDNZFLA'', Auto ''PPC_INS_BDZTLA'',
    Auto ''PPC_INS_BDZFLA'', Auto ''PPC_INS_BTLR'', Auto ''PPC_INS_BFLR'', Auto ''PPC_INS_BDNZTLR'',
    Auto ''PPC_INS_BDZTLR'', Auto ''PPC_INS_BDZFLR'', Auto ''PPC_INS_BTLRL'', Auto ''PPC_INS_BFLRL'',
    Auto ''PPC_INS_BDNZTLRL'', Auto ''PPC_INS_BDNZFLRL'', Auto ''PPC_INS_BDZTLRL'',
    Auto ''PPC_INS_BDZFLRL'', Auto ''PPC_INS_ENDING'']"

definition ppc_insn :: "enumerator list" where
  "ppc_insn = ppc_insn_1 @ ppc_insn_2 @ ppc_insn_3 @ ppc_insn_4 @ ppc_insn_5 @ ppc_insn_6 @ ppc_insn_7"

end
