(* ===== verification/Capstone_Others_Insn.thy ===== *)
theory Capstone_Others_Insn
  imports C_Enum
begin

text \<open>
  The instruction identifiers of \<open>capstone/sparc.h\<close>, \<open>capstone/systemz.h\<close> and \<open>capstone/xcore.h\<close>, in
  pieces of at most 150 lines.
\<close>

section \<open>SPARC\<close>

definition sparc_insn_1 :: "enumerator list" where
  "sparc_insn_1 = [
    Init ''SPARC_INS_INVALID'' (Num 0), Auto ''SPARC_INS_ADDCC'', Auto ''SPARC_INS_ADDX'',
    Auto ''SPARC_INS_ADDXCC'', Auto ''SPARC_INS_ADDXC'', Auto ''SPARC_INS_ADDXCCC'',
    Auto ''SPARC_INS_ADD'', Auto ''SPARC_INS_ALIGNADDR'', Auto ''SPARC_INS_ALIGNADDRL'',
    Auto ''SPARC_INS_ANDCC'', Auto ''SPARC_INS_ANDNCC'', Auto ''SPARC_INS_ANDN'',
    Auto ''SPARC_INS_AND'', Auto ''SPARC_INS_ARRAY16'', Auto ''SPARC_INS_ARRAY32'',
    Auto ''SPARC_INS_ARRAY8'', Auto ''SPARC_INS_B'', Auto ''SPARC_INS_JMP'', Auto ''SPARC_INS_BMASK'',
    Auto ''SPARC_INS_FB'', Auto ''SPARC_INS_BRGEZ'', Auto ''SPARC_INS_BRGZ'', Auto ''SPARC_INS_BRLEZ'',
    Auto ''SPARC_INS_BRLZ'', Auto ''SPARC_INS_BRNZ'', Auto ''SPARC_INS_BRZ'',
    Auto ''SPARC_INS_BSHUFFLE'', Auto ''SPARC_INS_CALL'', Auto ''SPARC_INS_CASX'',
    Auto ''SPARC_INS_CAS'', Auto ''SPARC_INS_CMASK16'', Auto ''SPARC_INS_CMASK32'',
    Auto ''SPARC_INS_CMASK8'', Auto ''SPARC_INS_CMP'', Auto ''SPARC_INS_EDGE16'',
    Auto ''SPARC_INS_EDGE16L'', Auto ''SPARC_INS_EDGE16LN'', Auto ''SPARC_INS_EDGE16N'',
    Auto ''SPARC_INS_EDGE32'', Auto ''SPARC_INS_EDGE32L'', Auto ''SPARC_INS_EDGE32LN'',
    Auto ''SPARC_INS_EDGE32N'', Auto ''SPARC_INS_EDGE8'', Auto ''SPARC_INS_EDGE8L'',
    Auto ''SPARC_INS_EDGE8LN'', Auto ''SPARC_INS_EDGE8N'', Auto ''SPARC_INS_FABSD'',
    Auto ''SPARC_INS_FABSQ'', Auto ''SPARC_INS_FABSS'', Auto ''SPARC_INS_FADDD'',
    Auto ''SPARC_INS_FADDQ'', Auto ''SPARC_INS_FADDS'', Auto ''SPARC_INS_FALIGNDATA'',
    Auto ''SPARC_INS_FAND'', Auto ''SPARC_INS_FANDNOT1'', Auto ''SPARC_INS_FANDNOT1S'',
    Auto ''SPARC_INS_FANDNOT2'', Auto ''SPARC_INS_FANDNOT2S'', Auto ''SPARC_INS_FANDS'',
    Auto ''SPARC_INS_FCHKSM16'', Auto ''SPARC_INS_FCMPD'', Auto ''SPARC_INS_FCMPEQ16'',
    Auto ''SPARC_INS_FCMPEQ32'', Auto ''SPARC_INS_FCMPGT16'', Auto ''SPARC_INS_FCMPGT32'',
    Auto ''SPARC_INS_FCMPLE16'', Auto ''SPARC_INS_FCMPLE32'', Auto ''SPARC_INS_FCMPNE16'',
    Auto ''SPARC_INS_FCMPNE32'', Auto ''SPARC_INS_FCMPQ'', Auto ''SPARC_INS_FCMPS'',
    Auto ''SPARC_INS_FDIVD'', Auto ''SPARC_INS_FDIVQ'', Auto ''SPARC_INS_FDIVS'',
    Auto ''SPARC_INS_FDMULQ'', Auto ''SPARC_INS_FDTOI'', Auto ''SPARC_INS_FDTOQ'',
    Auto ''SPARC_INS_FDTOS'', Auto ''SPARC_INS_FDTOX'', Auto ''SPARC_INS_FEXPAND'',
    Auto ''SPARC_INS_FHADDD'', Auto ''SPARC_INS_FHADDS'', Auto ''SPARC_INS_FHSUBD'',
    Auto ''SPARC_INS_FHSUBS'', Auto ''SPARC_INS_FITOD'', Auto ''SPARC_INS_FITOQ'',
    Auto ''SPARC_INS_FITOS'', Auto ''SPARC_INS_FLCMPD'', Auto ''SPARC_INS_FLCMPS'',
    Auto ''SPARC_INS_FLUSHW'', Auto ''SPARC_INS_FMEAN16'', Auto ''SPARC_INS_FMOVD'',
    Auto ''SPARC_INS_FMOVQ'', Auto ''SPARC_INS_FMOVRDGEZ'', Auto ''SPARC_INS_FMOVRQGEZ'',
    Auto ''SPARC_INS_FMOVRSGEZ'', Auto ''SPARC_INS_FMOVRDGZ'', Auto ''SPARC_INS_FMOVRQGZ'',
    Auto ''SPARC_INS_FMOVRSGZ'', Auto ''SPARC_INS_FMOVRDLEZ'', Auto ''SPARC_INS_FMOVRQLEZ'',
    Auto ''SPARC_INS_FMOVRSLEZ'', Auto ''SPARC_INS_FMOVRDLZ'', Auto ''SPARC_INS_FMOVRQLZ'',
    Auto ''SPARC_INS_FMOVRSLZ'', Auto ''SPARC_INS_FMOVRDNZ'', Auto ''SPARC_INS_FMOVRQNZ'',
    Auto ''SPARC_INS_FMOVRSNZ'', Auto ''SPARC_INS_FMOVRDZ'', Auto ''SPARC_INS_FMOVRQZ'',
    Auto ''SPARC_INS_FMOVRSZ'', Auto ''SPARC_INS_FMOVS'', Auto ''SPARC_INS_FMUL8SUX16'',
    Auto ''SPARC_INS_FMUL8ULX16'', Auto ''SPARC_INS_FMUL8X16'', Auto ''SPARC_INS_FMUL8X16AL'',
    Auto ''SPARC_INS_FMUL8X16AU'', Auto ''SPARC_INS_FMULD'', Auto ''SPARC_INS_FMULD8SUX16'',
    Auto ''SPARC_INS_FMULD8ULX16'', Auto ''SPARC_INS_FMULQ'', Auto ''SPARC_INS_FMULS'',
    Auto ''SPARC_INS_FNADDD'', Auto ''SPARC_INS_FNADDS'', Auto ''SPARC_INS_FNAND'',
    Auto ''SPARC_INS_FNANDS'', Auto ''SPARC_INS_FNEGD'', Auto ''SPARC_INS_FNEGQ'',
    Auto ''SPARC_INS_FNEGS'', Auto ''SPARC_INS_FNHADDD'', Auto ''SPARC_INS_FNHADDS'',
    Auto ''SPARC_INS_FNOR'', Auto ''SPARC_INS_FNORS'', Auto ''SPARC_INS_FNOT1'',
    Auto ''SPARC_INS_FNOT1S'', Auto ''SPARC_INS_FNOT2'', Auto ''SPARC_INS_FNOT2S'',
    Auto ''SPARC_INS_FONE'', Auto ''SPARC_INS_FONES'', Auto ''SPARC_INS_FOR'',
    Auto ''SPARC_INS_FORNOT1'', Auto ''SPARC_INS_FORNOT1S'', Auto ''SPARC_INS_FORNOT2'',
    Auto ''SPARC_INS_FORNOT2S'', Auto ''SPARC_INS_FORS'', Auto ''SPARC_INS_FPACK16'',
    Auto ''SPARC_INS_FPACK32'', Auto ''SPARC_INS_FPACKFIX'']"

definition sparc_insn_2 :: "enumerator list" where
  "sparc_insn_2 = [
    Auto ''SPARC_INS_FPADD16'', Auto ''SPARC_INS_FPADD16S'', Auto ''SPARC_INS_FPADD32'',
    Auto ''SPARC_INS_FPADD32S'', Auto ''SPARC_INS_FPADD64'', Auto ''SPARC_INS_FPMERGE'',
    Auto ''SPARC_INS_FPSUB16'', Auto ''SPARC_INS_FPSUB16S'', Auto ''SPARC_INS_FPSUB32'',
    Auto ''SPARC_INS_FPSUB32S'', Auto ''SPARC_INS_FQTOD'', Auto ''SPARC_INS_FQTOI'',
    Auto ''SPARC_INS_FQTOS'', Auto ''SPARC_INS_FQTOX'', Auto ''SPARC_INS_FSLAS16'',
    Auto ''SPARC_INS_FSLAS32'', Auto ''SPARC_INS_FSLL16'', Auto ''SPARC_INS_FSLL32'',
    Auto ''SPARC_INS_FSMULD'', Auto ''SPARC_INS_FSQRTD'', Auto ''SPARC_INS_FSQRTQ'',
    Auto ''SPARC_INS_FSQRTS'', Auto ''SPARC_INS_FSRA16'', Auto ''SPARC_INS_FSRA32'',
    Auto ''SPARC_INS_FSRC1'', Auto ''SPARC_INS_FSRC1S'', Auto ''SPARC_INS_FSRC2'',
    Auto ''SPARC_INS_FSRC2S'', Auto ''SPARC_INS_FSRL16'', Auto ''SPARC_INS_FSRL32'',
    Auto ''SPARC_INS_FSTOD'', Auto ''SPARC_INS_FSTOI'', Auto ''SPARC_INS_FSTOQ'',
    Auto ''SPARC_INS_FSTOX'', Auto ''SPARC_INS_FSUBD'', Auto ''SPARC_INS_FSUBQ'',
    Auto ''SPARC_INS_FSUBS'', Auto ''SPARC_INS_FXNOR'', Auto ''SPARC_INS_FXNORS'',
    Auto ''SPARC_INS_FXOR'', Auto ''SPARC_INS_FXORS'', Auto ''SPARC_INS_FXTOD'',
    Auto ''SPARC_INS_FXTOQ'', Auto ''SPARC_INS_FXTOS'', Auto ''SPARC_INS_FZERO'',
    Auto ''SPARC_INS_FZEROS'', Auto ''SPARC_INS_JMPL'', Auto ''SPARC_INS_LDD'', Auto ''SPARC_INS_LD'',
    Auto ''SPARC_INS_LDQ'', Auto ''SPARC_INS_LDSB'', Auto ''SPARC_INS_LDSH'', Auto ''SPARC_INS_LDSW'',
    Auto ''SPARC_INS_LDUB'', Auto ''SPARC_INS_LDUH'', Auto ''SPARC_INS_LDX'', Auto ''SPARC_INS_LZCNT'',
    Auto ''SPARC_INS_MEMBAR'', Auto ''SPARC_INS_MOVDTOX'', Auto ''SPARC_INS_MOV'',
    Auto ''SPARC_INS_MOVRGEZ'', Auto ''SPARC_INS_MOVRGZ'', Auto ''SPARC_INS_MOVRLEZ'',
    Auto ''SPARC_INS_MOVRLZ'', Auto ''SPARC_INS_MOVRNZ'', Auto ''SPARC_INS_MOVRZ'',
    Auto ''SPARC_INS_MOVSTOSW'', Auto ''SPARC_INS_MOVSTOUW'', Auto ''SPARC_INS_MULX'',
    Auto ''SPARC_INS_NOP'', Auto ''SPARC_INS_ORCC'', Auto ''SPARC_INS_ORNCC'', Auto ''SPARC_INS_ORN'',
    Auto ''SPARC_INS_OR'', Auto ''SPARC_INS_PDIST'', Auto ''SPARC_INS_PDISTN'', Auto ''SPARC_INS_POPC'',
    Auto ''SPARC_INS_RD'', Auto ''SPARC_INS_RESTORE'', Auto ''SPARC_INS_RETT'', Auto ''SPARC_INS_SAVE'',
    Auto ''SPARC_INS_SDIVCC'', Auto ''SPARC_INS_SDIVX'', Auto ''SPARC_INS_SDIV'',
    Auto ''SPARC_INS_SETHI'', Auto ''SPARC_INS_SHUTDOWN'', Auto ''SPARC_INS_SIAM'',
    Auto ''SPARC_INS_SLLX'', Auto ''SPARC_INS_SLL'', Auto ''SPARC_INS_SMULCC'', Auto ''SPARC_INS_SMUL'',
    Auto ''SPARC_INS_SRAX'', Auto ''SPARC_INS_SRA'', Auto ''SPARC_INS_SRLX'', Auto ''SPARC_INS_SRL'',
    Auto ''SPARC_INS_STBAR'', Auto ''SPARC_INS_STB'', Auto ''SPARC_INS_STD'', Auto ''SPARC_INS_ST'',
    Auto ''SPARC_INS_STH'', Auto ''SPARC_INS_STQ'', Auto ''SPARC_INS_STX'', Auto ''SPARC_INS_SUBCC'',
    Auto ''SPARC_INS_SUBX'', Auto ''SPARC_INS_SUBXCC'', Auto ''SPARC_INS_SUB'', Auto ''SPARC_INS_SWAP'',
    Auto ''SPARC_INS_TADDCCTV'', Auto ''SPARC_INS_TADDCC'', Auto ''SPARC_INS_T'',
    Auto ''SPARC_INS_TSUBCCTV'', Auto ''SPARC_INS_TSUBCC'', Auto ''SPARC_INS_UDIVCC'',
    Auto ''SPARC_INS_UDIVX'', Auto ''SPARC_INS_UDIV'', Auto ''SPARC_INS_UMULCC'',
    Auto ''SPARC_INS_UMULXHI'', Auto ''SPARC_INS_UMUL'', Auto ''SPARC_INS_UNIMP'',
    Auto ''SPARC_INS_FCMPED'', Auto ''SPARC_INS_FCMPEQ'', Auto ''SPARC_INS_FCMPES'',
    Auto ''SPARC_INS_WR'', Auto ''SPARC_INS_XMULX'', Auto ''SPARC_INS_XMULXHI'',
    Auto ''SPARC_INS_XNORCC'', Auto ''SPARC_INS_XNOR'', Auto ''SPARC_INS_XORCC'',
    Auto ''SPARC_INS_XOR'', Auto ''SPARC_INS_RET'', Auto ''SPARC_INS_RETL'', Auto ''SPARC_INS_ENDING'']"

definition sparc_insn :: "enumerator list" where
  "sparc_insn = sparc_insn_1 @ sparc_insn_2"

section \<open>SystemZ\<close>

definition sysz_insn_1 :: "enumerator list" where
  "sysz_insn_1 = [
    Init ''SYSZ_INS_INVALID'' (Num 0), Auto ''SYSZ_INS_A'', Auto ''SYSZ_INS_ADB'',
    Auto ''SYSZ_INS_ADBR'', Auto ''SYSZ_INS_AEB'', Auto ''SYSZ_INS_AEBR'', Auto ''SYSZ_INS_AFI'',
    Auto ''SYSZ_INS_AG'', Auto ''SYSZ_INS_AGF'', Auto ''SYSZ_INS_AGFI'', Auto ''SYSZ_INS_AGFR'',
    Auto ''SYSZ_INS_AGHI'', Auto ''SYSZ_INS_AGHIK'', Auto ''SYSZ_INS_AGR'', Auto ''SYSZ_INS_AGRK'',
    Auto ''SYSZ_INS_AGSI'', Auto ''SYSZ_INS_AH'', Auto ''SYSZ_INS_AHI'', Auto ''SYSZ_INS_AHIK'',
    Auto ''SYSZ_INS_AHY'', Auto ''SYSZ_INS_AIH'', Auto ''SYSZ_INS_AL'', Auto ''SYSZ_INS_ALC'',
    Auto ''SYSZ_INS_ALCG'', Auto ''SYSZ_INS_ALCGR'', Auto ''SYSZ_INS_ALCR'', Auto ''SYSZ_INS_ALFI'',
    Auto ''SYSZ_INS_ALG'', Auto ''SYSZ_INS_ALGF'', Auto ''SYSZ_INS_ALGFI'', Auto ''SYSZ_INS_ALGFR'',
    Auto ''SYSZ_INS_ALGHSIK'', Auto ''SYSZ_INS_ALGR'', Auto ''SYSZ_INS_ALGRK'',
    Auto ''SYSZ_INS_ALHSIK'', Auto ''SYSZ_INS_ALR'', Auto ''SYSZ_INS_ALRK'', Auto ''SYSZ_INS_ALY'',
    Auto ''SYSZ_INS_AR'', Auto ''SYSZ_INS_ARK'', Auto ''SYSZ_INS_ASI'', Auto ''SYSZ_INS_AXBR'',
    Auto ''SYSZ_INS_AY'', Auto ''SYSZ_INS_BCR'', Auto ''SYSZ_INS_BRC'', Auto ''SYSZ_INS_BRCL'',
    Auto ''SYSZ_INS_CGIJ'', Auto ''SYSZ_INS_CGRJ'', Auto ''SYSZ_INS_CIJ'', Auto ''SYSZ_INS_CLGIJ'',
    Auto ''SYSZ_INS_CLGRJ'', Auto ''SYSZ_INS_CLIJ'', Auto ''SYSZ_INS_CLRJ'', Auto ''SYSZ_INS_CRJ'',
    Auto ''SYSZ_INS_BER'', Auto ''SYSZ_INS_JE'', Auto ''SYSZ_INS_JGE'', Auto ''SYSZ_INS_LOCE'',
    Auto ''SYSZ_INS_LOCGE'', Auto ''SYSZ_INS_LOCGRE'', Auto ''SYSZ_INS_LOCRE'', Auto ''SYSZ_INS_STOCE'',
    Auto ''SYSZ_INS_STOCGE'', Auto ''SYSZ_INS_BHR'', Auto ''SYSZ_INS_BHER'', Auto ''SYSZ_INS_JHE'',
    Auto ''SYSZ_INS_JGHE'', Auto ''SYSZ_INS_LOCHE'', Auto ''SYSZ_INS_LOCGHE'',
    Auto ''SYSZ_INS_LOCGRHE'', Auto ''SYSZ_INS_LOCRHE'', Auto ''SYSZ_INS_STOCHE'',
    Auto ''SYSZ_INS_STOCGHE'', Auto ''SYSZ_INS_JH'', Auto ''SYSZ_INS_JGH'', Auto ''SYSZ_INS_LOCH'',
    Auto ''SYSZ_INS_LOCGH'', Auto ''SYSZ_INS_LOCGRH'', Auto ''SYSZ_INS_LOCRH'', Auto ''SYSZ_INS_STOCH'',
    Auto ''SYSZ_INS_STOCGH'', Auto ''SYSZ_INS_CGIJNLH'', Auto ''SYSZ_INS_CGRJNLH'',
    Auto ''SYSZ_INS_CIJNLH'', Auto ''SYSZ_INS_CLGIJNLH'', Auto ''SYSZ_INS_CLGRJNLH'',
    Auto ''SYSZ_INS_CLIJNLH'', Auto ''SYSZ_INS_CLRJNLH'', Auto ''SYSZ_INS_CRJNLH'',
    Auto ''SYSZ_INS_CGIJE'', Auto ''SYSZ_INS_CGRJE'', Auto ''SYSZ_INS_CIJE'', Auto ''SYSZ_INS_CLGIJE'',
    Auto ''SYSZ_INS_CLGRJE'', Auto ''SYSZ_INS_CLIJE'', Auto ''SYSZ_INS_CLRJE'', Auto ''SYSZ_INS_CRJE'',
    Auto ''SYSZ_INS_CGIJNLE'', Auto ''SYSZ_INS_CGRJNLE'', Auto ''SYSZ_INS_CIJNLE'',
    Auto ''SYSZ_INS_CLGIJNLE'', Auto ''SYSZ_INS_CLGRJNLE'', Auto ''SYSZ_INS_CLIJNLE'',
    Auto ''SYSZ_INS_CLRJNLE'', Auto ''SYSZ_INS_CRJNLE'', Auto ''SYSZ_INS_CGIJH'',
    Auto ''SYSZ_INS_CGRJH'', Auto ''SYSZ_INS_CIJH'', Auto ''SYSZ_INS_CLGIJH'', Auto ''SYSZ_INS_CLGRJH'',
    Auto ''SYSZ_INS_CLIJH'', Auto ''SYSZ_INS_CLRJH'', Auto ''SYSZ_INS_CRJH'', Auto ''SYSZ_INS_CGIJNL'',
    Auto ''SYSZ_INS_CGRJNL'', Auto ''SYSZ_INS_CIJNL'', Auto ''SYSZ_INS_CLGIJNL'',
    Auto ''SYSZ_INS_CLGRJNL'', Auto ''SYSZ_INS_CLIJNL'', Auto ''SYSZ_INS_CLRJNL'',
    Auto ''SYSZ_INS_CRJNL'', Auto ''SYSZ_INS_CGIJHE'', Auto ''SYSZ_INS_CGRJHE'',
    Auto ''SYSZ_INS_CIJHE'', Auto ''SYSZ_INS_CLGIJHE'', Auto ''SYSZ_INS_CLGRJHE'',
    Auto ''SYSZ_INS_CLIJHE'', Auto ''SYSZ_INS_CLRJHE'', Auto ''SYSZ_INS_CRJHE'',
    Auto ''SYSZ_INS_CGIJNHE'', Auto ''SYSZ_INS_CGRJNHE'', Auto ''SYSZ_INS_CIJNHE'',
    Auto ''SYSZ_INS_CLGIJNHE'', Auto ''SYSZ_INS_CLGRJNHE'', Auto ''SYSZ_INS_CLIJNHE'',
    Auto ''SYSZ_INS_CLRJNHE'', Auto ''SYSZ_INS_CRJNHE'', Auto ''SYSZ_INS_CGIJL'',
    Auto ''SYSZ_INS_CGRJL'', Auto ''SYSZ_INS_CIJL'', Auto ''SYSZ_INS_CLGIJL'', Auto ''SYSZ_INS_CLGRJL'',
    Auto ''SYSZ_INS_CLIJL'', Auto ''SYSZ_INS_CLRJL'', Auto ''SYSZ_INS_CRJL'', Auto ''SYSZ_INS_CGIJNH'',
    Auto ''SYSZ_INS_CGRJNH'', Auto ''SYSZ_INS_CIJNH'']"

definition sysz_insn_2 :: "enumerator list" where
  "sysz_insn_2 = [
    Auto ''SYSZ_INS_CLGIJNH'', Auto ''SYSZ_INS_CLGRJNH'', Auto ''SYSZ_INS_CLIJNH'',
    Auto ''SYSZ_INS_CLRJNH'', Auto ''SYSZ_INS_CRJNH'', Auto ''SYSZ_INS_CGIJLE'',
    Auto ''SYSZ_INS_CGRJLE'', Auto ''SYSZ_INS_CIJLE'', Auto ''SYSZ_INS_CLGIJLE'',
    Auto ''SYSZ_INS_CLGRJLE'', Auto ''SYSZ_INS_CLIJLE'', Auto ''SYSZ_INS_CLRJLE'',
    Auto ''SYSZ_INS_CRJLE'', Auto ''SYSZ_INS_CGIJNE'', Auto ''SYSZ_INS_CGRJNE'',
    Auto ''SYSZ_INS_CIJNE'', Auto ''SYSZ_INS_CLGIJNE'', Auto ''SYSZ_INS_CLGRJNE'',
    Auto ''SYSZ_INS_CLIJNE'', Auto ''SYSZ_INS_CLRJNE'', Auto ''SYSZ_INS_CRJNE'',
    Auto ''SYSZ_INS_CGIJLH'', Auto ''SYSZ_INS_CGRJLH'', Auto ''SYSZ_INS_CIJLH'',
    Auto ''SYSZ_INS_CLGIJLH'', Auto ''SYSZ_INS_CLGRJLH'', Auto ''SYSZ_INS_CLIJLH'',
    Auto ''SYSZ_INS_CLRJLH'', Auto ''SYSZ_INS_CRJLH'', Auto ''SYSZ_INS_BLR'', Auto ''SYSZ_INS_BLER'',
    Auto ''SYSZ_INS_JLE'', Auto ''SYSZ_INS_JGLE'', Auto ''SYSZ_INS_LOCLE'', Auto ''SYSZ_INS_LOCGLE'',
    Auto ''SYSZ_INS_LOCGRLE'', Auto ''SYSZ_INS_LOCRLE'', Auto ''SYSZ_INS_STOCLE'',
    Auto ''SYSZ_INS_STOCGLE'', Auto ''SYSZ_INS_BLHR'', Auto ''SYSZ_INS_JLH'', Auto ''SYSZ_INS_JGLH'',
    Auto ''SYSZ_INS_LOCLH'', Auto ''SYSZ_INS_LOCGLH'', Auto ''SYSZ_INS_LOCGRLH'',
    Auto ''SYSZ_INS_LOCRLH'', Auto ''SYSZ_INS_STOCLH'', Auto ''SYSZ_INS_STOCGLH'', Auto ''SYSZ_INS_JL'',
    Auto ''SYSZ_INS_JGL'', Auto ''SYSZ_INS_LOCL'', Auto ''SYSZ_INS_LOCGL'', Auto ''SYSZ_INS_LOCGRL'',
    Auto ''SYSZ_INS_LOCRL'', Auto ''SYSZ_INS_LOC'', Auto ''SYSZ_INS_LOCG'', Auto ''SYSZ_INS_LOCGR'',
    Auto ''SYSZ_INS_LOCR'', Auto ''SYSZ_INS_STOCL'', Auto ''SYSZ_INS_STOCGL'', Auto ''SYSZ_INS_BNER'',
    Auto ''SYSZ_INS_JNE'', Auto ''SYSZ_INS_JGNE'', Auto ''SYSZ_INS_LOCNE'', Auto ''SYSZ_INS_LOCGNE'',
    Auto ''SYSZ_INS_LOCGRNE'', Auto ''SYSZ_INS_LOCRNE'', Auto ''SYSZ_INS_STOCNE'',
    Auto ''SYSZ_INS_STOCGNE'', Auto ''SYSZ_INS_BNHR'', Auto ''SYSZ_INS_BNHER'', Auto ''SYSZ_INS_JNHE'',
    Auto ''SYSZ_INS_JGNHE'', Auto ''SYSZ_INS_LOCNHE'', Auto ''SYSZ_INS_LOCGNHE'',
    Auto ''SYSZ_INS_LOCGRNHE'', Auto ''SYSZ_INS_LOCRNHE'', Auto ''SYSZ_INS_STOCNHE'',
    Auto ''SYSZ_INS_STOCGNHE'', Auto ''SYSZ_INS_JNH'', Auto ''SYSZ_INS_JGNH'', Auto ''SYSZ_INS_LOCNH'',
    Auto ''SYSZ_INS_LOCGNH'', Auto ''SYSZ_INS_LOCGRNH'', Auto ''SYSZ_INS_LOCRNH'',
    Auto ''SYSZ_INS_STOCNH'', Auto ''SYSZ_INS_STOCGNH'', Auto ''SYSZ_INS_BNLR'',
    Auto ''SYSZ_INS_BNLER'', Auto ''SYSZ_INS_JNLE'', Auto ''SYSZ_INS_JGNLE'', Auto ''SYSZ_INS_LOCNLE'',
    Auto ''SYSZ_INS_LOCGNLE'', Auto ''SYSZ_INS_LOCGRNLE'', Auto ''SYSZ_INS_LOCRNLE'',
    Auto ''SYSZ_INS_STOCNLE'', Auto ''SYSZ_INS_STOCGNLE'', Auto ''SYSZ_INS_BNLHR'',
    Auto ''SYSZ_INS_JNLH'', Auto ''SYSZ_INS_JGNLH'', Auto ''SYSZ_INS_LOCNLH'',
    Auto ''SYSZ_INS_LOCGNLH'', Auto ''SYSZ_INS_LOCGRNLH'', Auto ''SYSZ_INS_LOCRNLH'',
    Auto ''SYSZ_INS_STOCNLH'', Auto ''SYSZ_INS_STOCGNLH'', Auto ''SYSZ_INS_JNL'',
    Auto ''SYSZ_INS_JGNL'', Auto ''SYSZ_INS_LOCNL'', Auto ''SYSZ_INS_LOCGNL'',
    Auto ''SYSZ_INS_LOCGRNL'', Auto ''SYSZ_INS_LOCRNL'', Auto ''SYSZ_INS_STOCNL'',
    Auto ''SYSZ_INS_STOCGNL'', Auto ''SYSZ_INS_BNOR'', Auto ''SYSZ_INS_JNO'', Auto ''SYSZ_INS_JGNO'',
    Auto ''SYSZ_INS_LOCNO'', Auto ''SYSZ_INS_LOCGNO'', Auto ''SYSZ_INS_LOCGRNO'',
    Auto ''SYSZ_INS_LOCRNO'', Auto ''SYSZ_INS_STOCNO'', Auto ''SYSZ_INS_STOCGNO'',
    Auto ''SYSZ_INS_BOR'', Auto ''SYSZ_INS_JO'', Auto ''SYSZ_INS_JGO'', Auto ''SYSZ_INS_LOCO'',
    Auto ''SYSZ_INS_LOCGO'', Auto ''SYSZ_INS_LOCGRO'', Auto ''SYSZ_INS_LOCRO'', Auto ''SYSZ_INS_STOCO'',
    Auto ''SYSZ_INS_STOCGO'', Auto ''SYSZ_INS_STOC'', Auto ''SYSZ_INS_STOCG'', Auto ''SYSZ_INS_BASR'',
    Auto ''SYSZ_INS_BR'', Auto ''SYSZ_INS_BRAS'', Auto ''SYSZ_INS_BRASL'', Auto ''SYSZ_INS_J'',
    Auto ''SYSZ_INS_JG'', Auto ''SYSZ_INS_BRCT'', Auto ''SYSZ_INS_BRCTG'', Auto ''SYSZ_INS_C'',
    Auto ''SYSZ_INS_CDB'', Auto ''SYSZ_INS_CDBR'', Auto ''SYSZ_INS_CDFBR'', Auto ''SYSZ_INS_CDGBR'',
    Auto ''SYSZ_INS_CDLFBR'', Auto ''SYSZ_INS_CDLGBR'', Auto ''SYSZ_INS_CEB'']"

definition sysz_insn_3 :: "enumerator list" where
  "sysz_insn_3 = [
    Auto ''SYSZ_INS_CEBR'', Auto ''SYSZ_INS_CEFBR'', Auto ''SYSZ_INS_CEGBR'', Auto ''SYSZ_INS_CELFBR'',
    Auto ''SYSZ_INS_CELGBR'', Auto ''SYSZ_INS_CFDBR'', Auto ''SYSZ_INS_CFEBR'', Auto ''SYSZ_INS_CFI'',
    Auto ''SYSZ_INS_CFXBR'', Auto ''SYSZ_INS_CG'', Auto ''SYSZ_INS_CGDBR'', Auto ''SYSZ_INS_CGEBR'',
    Auto ''SYSZ_INS_CGF'', Auto ''SYSZ_INS_CGFI'', Auto ''SYSZ_INS_CGFR'', Auto ''SYSZ_INS_CGFRL'',
    Auto ''SYSZ_INS_CGH'', Auto ''SYSZ_INS_CGHI'', Auto ''SYSZ_INS_CGHRL'', Auto ''SYSZ_INS_CGHSI'',
    Auto ''SYSZ_INS_CGR'', Auto ''SYSZ_INS_CGRL'', Auto ''SYSZ_INS_CGXBR'', Auto ''SYSZ_INS_CH'',
    Auto ''SYSZ_INS_CHF'', Auto ''SYSZ_INS_CHHSI'', Auto ''SYSZ_INS_CHI'', Auto ''SYSZ_INS_CHRL'',
    Auto ''SYSZ_INS_CHSI'', Auto ''SYSZ_INS_CHY'', Auto ''SYSZ_INS_CIH'', Auto ''SYSZ_INS_CL'',
    Auto ''SYSZ_INS_CLC'', Auto ''SYSZ_INS_CLFDBR'', Auto ''SYSZ_INS_CLFEBR'', Auto ''SYSZ_INS_CLFHSI'',
    Auto ''SYSZ_INS_CLFI'', Auto ''SYSZ_INS_CLFXBR'', Auto ''SYSZ_INS_CLG'', Auto ''SYSZ_INS_CLGDBR'',
    Auto ''SYSZ_INS_CLGEBR'', Auto ''SYSZ_INS_CLGF'', Auto ''SYSZ_INS_CLGFI'', Auto ''SYSZ_INS_CLGFR'',
    Auto ''SYSZ_INS_CLGFRL'', Auto ''SYSZ_INS_CLGHRL'', Auto ''SYSZ_INS_CLGHSI'',
    Auto ''SYSZ_INS_CLGR'', Auto ''SYSZ_INS_CLGRL'', Auto ''SYSZ_INS_CLGXBR'', Auto ''SYSZ_INS_CLHF'',
    Auto ''SYSZ_INS_CLHHSI'', Auto ''SYSZ_INS_CLHRL'', Auto ''SYSZ_INS_CLI'', Auto ''SYSZ_INS_CLIH'',
    Auto ''SYSZ_INS_CLIY'', Auto ''SYSZ_INS_CLR'', Auto ''SYSZ_INS_CLRL'', Auto ''SYSZ_INS_CLST'',
    Auto ''SYSZ_INS_CLY'', Auto ''SYSZ_INS_CPSDR'', Auto ''SYSZ_INS_CR'', Auto ''SYSZ_INS_CRL'',
    Auto ''SYSZ_INS_CS'', Auto ''SYSZ_INS_CSG'', Auto ''SYSZ_INS_CSY'', Auto ''SYSZ_INS_CXBR'',
    Auto ''SYSZ_INS_CXFBR'', Auto ''SYSZ_INS_CXGBR'', Auto ''SYSZ_INS_CXLFBR'',
    Auto ''SYSZ_INS_CXLGBR'', Auto ''SYSZ_INS_CY'', Auto ''SYSZ_INS_DDB'', Auto ''SYSZ_INS_DDBR'',
    Auto ''SYSZ_INS_DEB'', Auto ''SYSZ_INS_DEBR'', Auto ''SYSZ_INS_DL'', Auto ''SYSZ_INS_DLG'',
    Auto ''SYSZ_INS_DLGR'', Auto ''SYSZ_INS_DLR'', Auto ''SYSZ_INS_DSG'', Auto ''SYSZ_INS_DSGF'',
    Auto ''SYSZ_INS_DSGFR'', Auto ''SYSZ_INS_DSGR'', Auto ''SYSZ_INS_DXBR'', Auto ''SYSZ_INS_EAR'',
    Auto ''SYSZ_INS_FIDBR'', Auto ''SYSZ_INS_FIDBRA'', Auto ''SYSZ_INS_FIEBR'',
    Auto ''SYSZ_INS_FIEBRA'', Auto ''SYSZ_INS_FIXBR'', Auto ''SYSZ_INS_FIXBRA'',
    Auto ''SYSZ_INS_FLOGR'', Auto ''SYSZ_INS_IC'', Auto ''SYSZ_INS_ICY'', Auto ''SYSZ_INS_IIHF'',
    Auto ''SYSZ_INS_IIHH'', Auto ''SYSZ_INS_IIHL'', Auto ''SYSZ_INS_IILF'', Auto ''SYSZ_INS_IILH'',
    Auto ''SYSZ_INS_IILL'', Auto ''SYSZ_INS_IPM'', Auto ''SYSZ_INS_L'', Auto ''SYSZ_INS_LA'',
    Auto ''SYSZ_INS_LAA'', Auto ''SYSZ_INS_LAAG'', Auto ''SYSZ_INS_LAAL'', Auto ''SYSZ_INS_LAALG'',
    Auto ''SYSZ_INS_LAN'', Auto ''SYSZ_INS_LANG'', Auto ''SYSZ_INS_LAO'', Auto ''SYSZ_INS_LAOG'',
    Auto ''SYSZ_INS_LARL'', Auto ''SYSZ_INS_LAX'', Auto ''SYSZ_INS_LAXG'', Auto ''SYSZ_INS_LAY'',
    Auto ''SYSZ_INS_LB'', Auto ''SYSZ_INS_LBH'', Auto ''SYSZ_INS_LBR'', Auto ''SYSZ_INS_LCDBR'',
    Auto ''SYSZ_INS_LCEBR'', Auto ''SYSZ_INS_LCGFR'', Auto ''SYSZ_INS_LCGR'', Auto ''SYSZ_INS_LCR'',
    Auto ''SYSZ_INS_LCXBR'', Auto ''SYSZ_INS_LD'', Auto ''SYSZ_INS_LDEB'', Auto ''SYSZ_INS_LDEBR'',
    Auto ''SYSZ_INS_LDGR'', Auto ''SYSZ_INS_LDR'', Auto ''SYSZ_INS_LDXBR'', Auto ''SYSZ_INS_LDXBRA'',
    Auto ''SYSZ_INS_LDY'', Auto ''SYSZ_INS_LE'', Auto ''SYSZ_INS_LEDBR'', Auto ''SYSZ_INS_LEDBRA'',
    Auto ''SYSZ_INS_LER'', Auto ''SYSZ_INS_LEXBR'', Auto ''SYSZ_INS_LEXBRA'', Auto ''SYSZ_INS_LEY'',
    Auto ''SYSZ_INS_LFH'', Auto ''SYSZ_INS_LG'', Auto ''SYSZ_INS_LGB'', Auto ''SYSZ_INS_LGBR'',
    Auto ''SYSZ_INS_LGDR'', Auto ''SYSZ_INS_LGF'', Auto ''SYSZ_INS_LGFI'', Auto ''SYSZ_INS_LGFR'',
    Auto ''SYSZ_INS_LGFRL'', Auto ''SYSZ_INS_LGH'']"

definition sysz_insn_4 :: "enumerator list" where
  "sysz_insn_4 = [
    Auto ''SYSZ_INS_LGHI'', Auto ''SYSZ_INS_LGHR'', Auto ''SYSZ_INS_LGHRL'', Auto ''SYSZ_INS_LGR'',
    Auto ''SYSZ_INS_LGRL'', Auto ''SYSZ_INS_LH'', Auto ''SYSZ_INS_LHH'', Auto ''SYSZ_INS_LHI'',
    Auto ''SYSZ_INS_LHR'', Auto ''SYSZ_INS_LHRL'', Auto ''SYSZ_INS_LHY'', Auto ''SYSZ_INS_LLC'',
    Auto ''SYSZ_INS_LLCH'', Auto ''SYSZ_INS_LLCR'', Auto ''SYSZ_INS_LLGC'', Auto ''SYSZ_INS_LLGCR'',
    Auto ''SYSZ_INS_LLGF'', Auto ''SYSZ_INS_LLGFR'', Auto ''SYSZ_INS_LLGFRL'', Auto ''SYSZ_INS_LLGH'',
    Auto ''SYSZ_INS_LLGHR'', Auto ''SYSZ_INS_LLGHRL'', Auto ''SYSZ_INS_LLH'', Auto ''SYSZ_INS_LLHH'',
    Auto ''SYSZ_INS_LLHR'', Auto ''SYSZ_INS_LLHRL'', Auto ''SYSZ_INS_LLIHF'', Auto ''SYSZ_INS_LLIHH'',
    Auto ''SYSZ_INS_LLIHL'', Auto ''SYSZ_INS_LLILF'', Auto ''SYSZ_INS_LLILH'', Auto ''SYSZ_INS_LLILL'',
    Auto ''SYSZ_INS_LMG'', Auto ''SYSZ_INS_LNDBR'', Auto ''SYSZ_INS_LNEBR'', Auto ''SYSZ_INS_LNGFR'',
    Auto ''SYSZ_INS_LNGR'', Auto ''SYSZ_INS_LNR'', Auto ''SYSZ_INS_LNXBR'', Auto ''SYSZ_INS_LPDBR'',
    Auto ''SYSZ_INS_LPEBR'', Auto ''SYSZ_INS_LPGFR'', Auto ''SYSZ_INS_LPGR'', Auto ''SYSZ_INS_LPR'',
    Auto ''SYSZ_INS_LPXBR'', Auto ''SYSZ_INS_LR'', Auto ''SYSZ_INS_LRL'', Auto ''SYSZ_INS_LRV'',
    Auto ''SYSZ_INS_LRVG'', Auto ''SYSZ_INS_LRVGR'', Auto ''SYSZ_INS_LRVR'', Auto ''SYSZ_INS_LT'',
    Auto ''SYSZ_INS_LTDBR'', Auto ''SYSZ_INS_LTEBR'', Auto ''SYSZ_INS_LTG'', Auto ''SYSZ_INS_LTGF'',
    Auto ''SYSZ_INS_LTGFR'', Auto ''SYSZ_INS_LTGR'', Auto ''SYSZ_INS_LTR'', Auto ''SYSZ_INS_LTXBR'',
    Auto ''SYSZ_INS_LXDB'', Auto ''SYSZ_INS_LXDBR'', Auto ''SYSZ_INS_LXEB'', Auto ''SYSZ_INS_LXEBR'',
    Auto ''SYSZ_INS_LXR'', Auto ''SYSZ_INS_LY'', Auto ''SYSZ_INS_LZDR'', Auto ''SYSZ_INS_LZER'',
    Auto ''SYSZ_INS_LZXR'', Auto ''SYSZ_INS_MADB'', Auto ''SYSZ_INS_MADBR'', Auto ''SYSZ_INS_MAEB'',
    Auto ''SYSZ_INS_MAEBR'', Auto ''SYSZ_INS_MDB'', Auto ''SYSZ_INS_MDBR'', Auto ''SYSZ_INS_MDEB'',
    Auto ''SYSZ_INS_MDEBR'', Auto ''SYSZ_INS_MEEB'', Auto ''SYSZ_INS_MEEBR'', Auto ''SYSZ_INS_MGHI'',
    Auto ''SYSZ_INS_MH'', Auto ''SYSZ_INS_MHI'', Auto ''SYSZ_INS_MHY'', Auto ''SYSZ_INS_MLG'',
    Auto ''SYSZ_INS_MLGR'', Auto ''SYSZ_INS_MS'', Auto ''SYSZ_INS_MSDB'', Auto ''SYSZ_INS_MSDBR'',
    Auto ''SYSZ_INS_MSEB'', Auto ''SYSZ_INS_MSEBR'', Auto ''SYSZ_INS_MSFI'', Auto ''SYSZ_INS_MSG'',
    Auto ''SYSZ_INS_MSGF'', Auto ''SYSZ_INS_MSGFI'', Auto ''SYSZ_INS_MSGFR'', Auto ''SYSZ_INS_MSGR'',
    Auto ''SYSZ_INS_MSR'', Auto ''SYSZ_INS_MSY'', Auto ''SYSZ_INS_MVC'', Auto ''SYSZ_INS_MVGHI'',
    Auto ''SYSZ_INS_MVHHI'', Auto ''SYSZ_INS_MVHI'', Auto ''SYSZ_INS_MVI'', Auto ''SYSZ_INS_MVIY'',
    Auto ''SYSZ_INS_MVST'', Auto ''SYSZ_INS_MXBR'', Auto ''SYSZ_INS_MXDB'', Auto ''SYSZ_INS_MXDBR'',
    Auto ''SYSZ_INS_N'', Auto ''SYSZ_INS_NC'', Auto ''SYSZ_INS_NG'', Auto ''SYSZ_INS_NGR'',
    Auto ''SYSZ_INS_NGRK'', Auto ''SYSZ_INS_NI'', Auto ''SYSZ_INS_NIHF'', Auto ''SYSZ_INS_NIHH'',
    Auto ''SYSZ_INS_NIHL'', Auto ''SYSZ_INS_NILF'', Auto ''SYSZ_INS_NILH'', Auto ''SYSZ_INS_NILL'',
    Auto ''SYSZ_INS_NIY'', Auto ''SYSZ_INS_NR'', Auto ''SYSZ_INS_NRK'', Auto ''SYSZ_INS_NY'',
    Auto ''SYSZ_INS_O'', Auto ''SYSZ_INS_OC'', Auto ''SYSZ_INS_OG'', Auto ''SYSZ_INS_OGR'',
    Auto ''SYSZ_INS_OGRK'', Auto ''SYSZ_INS_OI'', Auto ''SYSZ_INS_OIHF'', Auto ''SYSZ_INS_OIHH'',
    Auto ''SYSZ_INS_OIHL'', Auto ''SYSZ_INS_OILF'', Auto ''SYSZ_INS_OILH'', Auto ''SYSZ_INS_OILL'',
    Auto ''SYSZ_INS_OIY'', Auto ''SYSZ_INS_OR'', Auto ''SYSZ_INS_ORK'', Auto ''SYSZ_INS_OY'',
    Auto ''SYSZ_INS_PFD'', Auto ''SYSZ_INS_PFDRL'', Auto ''SYSZ_INS_RISBG'', Auto ''SYSZ_INS_RISBHG'',
    Auto ''SYSZ_INS_RISBLG'', Auto ''SYSZ_INS_RLL'', Auto ''SYSZ_INS_RLLG'', Auto ''SYSZ_INS_RNSBG'',
    Auto ''SYSZ_INS_ROSBG'', Auto ''SYSZ_INS_RXSBG'']"

definition sysz_insn_5 :: "enumerator list" where
  "sysz_insn_5 = [
    Auto ''SYSZ_INS_S'', Auto ''SYSZ_INS_SDB'', Auto ''SYSZ_INS_SDBR'', Auto ''SYSZ_INS_SEB'',
    Auto ''SYSZ_INS_SEBR'', Auto ''SYSZ_INS_SG'', Auto ''SYSZ_INS_SGF'', Auto ''SYSZ_INS_SGFR'',
    Auto ''SYSZ_INS_SGR'', Auto ''SYSZ_INS_SGRK'', Auto ''SYSZ_INS_SH'', Auto ''SYSZ_INS_SHY'',
    Auto ''SYSZ_INS_SL'', Auto ''SYSZ_INS_SLB'', Auto ''SYSZ_INS_SLBG'', Auto ''SYSZ_INS_SLBR'',
    Auto ''SYSZ_INS_SLFI'', Auto ''SYSZ_INS_SLG'', Auto ''SYSZ_INS_SLBGR'', Auto ''SYSZ_INS_SLGF'',
    Auto ''SYSZ_INS_SLGFI'', Auto ''SYSZ_INS_SLGFR'', Auto ''SYSZ_INS_SLGR'', Auto ''SYSZ_INS_SLGRK'',
    Auto ''SYSZ_INS_SLL'', Auto ''SYSZ_INS_SLLG'', Auto ''SYSZ_INS_SLLK'', Auto ''SYSZ_INS_SLR'',
    Auto ''SYSZ_INS_SLRK'', Auto ''SYSZ_INS_SLY'', Auto ''SYSZ_INS_SQDB'', Auto ''SYSZ_INS_SQDBR'',
    Auto ''SYSZ_INS_SQEB'', Auto ''SYSZ_INS_SQEBR'', Auto ''SYSZ_INS_SQXBR'', Auto ''SYSZ_INS_SR'',
    Auto ''SYSZ_INS_SRA'', Auto ''SYSZ_INS_SRAG'', Auto ''SYSZ_INS_SRAK'', Auto ''SYSZ_INS_SRK'',
    Auto ''SYSZ_INS_SRL'', Auto ''SYSZ_INS_SRLG'', Auto ''SYSZ_INS_SRLK'', Auto ''SYSZ_INS_SRST'',
    Auto ''SYSZ_INS_ST'', Auto ''SYSZ_INS_STC'', Auto ''SYSZ_INS_STCH'', Auto ''SYSZ_INS_STCY'',
    Auto ''SYSZ_INS_STD'', Auto ''SYSZ_INS_STDY'', Auto ''SYSZ_INS_STE'', Auto ''SYSZ_INS_STEY'',
    Auto ''SYSZ_INS_STFH'', Auto ''SYSZ_INS_STG'', Auto ''SYSZ_INS_STGRL'', Auto ''SYSZ_INS_STH'',
    Auto ''SYSZ_INS_STHH'', Auto ''SYSZ_INS_STHRL'', Auto ''SYSZ_INS_STHY'', Auto ''SYSZ_INS_STMG'',
    Auto ''SYSZ_INS_STRL'', Auto ''SYSZ_INS_STRV'', Auto ''SYSZ_INS_STRVG'', Auto ''SYSZ_INS_STY'',
    Auto ''SYSZ_INS_SXBR'', Auto ''SYSZ_INS_SY'', Auto ''SYSZ_INS_TM'', Auto ''SYSZ_INS_TMHH'',
    Auto ''SYSZ_INS_TMHL'', Auto ''SYSZ_INS_TMLH'', Auto ''SYSZ_INS_TMLL'', Auto ''SYSZ_INS_TMY'',
    Auto ''SYSZ_INS_X'', Auto ''SYSZ_INS_XC'', Auto ''SYSZ_INS_XG'', Auto ''SYSZ_INS_XGR'',
    Auto ''SYSZ_INS_XGRK'', Auto ''SYSZ_INS_XI'', Auto ''SYSZ_INS_XIHF'', Auto ''SYSZ_INS_XILF'',
    Auto ''SYSZ_INS_XIY'', Auto ''SYSZ_INS_XR'', Auto ''SYSZ_INS_XRK'', Auto ''SYSZ_INS_XY'',
    Auto ''SYSZ_INS_ENDING'']"

definition sysz_insn :: "enumerator list" where
  "sysz_insn = sysz_insn_1 @ sysz_insn_2 @ sysz_insn_3 @ sysz_insn_4 @ sysz_insn_5"

section \<open>XCore\<close>

definition xcore_insn :: "enumerator list" where
  "xcore_insn = [
    Init ''XCORE_INS_INVALID'' (Num 0), Auto ''XCORE_INS_ADD'', Auto ''XCORE_INS_ANDNOT'',
    Auto ''XCORE_INS_AND'', Auto ''XCORE_INS_ASHR'', Auto ''XCORE_INS_BAU'', Auto ''XCORE_INS_BITREV'',
    Auto ''XCORE_INS_BLA'', Auto ''XCORE_INS_BLAT'', Auto ''XCORE_INS_BL'', Auto ''XCORE_INS_BF'',
    Auto ''XCORE_INS_BT'', Auto ''XCORE_INS_BU'', Auto ''XCORE_INS_BRU'', Auto ''XCORE_INS_BYTEREV'',
    Auto ''XCORE_INS_CHKCT'', Auto ''XCORE_INS_CLRE'', Auto ''XCORE_INS_CLRPT'',
    Auto ''XCORE_INS_CLRSR'', Auto ''XCORE_INS_CLZ'', Auto ''XCORE_INS_CRC8'', Auto ''XCORE_INS_CRC32'',
    Auto ''XCORE_INS_DCALL'', Auto ''XCORE_INS_DENTSP'', Auto ''XCORE_INS_DGETREG'',
    Auto ''XCORE_INS_DIVS'', Auto ''XCORE_INS_DIVU'', Auto ''XCORE_INS_DRESTSP'',
    Auto ''XCORE_INS_DRET'', Auto ''XCORE_INS_ECALLF'', Auto ''XCORE_INS_ECALLT'',
    Auto ''XCORE_INS_EDU'', Auto ''XCORE_INS_EEF'', Auto ''XCORE_INS_EET'', Auto ''XCORE_INS_EEU'',
    Auto ''XCORE_INS_ENDIN'', Auto ''XCORE_INS_ENTSP'', Auto ''XCORE_INS_EQ'', Auto ''XCORE_INS_EXTDP'',
    Auto ''XCORE_INS_EXTSP'', Auto ''XCORE_INS_FREER'', Auto ''XCORE_INS_FREET'',
    Auto ''XCORE_INS_GETD'', Auto ''XCORE_INS_GET'', Auto ''XCORE_INS_GETN'', Auto ''XCORE_INS_GETR'',
    Auto ''XCORE_INS_GETSR'', Auto ''XCORE_INS_GETST'', Auto ''XCORE_INS_GETTS'',
    Auto ''XCORE_INS_INCT'', Auto ''XCORE_INS_INIT'', Auto ''XCORE_INS_INPW'', Auto ''XCORE_INS_INSHR'',
    Auto ''XCORE_INS_INT'', Auto ''XCORE_INS_IN'', Auto ''XCORE_INS_KCALL'', Auto ''XCORE_INS_KENTSP'',
    Auto ''XCORE_INS_KRESTSP'', Auto ''XCORE_INS_KRET'', Auto ''XCORE_INS_LADD'',
    Auto ''XCORE_INS_LD16S'', Auto ''XCORE_INS_LD8U'', Auto ''XCORE_INS_LDA16'',
    Auto ''XCORE_INS_LDAP'', Auto ''XCORE_INS_LDAW'', Auto ''XCORE_INS_LDC'', Auto ''XCORE_INS_LDW'',
    Auto ''XCORE_INS_LDIVU'', Auto ''XCORE_INS_LMUL'', Auto ''XCORE_INS_LSS'', Auto ''XCORE_INS_LSUB'',
    Auto ''XCORE_INS_LSU'', Auto ''XCORE_INS_MACCS'', Auto ''XCORE_INS_MACCU'',
    Auto ''XCORE_INS_MJOIN'', Auto ''XCORE_INS_MKMSK'', Auto ''XCORE_INS_MSYNC'',
    Auto ''XCORE_INS_MUL'', Auto ''XCORE_INS_NEG'', Auto ''XCORE_INS_NOT'', Auto ''XCORE_INS_OR'',
    Auto ''XCORE_INS_OUTCT'', Auto ''XCORE_INS_OUTPW'', Auto ''XCORE_INS_OUTSHR'',
    Auto ''XCORE_INS_OUTT'', Auto ''XCORE_INS_OUT'', Auto ''XCORE_INS_PEEK'', Auto ''XCORE_INS_REMS'',
    Auto ''XCORE_INS_REMU'', Auto ''XCORE_INS_RETSP'', Auto ''XCORE_INS_SETCLK'',
    Auto ''XCORE_INS_SET'', Auto ''XCORE_INS_SETC'', Auto ''XCORE_INS_SETD'', Auto ''XCORE_INS_SETEV'',
    Auto ''XCORE_INS_SETN'', Auto ''XCORE_INS_SETPSC'', Auto ''XCORE_INS_SETPT'',
    Auto ''XCORE_INS_SETRDY'', Auto ''XCORE_INS_SETSR'', Auto ''XCORE_INS_SETTW'',
    Auto ''XCORE_INS_SETV'', Auto ''XCORE_INS_SEXT'', Auto ''XCORE_INS_SHL'', Auto ''XCORE_INS_SHR'',
    Auto ''XCORE_INS_SSYNC'', Auto ''XCORE_INS_ST16'', Auto ''XCORE_INS_ST8'', Auto ''XCORE_INS_STW'',
    Auto ''XCORE_INS_SUB'', Auto ''XCORE_INS_SYNCR'', Auto ''XCORE_INS_TESTCT'',
    Auto ''XCORE_INS_TESTLCL'', Auto ''XCORE_INS_TESTWCT'', Auto ''XCORE_INS_TSETMR'',
    Auto ''XCORE_INS_START'', Auto ''XCORE_INS_WAITEF'', Auto ''XCORE_INS_WAITET'',
    Auto ''XCORE_INS_WAITEU'', Auto ''XCORE_INS_XOR'', Auto ''XCORE_INS_ZEXT'',
    Auto ''XCORE_INS_ENDING'']"

end
