(* ===== verification/Capstone_Instructions.thy ===== *)
theory Capstone_Instructions
  imports Capstone_X86_Insn Capstone_Arm_Insn Capstone_Mips_Ppc_Insn Capstone_Others_Insn
begin

text \<open>
  The instruction identifiers of all architectures: each enumeration counts up from 0 without gaps, and
  its last enumerator is the number of identifiers. The enumerations are long, so the facts about their
  pieces are proved piece by piece.
\<close>

definition identifiers_dense :: "enumerator list \<Rightarrow> nat \<Rightarrow> string \<Rightarrow> bool" where
  "identifiers_dense es n e \<longleftrightarrow> map_option (map snd) (enum_consts es) = Some [0..int n] \<and>
     map_option last (enum_consts es) = Some (e, int n)"

lemma starts_at_0_append: "starts_at_0 es \<Longrightarrow> es \<noteq> [] \<Longrightarrow> list_all is_auto fs \<Longrightarrow> starts_at_0 (es @ fs)"
  by (cases es rule: starts_at_0.cases) auto

lemma identifiers_denseI:
  assumes "starts_at_0 es" and "length es = Suc n" and "enum_name (last es) = e"
  shows "identifiers_dense es n e"
proof -
  have c: "enum_consts es = Some (number_from 0 es)" using assms(1) by (rule enum_consts_starts_at_0)
  have "es \<noteq> []" using assms(2) by auto
  moreover from this have "number_from 0 es \<noteq> []" by (cases es) simp_all
  ultimately have "last (number_from 0 es) = (enum_name (last es), int n)"
    using assms(2) by (simp add: last_conv_nth nth_number_from)
  with c assms(2,3) show ?thesis by (simp add: identifiers_dense_def map_snd_number_from)
qed

text \<open>
  The pieces are walked through once: \<open>plain_run k l es\<close> counts on from \<open>k\<close> and remembers the last name, as long
  as no enumerator has an expression.
\<close>

fun plain_run :: "nat \<Rightarrow> string \<Rightarrow> enumerator list \<Rightarrow> (nat \<times> string) option" where
  "plain_run k l [] = Some (k, l)"
| "plain_run k l (Auto x # es) = plain_run (k + 1) x es"
| "plain_run k l (Init x e # es) = None"

lemma plain_run_sound:
  "plain_run k l es = Some (n, e) \<Longrightarrow> list_all is_auto es \<and> n = k + length es \<and> e = (if es = [] then l else enum_name (last es))"
  by (induction k l es rule: plain_run.induct) auto

lemma plain_run_append:
  "plain_run k l es = Some (m, x) \<Longrightarrow> plain_run k l (es @ fs) = plain_run m x fs"
  by (induction k l es rule: plain_run.induct) auto

text \<open>The run of an enumeration whose first enumerator is set to 0.\<close>

definition enum_run :: "enumerator list \<Rightarrow> (nat \<times> string) option" where
  "enum_run es = (case es of Init x (Num v) # fs \<Rightarrow> if v = 0 then plain_run 1 x fs else None | _ \<Rightarrow> None)"

lemma enum_run_append:
  "enum_run es = Some (m, x) \<Longrightarrow> enum_run (es @ fs) = plain_run m x fs"
  by (auto simp: enum_run_def plain_run_append split: list.splits enumerator.splits cexpr.splits if_splits)

lemma enum_run_dense:
  assumes "enum_run es = Some (Suc n, e)"
  shows "identifiers_dense es n e"
proof -
  from assms obtain x fs where es: "es = Init x (Num 0) # fs" and run: "plain_run 1 x fs = Some (Suc n, e)"
    by (auto simp: enum_run_def split: list.splits enumerator.splits cexpr.splits if_splits)
  from plain_run_sound [OF run] es show ?thesis
    by (intro identifiers_denseI) (auto split: if_splits)
qed

section \<open>x86\<close>

lemma x86_insn_1_piece: "enum_run x86_insn_1 = Some (148, ''X86_INS_DPPD'')"
  by (simp add: enum_run_def x86_insn_1_def)

lemma x86_insn_2_piece: "plain_run 148 ''X86_INS_DPPD'' x86_insn_2 = Some (298, ''X86_INS_KSHIFTRW'')"
  by (simp add: x86_insn_2_def)

lemma x86_insn_3_piece: "plain_run 298 ''X86_INS_KSHIFTRW'' x86_insn_3 = Some (448, ''X86_INS_MOVDQU'')"
  by (simp add: x86_insn_3_def)

lemma x86_insn_4_piece: "plain_run 448 ''X86_INS_MOVDQU'' x86_insn_4 = Some (598, ''X86_INS_RDTSCP'')"
  by (simp add: x86_insn_4_def)

lemma x86_insn_5_piece: "plain_run 598 ''X86_INS_RDTSCP'' x86_insn_5 = Some (748, ''X86_INS_VCVTPH2PS'')"
  by (simp add: x86_insn_5_def)

lemma x86_insn_6_piece: "plain_run 748 ''X86_INS_VCVTPH2PS'' x86_insn_6 = Some (898, ''X86_INS_VMAXSS'')"
  by (simp add: x86_insn_6_def)

lemma x86_insn_7_piece: "plain_run 898 ''X86_INS_VMAXSS'' x86_insn_7 = Some (1048, ''X86_INS_VPHADDSW'')"
  by (simp add: x86_insn_7_def)

lemma x86_insn_8_piece: "plain_run 1048 ''X86_INS_VPHADDSW'' x86_insn_8 = Some (1198, ''X86_INS_VPUNPCKHQDQ'')"
  by (simp add: x86_insn_8_def)

lemma x86_insn_9_piece: "plain_run 1198 ''X86_INS_VPUNPCKHQDQ'' x86_insn_9 = Some (1296, ''X86_INS_ENDING'')"
  by (simp add: x86_insn_9_def)

lemma x86_insn_dense: "identifiers_dense x86_insn 1295 ''X86_INS_ENDING''"
  by (rule enum_run_dense)
    (simp add: x86_insn_def plain_run_append enum_run_append [OF x86_insn_1_piece]
      plain_run_append [OF x86_insn_2_piece] plain_run_append [OF x86_insn_3_piece] plain_run_append [OF x86_insn_4_piece] plain_run_append [OF x86_insn_5_piece] plain_run_append [OF x86_insn_6_piece] plain_run_append [OF x86_insn_7_piece] plain_run_append [OF x86_insn_8_piece] x86_insn_9_piece)

section \<open>arm\<close>

lemma arm_insn_1_piece: "enum_run arm_insn_1 = Some (148, ''ARM_INS_SMLALBB'')"
  by (simp add: enum_run_def arm_insn_1_def)

lemma arm_insn_2_piece: "plain_run 148 ''ARM_INS_SMLALBB'' arm_insn_2 = Some (298, ''ARM_INS_VFMA'')"
  by (simp add: arm_insn_2_def)

lemma arm_insn_3_piece: "plain_run 298 ''ARM_INS_VFMA'' arm_insn_3 = Some (436, ''ARM_INS_ENDING'')"
  by (simp add: arm_insn_3_def)

lemma arm_insn_dense: "identifiers_dense arm_insn 435 ''ARM_INS_ENDING''"
  by (rule enum_run_dense)
    (simp add: arm_insn_def plain_run_append enum_run_append [OF arm_insn_1_piece]
      plain_run_append [OF arm_insn_2_piece] arm_insn_3_piece)

section \<open>arm64\<close>

lemma arm64_insn_1_piece: "enum_run arm64_insn_1 = Some (147, ''ARM64_INS_LD2'')"
  by (simp add: enum_run_def arm64_insn_1_def)

lemma arm64_insn_2_piece: "plain_run 147 ''ARM64_INS_LD2'' arm64_insn_2 = Some (294, ''ARM64_INS_SQSUB'')"
  by (simp add: arm64_insn_2_def)

lemma arm64_insn_3_piece: "plain_run 294 ''ARM64_INS_SQSUB'' arm64_insn_3 = Some (442, ''ARM64_INS_SXTB'')"
  by (simp add: arm64_insn_3_def)

lemma arm64_insn_4_piece: "plain_run 442 ''ARM64_INS_SXTB'' arm64_insn_4 = Some (453, ''ARM64_INS_ENDING'')"
  by (simp add: arm64_insn_4_def)

lemma arm64_insn_dense: "identifiers_dense arm64_insn 452 ''ARM64_INS_ENDING''"
  by (rule enum_run_dense)
    (simp add: arm64_insn_def plain_run_append enum_run_append [OF arm64_insn_1_piece]
      plain_run_append [OF arm64_insn_2_piece] plain_run_append [OF arm64_insn_3_piece] arm64_insn_4_piece)

section \<open>mips\<close>

lemma mips_insn_1_piece: "enum_run mips_insn_1 = Some (148, ''MIPS_INS_CMP'')"
  by (simp add: enum_run_def mips_insn_1_def)

lemma mips_insn_2_piece: "plain_run 148 ''MIPS_INS_CMP'' mips_insn_2 = Some (298, ''MIPS_INS_FSUB'')"
  by (simp add: mips_insn_2_def)

lemma mips_insn_3_piece: "plain_run 298 ''MIPS_INS_FSUB'' mips_insn_3 = Some (448, ''MIPS_INS_PAUSE'')"
  by (simp add: mips_insn_3_def)

lemma mips_insn_4_piece: "plain_run 448 ''MIPS_INS_PAUSE'' mips_insn_4 = Some (587, ''MIPS_INS_ENDING'')"
  by (simp add: mips_insn_4_def)

lemma mips_insn_dense: "identifiers_dense mips_insn 586 ''MIPS_INS_ENDING''"
  by (rule enum_run_dense)
    (simp add: mips_insn_def plain_run_append enum_run_append [OF mips_insn_1_piece]
      plain_run_append [OF mips_insn_2_piece] plain_run_append [OF mips_insn_3_piece] mips_insn_4_piece)

section \<open>ppc\<close>

lemma ppc_insn_1_piece: "enum_run ppc_insn_1 = Some (148, ''PPC_INS_EVMHEUMIA'')"
  by (simp add: enum_run_def ppc_insn_1_def)

lemma ppc_insn_2_piece: "plain_run 148 ''PPC_INS_EVMHEUMIA'' ppc_insn_2 = Some (298, ''PPC_INS_ICBI'')"
  by (simp add: ppc_insn_2_def)

lemma ppc_insn_3_piece: "plain_run 298 ''PPC_INS_ICBI'' ppc_insn_3 = Some (448, ''PPC_INS_STH'')"
  by (simp add: ppc_insn_3_def)

lemma ppc_insn_4_piece: "plain_run 448 ''PPC_INS_STH'' ppc_insn_4 = Some (598, ''PPC_INS_VSPLTISB'')"
  by (simp add: ppc_insn_4_def)

lemma ppc_insn_5_piece: "plain_run 598 ''PPC_INS_VSPLTISB'' ppc_insn_5 = Some (748, ''PPC_INS_XVRSQRTESP'')"
  by (simp add: ppc_insn_5_def)

lemma ppc_insn_6_piece: "plain_run 748 ''PPC_INS_XVRSQRTESP'' ppc_insn_6 = Some (895, ''PPC_INS_XXMRGLD'')"
  by (simp add: ppc_insn_6_def)

lemma ppc_insn_7_piece: "plain_run 895 ''PPC_INS_XXMRGLD'' ppc_insn_7 = Some (935, ''PPC_INS_ENDING'')"
  by (simp add: ppc_insn_7_def)

lemma ppc_insn_dense: "identifiers_dense ppc_insn 934 ''PPC_INS_ENDING''"
  by (rule enum_run_dense)
    (simp add: ppc_insn_def plain_run_append enum_run_append [OF ppc_insn_1_piece]
      plain_run_append [OF ppc_insn_2_piece] plain_run_append [OF ppc_insn_3_piece] plain_run_append [OF ppc_insn_4_piece] plain_run_append [OF ppc_insn_5_piece] plain_run_append [OF ppc_insn_6_piece] ppc_insn_7_piece)

section \<open>sparc\<close>

lemma sparc_insn_1_piece: "enum_run sparc_insn_1 = Some (148, ''SPARC_INS_FPACKFIX'')"
  by (simp add: enum_run_def sparc_insn_1_def)

lemma sparc_insn_2_piece: "plain_run 148 ''SPARC_INS_FPACKFIX'' sparc_insn_2 = Some (280, ''SPARC_INS_ENDING'')"
  by (simp add: sparc_insn_2_def)

lemma sparc_insn_dense: "identifiers_dense sparc_insn 279 ''SPARC_INS_ENDING''"
  by (rule enum_run_dense)
    (simp add: sparc_insn_def plain_run_append enum_run_append [OF sparc_insn_1_piece]
       sparc_insn_2_piece)

section \<open>sysz\<close>

lemma sysz_insn_1_piece: "enum_run sysz_insn_1 = Some (148, ''SYSZ_INS_CIJNH'')"
  by (simp add: enum_run_def sysz_insn_1_def)

lemma sysz_insn_2_piece: "plain_run 148 ''SYSZ_INS_CIJNH'' sysz_insn_2 = Some (298, ''SYSZ_INS_CEB'')"
  by (simp add: sysz_insn_2_def)

lemma sysz_insn_3_piece: "plain_run 298 ''SYSZ_INS_CEB'' sysz_insn_3 = Some (448, ''SYSZ_INS_LGH'')"
  by (simp add: sysz_insn_3_def)

lemma sysz_insn_4_piece: "plain_run 448 ''SYSZ_INS_LGH'' sysz_insn_4 = Some (598, ''SYSZ_INS_RXSBG'')"
  by (simp add: sysz_insn_4_def)

lemma sysz_insn_5_piece: "plain_run 598 ''SYSZ_INS_RXSBG'' sysz_insn_5 = Some (683, ''SYSZ_INS_ENDING'')"
  by (simp add: sysz_insn_5_def)

lemma sysz_insn_dense: "identifiers_dense sysz_insn 682 ''SYSZ_INS_ENDING''"
  by (rule enum_run_dense)
    (simp add: sysz_insn_def plain_run_append enum_run_append [OF sysz_insn_1_piece]
      plain_run_append [OF sysz_insn_2_piece] plain_run_append [OF sysz_insn_3_piece] plain_run_append [OF sysz_insn_4_piece] sysz_insn_5_piece)

section \<open>xcore\<close>

lemma xcore_insn_dense: "identifiers_dense xcore_insn 121 ''XCORE_INS_ENDING''"
  by (rule enum_run_dense) (simp add: enum_run_def xcore_insn_def)

section \<open>All architectures\<close>

text \<open>The instruction identifiers of every architecture are the numbers from 0 in the order of its header,
  without gaps, and the end marker is their count: 1295 for x86, 435 for ARM, 452 for ARM64, 586 for MIPS, 934
  for PowerPC, 279 for SPARC, 682 for SystemZ and 121 for XCore. So none needs more than 16 bits.\<close>

lemma instruction_identifiers_dense:
  "identifiers_dense x86_insn 1295 ''X86_INS_ENDING'' \<and>
   identifiers_dense arm_insn 435 ''ARM_INS_ENDING'' \<and>
   identifiers_dense arm64_insn 452 ''ARM64_INS_ENDING'' \<and>
   identifiers_dense mips_insn 586 ''MIPS_INS_ENDING'' \<and>
   identifiers_dense ppc_insn 934 ''PPC_INS_ENDING'' \<and>
   identifiers_dense sparc_insn 279 ''SPARC_INS_ENDING'' \<and>
   identifiers_dense sysz_insn 682 ''SYSZ_INS_ENDING'' \<and>
   identifiers_dense xcore_insn 121 ''XCORE_INS_ENDING''"
  by (intro conjI x86_insn_dense arm_insn_dense arm64_insn_dense mips_insn_dense
      ppc_insn_dense sparc_insn_dense sysz_insn_dense xcore_insn_dense)

end
