(* ===== verification/Capstone.thy ===== *)
theory Capstone
  imports Capstone_X86 Capstone_Arm Capstone_Others Capstone_Api Capstone_Instructions
begin

text \<open>
  What the capstone headers that the disassembler interface of Lilu builds on fix: the structures of
  a disassembled x86 instruction, the macros that compute with them, and how the identifiers of the
  enumerations fit the fields that hold them. The functions of the library are only declared in the
  headers and are not modelled.
\<close>

section \<open>Disassembled instructions\<close>

text \<open>An enumeration is stored in 32 bits. A \<open>double\<close> is its 64 bits.\<close>

record x86_op_mem =
  segment :: u32
  base :: u32
  index :: u32
  scale :: u32
  mem_disp :: u64

datatype x86_op_val = OpReg u32 | OpImm u64 | OpFp u64 | OpMem x86_op_mem

record cs_x86_op =
  op_kind :: u32
  op_val :: x86_op_val
  op_size :: u8
  avx_bcast :: u32
  avx_zero_opmask :: bool

record cs_x86 =
  prefix_bytes :: "u8 list"
  opcode :: "u8 list"
  rex :: u8
  addr_size :: u8
  modrm :: u8
  sib :: u8
  disp :: u32
  sib_index :: u32
  sib_scale :: u8
  sib_base :: u32
  sse_cc :: u32
  avx_cc :: u32
  avx_sae :: bool
  avx_rm :: u32
  op_count :: u8
  operands :: "cs_x86_op list"

text \<open>\<open>regs_read\<close>, \<open>regs_write\<close> and \<open>groups\<close> are arrays of 12, 20 and 8 bytes.\<close>

record cs_detail =
  regs_read :: "u8 list"
  regs_read_count :: u8
  regs_write :: "u8 list"
  regs_write_count :: u8
  groups :: "u8 list"
  groups_count :: u8
  detail_x86 :: cs_x86

record cs_insn =
  insn_id :: u32
  address :: u64
  insn_size :: u16
  insn_bytes :: "u8 list"
  mnemonic :: string
  op_str :: string
  detail :: "cs_detail option"

section \<open>Macros\<close>

definition X86_OP_IMM :: u32 where
  "X86_OP_IMM = 2"

definition X86_REL_ADDR :: "cs_insn \<Rightarrow> u64 option" where
  "X86_REL_ADDR insn = do {
     d \<leftarrow> detail insn;
     op0 \<leftarrow> cell_get (operands (detail_x86 d)) 0;
     (if op_kind op0 = X86_OP_IMM then (case op_val op0 of OpImm v \<Rightarrow> Some v | _ \<Rightarrow> None)
      else Some (address insn + ucast (insn_size insn) + scast (disp (detail_x86 d))))
   }"

definition CS_INSN_OFFSET :: "cs_insn list \<Rightarrow> nat \<Rightarrow> u64 option" where
  "CS_INSN_OFFSET insns post = (if post = 0 then None else do {
     i \<leftarrow> cell_get insns (post - 1); f \<leftarrow> cell_get insns 0; Some (address i - address f) })"

definition CS_MAKE_VERSION :: "u32 \<Rightarrow> u32 \<Rightarrow> u32" where
  "CS_MAKE_VERSION major minor = push_bit 8 major + minor"

lemma X86_OP_IMM_is: "enum_value x86_op_type ''X86_OP_IMM'' = Some (uint X86_OP_IMM)"
  by (simp add: enum_value_def enum_consts_def x86_op_type_def X86_OP_IMM_def)

text \<open>\<open>X86_REL_ADDR\<close> is the target of a relative instruction: the absolute immediate when the first
  operand is one, and otherwise the end of the instruction plus the displacement read as a signed
  number, modulo 2^64.\<close>

theorem X86_REL_ADDR_target:
  assumes "detail i = Some d" and "operands (detail_x86 d) = op0 # ops"
    and "op_kind op0 = X86_OP_IMM \<longleftrightarrow> (\<exists>v. op_val op0 = OpImm v)"
  shows "case X86_REL_ADDR i of None \<Rightarrow> False | Some a \<Rightarrow>
    (case op_val op0 of OpImm v \<Rightarrow> a = v
     | _ \<Rightarrow> uint a = (uint (address i) + uint (insn_size i) + sint (disp (detail_x86 d))) mod 2 ^ 64)"
proof -
  have "uint (address i + ucast (insn_size i) + scast (disp (detail_x86 d)))
      = (uint (address i) + uint (insn_size i) + sint (disp (detail_x86 d))) mod 2 ^ 64"
  proof -
    have "address i + ucast (insn_size i) + scast (disp (detail_x86 d))
        = word_of_int (uint (address i) + uint (insn_size i) + sint (disp (detail_x86 d)))"
      by (simp add: of_int_uint)
    then show ?thesis by (simp only: uint_word_of_int) simp
  qed
  with assms show ?thesis by (cases "op_val op0") (simp_all add: X86_REL_ADDR_def)
qed

definition sample_x86 :: "u32 \<Rightarrow> x86_op_val \<Rightarrow> u32 \<Rightarrow> cs_x86" where
  "sample_x86 k v dsp = \<lparr>prefix_bytes = [0, 0, 0, 0], opcode = [0x8B, 0, 0, 0], rex = 0x48, addr_size = 8, modrm = 5,
     sib = 0, disp = dsp, sib_index = 0, sib_scale = 0, sib_base = 0, sse_cc = 0, avx_cc = 0, avx_sae = False,
     avx_rm = 0, op_count = 1, operands = [\<lparr>op_kind = k, op_val = v, op_size = 8, avx_bcast = 0, avx_zero_opmask = False\<rparr>]\<rparr>"

definition sample_insn :: "u64 \<Rightarrow> u16 \<Rightarrow> cs_x86 \<Rightarrow> cs_insn" where
  "sample_insn a n x = \<lparr>insn_id = 442, address = a, insn_size = n, insn_bytes = [], mnemonic = ''mov'', op_str = '''',
     detail = Some \<lparr>regs_read = [], regs_read_count = 0, regs_write = [], regs_write_count = 0, groups = [],
       groups_count = 0, detail_x86 = x\<rparr>\<rparr>"

theorem X86_REL_ADDR_target_witness:
  "X86_REL_ADDR (sample_insn 0x1000 7 (sample_x86 1 (OpReg 35) 0xFFFFFFF0)) = Some 0xFF7"
proof -
  let ?i = "sample_insn 0x1000 7 (sample_x86 1 (OpReg 35) 0xFFFFFFF0)"
  have "sint (0xFFFFFFF0 :: u32) = - 16" by simp
  moreover obtain a where a: "X86_REL_ADDR ?i = Some a"
    by (simp add: X86_REL_ADDR_def sample_insn_def sample_x86_def X86_OP_IMM_def)
  ultimately have "uint a = 0xFF7"
    using X86_REL_ADDR_target [of ?i "the (detail ?i)" "hd (operands (detail_x86 (the (detail ?i))))" "[]"]
    by (simp add: sample_insn_def sample_x86_def X86_OP_IMM_def)
  then have "a = 0xFF7" by (simp add: word_uint_eq_iff)
  with a show ?thesis by simp
qed

section \<open>Offsets in a disassembled buffer\<close>

text \<open>Instructions that lie one after the other in memory.\<close>

fun contiguous :: "cs_insn list \<Rightarrow> bool" where
  "contiguous (i # j # is) = (address j = address i + ucast (insn_size i) \<and> contiguous (j # is))"
| "contiguous _ = True"

lemma contiguous_address:
  "contiguous is \<Longrightarrow> k < length is \<Longrightarrow>
   address (is ! k) = address (is ! 0) + (\<Sum>i\<leftarrow>take k is. ucast (insn_size i))"
proof (induction "is" arbitrary: k rule: contiguous.induct)
  case (1 i j "is")
  then show ?case by (cases k) (auto simp: add.assoc)
qed auto

text \<open>\<open>CS_INSN_OFFSET\<close> of position \<open>post\<close>, counted from 1, in a buffer that was disassembled
  without gaps is the number of bytes of the instructions before it.\<close>

theorem CS_INSN_OFFSET_sums_sizes:
  assumes "contiguous is" and "1 \<le> post" and "post \<le> length is"
  shows "CS_INSN_OFFSET is post = Some (\<Sum>i\<leftarrow>take (post - 1) is. ucast (insn_size i))"
proof -
  have k: "0 < length is" "post - 1 < length is" "post \<noteq> 0" using assms(2,3) by linarith+
  from contiguous_address [OF assms(1) k(2)]
  have "address (is ! (post - 1)) - address (is ! 0) = (\<Sum>i\<leftarrow>take (post - 1) is. ucast (insn_size i))" by simp
  with k show ?thesis by (simp add: CS_INSN_OFFSET_def)
qed

theorem CS_INSN_OFFSET_sums_sizes_witness:
  "CS_INSN_OFFSET [sample_insn 0x1000 7 (sample_x86 1 (OpReg 35) 0), sample_insn 0x1007 2 (sample_x86 1 (OpReg 35) 0),
     sample_insn 0x1009 1 (sample_x86 1 (OpReg 35) 0)] 3 = Some 9"
proof -
  let ?is = "[sample_insn 0x1000 7 (sample_x86 1 (OpReg 35) 0), sample_insn 0x1007 2 (sample_x86 1 (OpReg 35) 0),
     sample_insn 0x1009 1 (sample_x86 1 (OpReg 35) 0)]"
  have "contiguous ?is" by (simp add: sample_insn_def)
  moreover have "(\<Sum>i\<leftarrow>take (3 - 1) ?is. ucast (insn_size i)) = (9 :: u64)" by (simp add: sample_insn_def)
  ultimately show ?thesis using CS_INSN_OFFSET_sums_sizes [of ?is 3] by simp
qed

section \<open>Identifiers and the fields that hold them\<close>

text \<open>All identifiers of an enumeration are in the range of the elements of \<open>regs_read\<close>, \<open>regs_write\<close> and \<open>groups\<close>, a byte.\<close>

definition survives :: "enumerator list \<Rightarrow> bool" where
  "survives es = (case enum_consts es of None \<Rightarrow> False
     | Some vs \<Rightarrow> list_all (\<lambda>v. 0 \<le> snd v \<and> snd v < 256) vs)"

lemma survives_bounded:
  assumes "enum_consts es = Some vs" and "\<forall>v \<in> snd ` set vs. 0 \<le> v \<and> v < 256"
  shows "survives es"
  using assms by (auto simp: survives_def list_all_iff)

lemma survives_fits: "enum_fits 256 (Some 0) es \<Longrightarrow> enum_closed [] es \<Longrightarrow> survives es"
  by (erule enum_consts_bounded) (auto intro: survives_bounded)

text \<open>Enumerations whose first \<open>n\<close> enumerators have no expressions.\<close>

lemma survives_plain:
  assumes "starts_at_0 (take n es)" and "length (take n es) \<le> 256"
    and "enum_fits 256 (Some (int (length (take n es)))) (drop n es)"
    and "enum_closed (rev (map enum_name (take n es))) (drop n es)"
  shows "survives es"
proof -
  have "int (length (take n es)) \<le> 256" using assms(2) by linarith
  with assms obtain vs where "enum_consts (take n es @ drop n es) = Some vs" "\<forall>v \<in> snd ` set vs. 0 \<le> v \<and> v < 256"
    by (metis enum_bounded_plain)
  then show ?thesis by (intro survives_bounded) simp_all
qed

lemma x86_reg_survives: "survives x86_reg"
  by (rule survives_plain [of 235]) (simp_all add: x86_reg_def)

lemma arm_reg_survives: "survives arm_reg"
  by (rule survives_plain [of 112]) (simp_all add: arm_reg_def)

lemma mips_reg_survives: "survives mips_reg"
  by (rule survives_plain [of 137]) (simp_all add: mips_reg_def mips_reg_1_def mips_reg_2_def)

lemma ppc_reg_survives: "survives ppc_reg"
  by (rule survives_plain [of 179]) (simp_all add: ppc_reg_def ppc_reg_1_def ppc_reg_2_def)

lemma sparc_reg_survives: "survives sparc_reg"
  by (rule survives_plain [of 89]) (simp_all add: sparc_reg_def)

lemma sysz_reg_survives: "survives sysz_reg"
  by (rule survives_plain [of 36]) (simp_all add: sysz_reg_def)

lemma xcore_reg_survives: "survives xcore_reg"
  by (rule survives_plain [of 27]) (simp_all add: xcore_reg_def)

lemmas group_defs = x86_insn_group_def arm_insn_group_def arm64_insn_group_def mips_insn_group_def
  ppc_insn_group_def sparc_insn_group_def sysz_insn_group_def xcore_insn_group_def

definition all_insn_groups :: "enumerator list list" where
  "all_insn_groups = [x86_insn_group, arm_insn_group, arm64_insn_group, mips_insn_group, ppc_insn_group,
     sparc_insn_group, sysz_insn_group, xcore_insn_group]"

lemma groups_survive: "list_all survives all_insn_groups"
  by (simp add: all_insn_groups_def) (intro conjI; rule survives_fits; simp add: group_defs)

text \<open>Every register identifier of x86, ARM, MIPS, PowerPC, SPARC, SystemZ and XCore and every group
  identifier of any architecture is in the range of an element of \<open>regs_read\<close>, \<open>regs_write\<close> or \<open>groups\<close>.\<close>

theorem byte_identifiers_survive:
  "list_all survives ([x86_reg, arm_reg, mips_reg, ppc_reg, sparc_reg, sysz_reg, xcore_reg] @ all_insn_groups)"
  using groups_survive
  by (simp add: x86_reg_survives arm_reg_survives mips_reg_survives ppc_reg_survives sparc_reg_survives
      sysz_reg_survives xcore_reg_survives)

section \<open>The registers of ARM64\<close>

lemma arm64_reg_split: "arm64_reg = take 261 arm64_reg @ drop 261 arm64_reg"
  by simp

lemma arm64_reg_main: "starts_at_0 (take 261 arm64_reg) \<and> length (take 261 arm64_reg) = 261"
  by (simp add: arm64_reg_def arm64_reg_1_def arm64_reg_2_def)

lemma arm64_reg_named:
  "map (\<lambda>k. enum_name (arm64_reg ! k)) [0, 1, 2, 3, 256, 257, 258, 259] =
   [''ARM64_REG_INVALID'', ''ARM64_REG_X29'', ''ARM64_REG_X30'', ''ARM64_REG_NZCV'',
    ''ARM64_REG_V28'', ''ARM64_REG_V29'', ''ARM64_REG_V30'', ''ARM64_REG_V31'']"
  by (simp add: arm64_reg_def arm64_reg_1_def arm64_reg_2_def)

lemma arm64_reg_consts:
  obtains ws where "enum_consts arm64_reg = Some (number_from 0 (take 261 arm64_reg) @ ws)"
proof -
  have "enum_closed (rev (map enum_name (take 261 arm64_reg))) (drop 261 arm64_reg)"
    by (simp add: arm64_reg_def arm64_reg_1_def arm64_reg_2_def)
  then have "enum_closed [] arm64_reg"
    using enum_closed_plain [of "take 261 arm64_reg" "drop 261 arm64_reg"] arm64_reg_main by simp
  with enum_closed_sound [of "[]" arm64_reg 0] obtain vs where vs: "enum_from [] 0 arm64_reg = Some vs" by auto
  moreover have "enum_from [] 0 (take 261 arm64_reg) = Some (number_from 0 (take 261 arm64_reg))"
    using enum_consts_starts_at_0 arm64_reg_main unfolding enum_consts_def by blast
  ultimately have "\<exists>ws. vs = number_from 0 (take 261 arm64_reg) @ ws"
    by (subst (asm) arm64_reg_split, subst (asm) enum_from_append) (auto split: bind_splits)
  with vs that show ?thesis by (auto simp: enum_consts_def)
qed

text \<open>Of ARM64 that fails: the identifiers of \<open>ARM64_REG_V28\<close> to \<open>ARM64_REG_V31\<close> are 256 to 259, and the low bytes of these
  are the identifiers of \<open>ARM64_REG_INVALID\<close>, \<open>ARM64_REG_X29\<close>, \<open>ARM64_REG_X30\<close> and \<open>ARM64_REG_NZCV\<close>.\<close>

lemma arm64_reg_beyond_byte:
  "case enum_consts arm64_reg of None \<Rightarrow> False
   | Some vs \<Rightarrow> map (\<lambda>k. vs ! k) [256, 257, 258, 259] = [(''ARM64_REG_V28'', 256), (''ARM64_REG_V29'', 257),
         (''ARM64_REG_V30'', 258), (''ARM64_REG_V31'', 259)] \<and>
       map (\<lambda>k. vs ! k) [0, 1, 2, 3] = [(''ARM64_REG_INVALID'', 0), (''ARM64_REG_X29'', 1),
         (''ARM64_REG_X30'', 2), (''ARM64_REG_NZCV'', 3)]"
proof -
  obtain ws where c: "enum_consts arm64_reg = Some (number_from 0 (take 261 arm64_reg) @ ws)"
    by (rule arm64_reg_consts)
  have n: "(number_from 0 (take 261 arm64_reg) @ ws) ! k = (enum_name (arm64_reg ! k), int k)" if "k < 261" for k
    using that conjunct2 [OF arm64_reg_main] by (simp add: nth_append nth_number_from)
  show ?thesis
    using arm64_reg_named by (simp add: c n)
qed

section \<open>Operand types and groups common to the architectures\<close>

text \<open>
  The headers say that the operand types and groups of \<open>capstone.h\<close> are the same for all architectures.
  \<open>agrees p q common es\<close>: an enumerator of \<open>es\<close> named \<open>p\<close> and a suffix has the value of the common
  enumerator named \<open>q\<close> and that suffix, if there is one, and otherwise a value the common enumeration
  does not use; the end marker aside.
\<close>

definition agrees :: "string \<Rightarrow> string \<Rightarrow> enumerator list \<Rightarrow> enumerator list \<Rightarrow> bool" where
  "agrees p q common es = (case (enum_consts common, enum_consts es) of
     (Some cs, Some vs) \<Rightarrow> list_all (\<lambda>(x, v).
        take (length p) x = p \<and>
        (case map_of cs (q @ drop (length p) x) of
           Some w \<Rightarrow> v = w
         | None \<Rightarrow> drop (length p) x = ''ENDING'' \<or> 64 \<le> v \<and> v \<notin> snd ` set cs)) vs
   | _ \<Rightarrow> False)"

lemma agreesI:
  assumes "enum_consts common = Some cs" and "enum_consts es = Some vs"
    and "list_all (\<lambda>(x, v). take (length p) x = p \<and>
      (case map_of cs (q @ drop (length p) x) of Some w \<Rightarrow> v = w
       | None \<Rightarrow> drop (length p) x = ''ENDING'' \<or> 64 \<le> v \<and> v \<notin> snd ` set cs)) vs"
  shows "agrees p q common es"
  using assms by (simp add: agrees_def)

lemma cs_group_consts: "enum_consts cs_group_type = Some [(''CS_GRP_INVALID'', 0), (''CS_GRP_JUMP'', 1),
    (''CS_GRP_CALL'', 2), (''CS_GRP_RET'', 3), (''CS_GRP_INT'', 4), (''CS_GRP_IRET'', 5)]"
  by (simp add: enum_consts_def cs_group_type_def)

lemma cs_op_consts: "enum_consts cs_op_type = Some [(''CS_OP_INVALID'', 0), (''CS_OP_REG'', 1),
    (''CS_OP_IMM'', 2), (''CS_OP_MEM'', 3), (''CS_OP_FP'', 4)]"
  by (simp add: enum_consts_def cs_op_type_def)

lemmas agrees_group = agreesI [OF cs_group_consts]
lemmas agrees_op = agreesI [OF cs_op_consts]

lemma x86_groups_agree: "agrees ''X86_GRP_'' ''CS_GRP_'' cs_group_type x86_insn_group"
  by (rule agrees_group, simp add: enum_consts_def x86_insn_group_def, simp)

lemma arm_groups_agree: "agrees ''ARM_GRP_'' ''CS_GRP_'' cs_group_type arm_insn_group"
  by (rule agrees_group, simp add: enum_consts_def arm_insn_group_def, simp)

lemma arm64_groups_agree: "agrees ''ARM64_GRP_'' ''CS_GRP_'' cs_group_type arm64_insn_group"
  by (rule agrees_group, simp add: enum_consts_def arm64_insn_group_def, simp)

lemma mips_groups_agree: "agrees ''MIPS_GRP_'' ''CS_GRP_'' cs_group_type mips_insn_group"
  by (rule agrees_group, simp add: enum_consts_def mips_insn_group_def, simp)

lemma ppc_groups_agree: "agrees ''PPC_GRP_'' ''CS_GRP_'' cs_group_type ppc_insn_group"
  by (rule agrees_group, simp add: enum_consts_def ppc_insn_group_def, simp)

lemma sparc_groups_agree: "agrees ''SPARC_GRP_'' ''CS_GRP_'' cs_group_type sparc_insn_group"
  by (rule agrees_group, simp add: enum_consts_def sparc_insn_group_def, simp)

lemma sysz_groups_agree: "agrees ''SYSZ_GRP_'' ''CS_GRP_'' cs_group_type sysz_insn_group"
  by (rule agrees_group, simp add: enum_consts_def sysz_insn_group_def, simp)

lemma xcore_groups_agree: "agrees ''XCORE_GRP_'' ''CS_GRP_'' cs_group_type xcore_insn_group"
  by (rule agrees_group, simp add: enum_consts_def xcore_insn_group_def, simp)

lemma x86_op_types_agree: "agrees ''X86_OP_'' ''CS_OP_'' cs_op_type x86_op_type"
  by (rule agrees_op, simp add: enum_consts_def x86_op_type_def, simp)

lemma arm_op_types_agree: "agrees ''ARM_OP_'' ''CS_OP_'' cs_op_type arm_op_type"
  by (rule agrees_op, simp add: enum_consts_def arm_op_type_def, simp)

lemma arm64_op_types_agree: "agrees ''ARM64_OP_'' ''CS_OP_'' cs_op_type arm64_op_type"
  by (rule agrees_op, simp add: enum_consts_def arm64_op_type_def, simp)

lemma mips_op_types_agree: "agrees ''MIPS_OP_'' ''CS_OP_'' cs_op_type mips_op_type"
  by (rule agrees_op, simp add: enum_consts_def mips_op_type_def, simp)

lemma ppc_op_types_agree: "agrees ''PPC_OP_'' ''CS_OP_'' cs_op_type ppc_op_type"
  by (rule agrees_op, simp add: enum_consts_def ppc_op_type_def, simp)

lemma sparc_op_types_agree: "agrees ''SPARC_OP_'' ''CS_OP_'' cs_op_type sparc_op_type"
  by (rule agrees_op, simp add: enum_consts_def sparc_op_type_def, simp)

lemma sysz_op_types_agree: "agrees ''SYSZ_OP_'' ''CS_OP_'' cs_op_type sysz_op_type"
  by (rule agrees_op, simp add: enum_consts_def sysz_op_type_def, simp)

lemma xcore_op_types_agree: "agrees ''XCORE_OP_'' ''CS_OP_'' cs_op_type xcore_op_type"
  by (rule agrees_op, simp add: enum_consts_def xcore_op_type_def, simp)

lemmas identifiers_agree = x86_groups_agree x86_op_types_agree arm_groups_agree arm_op_types_agree arm64_groups_agree arm64_op_types_agree mips_groups_agree mips_op_types_agree ppc_groups_agree ppc_op_types_agree sparc_groups_agree sparc_op_types_agree sysz_groups_agree sysz_op_types_agree xcore_groups_agree xcore_op_types_agree

text \<open>The operand types and instruction groups of every architecture agree with the common ones: same
  name, same value, and the values of an architecture's own operand types and groups start at 64.\<close>

theorem common_identifiers_agree:
  "agrees ''X86_GRP_'' ''CS_GRP_'' cs_group_type x86_insn_group \<and> agrees ''X86_OP_'' ''CS_OP_'' cs_op_type x86_op_type \<and>
   agrees ''ARM_GRP_'' ''CS_GRP_'' cs_group_type arm_insn_group \<and> agrees ''ARM_OP_'' ''CS_OP_'' cs_op_type arm_op_type \<and>
   agrees ''ARM64_GRP_'' ''CS_GRP_'' cs_group_type arm64_insn_group \<and> agrees ''ARM64_OP_'' ''CS_OP_'' cs_op_type arm64_op_type \<and>
   agrees ''MIPS_GRP_'' ''CS_GRP_'' cs_group_type mips_insn_group \<and> agrees ''MIPS_OP_'' ''CS_OP_'' cs_op_type mips_op_type \<and>
   agrees ''PPC_GRP_'' ''CS_GRP_'' cs_group_type ppc_insn_group \<and> agrees ''PPC_OP_'' ''CS_OP_'' cs_op_type ppc_op_type \<and>
   agrees ''SPARC_GRP_'' ''CS_GRP_'' cs_group_type sparc_insn_group \<and> agrees ''SPARC_OP_'' ''CS_OP_'' cs_op_type sparc_op_type \<and>
   agrees ''SYSZ_GRP_'' ''CS_GRP_'' cs_group_type sysz_insn_group \<and> agrees ''SYSZ_OP_'' ''CS_OP_'' cs_op_type sysz_op_type \<and>
   agrees ''XCORE_GRP_'' ''CS_GRP_'' cs_group_type xcore_insn_group \<and> agrees ''XCORE_OP_'' ''CS_OP_'' cs_op_type xcore_op_type"
  by (intro conjI identifiers_agree)

end
