(* ===== verification/Capstone_Layout.thy ===== *)
theory Capstone_Layout
  imports Layout
begin

text \<open>
  The structures of the capstone headers as the compiler lays them out on x86-64: the operands and
  details of each architecture, and the instruction that \<open>cs_disasm\<close> hands out. Enumerations and
  \<open>int\<close> have four bytes, pointers eight; an anonymous union is a field called \<open>anonymous\<close>.
\<close>

section \<open>x86\<close>

definition x86_op_mem_layout :: ctype where
  "x86_op_mem_layout = Struct [
    (''segment'', c_u32),
    (''base'', c_u32),
    (''index'', c_u32),
    (''scale'', c_u32),
    (''disp'', c_u64)]"

definition cs_x86_op_layout :: ctype where
  "cs_x86_op_layout = Struct [
    (''type'', c_enum),
    (''anonymous'', Union [(''reg'', c_enum), (''imm'', c_u64), (''fp'', c_u64), (''mem'', x86_op_mem_layout)]),
    (''size'', c_u8),
    (''avx_bcast'', c_enum),
    (''avx_zero_opmask'', c_bool)]"

definition cs_x86_layout :: ctype where
  "cs_x86_layout = Struct [
    (''prefix'', Arr c_u8 4),
    (''opcode'', Arr c_u8 4),
    (''rex'', c_u8),
    (''addr_size'', c_u8),
    (''modrm'', c_u8),
    (''sib'', c_u8),
    (''disp'', c_u32),
    (''sib_index'', c_enum),
    (''sib_scale'', c_u8),
    (''sib_base'', c_enum),
    (''sse_cc'', c_enum),
    (''avx_cc'', c_enum),
    (''avx_sae'', c_bool),
    (''avx_rm'', c_enum),
    (''op_count'', c_u8),
    (''operands'', Arr cs_x86_op_layout 8)]"

section \<open>ARM\<close>

definition arm_op_mem_layout :: ctype where
  "arm_op_mem_layout = Struct [
    (''base'', c_u32),
    (''index'', c_u32),
    (''scale'', c_u32),
    (''disp'', c_u32)]"

definition cs_arm_op_layout :: ctype where
  "cs_arm_op_layout = Struct [
    (''vector_index'', c_u32),
    (''shift'', Struct [(''type'', c_enum), (''value'', c_u32)]),
    (''type'', c_enum),
    (''anonymous'', Union [(''reg'', c_u32), (''imm'', c_u32), (''fp'', c_u64), (''mem'', arm_op_mem_layout), (''setend'', c_enum)]),
    (''subtracted'', c_bool)]"

definition cs_arm_layout :: ctype where
  "cs_arm_layout = Struct [
    (''usermode'', c_bool),
    (''vector_size'', c_u32),
    (''vector_data'', c_enum),
    (''cps_mode'', c_enum),
    (''cps_flag'', c_enum),
    (''cc'', c_enum),
    (''update_flags'', c_bool),
    (''writeback'', c_bool),
    (''mem_barrier'', c_enum),
    (''op_count'', c_u8),
    (''operands'', Arr cs_arm_op_layout 36)]"

section \<open>ARM64\<close>

definition arm64_op_mem_layout :: ctype where
  "arm64_op_mem_layout = Struct [
    (''base'', c_u32),
    (''index'', c_u32),
    (''disp'', c_u32)]"

definition cs_arm64_op_layout :: ctype where
  "cs_arm64_op_layout = Struct [
    (''vector_index'', c_u32),
    (''vas'', c_enum),
    (''vess'', c_enum),
    (''shift'', Struct [(''type'', c_enum), (''value'', c_u32)]),
    (''ext'', c_enum),
    (''type'', c_enum),
    (''anonymous'', Union [(''reg'', c_u32), (''imm'', c_u64), (''fp'', c_u64), (''mem'', arm64_op_mem_layout), (''pstate'', c_enum), (''sys'', c_u32), (''prefetch'', c_enum), (''barrier'', c_enum)])]"

definition cs_arm64_layout :: ctype where
  "cs_arm64_layout = Struct [
    (''cc'', c_enum),
    (''update_flags'', c_bool),
    (''writeback'', c_bool),
    (''op_count'', c_u8),
    (''operands'', Arr cs_arm64_op_layout 8)]"

section \<open>MIPS\<close>

definition mips_op_mem_layout :: ctype where
  "mips_op_mem_layout = Struct [
    (''base'', c_u32),
    (''disp'', c_u64)]"

definition cs_mips_op_layout :: ctype where
  "cs_mips_op_layout = Struct [
    (''type'', c_enum),
    (''anonymous'', Union [(''reg'', c_u32), (''imm'', c_u64), (''mem'', mips_op_mem_layout)])]"

definition cs_mips_layout :: ctype where
  "cs_mips_layout = Struct [
    (''op_count'', c_u8),
    (''operands'', Arr cs_mips_op_layout 8)]"

section \<open>PowerPC\<close>

definition ppc_op_mem_layout :: ctype where
  "ppc_op_mem_layout = Struct [
    (''base'', c_enum),
    (''disp'', c_u32)]"

definition ppc_op_crx_layout :: ctype where
  "ppc_op_crx_layout = Struct [
    (''scale'', c_u32),
    (''reg'', c_enum),
    (''cond'', c_enum)]"

definition cs_ppc_op_layout :: ctype where
  "cs_ppc_op_layout = Struct [
    (''type'', c_enum),
    (''anonymous'', Union [(''reg'', c_enum), (''imm'', c_u32), (''mem'', ppc_op_mem_layout), (''crx'', ppc_op_crx_layout)])]"

definition cs_ppc_layout :: ctype where
  "cs_ppc_layout = Struct [
    (''bc'', c_enum),
    (''bh'', c_enum),
    (''update_cr0'', c_bool),
    (''op_count'', c_u8),
    (''operands'', Arr cs_ppc_op_layout 8)]"

section \<open>SPARC\<close>

definition sparc_op_mem_layout :: ctype where
  "sparc_op_mem_layout = Struct [
    (''base'', c_u8),
    (''index'', c_u8),
    (''disp'', c_u32)]"

definition cs_sparc_op_layout :: ctype where
  "cs_sparc_op_layout = Struct [
    (''type'', c_enum),
    (''anonymous'', Union [(''reg'', c_u32), (''imm'', c_u32), (''mem'', sparc_op_mem_layout)])]"

definition cs_sparc_layout :: ctype where
  "cs_sparc_layout = Struct [
    (''cc'', c_enum),
    (''hint'', c_enum),
    (''op_count'', c_u8),
    (''operands'', Arr cs_sparc_op_layout 4)]"

section \<open>SystemZ\<close>

definition sysz_op_mem_layout :: ctype where
  "sysz_op_mem_layout = Struct [
    (''base'', c_u8),
    (''index'', c_u8),
    (''length'', c_u64),
    (''disp'', c_u64)]"

definition cs_sysz_op_layout :: ctype where
  "cs_sysz_op_layout = Struct [
    (''type'', c_enum),
    (''anonymous'', Union [(''reg'', c_u32), (''imm'', c_u64), (''mem'', sysz_op_mem_layout)])]"

definition cs_sysz_layout :: ctype where
  "cs_sysz_layout = Struct [
    (''cc'', c_enum),
    (''op_count'', c_u8),
    (''operands'', Arr cs_sysz_op_layout 6)]"

section \<open>XCore\<close>

definition xcore_op_mem_layout :: ctype where
  "xcore_op_mem_layout = Struct [
    (''base'', c_u8),
    (''index'', c_u8),
    (''disp'', c_u32),
    (''direct'', c_u32)]"

definition cs_xcore_op_layout :: ctype where
  "cs_xcore_op_layout = Struct [
    (''type'', c_enum),
    (''anonymous'', Union [(''reg'', c_u32), (''imm'', c_u32), (''mem'', xcore_op_mem_layout)])]"

definition cs_xcore_layout :: ctype where
  "cs_xcore_layout = Struct [
    (''op_count'', c_u8),
    (''operands'', Arr cs_xcore_op_layout 8)]"

section \<open>Common\<close>

definition cs_opt_mem_layout :: ctype where
  "cs_opt_mem_layout = Struct [
    (''malloc'', c_u64),
    (''calloc'', c_u64),
    (''realloc'', c_u64),
    (''free'', c_u64),
    (''vsnprintf'', c_u64)]"

definition cs_opt_skipdata_layout :: ctype where
  "cs_opt_skipdata_layout = Struct [
    (''mnemonic'', c_u64),
    (''callback'', c_u64),
    (''user_data'', c_u64)]"

definition cs_detail_layout :: ctype where
  "cs_detail_layout = Struct [
    (''regs_read'', Arr c_u8 12),
    (''regs_read_count'', c_u8),
    (''regs_write'', Arr c_u8 20),
    (''regs_write_count'', c_u8),
    (''groups'', Arr c_u8 8),
    (''groups_count'', c_u8),
    (''anonymous'', Union [(''x86'', cs_x86_layout), (''arm64'', cs_arm64_layout), (''arm'', cs_arm_layout), (''mips'', cs_mips_layout), (''ppc'', cs_ppc_layout), (''sparc'', cs_sparc_layout), (''sysz'', cs_sysz_layout), (''xcore'', cs_xcore_layout)])]"

definition cs_insn_layout :: ctype where
  "cs_insn_layout = Struct [
    (''id'', c_u32),
    (''address'', c_u64),
    (''size'', c_u16),
    (''bytes'', Arr c_u8 16),
    (''mnemonic'', Arr c_u8 32),
    (''op_str'', Arr c_u8 160),
    (''detail'', c_u64)]"

lemmas capstone_layouts =
  x86_op_mem_layout_def cs_x86_op_layout_def cs_x86_layout_def arm_op_mem_layout_def
  cs_arm_op_layout_def cs_arm_layout_def arm64_op_mem_layout_def cs_arm64_op_layout_def
  cs_arm64_layout_def mips_op_mem_layout_def cs_mips_op_layout_def cs_mips_layout_def
  ppc_op_mem_layout_def ppc_op_crx_layout_def cs_ppc_op_layout_def cs_ppc_layout_def
  sparc_op_mem_layout_def cs_sparc_op_layout_def cs_sparc_layout_def sysz_op_mem_layout_def
  cs_sysz_op_layout_def cs_sysz_layout_def xcore_op_mem_layout_def cs_xcore_op_layout_def
  cs_xcore_layout_def cs_opt_mem_layout_def cs_opt_skipdata_layout_def cs_detail_layout_def
  cs_insn_layout_def

end
