(* ===== verification/Spec2Isabelle.thy ===== *)
theory Spec2Isabelle
  imports Circular_Buffer Ring_Threads Ring_Liveness Thread_Local Thread_Liveness Thread_Memory_Order Thread_History Evector Evector_Aliasing Owned_Vectors Typed_Buffer Util_Functions
    Kernel_Env Diagnostics Platform Layout Structures Patcher Patch_Requests Plugin_Start User_Patcher Class_State Cpu_Info
    Device_Info Rtc_Storage IOKit_Data Storage_Formats Kern_Time Kext_Version Hde Capstone Capstone_Instructions Capstone_Layout
begin

text \<open>
  The C++ code of this repository is what the Lilu kernel extension ships to its plugins: the headers
  under \<open>src/OC/OC/Kexts/Lilu.kext/Contents/Resources/Headers\<close>, the start-up code \<open>Library/plugin_start.cpp\<close> beside them, and
  the headers of the disassemblers (\<open>capstone\<close>, \<open>hde32.h\<close>, \<open>hde64.h\<close>). The rest of the repository is binaries,
  configuration and ACPI tables. The bodies that are not in headers are compiled into the kext; where the inline code
  calls them they are parameters here, with what the documentation says of them as named hypotheses.

  How the code is read. Fixed-width integers are words, so unsigned arithmetic wraps as in C. \<open>None\<close> as the result of an
  operation is undefined behaviour; \<open>Panics\<close> is a kernel panic, which does not return; an error code or a false
  result is a value. Memory, locks, objects and pages that are obtained from the kernel are a set, the ledger, from which
  only what is held can be released. Templates are polymorphic definitions.

  The parts.

  \<^item> \<open>Lilu_Base\<close>: machine types, array cells, ring indices, the ledger, and the lemmas the components share.
  \<^item> \<open>Circular_Buffer\<close> (\<open>CircularBuffer\<close> of \<open>kern_util.hpp\<close>): the interface of a bounded queue as a locale, refined by
    \<open>push\<close> and \<open>pop\<close>; creation and destruction on every allocator answer. \<open>Ring_Threads\<close> cuts the same methods into statements
    and interleaves any number of threads: the recursive lock excludes, the answers are linearizable, and every
    call can be completed within 17 statements (9 is the longest method, 8 the most the holder of the lock has left).
    \<open>Ring_Liveness\<close> adds fair schedules, under which all calls under way complete.
  \<^item> \<open>Thread_Local\<close> (\<open>ThreadLocal\<close>): a lock-free container of \<open>N\<close> slots as interleaved atomic accesses; ownership of slots,
    refinement to a map, and the bound \<open>2 N + 3\<close> on the accesses of a call. \<open>Thread_Liveness\<close> shows that \<open>set\<close> is never
    refused and is served while at most \<open>N\<close> threads use it. These theories interleave sequentially consistent accesses.
    \<open>Thread_Memory_Order\<close> runs the same steps under acquire and release orders: a slot keeps all identifiers written to it with the
    views of the threads that wrote them, and a load may read any that is not older than what its thread has seen. No two accesses
    to a value race; on x86, where a failing compare-exchange reads the newest value too, the reachable states are those of the
    interleaving model. Elsewhere a stale identifier can make \<open>set\<close> give up although a slot is free (\<open>set_refused_spuriously\<close>).
    \<open>Thread_History\<close> records the answers of the calls under these orders, with what the threads read and write through the pointers
    of \<open>get\<close>: every history is one of a map on which the calls act in the order of their returns, so the container is linearizable.
  \<^item> \<open>Evector\<close> (\<open>evector_base\<close>): the growing vector on a block of cells, refined to a list, with the destructor calls
    logged, and what happens when the byte count of \<open>reserve\<close> wraps. \<open>Evector_Aliasing\<close> pushes an element of the vector itself, which is undefined when the block moves. \<open>Owned_Vectors\<close>: the contract of a deleter as a locale, what \<open>deinit\<close> then releases, and its instances for
    plain objects, for pairs (\<open>ppair\<close>) and, in \<open>User_Patcher\<close>, for references and lookup storages, three levels deep.
  \<^item> \<open>Typed_Buffer\<close> (\<open>Buffer\<close>), \<open>Util_Functions\<close> (alignment, bit fields, versions, search), \<open>Kernel_Env\<close> (kernel versions, boot
    arguments, value comparison) and \<open>Diagnostics\<close> (the logging and panic macros, sequences of them and the
    text of the log they write): the rest of \<open>kern_util.hpp\<close>.
  \<^item> \<open>Layout\<close> and \<open>Structures\<close>: alignment, size and member offsets of the structures by the rules of the ABI, the
    assertions of the headers about them, and \<open>getMember\<close>, which reaches members by offset. \<open>Capstone_Layout\<close> has Capstone's structures.
  \<^item> \<open>Patcher\<close> and \<open>Patch_Requests\<close> (\<open>kern_patcher.hpp\<close>, \<open>kern_mach.hpp\<close>, \<open>kern_policy.hpp\<close>): solving symbols, routing virtual
    functions, jump patches, kext records, route requests and the wrappers that take arrays.
  \<^item> \<open>Plugin_Start\<close> (\<open>plugin_start.cpp\<close>, \<open>kern_api.hpp\<close>): how a plugin starts, is refused and stops, and what the I/O Kit is
    answered by a plugin that Lilu approved of or refused.
  \<^item> \<open>Class_State\<close>: the data members of the classes with their initialisers, and that the containers among them start in states
    the operations of the other theories accept.
  \<^item> \<open>Platform\<close> (\<open>kern_config.hpp\<close>, \<open>kern_compat.hpp\<close>, Capstone's \<open>platform.h\<close>): switches, aliases, limits and format strings.
  \<^item> \<open>User_Patcher\<close> (\<open>kern_user.hpp\<close>), \<open>Cpu_Info\<close> (\<open>kern_cpu.hpp\<close>), \<open>Device_Info\<close> (\<open>kern_devinfo.hpp\<close>), \<open>Rtc_Storage\<close> (\<open>kern_rtc.hpp\<close>),
    \<open>IOKit_Data\<close> (\<open>kern_iokit.hpp\<close>), \<open>Kern_Time\<close> (\<open>kern_time.hpp\<close>), \<open>Kext_Version\<close> (\<open>kern_version.hpp\<close>) and \<open>Storage_Formats\<close>
    (\<open>kern_crypto.hpp\<close>, \<open>kern_compression.hpp\<close>, \<open>kern_nvram.hpp\<close>, \<open>kern_efi.hpp\<close>): their inline functions, tables and records.
  \<^item> \<open>Hde\<close>, and \<open>C_Enum\<close> with the \<open>Capstone\<close> theories: the constants of the disassemblers. \<open>C_Enum\<close> is C's rule for the values
    of enumerators; the tables transcribe the enumerations; \<open>Capstone\<close> relates them (identifiers in the range of a byte, and the
    ARM64 registers beyond it), \<open>Capstone_Instructions\<close> has the count of instruction identifiers of each architecture.

  The lemmas of a component come in this order: what each operation does on every branch, the invariant and that each
  operation keeps it, the interface (a locale and its interpretation), and the properties. A property that has
  hypotheses is followed by a witness that applies it to a concrete input.

  Not modelled. The functions the headers only declare (routing, Mach-O parsing, decompression, encryption, NVRAM access, the
  disassembler engines, the registry functions): their source is not in the repository. Compiler attributes and the rules of
  the preprocessor. The assembly of the 32-bit variants (its result is a parameter). Interrupts. The lock of \<open>CircularBuffer\<close> is the kernel's;
  its contract, mutual exclusion with a depth, is the hypothesis under which \<open>Ring_Threads\<close> interleaves statements.
\<close>

end
